(* ===== verification/Prelude.thy ===== *)
theory Prelude
  imports Main "HOL-Library.State_Monad"
begin

text \<open>
  Shared material of the development.

  \<^item> Go values: strings are byte lists (\<open>string\<close>), a Go \<open>error\<close> is a value of \<open>goerr\<close> (a plain
    message, an API status error, a wrapped error or a recovered panic), \<open>(value, error)\<close> results
    are sums with \<open>Inl\<close> for the error, nil-able maps are \<open>smap option\<close>.
  \<^item> String functions of the Go standard library the sources use (\<open>strings.Split\<close>,
    \<open>strings.SplitN\<close>, \<open>strings.Join\<close>, \<open>strings.HasPrefix\<close>, \<open>strings.TrimPrefix\<close>,
    and the ASCII case mapping), with the lemmas the components need.
  \<^item> The named theorem collection of the settling operations.
  \<^item> Facts on the library's state monad: a relation between states that is reflexive and
    transitive is kept by \<open>bind\<close> when both parts keep it.
\<close>

section \<open>Collections\<close>

named_theorems settling_ops \<open>operations whose requests let a deletion settle\<close>

section \<open>Go errors\<close>

text \<open>
  The reasons of an API status error that the sources test with \<open>errors.IsNotFound\<close>,
  \<open>errors.IsAlreadyExists\<close> and \<open>errors.IsConflict\<close>; every other reason is \<open>OtherReason\<close>.
\<close>

datatype api_reason = NotFound | AlreadyExists | Conflict | OtherReason

text \<open>
  \<open>Wrap m e\<close> is \<open>fmt.Errorf("m: %w", e)\<close>; \<open>Panic m\<close> is a run-time panic, which the controller
  runtime recovers and reports as an error of the whole call.
\<close>

datatype goerr =
    Msg string
  | ApiErr api_reason string
  | Wrap string goerr
  | Panic string

text \<open>The \<open>Error()\<close> text of an error.\<close>

fun err_text :: "goerr \<Rightarrow> string" where
  "err_text (Msg m) = m"
| "err_text (ApiErr _ m) = m"
| "err_text (Wrap m e) = m @ '': '' @ err_text e"
| "err_text (Panic m) = m"

text \<open>The reason tests unwrap the chain, as \<open>errors.As\<close> does.\<close>

fun has_reason :: "api_reason \<Rightarrow> goerr \<Rightarrow> bool" where
  "has_reason r (ApiErr r' _) = (r = r')"
| "has_reason r (Wrap _ e) = has_reason r e"
| "has_reason r _ = False"

abbreviation IsNotFound :: "goerr \<Rightarrow> bool" where
  "IsNotFound \<equiv> has_reason NotFound"

abbreviation IsAlreadyExists :: "goerr \<Rightarrow> bool" where
  "IsAlreadyExists \<equiv> has_reason AlreadyExists"

abbreviation IsConflict :: "goerr \<Rightarrow> bool" where
  "IsConflict \<equiv> has_reason Conflict"

type_synonym 'a res = "goerr + 'a"

lemma has_reason_unique: "has_reason r e \<Longrightarrow> has_reason r' e \<Longrightarrow> r = r'"
  by (induction e) auto

section \<open>String maps\<close>

type_synonym smap = "string \<rightharpoonup> string"

text \<open>Reading a Go map: the zero value (the empty string) for a missing key or a nil map.\<close>

definition map_get :: "smap option \<Rightarrow> string \<Rightarrow> string" where
  "map_get m k = (case m of None \<Rightarrow> '''' | Some f \<Rightarrow> (case f k of None \<Rightarrow> '''' | Some v \<Rightarrow> v))"

text \<open>The comma-ok read \<open>_, ok := m[k]\<close>.\<close>

definition map_has :: "smap option \<Rightarrow> string \<Rightarrow> bool" where
  "map_has m k = (case m of None \<Rightarrow> False | Some f \<Rightarrow> f k \<noteq> None)"

lemma map_get_simps [simp]:
  "map_get None k = ''''"
  "map_get (Some f) k = (case f k of None \<Rightarrow> '''' | Some v \<Rightarrow> v)"
  by (simp_all add: map_get_def)

lemma map_has_simps [simp]:
  "map_has None k = False"
  "map_has (Some f) k = (f k \<noteq> None)"
  by (simp_all add: map_has_def)

text \<open>\<open>labels.SelectorFromSet\<close>: every key of the selector is present with exactly that value.\<close>

definition matches_labels :: "smap option \<Rightarrow> (string \<times> string) list \<Rightarrow> bool" where
  "matches_labels m sel = list_all (\<lambda>(k, v). map_has m k \<and> map_get m k = v) sel"

lemma matches_labels_iff:
  "matches_labels (Some f) sel \<longleftrightarrow> (\<forall>(k, v) \<in> set sel. f k = Some v)"
  by (fastforce simp: matches_labels_def list_all_iff split: option.splits)

section \<open>Strings\<close>

fun has_prefix :: "string \<Rightarrow> string \<Rightarrow> bool" where
  "has_prefix s [] = True"
| "has_prefix [] (_ # _) = False"
| "has_prefix (a # s) (b # p) = (a = b \<and> has_prefix s p)"

lemma has_prefix_iff: "has_prefix s p \<longleftrightarrow> (\<exists>t. s = p @ t)"
  by (induction s p rule: has_prefix.induct) auto

lemma has_prefix_append [simp]: "has_prefix (p @ t) p"
  by (auto simp: has_prefix_iff)

lemma has_prefix_trans: "has_prefix s p \<Longrightarrow> has_prefix p q \<Longrightarrow> has_prefix s q"
  by (auto simp: has_prefix_iff)

definition trim_prefix :: "string \<Rightarrow> string \<Rightarrow> string" where
  "trim_prefix s p = (if has_prefix s p then drop (length p) s else s)"

lemma trim_prefix_append [simp]: "trim_prefix (p @ t) p = t"
  by (simp add: trim_prefix_def)

definition has_suffix :: "string \<Rightarrow> string \<Rightarrow> bool" where
  "has_suffix s p = has_prefix (rev s) (rev p)"

definition trim_suffix :: "string \<Rightarrow> string \<Rightarrow> string" where
  "trim_suffix s p = (if has_suffix s p then take (length s - length p) s else s)"

lemma has_suffix_iff: "has_suffix s p \<longleftrightarrow> (\<exists>t. s = t @ p)"
  by (metis has_prefix_iff has_suffix_def rev_append rev_rev_ident)

lemma trim_suffix_append [simp]: "trim_suffix (t @ p) p = t"
  by (auto simp: trim_suffix_def has_suffix_iff)

fun contains :: "string \<Rightarrow> string \<Rightarrow> bool" where
  "contains [] p = (p = [])"
| "contains (a # s) p = (has_prefix (a # s) p \<or> contains s p)"

lemma contains_iff: "contains s p \<longleftrightarrow> (\<exists>u v. s = u @ p @ v)"
proof (induction s)
  case Nil
  then show ?case by auto
next
  case (Cons a s)
  have "(\<exists>u v. a # s = u @ p @ v) \<longleftrightarrow> has_prefix (a # s) p \<or> (\<exists>u v. s = u @ p @ v)"
    unfolding has_prefix_iff by (metis append_Cons append_Nil list.inject neq_Nil_conv)
  with Cons show ?case by simp
qed

text \<open>\<open>strings.Split\<close> with a separator of one byte: never empty, the pieces hold no separator.\<close>

fun split_char :: "char \<Rightarrow> string \<Rightarrow> string list" where
  "split_char c [] = [[]]"
| "split_char c (x # xs) =
     (if x = c then [] # split_char c xs
      else (case split_char c xs of [] \<Rightarrow> [[x]] | p # ps \<Rightarrow> (x # p) # ps))"

lemma split_char_not_Nil [simp]: "split_char c s \<noteq> []"
  by (cases s) (auto split: list.splits)

lemma split_char_no_sep: "c \<notin> set s \<Longrightarrow> split_char c s = [s]"
  by (induction s) auto

lemma split_char_append:
  "c \<notin> set a \<Longrightarrow> split_char c (a @ c # s) = a # split_char c s"
  by (induction a) auto

lemma split_char_pieces: "p \<in> set (split_char c s) \<Longrightarrow> c \<notin> set p"
proof (induction s arbitrary: p)
  case Nil
  then show ?case by simp
next
  case (Cons x xs)
  obtain q qs where q: "split_char c xs = q # qs"
    by (cases "split_char c xs") auto
  show ?case
    using Cons q by (auto split: if_splits)
qed

text \<open>\<open>strings.Join\<close>.\<close>

fun join :: "string \<Rightarrow> string list \<Rightarrow> string" where
  "join sep [] = ''''"
| "join sep [s] = s"
| "join sep (s # t # ss) = s @ sep @ join sep (t # ss)"

lemma join_split_char: "join [c] (split_char c s) = s"
proof (induction s)
  case Nil
  then show ?case by simp
next
  case (Cons x xs)
  obtain p ps where p: "split_char c xs = p # ps"
    by (cases "split_char c xs") auto
  show ?case
    using Cons p by (cases ps) auto
qed

lemma split_char_join:
  assumes "ss \<noteq> []" and "\<forall>s \<in> set ss. c \<notin> set s"
  shows "split_char c (join [c] ss) = ss"
  using assms by (induction "[c]" ss rule: join.induct) (auto simp: split_char_no_sep split_char_append)

text \<open>\<open>strings.SplitN(s, sep, 2)\<close> with a separator of one byte.\<close>

fun split_char2 :: "char \<Rightarrow> string \<Rightarrow> string \<times> string option" where
  "split_char2 c [] = ([], None)"
| "split_char2 c (x # xs) =
     (if x = c then ([], Some xs) else (let (a, b) = split_char2 c xs in (x # a, b)))"

lemma split_char2_no_sep: "c \<notin> set s \<Longrightarrow> split_char2 c s = (s, None)"
  by (induction s) auto

lemma split_char2_append: "c \<notin> set a \<Longrightarrow> split_char2 c (a @ c # s) = (a, Some s)"
  by (induction a) auto

text \<open>ASCII case mapping, which is what \<open>strings.ToLower\<close> and \<open>strings.ToUpper\<close> do on ASCII bytes; see theory \<open>GoText\<close> for other runes.\<close>

definition lower_char :: "char \<Rightarrow> char" where
  "lower_char c = (let n = of_char c :: nat in if 65 \<le> n \<and> n \<le> 90 then char_of (n + 32) else c)"

definition upper_char :: "char \<Rightarrow> char" where
  "upper_char c = (let n = of_char c :: nat in if 97 \<le> n \<and> n \<le> 122 then char_of (n - 32) else c)"

definition to_lower :: "string \<Rightarrow> string" where
  "to_lower = map lower_char"

text \<open>Decimal numerals, as \<open>%d\<close> and \<open>strconv.Itoa\<close> print them.\<close>

fun nat_digits :: "nat \<Rightarrow> string" where
  "nat_digits n =
     (if n < 10 then [char_of (n + 48)] else nat_digits (n div 10) @ [char_of (n mod 10 + 48)])"

declare nat_digits.simps [simp del]

definition int_text :: "int \<Rightarrow> string" where
  "int_text i = (if i < 0 then CHR ''-'' # nat_digits (nat (- i)) else nat_digits (nat i))"

section \<open>Finalizer lists\<close>

text \<open>\<open>controllerutil.ContainsFinalizer\<close>, \<open>AddFinalizer\<close> and \<open>RemoveFinalizer\<close> on the finalizer list.\<close>

definition contains_finalizer :: "string list \<Rightarrow> string \<Rightarrow> bool" where
  "contains_finalizer fs f = (f \<in> set fs)"

definition add_finalizer :: "string list \<Rightarrow> string \<Rightarrow> string list" where
  "add_finalizer fs f = (if f \<in> set fs then fs else fs @ [f])"

definition remove_finalizer :: "string list \<Rightarrow> string \<Rightarrow> string list" where
  "remove_finalizer fs f = filter (\<lambda>x. x \<noteq> f) fs"

lemma finalizer_laws [simp]:
  "contains_finalizer (add_finalizer fs f) f"
  "\<not> contains_finalizer (remove_finalizer fs f) f"
  "g \<noteq> f \<Longrightarrow> contains_finalizer (add_finalizer fs f) g = contains_finalizer fs g"
  "g \<noteq> f \<Longrightarrow> contains_finalizer (remove_finalizer fs f) g = contains_finalizer fs g"
  by (auto simp: contains_finalizer_def add_finalizer_def remove_finalizer_def)

section \<open>The state monad\<close>

text \<open>
  A computation keeps a relation when every run relates the state before to the state after; the
  library's \<^const>\<open>state_io_rel\<close>. For a preorder it composes along \<open>bind\<close>.
\<close>

lemma state_io_rel_return:
  assumes "reflp R"
  shows "state_io_rel R (State_Monad.return x)"
  using assms by (auto simp: state_io_rel_def reflp_def)

lemma state_io_rel_bind:
  assumes "transp R" "state_io_rel R m" "\<And>x. state_io_rel R (f x)"
  shows "state_io_rel R (m \<bind> f)"
  using assms by (auto simp: state_io_rel_def transp_def split: prod.splits) (metis snd_conv)

end
