(* ===== verification/ApiTypes.thy ===== *)
theory ApiTypes
  imports Prelude
begin

text \<open>
  The data model: the custom resources of \<open>api/v1alpha1\<close> (\<open>Workspace\<close>, \<open>WorkspaceTemplate\<close>,
  \<open>WorkspaceAccessStrategy\<close>) as records with the source's fields, and the part of the Kubernetes
  core types that the sources read or write.

  Conventions. A pointer is an \<open>option\<close> (\<open>None\<close> for nil); a slice is a list, an \<open>option\<close> of a list
  where the code tells nil from empty; a map the code only reads by key is an \<^typ>\<open>smap\<close>; a map
  the code iterates over is an association list whose order is the (arbitrary) iteration order.
  Types of the core API that the sources only carry along (affinity, tolerations, lifecycle hooks,
  security contexts) are opaque values holding their serialised form; the remaining fields of a core
  record, which the API server fills with its defaults, are its \<open>_Other\<close> field, empty when unset. A
  \<open>resource.Quantity\<close> is its numeric value in units of \<open>1e-9\<close> (the finest scale of the type), which
  is what \<open>Cmp\<close>, \<open>Equal\<close> and \<open>IsZero\<close> read, with its printed form.
\<close>

section \<open>Core types\<close>

datatype quantity = Quantity (q_value: int) (q_string: string)

text \<open>\<open>resource.MustParse\<close> of the literals of the sources.\<close>

abbreviation nano :: int where "nano \<equiv> 1000000000"

definition q_cmp :: "quantity \<Rightarrow> quantity \<Rightarrow> int" where
  "q_cmp a b = (if q_value a < q_value b then -1 else if q_value a = q_value b then 0 else 1)"

definition q_eq :: "quantity \<Rightarrow> quantity \<Rightarrow> bool" where
  "q_eq a b = (q_cmp a b = 0)"

definition q_is_zero :: "quantity \<Rightarrow> bool" where
  "q_is_zero a = (q_value a = 0)"

lemma q_cmp_simps [simp]:
  "q_cmp a b < 0 \<longleftrightarrow> q_value a < q_value b"
  "0 < q_cmp a b \<longleftrightarrow> q_value b < q_value a"
  "q_eq a b \<longleftrightarrow> q_value a = q_value b"
  "q_is_zero a \<longleftrightarrow> q_value a = 0"
  by (auto simp: q_cmp_def q_eq_def q_is_zero_def)

datatype affinity = Affinity string
datatype toleration = Toleration string
datatype lifecycle = Lifecycle string
datatype pod_security_context = PodSecurityContext string

type_synonym resource_list = "(string \<times> quantity) list"

text \<open>\<open>corev1.ResourceRequirements\<close>; a nil list is \<open>None\<close>.\<close>

record resource_requirements =
  rr_Requests :: "resource_list option"
  rr_Limits :: "resource_list option"

record owner_reference =
  or_APIVersion :: string
  or_Kind :: string
  or_Name :: string
  or_UID :: string

text \<open>\<open>metav1.ObjectMeta\<close>: the deletion timestamp is \<open>None\<close> when \<open>DeletionTimestamp.IsZero()\<close>.\<close>

record object_meta =
  om_Name :: string
  om_Namespace :: string
  om_UID :: string
  om_ResourceVersion :: string
  om_Generation :: int
  om_Labels :: "smap option"
  om_Annotations :: "smap option"
  om_Finalizers :: "string list"
  om_OwnerReferences :: "owner_reference list"
  om_DeletionTimestamp :: "int option"

definition empty_meta :: object_meta where
  "empty_meta = \<lparr>om_Name = '''', om_Namespace = '''', om_UID = '''', om_ResourceVersion = '''',
     om_Generation = 0, om_Labels = None, om_Annotations = None, om_Finalizers = [],
     om_OwnerReferences = [], om_DeletionTimestamp = None\<rparr>"

definition is_deleting :: "object_meta \<Rightarrow> bool" where
  "is_deleting m = (om_DeletionTimestamp m \<noteq> None)"

text \<open>\<open>types.NamespacedName\<close>.\<close>

record nsname =
  key_Namespace :: string
  key_Name :: string

definition nn :: "string \<Rightarrow> string \<Rightarrow> nsname" where
  "nn ns n = \<lparr>key_Namespace = ns, key_Name = n\<rparr>"

definition key_of :: "object_meta \<Rightarrow> nsname" where
  "key_of m = nn (om_Namespace m) (om_Name m)"

lemma nn_sel [simp]: "key_Namespace (nn a b) = a" "key_Name (nn a b) = b"
  by (simp_all add: nn_def)

lemma nn_inject [simp]: "nn a b = nn c d \<longleftrightarrow> a = c \<and> b = d"
  by (simp add: nn_def)

text \<open>\<open>metav1.Condition\<close> with its status.\<close>

datatype cond_status = CTrue | CFalse | CUnknown

record condition =
  cond_Type :: string
  cond_Status :: cond_status
  cond_LastTransitionTime :: int
  cond_Reason :: string
  cond_Message :: string

section \<open>Workspace\<close>

record volume_spec =
  vs_Name :: string
  vs_PersistentVolumeClaimName :: string
  vs_MountPath :: string

record container_config =
  cc_Command :: "string list"
  cc_Args :: "string list"

record storage_spec =
  ss_StorageClassName :: "string option"
  ss_Size :: quantity
  ss_MountPath :: string

record access_strategy_ref =
  asr_Name :: string
  asr_Namespace :: string

record template_ref =
  tr_Name :: string
  tr_Namespace :: string

text \<open>\<open>corev1.HTTPGetAction\<close>: the fields the idle detector reads.\<close>

record http_get_action =
  hg_Path :: string
  hg_Port :: string
  hg_Scheme :: string

record idle_detection_spec =
  id_HTTPGet :: "http_get_action option"

record idle_shutdown_spec =
  is_Enabled :: bool
  is_IdleTimeoutInMinutes :: int
  is_Detection :: idle_detection_spec

record workspace_spec =
  ws_DisplayName :: string
  ws_Image :: string
  ws_DesiredStatus :: string
  ws_OwnershipType :: string
  ws_AccessType :: string
  ws_Resources :: "resource_requirements option"
  ws_Storage :: "storage_spec option"
  ws_Volumes :: "volume_spec list"
  ws_ContainerConfig :: "container_config option"
  ws_NodeSelector :: "(string \<times> string) list option"
  ws_Affinity :: "affinity option"
  ws_Tolerations :: "toleration list option"
  ws_Lifecycle :: "lifecycle option"
  ws_AccessStrategy :: "access_strategy_ref option"
  ws_TemplateRef :: "template_ref option"
  ws_IdleShutdown :: "idle_shutdown_spec option"
  ws_AppType :: string
  ws_ServiceAccountName :: string
  ws_PodSecurityContext :: "pod_security_context option"

record access_resource_status =
  ars_Kind :: string
  ars_APIVersion :: string
  ars_Name :: string
  ars_Namespace :: string

record workspace_status =
  st_DeploymentName :: string
  st_ServiceName :: string
  st_AccessURL :: string
  st_AccessResourceSelector :: string
  st_AccessResources :: "access_resource_status list"
  st_Conditions :: "condition list"

record workspace =
  w_meta :: object_meta
  w_Spec :: workspace_spec
  w_Status :: workspace_status

abbreviation w_Name :: "workspace \<Rightarrow> string" where
  "w_Name w \<equiv> om_Name (w_meta w)"

abbreviation w_Namespace :: "workspace \<Rightarrow> string" where
  "w_Namespace w \<equiv> om_Namespace (w_meta w)"

abbreviation w_Labels :: "workspace \<Rightarrow> smap option" where
  "w_Labels w \<equiv> om_Labels (w_meta w)"

abbreviation w_Annotations :: "workspace \<Rightarrow> smap option" where
  "w_Annotations w \<equiv> om_Annotations (w_meta w)"

definition empty_spec :: workspace_spec where
  "empty_spec = \<lparr>ws_DisplayName = '''', ws_Image = '''', ws_DesiredStatus = '''',
     ws_OwnershipType = '''', ws_AccessType = '''', ws_Resources = None, ws_Storage = None,
     ws_Volumes = [], ws_ContainerConfig = None, ws_NodeSelector = None, ws_Affinity = None,
     ws_Tolerations = None, ws_Lifecycle = None, ws_AccessStrategy = None, ws_TemplateRef = None,
     ws_IdleShutdown = None, ws_AppType = '''', ws_ServiceAccountName = '''',
     ws_PodSecurityContext = None\<rparr>"

definition empty_status :: workspace_status where
  "empty_status = \<lparr>st_DeploymentName = '''', st_ServiceName = '''', st_AccessURL = '''',
     st_AccessResourceSelector = '''', st_AccessResources = [], st_Conditions = []\<rparr>"

section \<open>WorkspaceTemplate\<close>

record resource_range =
  rg_Min :: quantity
  rg_Max :: quantity

record resource_bounds =
  rb_Resources :: "(string \<times> resource_range) list option"

record storage_config =
  sc_DefaultSize :: quantity
  sc_MinSize :: "quantity option"
  sc_MaxSize :: "quantity option"
  sc_DefaultStorageClassName :: "string option"
  sc_DefaultMountPath :: string

record idle_shutdown_override_policy =
  io_Allow :: "bool option"
  io_MinIdleTimeoutInMinutes :: "int option"
  io_MaxIdleTimeoutInMinutes :: "int option"

record workspace_template_spec =
  ts_DisplayName :: string
  ts_Description :: string
  ts_DefaultImage :: string
  ts_AllowedImages :: "string list"
  ts_AllowCustomImages :: "bool option"
  ts_DefaultResources :: "resource_requirements option"
  ts_ResourceBounds :: "resource_bounds option"
  ts_PrimaryStorage :: "storage_config option"
  ts_DefaultContainerConfig :: "container_config option"
  ts_AllowSecondaryStorages :: "bool option"
  ts_DefaultNodeSelector :: "(string \<times> string) list option"
  ts_DefaultAffinity :: "affinity option"
  ts_DefaultTolerations :: "toleration list option"
  ts_DefaultOwnershipType :: string
  ts_DefaultIdleShutdown :: "idle_shutdown_spec option"
  ts_IdleShutdownOverrides :: "idle_shutdown_override_policy option"
  ts_DefaultAccessType :: string
  ts_DefaultAccessStrategy :: "access_strategy_ref option"
  ts_DefaultLifecycle :: "lifecycle option"
  ts_DefaultPodSecurityContext :: "pod_security_context option"
  ts_AppType :: string

record workspace_template_status =
  tst_ObservedGeneration :: int

record workspace_template =
  t_meta :: object_meta
  t_Spec :: workspace_template_spec
  t_Status :: workspace_template_status

definition empty_template_spec :: workspace_template_spec where
  "empty_template_spec = \<lparr>ts_DisplayName = '''', ts_Description = '''', ts_DefaultImage = '''',
     ts_AllowedImages = [], ts_AllowCustomImages = None, ts_DefaultResources = None,
     ts_ResourceBounds = None, ts_PrimaryStorage = None, ts_DefaultContainerConfig = None,
     ts_AllowSecondaryStorages = None, ts_DefaultNodeSelector = None, ts_DefaultAffinity = None,
     ts_DefaultTolerations = None, ts_DefaultOwnershipType = '''', ts_DefaultIdleShutdown = None,
     ts_IdleShutdownOverrides = None, ts_DefaultAccessType = '''', ts_DefaultAccessStrategy = None,
     ts_DefaultLifecycle = None, ts_DefaultPodSecurityContext = None, ts_AppType = ''''\<rparr>"

section \<open>Pods and workloads\<close>

record volume_mount =
  vm_Name :: string
  vm_MountPath :: string
  vm_Other :: string

record env_var =
  ev_Name :: string
  ev_Value :: string

text \<open>
  \<open>corev1.Container\<close>; \<open>c_Other\<close> holds the remaining fields, which the sources neither read nor
  write but which an access strategy may set on the containers it adds.
\<close>

record container =
  c_Name :: string
  c_Image :: string
  c_ImagePullPolicy :: string
  c_Command :: "string list"
  c_Args :: "string list"
  c_Lifecycle :: "lifecycle option"
  c_Ports :: "(string \<times> int \<times> string) list"
  c_Resources :: resource_requirements
  c_Env :: "env_var list"
  c_VolumeMounts :: "volume_mount list"
  c_Other :: string

text \<open>A pod volume: a claim reference, or any other source carried along.\<close>

datatype volume_source = PVCSource string | OtherSource string

record volume =
  v_Name :: string
  v_Source :: volume_source

record pod_spec =
  ps_Containers :: "container list"
  ps_InitContainers :: "container list"
  ps_Volumes :: "volume list"
  ps_NodeSelector :: "(string \<times> string) list"
  ps_Affinity :: "affinity option"
  ps_Tolerations :: "toleration list"
  ps_ServiceAccountName :: string
  ps_SecurityContext :: "pod_security_context option"
  ps_Other :: string

record deployment_spec =
  ds_Replicas :: "int option"
  ds_Strategy :: string
  ds_Selector :: smap
  ds_TemplateLabels :: smap
  ds_PodSpec :: pod_spec
  ds_Other :: string

record deployment_status =
  dst_Conditions :: "(string \<times> cond_status) list"
  dst_AvailableReplicas :: int
  dst_ReadyReplicas :: int

record deployment =
  d_meta :: object_meta
  d_Spec :: deployment_spec
  d_Status :: deployment_status

record service_port =
  sp_Name :: string
  sp_Port :: int
  sp_TargetPort :: int
  sp_Protocol :: string

record service_spec =
  sv_Type :: string
  sv_Selector :: smap
  sv_Ports :: "service_port list"
  sv_Other :: string

record service =
  s_meta :: object_meta
  s_Spec :: service_spec
  s_Ingress :: "string list"

record pvc_spec =
  pv_AccessModes :: "string list"
  pv_Requests :: resource_list
  pv_Limits :: resource_list
  pv_StorageClassName :: "string option"
  pv_Other :: string

record pvc =
  p_meta :: object_meta
  p_Spec :: pvc_spec

record container_status =
  cs_Name :: string
  cs_Running :: bool
  cs_RestartCount :: int

record pod =
  pod_meta :: object_meta
  pod_Phase :: string
  pod_Conditions :: "(string \<times> cond_status) list"
  pod_ContainerStatuses :: "container_status list"

record service_account =
  sa_meta :: object_meta

section \<open>WorkspaceAccessStrategy\<close>

record access_resource_template =
  art_Kind :: string
  art_ApiVersion :: string
  art_NamePrefix :: string
  art_Template :: string

record access_env_template =
  aet_Name :: string
  aet_ValueTemplate :: string

record primary_container_modifications =
  pcm_VolumeMounts :: "volume_mount list"
  pcm_MergeEnv :: "access_env_template list"

record pod_modifications =
  pm_AdditionalContainers :: "container list"
  pm_Volumes :: "volume list"
  pm_InitContainers :: "container list"
  pm_PrimaryContainerModifications :: "primary_container_modifications option"

record deployment_modifications =
  dm_PodModifications :: "pod_modifications option"

record access_strategy_spec =
  as_DisplayName :: string
  as_AccessResourceTemplates :: "access_resource_template list"
  as_AccessURLTemplate :: string
  as_BearerAuthURLTemplate :: string
  as_CreateConnectionHandler :: string
  as_PodEventsHandler :: string
  as_CreateConnectionContext :: "smap option"
  as_PodEventsContext :: "smap option"
  as_DeploymentModifications :: "deployment_modifications option"

record access_strategy =
  a_meta :: object_meta
  a_Spec :: access_strategy_spec
  a_Conditions :: "condition list"

definition empty_as_spec :: access_strategy_spec where
  "empty_as_spec = \<lparr>as_DisplayName = '''', as_AccessResourceTemplates = [], as_AccessURLTemplate = '''',
     as_BearerAuthURLTemplate = '''', as_CreateConnectionHandler = '''', as_PodEventsHandler = '''',
     as_CreateConnectionContext = None, as_PodEventsContext = None, as_DeploymentModifications = None\<rparr>"

text \<open>
  \<open>unstructured.Unstructured\<close>: the group-version-kind, the metadata the sources set, and the
  \<open>spec\<close> field (\<open>None\<close> when absent) in serialised form; \<open>u_Other\<close> is the rest of the object.
\<close>

record gvk =
  gvk_Group :: string
  gvk_Version :: string
  gvk_Kind :: string

record unstructured =
  u_GVK :: gvk
  u_meta :: object_meta
  u_Spec :: "string option"
  u_Other :: string

section \<open>Semantic equality of quantities in nested data\<close>

text \<open>
  \<open>equality.Semantic.DeepEqual\<close> compares quantities by value, and nil and empty slices or maps
  as equal. Maps are compared by content.
\<close>

definition alist_sem_eq :: "('v \<Rightarrow> 'v \<Rightarrow> bool) \<Rightarrow> ('k \<times> 'v) list \<Rightarrow> ('k \<times> 'v) list \<Rightarrow> bool" where
  "alist_sem_eq eq xs ys = list_all (\<lambda>k. case (map_of xs k, map_of ys k) of
     (Some x, Some y) \<Rightarrow> eq x y | (None, None) \<Rightarrow> True | _ \<Rightarrow> False) (map fst xs @ map fst ys)"

fun opt_eq :: "('a \<Rightarrow> 'a \<Rightarrow> bool) \<Rightarrow> 'a option \<Rightarrow> 'a option \<Rightarrow> bool" where
  "opt_eq eq None None = True"
| "opt_eq eq (Some x) (Some y) = eq x y"
| "opt_eq eq _ _ = False"

definition slice :: "'a list option \<Rightarrow> 'a list" where
  "slice x = (case x of None \<Rightarrow> [] | Some xs \<Rightarrow> xs)"

lemma slice_simps [simp]: "slice None = []" "slice (Some xs) = xs"
  by (simp_all add: slice_def)

definition resources_sem_eq :: "resource_requirements \<Rightarrow> resource_requirements \<Rightarrow> bool" where
  "resources_sem_eq a b \<longleftrightarrow>
     alist_sem_eq q_eq (slice (rr_Requests a)) (slice (rr_Requests b)) \<and>
     alist_sem_eq q_eq (slice (rr_Limits a)) (slice (rr_Limits b))"

definition storage_sem_eq :: "storage_spec \<Rightarrow> storage_spec \<Rightarrow> bool" where
  "storage_sem_eq a b \<longleftrightarrow> ss_StorageClassName a = ss_StorageClassName b \<and>
     q_eq (ss_Size a) (ss_Size b) \<and> ss_MountPath a = ss_MountPath b"

text \<open>Semantic equality of workspace specs, as \<open>equality.Semantic.DeepEqual\<close> decides it.\<close>

definition spec_sem_eq :: "workspace_spec \<Rightarrow> workspace_spec \<Rightarrow> bool" where
  "spec_sem_eq a b \<longleftrightarrow>
     ws_DisplayName a = ws_DisplayName b \<and> ws_Image a = ws_Image b \<and>
     ws_DesiredStatus a = ws_DesiredStatus b \<and> ws_OwnershipType a = ws_OwnershipType b \<and>
     ws_AccessType a = ws_AccessType b \<and>
     opt_eq resources_sem_eq (ws_Resources a) (ws_Resources b) \<and>
     opt_eq storage_sem_eq (ws_Storage a) (ws_Storage b) \<and>
     ws_Volumes a = ws_Volumes b \<and> ws_ContainerConfig a = ws_ContainerConfig b \<and>
     alist_sem_eq (=) (slice (ws_NodeSelector a)) (slice (ws_NodeSelector b)) \<and>
     ws_Affinity a = ws_Affinity b \<and> slice (ws_Tolerations a) = slice (ws_Tolerations b) \<and>
     ws_Lifecycle a = ws_Lifecycle b \<and> ws_AccessStrategy a = ws_AccessStrategy b \<and>
     ws_TemplateRef a = ws_TemplateRef b \<and> ws_IdleShutdown a = ws_IdleShutdown b \<and>
     ws_AppType a = ws_AppType b \<and> ws_ServiceAccountName a = ws_ServiceAccountName b \<and>
     ws_PodSecurityContext a = ws_PodSecurityContext b"

definition container_sem_eq :: "container \<Rightarrow> container \<Rightarrow> bool" where
  "container_sem_eq a b \<longleftrightarrow>
     resources_sem_eq (c_Resources a) (c_Resources b) \<and>
     a\<lparr>c_Resources := c_Resources b\<rparr> = b"

text \<open>Semantic equality of pod specs.\<close>

definition pod_spec_sem_eq :: "pod_spec \<Rightarrow> pod_spec \<Rightarrow> bool" where
  "pod_spec_sem_eq a b \<longleftrightarrow>
     list_all2 container_sem_eq (ps_Containers a) (ps_Containers b) \<and>
     list_all2 container_sem_eq (ps_InitContainers a) (ps_InitContainers b) \<and>
     ps_Volumes a = ps_Volumes b \<and>
     alist_sem_eq (=) (ps_NodeSelector a) (ps_NodeSelector b) \<and>
     ps_Affinity a = ps_Affinity b \<and> ps_Tolerations a = ps_Tolerations b \<and>
     ps_ServiceAccountName a = ps_ServiceAccountName b \<and>
     ps_SecurityContext a = ps_SecurityContext b \<and> ps_Other a = ps_Other b"

lemma alist_sem_eq_refl:
  assumes "\<And>x. eq x x"
  shows "alist_sem_eq eq xs xs"
  using assms by (auto simp: alist_sem_eq_def list_all_iff split: option.splits)

lemma opt_eq_refl: "(\<And>x. eq x x) \<Longrightarrow> opt_eq eq x x"
  by (cases x) auto

lemma resources_sem_eq_refl [simp]: "resources_sem_eq a a"
  by (auto simp: resources_sem_eq_def intro!: alist_sem_eq_refl)

lemma storage_sem_eq_refl [simp]: "storage_sem_eq a a"
  by (simp add: storage_sem_eq_def)

lemma spec_sem_eq_refl [simp]: "spec_sem_eq a a"
  by (auto simp: spec_sem_eq_def intro!: alist_sem_eq_refl opt_eq_refl)

lemma container_sem_eq_refl [simp]: "container_sem_eq a a"
  by (simp add: container_sem_eq_def)

lemma pod_spec_sem_eq_refl [simp]: "pod_spec_sem_eq a a"
  by (auto simp: pod_spec_sem_eq_def intro!: alist_sem_eq_refl list_all2_refl)

end
