(* ===== verification/K8sClient.thy ===== *)
theory K8sClient
  imports ApiTypes
begin

text \<open>
  The outside world of the controllers, as a parameter of the model.

  Nothing here models code of the repository. The Kubernetes API (reached through the
  \<open>client.Client\<close> of controller-runtime), the controller-reference helper, the template engine, the
  YAML decoder, the clock and the environment variables are the fields of the record \<open>client\<close>; every
  definition of the development that uses them takes a value of this record as an argument and
  every theorem holds for all of them, under the hypotheses it names.

  The state that the model threads is the history of the calls issued so far. A field of \<open>client\<close>
  receives the history before the call, so an answer may depend on everything that was requested
  before (a stateful server, a racing writer, a server that fails now and then); the history after
  the run shows which requests a run of the code makes and in which order.
\<close>

datatype api_call =
    CGetWorkspace nsname
  | CGetDeployment nsname
  | CGetService nsname
  | CGetPVC nsname
  | CGetAccessStrategy nsname
  | CGetTemplate nsname
  | CGetServiceAccount nsname
  | CGetPod nsname
  | CGetUnstructured gvk nsname
  | CListPods string "(string \<times> string) list"
  | CListWorkspaces "(string \<times> string) list" string int
  | CListTemplates "(string \<times> string) list"
  | CListServiceAccounts string "(string \<times> string) list"
  | CCreateDeployment deployment
  | CCreateService service
  | CCreatePVC pvc
  | CCreateUnstructured unstructured
  | CUpdateWorkspace workspace
  | CUpdateDeployment deployment
  | CUpdateService service
  | CUpdatePVC pvc
  | CUpdateUnstructured unstructured
  | CUpdateTemplate workspace_template
  | CUpdateAccessStrategy access_strategy
  | CStatusUpdateWorkspace workspace
  | CStatusUpdateTemplate workspace_template
  | CDeleteDeployment nsname
  | CDeleteService nsname
  | CDeletePVC nsname
  | CDeleteUnstructured gvk nsname
  | CEvent nsname string string string
  | CExec nsname string "string list" string

type_synonym hist = "api_call list"
type_synonym 'a io = "(hist, 'a) state"

text \<open>Values a template is executed on; a template fails to parse, fails to execute, or prints.\<close>

record tmpl_data =
  td_Workspace :: workspace
  td_AccessStrategy :: access_strategy
  td_Service :: "service option"

datatype tmpl_result = TmplParseError goerr | TmplExecError goerr | TmplOutput string

record client =
  k_get_Workspace :: "hist \<Rightarrow> nsname \<Rightarrow> workspace res"
  k_get_Deployment :: "hist \<Rightarrow> nsname \<Rightarrow> deployment res"
  k_get_Service :: "hist \<Rightarrow> nsname \<Rightarrow> service res"
  k_get_PVC :: "hist \<Rightarrow> nsname \<Rightarrow> pvc res"
  k_get_AccessStrategy :: "hist \<Rightarrow> nsname \<Rightarrow> access_strategy res"
  k_get_Template :: "hist \<Rightarrow> nsname \<Rightarrow> workspace_template res"
  k_get_ServiceAccount :: "hist \<Rightarrow> nsname \<Rightarrow> service_account res"
  k_get_Pod :: "hist \<Rightarrow> nsname \<Rightarrow> pod res"
  k_get_Unstructured :: "hist \<Rightarrow> gvk \<Rightarrow> nsname \<Rightarrow> unstructured res"
  k_list_Pods :: "hist \<Rightarrow> string \<Rightarrow> (string \<times> string) list \<Rightarrow> pod list res"
  k_list_Workspaces :: "hist \<Rightarrow> (string \<times> string) list \<Rightarrow> string \<Rightarrow> int \<Rightarrow> (workspace list \<times> string) res"
  k_list_Templates :: "hist \<Rightarrow> (string \<times> string) list \<Rightarrow> workspace_template list res"
  k_list_ServiceAccounts :: "hist \<Rightarrow> string \<Rightarrow> (string \<times> string) list \<Rightarrow> service_account list res"
  k_create_Deployment :: "hist \<Rightarrow> deployment \<Rightarrow> deployment res"
  k_create_Service :: "hist \<Rightarrow> service \<Rightarrow> service res"
  k_create_PVC :: "hist \<Rightarrow> pvc \<Rightarrow> pvc res"
  k_create_Unstructured :: "hist \<Rightarrow> unstructured \<Rightarrow> unstructured res"
  k_update_Workspace :: "hist \<Rightarrow> workspace \<Rightarrow> workspace res"
  k_update_Deployment :: "hist \<Rightarrow> deployment \<Rightarrow> deployment res"
  k_update_Service :: "hist \<Rightarrow> service \<Rightarrow> service res"
  k_update_PVC :: "hist \<Rightarrow> pvc \<Rightarrow> pvc res"
  k_update_Unstructured :: "hist \<Rightarrow> unstructured \<Rightarrow> unstructured res"
  k_update_Template :: "hist \<Rightarrow> workspace_template \<Rightarrow> workspace_template res"
  k_update_AccessStrategy :: "hist \<Rightarrow> access_strategy \<Rightarrow> access_strategy res"
  k_status_Workspace :: "hist \<Rightarrow> workspace \<Rightarrow> workspace res"
  k_status_Template :: "hist \<Rightarrow> workspace_template \<Rightarrow> workspace_template res"
  k_delete_Deployment :: "hist \<Rightarrow> nsname \<Rightarrow> goerr option"
  k_delete_Service :: "hist \<Rightarrow> nsname \<Rightarrow> goerr option"
  k_delete_PVC :: "hist \<Rightarrow> nsname \<Rightarrow> goerr option"
  k_delete_Unstructured :: "hist \<Rightarrow> gvk \<Rightarrow> nsname \<Rightarrow> goerr option"
  k_exec :: "hist \<Rightarrow> nsname \<Rightarrow> string \<Rightarrow> string list \<Rightarrow> string \<Rightarrow> string res"
  k_set_controller_ref :: "workspace \<Rightarrow> object_meta \<Rightarrow> object_meta res"
  k_template :: "bool \<Rightarrow> string \<Rightarrow> tmpl_data \<Rightarrow> tmpl_result"
  k_yaml :: "string \<Rightarrow> unstructured res"
  k_yaml_strings :: "string \<Rightarrow> string list res"
  k_now :: "hist \<Rightarrow> int"
  k_getenv :: "string \<Rightarrow> string"
  k_config_err :: "goerr option"
  k_clientset_err :: "goerr option"

text \<open>One call: the answer is read off the history, and the call is appended to it.\<close>

definition call :: "(hist \<Rightarrow> 'a) \<Rightarrow> api_call \<Rightarrow> 'a io" where
  "call f c = State (\<lambda>h. (f h, h @ [c]))"

lemma run_call [simp]: "run_state (call f c) h = (f h, h @ [c])"
  by (simp add: call_def)

text \<open>The clock reading is not a request; it does not enter the history.\<close>

definition time_now :: "client \<Rightarrow> int io" where
  "time_now k = State (\<lambda>h. (k_now k h, h))"

lemma run_time_now [simp]: "run_state (time_now k) h = (k_now k h, h)"
  by (simp add: time_now_def)

definition Recorder_Event :: "nsname \<Rightarrow> string \<Rightarrow> string \<Rightarrow> string \<Rightarrow> unit io" where
  "Recorder_Event key ty reason msg = call (\<lambda>_. ()) (CEvent key ty reason msg)"

lemma run_Recorder_Event [simp]:
  "run_state (Recorder_Event key ty reason msg) h = ((), h @ [CEvent key ty reason msg])"
  by (simp add: Recorder_Event_def)

section \<open>History extension\<close>

text \<open>Every computation of the model only appends calls; the calls a run adds satisfy a predicate.\<close>

definition adds_only :: "(api_call \<Rightarrow> bool) \<Rightarrow> hist \<Rightarrow> hist \<Rightarrow> bool" where
  "adds_only P h h' \<longleftrightarrow> (\<exists>new. h' = h @ new \<and> list_all P new)"

lemma reflp_adds_only: "reflp (adds_only P)"
  by (auto simp: reflp_def adds_only_def)

lemma transp_adds_only: "transp (adds_only P)"
  by (fastforce simp: transp_def adds_only_def)

abbreviation issues_only :: "(api_call \<Rightarrow> bool) \<Rightarrow> 'a io \<Rightarrow> bool" where
  "issues_only P \<equiv> state_io_rel (adds_only P)"

lemma issues_only_return [intro, simp]: "issues_only P (State_Monad.return x)"
  by (rule state_io_rel_return [OF reflp_adds_only])

lemma issues_only_bind [intro]:
  "issues_only P m \<Longrightarrow> (\<And>x. issues_only P (f x)) \<Longrightarrow> issues_only P (m \<bind> f)"
  by (rule state_io_rel_bind [OF transp_adds_only])

lemma issues_only_call [intro]: "P c \<Longrightarrow> issues_only P (call f c)"
  by (auto simp: state_io_rel_def adds_only_def)

lemma issues_only_time_now [intro, simp]: "issues_only P (time_now k)"
  by (auto simp: state_io_rel_def adds_only_def)

lemma issues_only_event [intro]: "P (CEvent key ty r m) \<Longrightarrow> issues_only P (Recorder_Event key ty r m)"
  by (auto simp: Recorder_Event_def)

lemma issues_only_mono:
  assumes "issues_only P m" "\<And>c. P c \<Longrightarrow> Q c"
  shows "issues_only Q m"
  using assms by (fastforce simp: state_io_rel_def adds_only_def list_all_iff)

lemma issues_only_run:
  assumes "issues_only P m" "run_state m h = (r, h')"
  obtains new where "h' = h @ new" "list_all P new"
  using assms by (auto simp: state_io_rel_def adds_only_def) (metis snd_conv)

section \<open>A concrete server\<close>

text \<open>
  An API server that holds no object: reads answer NotFound, lists are empty, writes and deletions
  are accepted and echo the object. The witnesses of the development start from it.
\<close>

definition not_found :: goerr where
  "not_found = ApiErr NotFound ''not found''"

definition empty_server :: client where
  "empty_server = \<lparr>
     k_get_Workspace = \<lambda>_ _. Inl not_found, k_get_Deployment = \<lambda>_ _. Inl not_found,
     k_get_Service = \<lambda>_ _. Inl not_found, k_get_PVC = \<lambda>_ _. Inl not_found,
     k_get_AccessStrategy = \<lambda>_ _. Inl not_found, k_get_Template = \<lambda>_ _. Inl not_found,
     k_get_ServiceAccount = \<lambda>_ _. Inl not_found, k_get_Pod = \<lambda>_ _. Inl not_found,
     k_get_Unstructured = \<lambda>_ _ _. Inl not_found,
     k_list_Pods = \<lambda>_ _ _. Inr [], k_list_Workspaces = \<lambda>_ _ _ _. Inr ([], []),
     k_list_Templates = \<lambda>_ _. Inr [], k_list_ServiceAccounts = \<lambda>_ _ _. Inr [],
     k_create_Deployment = \<lambda>_. Inr, k_create_Service = \<lambda>_. Inr, k_create_PVC = \<lambda>_. Inr,
     k_create_Unstructured = \<lambda>_. Inr, k_update_Workspace = \<lambda>_. Inr,
     k_update_Deployment = \<lambda>_. Inr, k_update_Service = \<lambda>_. Inr, k_update_PVC = \<lambda>_. Inr,
     k_update_Unstructured = \<lambda>_. Inr, k_update_Template = \<lambda>_. Inr,
     k_update_AccessStrategy = \<lambda>_. Inr, k_status_Workspace = \<lambda>_. Inr, k_status_Template = \<lambda>_. Inr,
     k_delete_Deployment = \<lambda>_ _. None, k_delete_Service = \<lambda>_ _. None, k_delete_PVC = \<lambda>_ _. None,
     k_delete_Unstructured = \<lambda>_ _ _. None, k_exec = \<lambda>_ _ _ _ _. Inr '''',
     k_set_controller_ref = \<lambda>_. Inr, k_template = \<lambda>_ t _. TmplOutput t,
     k_yaml = \<lambda>_. Inl (Msg ''yaml''), k_yaml_strings = \<lambda>_. Inr [], k_now = \<lambda>_. 0, k_getenv = \<lambda>_. '''',
     k_config_err = None, k_clientset_err = None\<rparr>"

definition sample_workspace :: workspace where
  "sample_workspace = \<lparr>w_meta = empty_meta\<lparr>om_Name := ''ws'', om_Namespace := ''team''\<rparr>,
     w_Spec = empty_spec, w_Status = empty_status\<rparr>"

end
