(* ===== verification/Conditions.thy ===== *)
theory Conditions
  imports K8sClient
begin

text \<open>
  Conditions of a workspace (\<open>internal/controller/conditions.go\<close>, \<open>conditions_utils.go\<close>): the
  constructor, the lookup by type and the merge that the status manager uses. The lemmas show that
  a merge reports changes exactly when a requested condition is new or differs in status, reason
  or message, that a reported merge holds each requested condition and keeps every other one, and
  that condition types stay unique.
\<close>

section \<open>Definitions\<close>

abbreviation ConditionTypeAvailable :: string where "ConditionTypeAvailable \<equiv> ''Available''"
abbreviation ConditionTypeProgressing :: string where "ConditionTypeProgressing \<equiv> ''Progressing''"
abbreviation ConditionTypeDegraded :: string where "ConditionTypeDegraded \<equiv> ''Degraded''"
abbreviation ConditionTypeStopped :: string where "ConditionTypeStopped \<equiv> ''Stopped''"

abbreviation ReasonResourcesNotReady :: string where "ReasonResourcesNotReady \<equiv> ''ResourcesNotReady''"
abbreviation ReasonComputeNotReady :: string where "ReasonComputeNotReady \<equiv> ''ComputeNotReady''"
abbreviation ReasonServiceNotReady :: string where "ReasonServiceNotReady \<equiv> ''ServiceNotReady''"
abbreviation ReasonAccessNotReady :: string where "ReasonAccessNotReady \<equiv> ''AccessNotReady''"
abbreviation ReasonResourcesReady :: string where "ReasonResourcesReady \<equiv> ''ResourcesReady''"
abbreviation ReasonDesiredStateStopped :: string where "ReasonDesiredStateStopped \<equiv> ''DesiredStateStopped''"
abbreviation ReasonResourcesNotStopped :: string where "ReasonResourcesNotStopped \<equiv> ''ResourcesNotStopped''"
abbreviation ReasonComputeNotStopped :: string where "ReasonComputeNotStopped \<equiv> ''ComputeNotStopped''"
abbreviation ReasonServiceNotStopped :: string where "ReasonServiceNotStopped \<equiv> ''ServiceNotStopped''"
abbreviation ReasonAccessNotStopped :: string where "ReasonAccessNotStopped \<equiv> ''AccessNotStopped''"
abbreviation ReasonResourcesStopped :: string where "ReasonResourcesStopped \<equiv> ''AllResourcesStopped''"
abbreviation ReasonDesiredStateRunning :: string where "ReasonDesiredStateRunning \<equiv> ''DesiredStateRunning''"
abbreviation ReasonDeploymentError :: string where "ReasonDeploymentError \<equiv> ''ComputeError''"
abbreviation ReasonServiceError :: string where "ReasonServiceError \<equiv> ''ServiceError''"
abbreviation ReasonNoError :: string where "ReasonNoError \<equiv> ''NoError''"
abbreviation ReasonPreempted :: string where "ReasonPreempted \<equiv> ''Preempted''"

definition NewCondition :: "int \<Rightarrow> string \<Rightarrow> cond_status \<Rightarrow> string \<Rightarrow> string \<Rightarrow> condition" where
  "NewCondition now condType status reason message =
     \<lparr>cond_Type = condType, cond_Status = status, cond_LastTransitionTime = now,
      cond_Reason = reason, cond_Message = message\<rparr>"

lemma NewCondition_sel [simp]:
  "cond_Type (NewCondition n t s r m) = t"
  "cond_Status (NewCondition n t s r m) = s"
  "cond_LastTransitionTime (NewCondition n t s r m) = n"
  "cond_Reason (NewCondition n t s r m) = r"
  "cond_Message (NewCondition n t s r m) = m"
  by (simp_all add: NewCondition_def)

fun FindCondition :: "condition list \<Rightarrow> string \<Rightarrow> condition option" where
  "FindCondition [] t = None"
| "FindCondition (c # cs) t = (if cond_Type c = t then Some c else FindCondition cs t)"

text \<open>The test of the merge loop: status, reason and message agree (the time stamp is not compared).\<close>

definition same_condition :: "condition \<Rightarrow> condition \<Rightarrow> bool" where
  "same_condition e c \<longleftrightarrow> cond_Status e = cond_Status c \<and> cond_Reason e = cond_Reason c \<and>
     cond_Message e = cond_Message c"

text \<open>The second loop: every requested condition is appended; \<open>updated\<close> records a real change.\<close>

fun merge_loop :: "condition list \<Rightarrow> condition list \<Rightarrow> condition list \<times> bool \<Rightarrow> condition list \<times> bool" where
  "merge_loop existing [] (acc, updated) = (acc, updated)"
| "merge_loop existing (c # cs) (acc, updated) =
     merge_loop existing cs
       (case FindCondition existing (cond_Type c) of
          None \<Rightarrow> (acc @ [c], True)
        | Some e \<Rightarrow> if same_condition e c then (acc @ [c], updated) else (acc @ [c], True))"

definition MergeConditionsIfChanged :: "workspace \<Rightarrow> condition list \<Rightarrow> condition list" where
  "MergeConditionsIfChanged workspace conditions =
     (if conditions = [] then []
      else let existing = st_Conditions (w_Status workspace);
               kept = filter (\<lambda>c. cond_Type c \<notin> set (map cond_Type conditions)) existing;
               (toUpdate, updated) = merge_loop existing conditions (kept, False)
           in if \<not> updated then [] else toUpdate)"

text \<open>
  \<open>meta.SetStatusCondition\<close> of apimachinery, as used for the \<open>Deleting\<close> condition: a new type is
  appended; an existing entry is overwritten in place, its time only when the status changes.
\<close>

fun SetStatusCondition :: "condition list \<Rightarrow> condition \<Rightarrow> condition list" where
  "SetStatusCondition [] c = [c]"
| "SetStatusCondition (e # es) c =
     (if cond_Type e = cond_Type c
      then (if cond_Status e \<noteq> cond_Status c then c
            else c\<lparr>cond_LastTransitionTime := cond_LastTransitionTime e\<rparr>) # es
      else e # SetStatusCondition es c)"

section \<open>Lookup\<close>

lemma FindCondition_Some: "FindCondition cs t = Some c \<Longrightarrow> c \<in> set cs \<and> cond_Type c = t"
  by (induction cs) (auto split: if_splits)

lemma FindCondition_None: "FindCondition cs t = None \<longleftrightarrow> t \<notin> set (map cond_Type cs)"
  by (induction cs) auto

lemma FindCondition_append:
  "FindCondition (xs @ ys) t =
     (case FindCondition xs t of None \<Rightarrow> FindCondition ys t | Some c \<Rightarrow> Some c)"
  by (induction xs) auto

lemma FindCondition_filter:
  "FindCondition (filter (\<lambda>c. P (cond_Type c)) cs) t = (if P t then FindCondition cs t else None)"
  by (induction cs) auto

lemma FindCondition_distinct:
  "distinct (map cond_Type cs) \<Longrightarrow> c \<in> set cs \<Longrightarrow> FindCondition cs (cond_Type c) = Some c"
  by (induction cs) (auto simp: image_iff)

section \<open>Merging\<close>

text \<open>What makes a requested condition a change.\<close>

definition cond_changed :: "condition list \<Rightarrow> condition \<Rightarrow> bool" where
  "cond_changed existing c = (case FindCondition existing (cond_Type c) of
     None \<Rightarrow> True | Some e \<Rightarrow> \<not> same_condition e c)"

lemma merge_loop_eq:
  "merge_loop existing cs (acc, u) = (acc @ cs, u \<or> list_ex (cond_changed existing) cs)"
  by (induction cs arbitrary: acc u) (auto simp: cond_changed_def split: option.splits)

text \<open>The merge in closed form.\<close>

lemma MergeConditionsIfChanged_eq:
  "MergeConditionsIfChanged w cs =
     (if list_ex (cond_changed (st_Conditions (w_Status w))) cs
      then filter (\<lambda>c. cond_Type c \<notin> set (map cond_Type cs)) (st_Conditions (w_Status w)) @ cs
      else [])"
  by (simp add: MergeConditionsIfChanged_def merge_loop_eq Let_def)

text \<open>
  The conditions a workspace ends up with after the merge result is written back the way
  \<open>updateStatus\<close> does it: an empty merge leaves them alone.
\<close>

definition merged :: "workspace \<Rightarrow> condition list \<Rightarrow> condition list" where
  "merged w cs = (let m = MergeConditionsIfChanged w cs in
     if m = [] then st_Conditions (w_Status w) else m)"

lemma merged_distinct:
  assumes "distinct (map cond_Type (st_Conditions (w_Status w)))" "distinct (map cond_Type cs)"
  shows "distinct (map cond_Type (merged w cs))"
  using assms
  by (auto simp: merged_def MergeConditionsIfChanged_eq Let_def distinct_map_filter)

lemma merged_other:
  assumes "t \<notin> set (map cond_Type cs)"
  shows "FindCondition (merged w cs) t = FindCondition (st_Conditions (w_Status w)) t"
proof -
  have none: "FindCondition cs t = None"
    using assms by (simp add: FindCondition_None)
  have flt: "FindCondition (filter (\<lambda>c. cond_Type c \<notin> set (map cond_Type cs)) es) t =
      FindCondition es t" for es
    using FindCondition_filter [of "\<lambda>x. x \<notin> set (map cond_Type cs)" es t] assms by simp
  show ?thesis
    using none flt
    by (auto simp: merged_def MergeConditionsIfChanged_eq Let_def FindCondition_append
        split: option.splits)
qed

text \<open>Each requested condition is found afterwards with its status, reason and message.\<close>

lemma merged_requested:
  assumes "c \<in> set cs" "distinct (map cond_Type cs)"
  obtains e where "FindCondition (merged w cs) (cond_Type c) = Some e" "same_condition e c"
proof (cases "list_ex (cond_changed (st_Conditions (w_Status w))) cs")
  case True
  have "FindCondition (filter (\<lambda>c. cond_Type c \<notin> set (map cond_Type cs))
      (st_Conditions (w_Status w))) (cond_Type c) = None"
    using assms(1) by (auto simp: FindCondition_None) (metis imageI)
  then have "FindCondition (merged w cs) (cond_Type c) = Some c"
    using True assms FindCondition_distinct [of cs c]
    by (auto simp: merged_def MergeConditionsIfChanged_eq Let_def FindCondition_append)
  then show ?thesis
    using that by (simp add: same_condition_def)
next
  case False
  then have "\<not> cond_changed (st_Conditions (w_Status w)) c"
    using assms(1) by (auto simp: list_ex_iff)
  then show ?thesis
    using that False
    by (auto simp: cond_changed_def merged_def MergeConditionsIfChanged_eq Let_def
        split: option.splits)
qed

lemma FindCondition_SetStatusCondition:
  "FindCondition (SetStatusCondition cs c) t =
     (if t = cond_Type c
      then Some (case FindCondition cs t of
                   None \<Rightarrow> c
                 | Some e \<Rightarrow> if cond_Status e \<noteq> cond_Status c then c
                             else c\<lparr>cond_LastTransitionTime := cond_LastTransitionTime e\<rparr>)
      else FindCondition cs t)"
  by (induction cs) auto

end
