(* ===== verification/StatusManager.thy ===== *)
theory StatusManager
  imports Conditions
begin

text \<open>
  The status manager (\<open>internal/controller/status_manager.go\<close>). Each updater computes the conditions
  of a phase, merges them into the workspace and writes the status. The workspace is a pointer in
  the source, so every operation returns the workspace as it leaves it, with the error if any; a
  successful \<open>Status().Update\<close> overwrites the object with the server's answer.

  The clock is a function of the history of calls, so the readings of one updater, which lie
  between two calls, agree.

  The locale \<open>phase_conditions\<close> is the contract of the four phases (starting, running, stopping,
  stopped): four conditions of different types with given status values. What an update of a phase
  leaves in the status is proved once inside it and interpreted on the model's four phases.
\<close>

section \<open>Definitions\<close>

abbreviation PreemptedReason :: string where
  "PreemptedReason \<equiv> ''Workspace preempted due to resource contention''"

abbreviation PreemptionReasonAnnotation :: string where
  "PreemptionReasonAnnotation \<equiv> ''workspace.jupyter.org/preemption-reason''"

text \<open>
  The operands of \<open>reflect.DeepEqual(workspace.Status, snapshotStatus)\<close>: the first is a struct, the
  second a pointer to one. \<open>DeepEqual\<close> takes both as \<open>any\<close>, and values of different dynamic types
  are never deeply equal.
\<close>

datatype deep_operand = StatusValue workspace_status | StatusPointer workspace_status

definition DeepEqual :: "deep_operand \<Rightarrow> deep_operand \<Rightarrow> bool" where
  "DeepEqual a b = (a = b)"

definition updateStatus ::
  "client \<Rightarrow> workspace \<Rightarrow> condition list \<Rightarrow> workspace_status \<Rightarrow> (workspace \<times> goerr option) io" where
  "updateStatus k workspace conditionsToUpdate snapshotStatus =
     (let w = (if length conditionsToUpdate > 0
               then workspace\<lparr>w_Status := (w_Status workspace)\<lparr>st_Conditions := conditionsToUpdate\<rparr>\<rparr>
               else workspace)
      in if DeepEqual (StatusValue (w_Status w)) (StatusPointer snapshotStatus)
         then State_Monad.return (w, None)
         else do {
           r \<leftarrow> call (\<lambda>h. k_status_Workspace k h w) (CStatusUpdateWorkspace w);
           State_Monad.return (case r of
               Inl e \<Rightarrow> (w, Some (Wrap ''failed to update Workspace.Status'' e))
             | Inr w' \<Rightarrow> (w', None))
         })"

fun available_loop :: "condition list \<Rightarrow> bool" where
  "available_loop [] = False"
| "available_loop (c # cs) =
     (if cond_Type c = ConditionTypeAvailable then cond_Status c = CTrue else available_loop cs)"

definition IsWorkspaceAvailable :: "workspace \<Rightarrow> bool" where
  "IsWorkspaceAvailable workspace = available_loop (st_Conditions (w_Status workspace))"

record running_readiness =
  computeReady :: bool
  serviceReady :: bool
  accessResourcesReady :: bool

definition starting_reason :: "running_readiness \<Rightarrow> string \<times> string" where
  "starting_reason r =
     (let waitingForCompute = \<not> computeReady r \<and> serviceReady r \<and> accessResourcesReady r;
          waitingForService = computeReady r \<and> \<not> serviceReady r \<and> accessResourcesReady r;
          waitingForAccess = computeReady r \<and> serviceReady r \<and> \<not> accessResourcesReady r
      in if waitingForCompute then (ReasonComputeNotReady, ''Compute is not ready'')
         else if waitingForAccess then (ReasonAccessNotReady, ''Access is not ready'')
         else if waitingForService then (ReasonServiceNotReady, ''Service is not ready'')
         else (ReasonResourcesNotReady, ''Workspace is starting''))"

definition starting_conditions :: "running_readiness \<Rightarrow> int \<Rightarrow> condition list" where
  "starting_conditions readiness now =
     (let (startingReason, startingMessage) = starting_reason readiness in
      [NewCondition now ConditionTypeAvailable CFalse startingReason startingMessage,
       NewCondition now ConditionTypeProgressing CTrue startingReason startingMessage,
       NewCondition now ConditionTypeDegraded CFalse ReasonNoError ''No errors detected'',
       NewCondition now ConditionTypeStopped CFalse ReasonDesiredStateRunning ''Workspace is starting''])"

definition UpdateStartingStatus ::
  "client \<Rightarrow> workspace \<Rightarrow> running_readiness \<Rightarrow> workspace_status \<Rightarrow> (workspace \<times> goerr option) io" where
  "UpdateStartingStatus k workspace readiness snapshotStatus =
     (if computeReady readiness \<and> serviceReady readiness \<and> accessResourcesReady readiness
      then State_Monad.return (workspace, Some (Msg
        ''invalid call: not all resources should be ready in method UpdateStartingStatus''))
      else do {
        now \<leftarrow> time_now k;
        updateStatus k workspace
          (MergeConditionsIfChanged workspace (starting_conditions readiness now)) snapshotStatus
      })"

definition UpdateErrorStatus ::
  "client \<Rightarrow> workspace \<Rightarrow> string \<Rightarrow> string \<Rightarrow> workspace_status \<Rightarrow> (workspace \<times> goerr option) io" where
  "UpdateErrorStatus k workspace reason message snapshotStatus = do {
     now \<leftarrow> time_now k;
     updateStatus k workspace
       (MergeConditionsIfChanged workspace
          [NewCondition now ConditionTypeDegraded CTrue reason message]) snapshotStatus
   }"

definition running_conditions :: "int \<Rightarrow> condition list" where
  "running_conditions now =
     [NewCondition now ConditionTypeAvailable CTrue ReasonResourcesReady ''Workspace is ready'',
      NewCondition now ConditionTypeProgressing CFalse ReasonResourcesReady ''Workspace is ready'',
      NewCondition now ConditionTypeDegraded CFalse ReasonNoError ''No errors detected'',
      NewCondition now ConditionTypeStopped CFalse ReasonDesiredStateRunning ''Workspace is running'']"

definition UpdateRunningStatus ::
  "client \<Rightarrow> workspace \<Rightarrow> workspace_status \<Rightarrow> (workspace \<times> goerr option) io" where
  "UpdateRunningStatus k workspace snapshotStatus = do {
     now \<leftarrow> time_now k;
     updateStatus k workspace
       (MergeConditionsIfChanged workspace (running_conditions now)) snapshotStatus
   }"

record stopping_readiness =
  computeStopped :: bool
  serviceStopped :: bool
  accessResourcesStopped :: bool

definition stopping_reason :: "stopping_readiness \<Rightarrow> string \<times> string" where
  "stopping_reason r =
     (let waitingForCompute = \<not> computeStopped r \<and> serviceStopped r \<and> accessResourcesStopped r;
          waitingForService = computeStopped r \<and> \<not> serviceStopped r \<and> accessResourcesStopped r;
          waitingForAccess = computeStopped r \<and> serviceStopped r \<and> \<not> accessResourcesStopped r
      in if waitingForCompute then (ReasonComputeNotStopped, ''Compute is still running'')
         else if waitingForAccess then (ReasonAccessNotStopped, ''Access is still up'')
         else if waitingForService then (ReasonServiceNotStopped, ''Service is still up'')
         else (ReasonResourcesNotStopped, ''Resources are still running''))"

definition stopping_conditions :: "stopping_readiness \<Rightarrow> int \<Rightarrow> condition list" where
  "stopping_conditions readiness now =
     (let (stoppingReason, stoppingMessage) = stopping_reason readiness in
      [NewCondition now ConditionTypeAvailable CFalse ReasonDesiredStateStopped ''Desired status is Stopped'',
       NewCondition now ConditionTypeProgressing CTrue ReasonDesiredStateStopped stoppingMessage,
       NewCondition now ConditionTypeDegraded CFalse ReasonNoError ''No errors detected'',
       NewCondition now ConditionTypeStopped CFalse stoppingReason stoppingMessage])"

definition UpdateStoppingStatus ::
  "client \<Rightarrow> workspace \<Rightarrow> stopping_readiness \<Rightarrow> workspace_status \<Rightarrow> (workspace \<times> goerr option) io" where
  "UpdateStoppingStatus k workspace readiness snapshotStatus =
     (if computeStopped readiness \<and> serviceStopped readiness \<and> accessResourcesStopped readiness
      then State_Monad.return (workspace, Some (Msg
        ''invalid call: not all resources should be stopped in method UpdateStoppingStatus''))
      else do {
        now \<leftarrow> time_now k;
        updateStatus k workspace
          (MergeConditionsIfChanged workspace (stopping_conditions readiness now)) snapshotStatus
      })"

definition stopped_conditions :: "workspace \<Rightarrow> int \<Rightarrow> condition list" where
  "stopped_conditions workspace now =
     [(if w_Annotations workspace \<noteq> None \<and>
          map_get (w_Annotations workspace) PreemptionReasonAnnotation = PreemptedReason
       then NewCondition now ConditionTypeAvailable CFalse ReasonPreempted PreemptedReason
       else NewCondition now ConditionTypeAvailable CFalse ReasonDesiredStateStopped ''Workspace is stopped''),
      NewCondition now ConditionTypeProgressing CFalse ReasonDesiredStateStopped ''Workspace is stopped'',
      NewCondition now ConditionTypeDegraded CFalse ReasonNoError ''No errors detected'',
      NewCondition now ConditionTypeStopped CTrue ReasonResourcesStopped ''Workspace is stopped'']"

definition UpdateStoppedStatus ::
  "client \<Rightarrow> workspace \<Rightarrow> workspace_status \<Rightarrow> (workspace \<times> goerr option) io" where
  "UpdateStoppedStatus k workspace snapshotStatus = do {
     now \<leftarrow> time_now k;
     let conditionsToUpdate = MergeConditionsIfChanged workspace (stopped_conditions workspace now);
     let w = workspace\<lparr>w_Status := (w_Status workspace)\<lparr>st_DeploymentName := '''', st_ServiceName := ''''\<rparr>\<rparr>;
     updateStatus k w conditionsToUpdate snapshotStatus
   }"

definition UpdateDeletingStatus :: "client \<Rightarrow> workspace \<Rightarrow> (workspace \<times> goerr option) io" where
  "UpdateDeletingStatus k workspace = do {
     now \<leftarrow> time_now k;
     let condition = NewCondition now ''Deleting'' CTrue ''DeletionInProgress''
                       ''Workspace resources are being deleted'';
     let w = workspace\<lparr>w_Status := (w_Status workspace)
               \<lparr>st_Conditions := SetStatusCondition (st_Conditions (w_Status workspace)) condition\<rparr>\<rparr>;
     r \<leftarrow> call (\<lambda>h. k_status_Workspace k h w) (CStatusUpdateWorkspace w);
     State_Monad.return (case r of Inl e \<Rightarrow> (w, Some e) | Inr w' \<Rightarrow> (w', None))
   }"

section \<open>The status write\<close>

text \<open>The two operands never have the same dynamic type, so the no-op branch is dead.\<close>

lemma DeepEqual_status [simp]: "\<not> DeepEqual (StatusValue s) (StatusPointer t)"
  by (simp add: DeepEqual_def)

text \<open>The workspace a status write sends, and what the caller holds afterwards.\<close>

definition sent_status :: "workspace \<Rightarrow> condition list \<Rightarrow> workspace" where
  "sent_status w cs = w\<lparr>w_Status := (w_Status w)\<lparr>st_Conditions := merged w cs\<rparr>\<rparr>"

definition status_answer :: "workspace \<Rightarrow> workspace res \<Rightarrow> workspace \<times> goerr option" where
  "status_answer w r = (case r of
     Inl e \<Rightarrow> (w, Some (Wrap ''failed to update Workspace.Status'' e)) | Inr w' \<Rightarrow> (w', None))"

lemma run_updateStatus:
  "run_state (updateStatus k w (MergeConditionsIfChanged w' cs) snap) h =
     (let s = w\<lparr>w_Status := (w_Status w)\<lparr>st_Conditions :=
            (if MergeConditionsIfChanged w' cs = [] then st_Conditions (w_Status w)
             else MergeConditionsIfChanged w' cs)\<rparr>\<rparr>
      in (status_answer s (k_status_Workspace k h s), h @ [CStatusUpdateWorkspace s]))"
  by (auto simp: updateStatus_def Let_def status_answer_def split: sum.splits)

lemma run_updateStatus_merged:
  "run_state (updateStatus k w (MergeConditionsIfChanged w cs) snap) h =
     (status_answer (sent_status w cs) (k_status_Workspace k h (sent_status w cs)),
      h @ [CStatusUpdateWorkspace (sent_status w cs)])"
  by (simp add: run_updateStatus sent_status_def merged_def Let_def)

lemma available_loop_iff:
  "available_loop cs \<longleftrightarrow> (\<exists>c. FindCondition cs ConditionTypeAvailable = Some c \<and> cond_Status c = CTrue)"
  by (induction cs) auto

lemma IsWorkspaceAvailable_iff:
  "IsWorkspaceAvailable w \<longleftrightarrow>
     (\<exists>c. FindCondition (st_Conditions (w_Status w)) ConditionTypeAvailable = Some c \<and> cond_Status c = CTrue)"
  by (simp add: IsWorkspaceAvailable_def available_loop_iff)

section \<open>The contract of a phase\<close>

text \<open>The status value of a condition type, \<open>None\<close> when the condition is absent.\<close>

definition cond_value :: "workspace \<Rightarrow> string \<Rightarrow> cond_status option" where
  "cond_value w t = map_option cond_Status (FindCondition (st_Conditions (w_Status w)) t)"

locale phase_conditions =
  fixes conds :: "int \<Rightarrow> condition list"
    and val :: "string \<Rightarrow> cond_status"
  assumes types: "map cond_Type (conds now) =
      [ConditionTypeAvailable, ConditionTypeProgressing, ConditionTypeDegraded, ConditionTypeStopped]"
    and statuses: "c \<in> set (conds now) \<Longrightarrow> cond_Status c = val (cond_Type c)"
begin

lemma distinct_types: "distinct (map cond_Type (conds now))"
  by (simp add: types)

lemma sent_value:
  assumes "t \<in> {ConditionTypeAvailable, ConditionTypeProgressing, ConditionTypeDegraded, ConditionTypeStopped}"
  shows "cond_value (sent_status w (conds now)) t = Some (val t)"
proof -
  from assms have "t \<in> set (map cond_Type (conds now))"
    by (auto simp: types)
  then obtain c where c: "c \<in> set (conds now)" "cond_Type c = t"
    by auto
  obtain e where "FindCondition (merged w (conds now)) (cond_Type c) = Some e" "same_condition e c"
    by (rule merged_requested [OF c(1) distinct_types])
  then show ?thesis
    using c statuses by (simp add: cond_value_def sent_status_def same_condition_def)
qed

lemma sent_other:
  assumes "t \<notin> {ConditionTypeAvailable, ConditionTypeProgressing, ConditionTypeDegraded, ConditionTypeStopped}"
  shows "cond_value (sent_status w (conds now)) t = cond_value w t"
proof -
  have "t \<notin> set (map cond_Type (conds now))"
    using assms by (simp add: types)
  from merged_other [OF this] show ?thesis
    by (simp add: cond_value_def sent_status_def)
qed

lemma sent_distinct:
  "distinct (map cond_Type (st_Conditions (w_Status w))) \<Longrightarrow>
   distinct (map cond_Type (st_Conditions (w_Status (sent_status w (conds now)))))"
  using merged_distinct [OF _ distinct_types] by (simp add: sent_status_def)

lemma sent_available:
  "IsWorkspaceAvailable (sent_status w (conds now)) \<longleftrightarrow> val ConditionTypeAvailable = CTrue"
  using sent_value [of ConditionTypeAvailable w now]
  by (auto simp: IsWorkspaceAvailable_iff cond_value_def)

end

definition phase_value :: "cond_status \<Rightarrow> cond_status \<Rightarrow> cond_status \<Rightarrow> string \<Rightarrow> cond_status" where
  "phase_value avail progressing stopped t =
     (if t = ConditionTypeAvailable then avail else if t = ConditionTypeProgressing then progressing
      else if t = ConditionTypeStopped then stopped else CFalse)"

interpretation starting: phase_conditions "starting_conditions r" "phase_value CFalse CTrue CFalse"
  by unfold_locales (auto simp: starting_conditions_def phase_value_def split: prod.splits)

interpretation running: phase_conditions running_conditions "phase_value CTrue CFalse CFalse"
  by unfold_locales (auto simp: running_conditions_def phase_value_def)

interpretation stopping: phase_conditions "stopping_conditions r" "phase_value CFalse CTrue CFalse"
  by unfold_locales (auto simp: stopping_conditions_def phase_value_def split: prod.splits)

interpretation stopped: phase_conditions "stopped_conditions w" "phase_value CFalse CFalse CTrue"
  by unfold_locales (auto simp: stopped_conditions_def phase_value_def split: if_splits)

section \<open>Properties\<close>

text \<open>
  The status a phase asks for: the four condition values, every other condition as in \<open>w\<close>, the
  rest of the object (metadata, spec, access fields) untouched.
\<close>

definition shows_phase :: "cond_status \<Rightarrow> cond_status \<Rightarrow> cond_status \<Rightarrow> workspace \<Rightarrow> workspace \<Rightarrow> bool" where
  "shows_phase avail progressing stopped w s \<longleftrightarrow>
     cond_value s ConditionTypeAvailable = Some avail \<and>
     cond_value s ConditionTypeProgressing = Some progressing \<and>
     cond_value s ConditionTypeStopped = Some stopped \<and>
     cond_value s ConditionTypeDegraded = Some CFalse \<and>
     (\<forall>t. t \<notin> {ConditionTypeAvailable, ConditionTypeProgressing, ConditionTypeDegraded, ConditionTypeStopped} \<longrightarrow>
        cond_value s t = cond_value w t) \<and>
     w_meta s = w_meta w \<and> w_Spec s = w_Spec w \<and>
     st_AccessURL (w_Status s) = st_AccessURL (w_Status w) \<and>
     st_AccessResources (w_Status s) = st_AccessResources (w_Status w)"

lemma shows_phase_sent:
  assumes "phase_conditions conds (phase_value a p s)"
  shows "shows_phase a p s w (sent_status w (conds now))"
  unfolding shows_phase_def
  by (simp add: phase_conditions.sent_value [OF assms] phase_conditions.sent_other [OF assms])
     (simp add: phase_value_def sent_status_def)

lemma shows_phase_names:
  "shows_phase a p s w (v\<lparr>w_Status := (w_Status v)\<lparr>st_DeploymentName := x, st_ServiceName := y\<rparr>\<rparr>)
     \<longleftrightarrow> shows_phase a p s w v"
  by (simp add: shows_phase_def cond_value_def)

lemma run_UpdateStartingStatus:
  "run_state (UpdateStartingStatus k w r snap) h =
     (if computeReady r \<and> serviceReady r \<and> accessResourcesReady r
      then ((w, Some (Msg ''invalid call: not all resources should be ready in method UpdateStartingStatus'')), h)
      else let s = sent_status w (starting_conditions r (k_now k h))
           in (status_answer s (k_status_Workspace k h s), h @ [CStatusUpdateWorkspace s]))"
  by (simp add: UpdateStartingStatus_def run_updateStatus_merged Let_def)

lemma run_UpdateStoppingStatus:
  "run_state (UpdateStoppingStatus k w r snap) h =
     (if computeStopped r \<and> serviceStopped r \<and> accessResourcesStopped r
      then ((w, Some (Msg ''invalid call: not all resources should be stopped in method UpdateStoppingStatus'')), h)
      else let s = sent_status w (stopping_conditions r (k_now k h))
           in (status_answer s (k_status_Workspace k h s), h @ [CStatusUpdateWorkspace s]))"
  by (simp add: UpdateStoppingStatus_def run_updateStatus_merged Let_def)

lemma run_UpdateRunningStatus:
  "run_state (UpdateRunningStatus k w snap) h =
     (let s = sent_status w (running_conditions (k_now k h))
      in (status_answer s (k_status_Workspace k h s), h @ [CStatusUpdateWorkspace s]))"
  by (simp add: UpdateRunningStatus_def run_updateStatus_merged Let_def)

lemma run_UpdateErrorStatus:
  "run_state (UpdateErrorStatus k w reason msg snap) h =
     (let s = sent_status w [NewCondition (k_now k h) ConditionTypeDegraded CTrue reason msg]
      in (status_answer s (k_status_Workspace k h s), h @ [CStatusUpdateWorkspace s]))"
  by (simp add: UpdateErrorStatus_def run_updateStatus_merged Let_def)

lemma status_names_swap:
  "s\<lparr>st_DeploymentName := a, st_ServiceName := b, st_Conditions := c\<rparr> =
   s\<lparr>st_Conditions := c, st_DeploymentName := a, st_ServiceName := b\<rparr>" for s :: workspace_status
  by simp

lemma run_UpdateStoppedStatus:
  "run_state (UpdateStoppedStatus k w snap) h =
     (let v = sent_status w (stopped_conditions w (k_now k h));
          s = v\<lparr>w_Status := (w_Status v)\<lparr>st_DeploymentName := '''', st_ServiceName := ''''\<rparr>\<rparr>
      in (status_answer s (k_status_Workspace k h s), h @ [CStatusUpdateWorkspace s]))"
  by (simp add: UpdateStoppedStatus_def run_updateStatus sent_status_def merged_def Let_def
      status_names_swap)

lemmas run_updaters = run_UpdateStartingStatus run_UpdateStoppingStatus run_UpdateRunningStatus
  run_UpdateErrorStatus run_UpdateStoppedStatus

text \<open>
  The status updaters of the four phases (starting, running, stopping, stopped): unless the
  readiness flags given to a starting or stopping update are all set, which is refused without a
  call, the updater issues exactly one status write, and the workspace it writes shows the phase:
  Available, Progressing and Stopped have the values of the phase, Degraded is False, every other
  condition and everything outside the status keeps its value. A stopped update also clears the
  deployment and service names.
\<close>

theorem phase_updaters_write_phase:
  assumes "\<not> (computeReady r \<and> serviceReady r \<and> accessResourcesReady r)"
    and "\<not> (computeStopped q \<and> serviceStopped q \<and> accessResourcesStopped q)"
  shows "(\<exists>s. snd (run_state (UpdateStartingStatus k w r snap) h) = h @ [CStatusUpdateWorkspace s] \<and>
            shows_phase CFalse CTrue CFalse w s) \<and>
         (\<exists>s. snd (run_state (UpdateRunningStatus k w snap) h) = h @ [CStatusUpdateWorkspace s] \<and>
            shows_phase CTrue CFalse CFalse w s) \<and>
         (\<exists>s. snd (run_state (UpdateStoppingStatus k w q snap) h) = h @ [CStatusUpdateWorkspace s] \<and>
            shows_phase CFalse CTrue CFalse w s) \<and>
         (\<exists>s. snd (run_state (UpdateStoppedStatus k w snap) h) = h @ [CStatusUpdateWorkspace s] \<and>
            shows_phase CFalse CFalse CTrue w s \<and>
            st_DeploymentName (w_Status s) = '''' \<and> st_ServiceName (w_Status s) = '''')"
  using assms
  by (auto simp: run_updaters Let_def shows_phase_names
      intro!: shows_phase_sent starting.phase_conditions_axioms running.phase_conditions_axioms
        stopping.phase_conditions_axioms stopped.phase_conditions_axioms)

theorem phase_updaters_write_phase_witness:
  "\<exists>s. snd (run_state (UpdateRunningStatus empty_server sample_workspace empty_status) []) =
      [CStatusUpdateWorkspace s] \<and> shows_phase CTrue CFalse CFalse sample_workspace s"
  using phase_updaters_write_phase
    [of "\<lparr>computeReady = True, serviceReady = False, accessResourcesReady = True\<rparr>"
        "\<lparr>computeStopped = False, serviceStopped = False, accessResourcesStopped = True\<rparr>"
        empty_server sample_workspace empty_status "[]"]
  by simp

text \<open>
  A status update is never skipped. Although the updater is meant to do nothing when the
  status equals the snapshot taken at the start of the reconciliation, the comparison is between
  a struct and a pointer and is never true: with no condition to change and a status equal to the
  snapshot, one write of the unchanged workspace is still issued.
\<close>

theorem updateStatus_always_writes:
  "snd (run_state (updateStatus k w [] (w_Status w)) h) = h @ [CStatusUpdateWorkspace w]"
  by (simp add: updateStatus_def split: sum.splits)

end
