(* ===== verification/Builders.thy ===== *)
theory Builders
  imports StatusManager
begin

text \<open>
  Builders of the Kubernetes objects of a workspace: generated names and labels
  (\<open>internal/controller/constants.go\<close>), image resolution (\<open>images.go\<close>, \<open>image_resolver.go\<close>), the
  claim (\<open>pvc_builder.go\<close>), the service (\<open>service_builder.go\<close>) and the deployment
  (\<open>deployment_builder.go\<close>, \<open>deployment_builder_access.go\<close>), and the access resources
  (\<open>access_resources_builder.go\<close>).

  A builder returns the object or an error. The comparison of a live object with the built one
  (\<open>NeedsUpdate\<close>) and the copy of the built spec into the live object are shown to agree: after the
  copy no further update is needed.
\<close>

section \<open>Names and labels\<close>

abbreviation LabelWorkspaceName :: string where
  "LabelWorkspaceName \<equiv> ''workspace.jupyter.org/workspace-name''"
abbreviation LabelWorkspaceNamespace :: string where
  "LabelWorkspaceNamespace \<equiv> ''workspace.jupyter.org/workspace-namespace''"
abbreviation LabelAccessStrategyName :: string where
  "LabelAccessStrategyName \<equiv> ''workspace.jupyter.org/access-strategy-name''"
abbreviation LabelAccessStrategyNamespace :: string where
  "LabelAccessStrategyNamespace \<equiv> ''workspace.jupyter.org/access-strategy-namespace''"
abbreviation LabelWorkspaceTemplate :: string where
  "LabelWorkspaceTemplate \<equiv> ''workspace.jupyter.org/template-name''"
abbreviation LabelWorkspaceTemplateNamespace :: string where
  "LabelWorkspaceTemplateNamespace \<equiv> ''workspace.jupyter.org/template-namespace''"
abbreviation LabelComponent :: string where
  "LabelComponent \<equiv> ''workspace.jupyter.org/component''"

definition GenerateDeploymentName :: "string \<Rightarrow> string" where
  "GenerateDeploymentName n = ''workspace-'' @ n"

definition GenerateServiceName :: "string \<Rightarrow> string" where
  "GenerateServiceName n = ''workspace-'' @ n @ ''-service''"

definition GeneratePVCName :: "string \<Rightarrow> string" where
  "GeneratePVCName n = ''workspace-'' @ n @ ''-pvc''"

definition GenerateLabels :: "string \<Rightarrow> smap" where
  "GenerateLabels n = [''app'' \<mapsto> ''jupyter'', LabelWorkspaceName \<mapsto> n, LabelComponent \<mapsto> ''workspace'']"

record controller_options =
  co_ApplicationImagesPullPolicy :: string
  co_ApplicationImagesRegistry :: string
  co_WatchTraefik :: bool
  co_ResourceWatches :: "gvk list"
  co_EnableWorkspacePodWatching :: bool
  co_DefaultTemplateNamespace :: string

section \<open>Images\<close>

abbreviation DefaultTag :: string where "DefaultTag \<equiv> ''latest''"
abbreviation ImageJupyterUV :: string where "ImageJupyterUV \<equiv> ''jk8s-application-jupyter-uv:latest''"
abbreviation DefaultJupyterImage :: string where "DefaultJupyterImage \<equiv> ImageJupyterUV"

definition jupyterImages :: smap where
  "jupyterImages = [''uv'' \<mapsto> ImageJupyterUV]"

definition IsBuiltInImage :: "string \<Rightarrow> bool" where
  "IsBuiltInImage imageName = (jupyterImages imageName \<noteq> None)"

definition GetImagePath :: "string \<Rightarrow> string" where
  "GetImagePath imageName = (case jupyterImages imageName of Some p \<Rightarrow> p | None \<Rightarrow> imageName)"

definition ResolveImage :: "string \<Rightarrow> workspace \<Rightarrow> string" where
  "ResolveImage registry workspace =
     (let image = ws_Image (w_Spec workspace);
          image = (if IsBuiltInImage image then GetImagePath image else image);
          image = (if image = '''' then DefaultJupyterImage else image)
      in if registry \<noteq> ''''
         then let (repository, t) = split_char2 (CHR '':'') image;
                  tag = (case t of None \<Rightarrow> DefaultTag | Some x \<Rightarrow> x)
              in if \<not> contains repository ''/'' then registry @ ''/'' @ repository @ '':'' @ tag
                 else image
         else image)"

section \<open>Claims\<close>

record resolved_storage =
  rs_Size :: quantity
  rs_StorageClassName :: "string option"
  rs_MountPath :: string

abbreviation DefaultMountPath :: string where "DefaultMountPath \<equiv> ''/home/jovyan''"

definition resolveStorageSize :: "workspace \<Rightarrow> quantity" where
  "resolveStorageSize workspace = (case ws_Storage (w_Spec workspace) of
     Some s \<Rightarrow> if \<not> q_is_zero (ss_Size s) then ss_Size s else Quantity (10737418240 * nano) ''10Gi''
   | None \<Rightarrow> Quantity (10737418240 * nano) ''10Gi'')"

definition resolveStorageClassName :: "workspace \<Rightarrow> string option" where
  "resolveStorageClassName workspace = (case ws_Storage (w_Spec workspace) of
     Some s \<Rightarrow> ss_StorageClassName s | None \<Rightarrow> None)"

definition resolveMountPath :: "workspace \<Rightarrow> string" where
  "resolveMountPath workspace = (case ws_Storage (w_Spec workspace) of
     Some s \<Rightarrow> if ss_MountPath s \<noteq> '''' then ss_MountPath s else DefaultMountPath
   | None \<Rightarrow> DefaultMountPath)"

definition ResolveStorageConfig :: "workspace \<Rightarrow> resolved_storage option" where
  "ResolveStorageConfig workspace =
     (if ws_Storage (w_Spec workspace) = None then None
      else Some \<lparr>rs_Size = resolveStorageSize workspace,
                 rs_StorageClassName = resolveStorageClassName workspace,
                 rs_MountPath = resolveMountPath workspace\<rparr>)"

definition pvc_buildObjectMeta :: "workspace \<Rightarrow> object_meta" where
  "pvc_buildObjectMeta workspace = empty_meta\<lparr>om_Name := GeneratePVCName (w_Name workspace),
     om_Namespace := w_Namespace workspace, om_Labels := Some (GenerateLabels (w_Name workspace))\<rparr>"

definition buildPVCSpecWithSize :: "quantity \<Rightarrow> string option \<Rightarrow> pvc_spec" where
  "buildPVCSpecWithSize sz storageClassName =
     (let spec = \<lparr>pv_AccessModes = [''ReadWriteOnce''], pv_Requests = [(''storage'', sz)],
                  pv_Limits = [], pv_StorageClassName = None, pv_Other = ''''\<rparr>
      in if storageClassName \<noteq> None then spec\<lparr>pv_StorageClassName := storageClassName\<rparr> else spec)"

definition BuildPVC :: "client \<Rightarrow> workspace \<Rightarrow> pvc option res" where
  "BuildPVC k workspace = (case ResolveStorageConfig workspace of
     None \<Rightarrow> Inr None
   | Some cfg \<Rightarrow>
       let p = \<lparr>p_meta = pvc_buildObjectMeta workspace,
                p_Spec = buildPVCSpecWithSize (rs_Size cfg) (rs_StorageClassName cfg)\<rparr>
       in case k_set_controller_ref k workspace (p_meta p) of
            Inl e \<Rightarrow> Inl (Wrap ''failed to set controller reference'' e)
          | Inr m \<Rightarrow> Inr (Some (p\<lparr>p_meta := m\<rparr>)))"

text \<open>Reading a quantity of a resource list: the zero quantity when the key is missing.\<close>

definition quantity_of :: "resource_list \<Rightarrow> string \<Rightarrow> quantity" where
  "quantity_of rl key = (case map_of rl key of Some q \<Rightarrow> q | None \<Rightarrow> Quantity 0 ''0'')"

definition pvc_NeedsUpdate :: "client \<Rightarrow> pvc \<Rightarrow> workspace \<Rightarrow> bool res" where
  "pvc_NeedsUpdate k existingPVC workspace = (case BuildPVC k workspace of
     Inl e \<Rightarrow> Inl (Wrap ''failed to build desired PVC'' e)
   | Inr None \<Rightarrow> Inr False
   | Inr (Some desired) \<Rightarrow>
       if pv_AccessModes (p_Spec existingPVC) \<noteq> pv_AccessModes (p_Spec desired) then Inr True
       else if \<not> q_eq (quantity_of (pv_Requests (p_Spec existingPVC)) ''storage'')
                       (quantity_of (pv_Requests (p_Spec desired)) ''storage'') then Inr True
       else Inr False)"

definition UpdatePVCSpec :: "client \<Rightarrow> pvc \<Rightarrow> workspace \<Rightarrow> pvc res" where
  "UpdatePVCSpec k existingPVC workspace = (case BuildPVC k workspace of
     Inl e \<Rightarrow> Inl (Wrap ''failed to build desired PVC'' e)
   | Inr None \<Rightarrow> Inl (Msg ''cannot update PVC to nil spec'')
   | Inr (Some desired) \<Rightarrow>
       Inr (existingPVC\<lparr>p_Spec := (p_Spec existingPVC)
              \<lparr>pv_AccessModes := pv_AccessModes (p_Spec desired),
               pv_Requests := pv_Requests (p_Spec desired),
               pv_Limits := pv_Limits (p_Spec desired)\<rparr>\<rparr>))"

section \<open>Services\<close>

abbreviation JupyterPort :: int where "JupyterPort \<equiv> 8888"

definition service_buildObjectMeta :: "workspace \<Rightarrow> object_meta" where
  "service_buildObjectMeta workspace = empty_meta\<lparr>om_Name := GenerateServiceName (w_Name workspace),
     om_Namespace := w_Namespace workspace, om_Labels := Some (GenerateLabels (w_Name workspace))\<rparr>"

definition buildServiceSpec :: "workspace \<Rightarrow> service_spec" where
  "buildServiceSpec workspace =
     \<lparr>sv_Type = ''ClusterIP'', sv_Selector = GenerateLabels (w_Name workspace),
      sv_Ports = [\<lparr>sp_Name = ''http'', sp_Port = JupyterPort, sp_TargetPort = JupyterPort,
                   sp_Protocol = ''TCP''\<rparr>], sv_Other = ''''\<rparr>"

definition BuildService :: "client \<Rightarrow> workspace \<Rightarrow> service res" where
  "BuildService k workspace =
     (let s = \<lparr>s_meta = service_buildObjectMeta workspace, s_Spec = buildServiceSpec workspace,
               s_Ingress = []\<rparr>
      in case k_set_controller_ref k workspace (s_meta s) of
           Inl e \<Rightarrow> Inl (Wrap ''failed to set controller reference'' e)
         | Inr m \<Rightarrow> Inr (s\<lparr>s_meta := m\<rparr>))"

definition service_NeedsUpdate :: "client \<Rightarrow> service \<Rightarrow> workspace \<Rightarrow> bool res" where
  "service_NeedsUpdate k existingService workspace = (case BuildService k workspace of
     Inl e \<Rightarrow> Inl (Wrap ''failed to build desired service'' e)
   | Inr desired \<Rightarrow> Inr (s_Spec existingService \<noteq> s_Spec desired))"

definition UpdateServiceSpec :: "client \<Rightarrow> service \<Rightarrow> workspace \<Rightarrow> service res" where
  "UpdateServiceSpec k existingService workspace = (case BuildService k workspace of
     Inl e \<Rightarrow> Inl (Wrap ''failed to build desired service'' e)
   | Inr desired \<Rightarrow> Inr (existingService\<lparr>s_Spec := s_Spec desired\<rparr>))"

section \<open>Deployments\<close>

definition copy_labels :: "string \<Rightarrow> smap option \<Rightarrow> smap" where
  "copy_labels n labels = (case labels of None \<Rightarrow> GenerateLabels n | Some l \<Rightarrow> GenerateLabels n ++ l)"

definition deployment_buildObjectMeta :: "workspace \<Rightarrow> object_meta" where
  "deployment_buildObjectMeta workspace = empty_meta\<lparr>om_Name := GenerateDeploymentName (w_Name workspace),
     om_Namespace := w_Namespace workspace,
     om_Labels := Some (copy_labels (w_Name workspace) (w_Labels workspace))\<rparr>"

definition buildPodLabels :: "workspace \<Rightarrow> smap" where
  "buildPodLabels workspace = copy_labels (w_Name workspace) (w_Labels workspace)"

definition parseResourceRequirements :: "workspace \<Rightarrow> resource_requirements" where
  "parseResourceRequirements workspace =
     (let defaults = [(''cpu'', Quantity 100000000 ''100m''),
                      (''memory'', Quantity (134217728 * nano) ''128Mi'')]
      in case ws_Resources (w_Spec workspace) of
           Some r \<Rightarrow> if rr_Requests r = None then r\<lparr>rr_Requests := Some defaults\<rparr> else r
         | None \<Rightarrow> \<lparr>rr_Requests = Some defaults, rr_Limits = Some defaults\<rparr>)"

text \<open>The loop over the additional volumes skips the reserved name of the primary storage.\<close>

definition additional_volumes :: "workspace \<Rightarrow> volume_spec list" where
  "additional_volumes workspace =
     filter (\<lambda>vol. vs_Name vol \<noteq> ''workspace-storage'') (ws_Volumes (w_Spec workspace))"

definition buildPrimaryContainer ::
  "controller_options \<Rightarrow> workspace \<Rightarrow> resource_requirements \<Rightarrow> container" where
  "buildPrimaryContainer options workspace resources =
     (let (command, args) = (case ws_ContainerConfig (w_Spec workspace) of
            None \<Rightarrow> ([], []) | Some cc \<Rightarrow> (cc_Command cc, cc_Args cc));
          primaryMounts = (case ResolveStorageConfig workspace of
            None \<Rightarrow> [] | Some cfg \<Rightarrow>
              [\<lparr>vm_Name = ''workspace-storage'', vm_MountPath = rs_MountPath cfg, vm_Other = ''''\<rparr>])
      in \<lparr>c_Name = ''workspace'',
          c_Image = ResolveImage (co_ApplicationImagesRegistry options) workspace,
          c_ImagePullPolicy = co_ApplicationImagesPullPolicy options,
          c_Command = command, c_Args = args, c_Lifecycle = ws_Lifecycle (w_Spec workspace),
          c_Ports = [(''http'', JupyterPort, ''TCP'')], c_Resources = resources, c_Env = [],
          c_VolumeMounts = primaryMounts @
            map (\<lambda>vol. \<lparr>vm_Name = vs_Name vol, vm_MountPath = vs_MountPath vol, vm_Other = ''''\<rparr>)
              (additional_volumes workspace),
          c_Other = ''''\<rparr>)"

definition buildPodSpec ::
  "controller_options \<Rightarrow> workspace \<Rightarrow> resource_requirements \<Rightarrow> pod_spec" where
  "buildPodSpec options workspace resources =
     (let spec = w_Spec workspace;
          primaryVolumes = (case ResolveStorageConfig workspace of
            None \<Rightarrow> [] | Some _ \<Rightarrow>
              [\<lparr>v_Name = ''workspace-storage'', v_Source = PVCSource (GeneratePVCName (w_Name workspace))\<rparr>])
      in \<lparr>ps_Containers = [buildPrimaryContainer options workspace resources],
          ps_InitContainers = [],
          ps_Volumes = primaryVolumes @
            map (\<lambda>vol. \<lparr>v_Name = vs_Name vol, v_Source = PVCSource (vs_PersistentVolumeClaimName vol)\<rparr>)
              (additional_volumes workspace),
          ps_NodeSelector = (if length (slice (ws_NodeSelector spec)) > 0
                             then slice (ws_NodeSelector spec) else []),
          ps_Affinity = ws_Affinity spec,
          ps_Tolerations = (if length (slice (ws_Tolerations spec)) > 0
                            then slice (ws_Tolerations spec) else []),
          ps_ServiceAccountName = ws_ServiceAccountName spec,
          ps_SecurityContext = ws_PodSecurityContext spec,
          ps_Other = ''''\<rparr>)"

definition buildDeploymentSpec ::
  "controller_options \<Rightarrow> workspace \<Rightarrow> resource_requirements \<Rightarrow> deployment_spec" where
  "buildDeploymentSpec options workspace resources =
     \<lparr>ds_Replicas = Some 1, ds_Strategy = ''Recreate'',
      ds_Selector = GenerateLabels (w_Name workspace), ds_TemplateLabels = buildPodLabels workspace,
      ds_PodSpec = buildPodSpec options workspace resources, ds_Other = ''''\<rparr>"

definition BuildDeployment :: "client \<Rightarrow> controller_options \<Rightarrow> workspace \<Rightarrow> deployment res" where
  "BuildDeployment k options workspace =
     (let resources = parseResourceRequirements workspace;
          d = \<lparr>d_meta = deployment_buildObjectMeta workspace,
               d_Spec = buildDeploymentSpec options workspace resources,
               d_Status = \<lparr>dst_Conditions = [], dst_AvailableReplicas = 0, dst_ReadyReplicas = 0\<rparr>\<rparr>
      in case k_set_controller_ref k workspace (d_meta d) of
           Inl e \<Rightarrow> Inl (Wrap ''failed to set controller reference'' e)
         | Inr m \<Rightarrow> Inr (d\<lparr>d_meta := m\<rparr>))"

subsection \<open>Access strategy\<close>

definition getPrimaryContainerMergeEnv :: "access_strategy option \<Rightarrow> access_env_template list option" where
  "getPrimaryContainerMergeEnv accessStrategy = (case accessStrategy of
     None \<Rightarrow> None
   | Some a \<Rightarrow> (case as_DeploymentModifications (a_Spec a) of
       None \<Rightarrow> None
     | Some dm \<Rightarrow> (case dm_PodModifications dm of
         None \<Rightarrow> None
       | Some pm \<Rightarrow> (case pm_PrimaryContainerModifications pm of
           None \<Rightarrow> None
         | Some pcm \<Rightarrow> if length (pcm_MergeEnv pcm) > 0 then Some (pcm_MergeEnv pcm) else None))))"

text \<open>The loop over the templates; each resolved variable is a map with the keys \<open>name\<close> and \<open>value\<close>.\<close>

fun resolve_env_loop ::
  "client \<Rightarrow> tmpl_data \<Rightarrow> access_env_template list \<Rightarrow> smap list \<Rightarrow> smap list res" where
  "resolve_env_loop k data [] envVars = Inr envVars"
| "resolve_env_loop k data (t # ts) envVars =
     (case k_template k False (aet_ValueTemplate t) data of
        TmplParseError e \<Rightarrow> Inl (Wrap (''failed to parse env template for '' @ aet_Name t) e)
      | TmplExecError e \<Rightarrow> Inl (Wrap (''failed to execute env template for '' @ aet_Name t) e)
      | TmplOutput v \<Rightarrow>
          resolve_env_loop k data ts (envVars @ [[''name'' \<mapsto> aet_Name t, ''value'' \<mapsto> v]]))"

definition resolveAccessStrategyPrimaryContainerEnv ::
  "client \<Rightarrow> access_strategy \<Rightarrow> workspace \<Rightarrow> smap list res" where
  "resolveAccessStrategyPrimaryContainerEnv k accessStrategy workspace =
     (case getPrimaryContainerMergeEnv (Some accessStrategy) of
        None \<Rightarrow> Inr []
      | Some ts \<Rightarrow> resolve_env_loop k
          \<lparr>td_Workspace = workspace, td_AccessStrategy = accessStrategy, td_Service = None\<rparr> ts [])"

text \<open>The search loop of one variable: the first entry of that name is overwritten, else appended.\<close>

fun set_env :: "string \<Rightarrow> string \<Rightarrow> env_var list \<Rightarrow> env_var list" where
  "set_env name val [] = [\<lparr>ev_Name = name, ev_Value = val\<rparr>]"
| "set_env name val (e # es) =
     (if ev_Name e = name then e\<lparr>ev_Value := val\<rparr> # es else e # set_env name val es)"

fun add_env_loop :: "smap list \<Rightarrow> env_var list \<Rightarrow> env_var list res" where
  "add_env_loop [] env = Inr env"
| "add_env_loop (m # ms) env =
     (case m ''name'' of
        None \<Rightarrow> Inl (Msg (''environment variable missing name: ''))
      | Some name \<Rightarrow> (case m ''value'' of
          None \<Rightarrow> Inl (Msg (''environment variable '' @ name @ '' missing value''))
        | Some val \<Rightarrow> add_env_loop ms (set_env name val env)))"

definition addAccessStrategyEnvToContainer ::
  "client \<Rightarrow> container \<Rightarrow> workspace \<Rightarrow> access_strategy \<Rightarrow> container res" where
  "addAccessStrategyEnvToContainer k c workspace accessStrategy =
     (case resolveAccessStrategyPrimaryContainerEnv k accessStrategy workspace of
        Inl e \<Rightarrow> Inl e
      | Inr env \<Rightarrow> (case add_env_loop env (c_Env c) of
          Inl e \<Rightarrow> Inl e | Inr env' \<Rightarrow> Inr (c\<lparr>c_Env := env'\<rparr>)))"

text \<open>The pod part of a deployment, as the access strategy code addresses it.\<close>

abbreviation d_Pod :: "deployment \<Rightarrow> pod_spec" where
  "d_Pod d \<equiv> ds_PodSpec (d_Spec d)"

definition with_pod :: "deployment \<Rightarrow> pod_spec \<Rightarrow> deployment" where
  "with_pod d p = d\<lparr>d_Spec := (d_Spec d)\<lparr>ds_PodSpec := p\<rparr>\<rparr>"

definition applyDeploymentSpecModifications :: "deployment \<Rightarrow> access_strategy \<Rightarrow> deployment res" where
  "applyDeploymentSpecModifications deployment accessStrategy =
     (case as_DeploymentModifications (a_Spec accessStrategy) of
        None \<Rightarrow> Inr deployment
      | Some mods \<Rightarrow> (case dm_PodModifications mods of
          None \<Rightarrow> Inr deployment
        | Some pm \<Rightarrow>
            let p = d_Pod deployment;
                p = (if length (pm_Volumes pm) > 0
                     then p\<lparr>ps_Volumes := ps_Volumes p @ pm_Volumes pm\<rparr> else p);
                mounts = (case pm_PrimaryContainerModifications pm of
                            None \<Rightarrow> [] | Some pcm \<Rightarrow> pcm_VolumeMounts pcm)
            in if length mounts > 0 \<and> ps_Containers p = []
               then Inl (Msg ''no containers found in deployment to add volume mounts'')
               else let p = (if length mounts > 0
                             then p\<lparr>ps_Containers :=
                                 (hd (ps_Containers p))\<lparr>c_VolumeMounts :=
                                    c_VolumeMounts (hd (ps_Containers p)) @ mounts\<rparr>
                                 # tl (ps_Containers p)\<rparr>
                             else p);
                        p = (if length (pm_InitContainers pm) > 0
                             then p\<lparr>ps_InitContainers := ps_InitContainers p @ pm_InitContainers pm\<rparr> else p);
                        p = (if length (pm_AdditionalContainers pm) > 0
                             then p\<lparr>ps_Containers := ps_Containers p @ pm_AdditionalContainers pm\<rparr> else p)
                    in Inr (with_pod deployment p)))"

definition ApplyAccessStrategyToDeployment ::
  "client \<Rightarrow> deployment \<Rightarrow> workspace \<Rightarrow> access_strategy \<Rightarrow> deployment res" where
  "ApplyAccessStrategyToDeployment k deployment workspace accessStrategy =
     (case ps_Containers (d_Pod deployment) of
        [] \<Rightarrow> Inl (Panic ''index out of range [0] with length 0'')
      | c # cs \<Rightarrow> (case addAccessStrategyEnvToContainer k c workspace accessStrategy of
          Inl e \<Rightarrow> Inl (Wrap ''failed to add environment variables to container'' e)
        | Inr c' \<Rightarrow>
            (case applyDeploymentSpecModifications
                    (with_pod deployment ((d_Pod deployment)\<lparr>ps_Containers := c' # cs\<rparr>)) accessStrategy of
               Inl e \<Rightarrow> Inl (Wrap ''failed to apply deployment spec modifications'' e)
             | Inr d \<Rightarrow> Inr d)))"

definition BuildDeploymentWithAccessStrategy ::
  "client \<Rightarrow> controller_options \<Rightarrow> workspace \<Rightarrow> access_strategy option \<Rightarrow> deployment res" where
  "BuildDeploymentWithAccessStrategy k options workspace accessStrategy =
     (case BuildDeployment k options workspace of
        Inl e \<Rightarrow> Inl e
      | Inr d \<Rightarrow> (case accessStrategy of
          None \<Rightarrow> Inr d
        | Some a \<Rightarrow> (case ApplyAccessStrategyToDeployment k d workspace a of
            Inl e \<Rightarrow> Inl (Wrap ''failed to apply access strategy to deployment'' e)
          | Inr d' \<Rightarrow> Inr d')))"

definition deployment_NeedsUpdate ::
  "client \<Rightarrow> controller_options \<Rightarrow> deployment \<Rightarrow> workspace \<Rightarrow> access_strategy option \<Rightarrow> bool res" where
  "deployment_NeedsUpdate k options existingDeployment workspace accessStrategy =
     (case BuildDeploymentWithAccessStrategy k options workspace accessStrategy of
        Inl e \<Rightarrow> Inl (Wrap ''failed to build desired deployment'' e)
      | Inr desired \<Rightarrow> Inr (\<not> pod_spec_sem_eq (d_Pod existingDeployment) (d_Pod desired)))"

section \<open>Access resources\<close>

text \<open>\<open>apiVersion\<close> split into group and version; the core group has no prefix.\<close>

definition parse_api_version :: "string \<Rightarrow> string \<times> string" where
  "parse_api_version apiVersion = (case split_char (CHR ''/'') apiVersion of
     [grp, version] \<Rightarrow> (grp, version) | _ \<Rightarrow> ('''', apiVersion))"

definition set_access_labels :: "workspace \<Rightarrow> access_strategy \<Rightarrow> smap option \<Rightarrow> smap" where
  "set_access_labels workspace accessStrategy labels =
     (let l = (case labels of None \<Rightarrow> Map.empty | Some l \<Rightarrow> l);
          ns = (if om_Namespace (a_meta accessStrategy) = '''' then w_Namespace workspace
                else om_Namespace (a_meta accessStrategy))
      in l(LabelWorkspaceName \<mapsto> w_Name workspace, LabelWorkspaceNamespace \<mapsto> w_Namespace workspace,
           LabelAccessStrategyName \<mapsto> om_Name (a_meta accessStrategy),
           LabelAccessStrategyNamespace \<mapsto> ns))"

definition BuildUnstructuredResource ::
  "client \<Rightarrow> access_resource_template \<Rightarrow> workspace \<Rightarrow> access_strategy \<Rightarrow> service option \<Rightarrow> unstructured res" where
  "BuildUnstructuredResource k tmpl workspace accessStrategy service =
     (let name = art_NamePrefix tmpl @ ''-'' @ w_Name workspace
      in case k_template k True (art_Template tmpl)
           \<lparr>td_Workspace = workspace, td_AccessStrategy = accessStrategy, td_Service = service\<rparr> of
           TmplParseError e \<Rightarrow> Inl (Wrap ''failed to parse resource template'' e)
         | TmplExecError e \<Rightarrow> Inl (Wrap ''failed to execute resource template'' e)
         | TmplOutput resourceYAML \<Rightarrow>
             (case k_yaml k (''apiVersion: '' @ art_ApiVersion tmpl @ [CHR 0x0A] @ ''kind: '' @
                             art_Kind tmpl @ [CHR 0x0A] @ resourceYAML) of
                Inl e \<Rightarrow> Inl (Wrap ''failed to unmarshal resource YAML'' e)
              | Inr obj \<Rightarrow>
                  let (grp, version) = parse_api_version (art_ApiVersion tmpl)
                  in Inr (obj\<lparr>u_GVK := \<lparr>gvk_Group = grp, gvk_Version = version, gvk_Kind = art_Kind tmpl\<rparr>,
                              u_meta := (u_meta obj)\<lparr>om_Name := name, om_Namespace := w_Namespace workspace,
                                om_Labels := Some (set_access_labels workspace accessStrategy
                                                     (om_Labels (u_meta obj)))\<rparr>\<rparr>)))"

definition ResolveAccessURL ::
  "client \<Rightarrow> workspace \<Rightarrow> access_strategy \<Rightarrow> service option \<Rightarrow> string res" where
  "ResolveAccessURL k workspace accessStrategy service =
     (let accessUrlTemplate = as_AccessURLTemplate (a_Spec accessStrategy)
      in if accessUrlTemplate = '''' then Inr ''''
         else case k_template k True accessUrlTemplate
                \<lparr>td_Workspace = workspace, td_AccessStrategy = accessStrategy, td_Service = service\<rparr> of
                TmplParseError e \<Rightarrow> Inl (Wrap ''failed to parse AccessURLTemplate'' e)
              | TmplExecError e \<Rightarrow> Inl (Wrap ''failed to execute AccessURLTemplate'' e)
              | TmplOutput u \<Rightarrow> Inr u)"

definition ResolveAccessResourceSelector :: "workspace \<Rightarrow> access_strategy \<Rightarrow> string" where
  "ResolveAccessResourceSelector workspace accessStrategy =
     (if \<not> length (as_AccessResourceTemplates (a_Spec accessStrategy)) > 0 then ''''
      else LabelWorkspaceName @ ''='' @ w_Name workspace)"

section \<open>The contract between comparing and updating\<close>

text \<open>
  What the resource manager relies on when it brings a live object up to date: a successful copy
  of the desired spec leaves nothing to update and keeps the metadata, and a comparison that asks
  for an update is followed by a copy that succeeds.
\<close>

locale object_updater =
  fixes needs :: "'o \<Rightarrow> workspace \<Rightarrow> bool res"
    and upd :: "'o \<Rightarrow> workspace \<Rightarrow> 'o res"
    and meta :: "'o \<Rightarrow> object_meta"
  assumes converges: "upd x w = Inr x' \<Longrightarrow> needs x' w = Inr False"
    and keeps_meta: "upd x w = Inr x' \<Longrightarrow> meta x' = meta x"
    and possible: "needs x w = Inr True \<Longrightarrow> \<exists>x'. upd x w = Inr x'"
begin

text \<open>Comparing and copying once reaches an object that needs no update.\<close>

lemma one_step:
  assumes "needs x w = Inr b"
  shows "\<exists>x'. (if b then upd x w = Inr x' else x' = x) \<and> needs x' w = Inr False \<and> meta x' = meta x"
  using assms possible [of x w] converges keeps_meta by (cases b) auto

end

lemma BuildPVC_Some:
  "BuildPVC k w = Inr (Some p) \<Longrightarrow>
     p_Spec p = buildPVCSpecWithSize (resolveStorageSize w) (resolveStorageClassName w)"
  by (auto simp: BuildPVC_def ResolveStorageConfig_def Let_def split: option.splits sum.splits if_splits)

interpretation pvc_upd: object_updater "pvc_NeedsUpdate k" "UpdatePVCSpec k" p_meta
proof unfold_locales
  fix x w x'
  assume a: "UpdatePVCSpec k x w = Inr x'"
  then show "p_meta x' = p_meta x"
    by (auto simp: UpdatePVCSpec_def split: sum.splits option.splits)
  from a obtain p where "BuildPVC k w = Inr (Some p)"
    by (auto simp: UpdatePVCSpec_def split: sum.splits option.splits)
  with a show "pvc_NeedsUpdate k x' w = Inr False"
    by (auto simp: UpdatePVCSpec_def pvc_NeedsUpdate_def)
next
  fix x w
  assume "pvc_NeedsUpdate k x w = Inr True"
  then show "\<exists>x'. UpdatePVCSpec k x w = Inr x'"
    by (auto simp: UpdatePVCSpec_def pvc_NeedsUpdate_def split: sum.splits option.splits)
qed

interpretation service_upd: object_updater "service_NeedsUpdate k" "UpdateServiceSpec k" s_meta
  by unfold_locales
    (auto simp: UpdateServiceSpec_def service_NeedsUpdate_def split: sum.splits)

text \<open>The resource manager rebuilds a deployment's spec with the access strategy at hand.\<close>

definition update_deployment_spec ::
  "client \<Rightarrow> controller_options \<Rightarrow> access_strategy option \<Rightarrow> deployment \<Rightarrow> workspace \<Rightarrow> deployment res" where
  "update_deployment_spec k options accessStrategy deployment workspace =
     (case BuildDeploymentWithAccessStrategy k options workspace accessStrategy of
        Inl e \<Rightarrow> Inl (Wrap ''failed to build updated deployment'' e)
      | Inr d \<Rightarrow> Inr (deployment\<lparr>d_Spec := d_Spec d\<rparr>))"

interpretation deployment_upd: object_updater
  "\<lambda>d w. deployment_NeedsUpdate k options d w a" "update_deployment_spec k options a" d_meta
  by unfold_locales
    (auto simp: update_deployment_spec_def deployment_NeedsUpdate_def split: sum.splits)

section \<open>Properties\<close>

lemma contains_slash_iff: "contains s ''/'' \<longleftrightarrow> CHR ''/'' \<in> set s"
  by (induction s) (auto simp: has_prefix_iff)

text \<open>
  Image resolution under a registry. With a non-empty registry and an image reference that
  has no slash before its first colon (a bare name, with or without a tag), the resolved image is
  the registry, a slash, the name, a colon and the tag, \<open>latest\<close> when none is given; a reference
  with a slash before its first colon, and every reference when no registry is set, is kept.
\<close>

theorem ResolveImage_user_image:
  assumes "ws_Image (w_Spec w) = repository @ rest"
    and "rest = '''' \<or> (\<exists>tag. rest = CHR '':'' # tag)"
    and "CHR '':'' \<notin> set repository" and "repository \<noteq> ''''"
    and "ws_Image (w_Spec w) \<noteq> ''uv''"
  shows "ResolveImage registry w =
     (if registry = '''' \<or> CHR ''/'' \<in> set repository then ws_Image (w_Spec w)
      else registry @ ''/'' @ repository @ (if rest = '''' then '':latest'' else rest))"
proof -
  have builtin: "\<not> IsBuiltInImage (ws_Image (w_Spec w))"
    using assms(5) by (simp add: IsBuiltInImage_def jupyterImages_def)
  from assms(2) show ?thesis
  proof
    assume "rest = ''''"
    then show ?thesis
      using assms builtin
      by (auto simp: ResolveImage_def Let_def contains_slash_iff split_char2_no_sep)
  next
    assume "\<exists>tag. rest = CHR '':'' # tag"
    then obtain tag where "rest = CHR '':'' # tag" by blast
    then show ?thesis
      using assms builtin
      by (auto simp: ResolveImage_def Let_def contains_slash_iff split_char2_append)
  qed
qed

theorem ResolveImage_user_image_witness:
  "ResolveImage ''reg.io/team'' (sample_workspace\<lparr>w_Spec := empty_spec\<lparr>ws_Image := ''nb:v1''\<rparr>\<rparr>) =
     ''reg.io/team/nb:v1''"
  using ResolveImage_user_image [of "sample_workspace\<lparr>w_Spec := empty_spec\<lparr>ws_Image := ''nb:v1''\<rparr>\<rparr>"
      "''nb''" "'':v1''" "''reg.io/team''"]
  by simp

text \<open>
  A registry host with a port is not recognised as a registry: the reference is cut at the
  first colon, the part before it has no slash, and the configured registry is prepended to a
  reference that already names one.
\<close>

theorem ResolveImage_registry_port:
  "ResolveImage ''reg'' (sample_workspace\<lparr>w_Spec := empty_spec\<lparr>ws_Image := ''localhost:5000/nb:v1''\<rparr>\<rparr>) =
     ''reg/localhost:5000/nb:v1''"
  by (simp add: ResolveImage_def IsBuiltInImage_def jupyterImages_def Let_def)

text \<open>
  Bringing an object up to date converges in one step, for claims, services and deployments:
  when the comparison with the desired object succeeds, either it reports no difference or the
  desired spec can be copied into the live object, and the object obtained compares equal to the
  desired one and keeps its metadata.
\<close>

theorem update_converges:
  shows "(pvc_NeedsUpdate k p w = Inr b \<longrightarrow>
      (\<exists>p'. (if b then UpdatePVCSpec k p w = Inr p' else p' = p) \<and>
            pvc_NeedsUpdate k p' w = Inr False \<and> p_meta p' = p_meta p)) \<and>
    (service_NeedsUpdate k s w = Inr b \<longrightarrow>
      (\<exists>s'. (if b then UpdateServiceSpec k s w = Inr s' else s' = s) \<and>
            service_NeedsUpdate k s' w = Inr False \<and> s_meta s' = s_meta s)) \<and>
    (deployment_NeedsUpdate k options d w a = Inr b \<longrightarrow>
      (\<exists>d'. (if b then update_deployment_spec k options a d w = Inr d' else d' = d) \<and>
            deployment_NeedsUpdate k options d' w a = Inr False \<and> d_meta d' = d_meta d))"
  using pvc_upd.one_step [of k p w b] service_upd.one_step [of k s w b]
    deployment_upd.one_step [where k = k and options = options and a = a and x = d and w = w and b = b]
  by blast

text \<open>An object whose spec is empty, and one whose claim is smaller than asked for.\<close>

definition sample_service :: service where
  "sample_service = \<lparr>s_meta = empty_meta, s_Spec = \<lparr>sv_Type = '''', sv_Selector = Map.empty,
     sv_Ports = [], sv_Other = ''''\<rparr>, s_Ingress = []\<rparr>"

theorem update_converges_witness:
  "service_NeedsUpdate empty_server sample_service sample_workspace = Inr True \<and>
   (\<exists>s'. UpdateServiceSpec empty_server sample_service sample_workspace = Inr s' \<and>
         service_NeedsUpdate empty_server s' sample_workspace = Inr False \<and> s_meta s' = s_meta sample_service)"
proof -
  have n: "service_NeedsUpdate empty_server sample_service sample_workspace = Inr True"
    by (simp add: service_NeedsUpdate_def BuildService_def buildServiceSpec_def sample_service_def
        empty_server_def Let_def)
  then show ?thesis
    using update_converges [of empty_server _ sample_workspace True sample_service]
    by (simp add: n)
qed

text \<open>
  The pod a deployment starts from: the names the primary container mounts are exactly the names of
  the declared volumes, in the same order.
\<close>

lemma buildPodSpec_mounts:
  "\<exists>c. ps_Containers (buildPodSpec options w r) = [c] \<and>
       map vm_Name (c_VolumeMounts c) = map v_Name (ps_Volumes (buildPodSpec options w r))"
  by (auto simp: buildPodSpec_def buildPrimaryContainer_def Let_def split: option.splits)

definition as_pod_mods :: "access_strategy \<Rightarrow> pod_modifications option" where
  "as_pod_mods a = (case as_DeploymentModifications (a_Spec a) of
     None \<Rightarrow> None | Some dm \<Rightarrow> dm_PodModifications dm)"

definition as_mounts :: "access_strategy \<Rightarrow> volume_mount list" where
  "as_mounts a = (case as_pod_mods a of None \<Rightarrow> [] | Some pm \<Rightarrow>
     (case pm_PrimaryContainerModifications pm of None \<Rightarrow> [] | Some pcm \<Rightarrow> pcm_VolumeMounts pcm))"

definition as_list :: "(pod_modifications \<Rightarrow> 'a list) \<Rightarrow> access_strategy \<Rightarrow> 'a list" where
  "as_list f a = (case as_pod_mods a of None \<Rightarrow> [] | Some pm \<Rightarrow> f pm)"

lemma applyDeploymentSpecModifications_pod:
  assumes "ps_Containers (d_Pod d) = c # cs"
  shows "applyDeploymentSpecModifications d a =
     Inr (with_pod d ((d_Pod d)
       \<lparr>ps_Volumes := ps_Volumes (d_Pod d) @ as_list pm_Volumes a,
        ps_Containers := c\<lparr>c_VolumeMounts := c_VolumeMounts c @ as_mounts a\<rparr> # cs
                           @ as_list pm_AdditionalContainers a,
        ps_InitContainers := ps_InitContainers (d_Pod d) @ as_list pm_InitContainers a\<rparr>))"
  using assms
  by (cases "ds_PodSpec (d_Spec d)")
     (auto simp: applyDeploymentSpecModifications_def as_list_def as_mounts_def as_pod_mods_def Let_def
      with_pod_def split: option.splits)

lemma BuildDeployment_Inr:
  "BuildDeployment k options w = Inr d \<Longrightarrow>
     d_Spec d = buildDeploymentSpec options w (parseResourceRequirements w)"
  by (auto simp: BuildDeployment_def Let_def split: sum.splits)

lemma addAccessStrategyEnv_only_env:
  "addAccessStrategyEnvToContainer k c w a = Inr c' \<Longrightarrow> c' = c\<lparr>c_Env := c_Env c'\<rparr>"
  by (auto simp: addAccessStrategyEnvToContainer_def split: sum.splits)

lemma ApplyAccessStrategyToDeployment_pod:
  assumes "ApplyAccessStrategyToDeployment k d0 w x = Inr d" and "ps_Containers (d_Pod d0) = [c0]"
  obtains env where "ps_Volumes (d_Pod d) = ps_Volumes (d_Pod d0) @ as_list pm_Volumes x"
    and "ps_Containers (d_Pod d) =
           c0\<lparr>c_Env := env, c_VolumeMounts := c_VolumeMounts c0 @ as_mounts x\<rparr> #
           as_list pm_AdditionalContainers x"
proof -
  obtain c' where c': "addAccessStrategyEnvToContainer k c0 w x = Inr c'"
    using assms by (auto simp: ApplyAccessStrategyToDeployment_def split: sum.splits)
  then obtain env where env: "c' = c0\<lparr>c_Env := env\<rparr>"
    using addAccessStrategyEnv_only_env by blast
  have "ps_Containers (d_Pod (with_pod d0 ((d_Pod d0)\<lparr>ps_Containers := [c']\<rparr>))) = c' # []"
    by (simp add: with_pod_def)
  from applyDeploymentSpecModifications_pod [OF this, of x] show ?thesis
    using assms c' env that [of env]
    by (auto simp: ApplyAccessStrategyToDeployment_def with_pod_def)
qed

text \<open>What an access strategy, when there is one, adds to a list of the pod.\<close>

definition added :: "(access_strategy \<Rightarrow> 'a list) \<Rightarrow> access_strategy option \<Rightarrow> 'a list" where
  "added f a = (case a of None \<Rightarrow> [] | Some x \<Rightarrow> f x)"

lemma BuildDeploymentWithAccessStrategy_pod:
  assumes "BuildDeploymentWithAccessStrategy k options w a = Inr d"
  obtains c0 env where "c0 = buildPrimaryContainer options w (parseResourceRequirements w)"
    and "ps_Volumes (d_Pod d) = ps_Volumes (buildPodSpec options w (parseResourceRequirements w)) @
           added (as_list pm_Volumes) a"
    and "ps_Containers (d_Pod d) =
           c0\<lparr>c_Env := env, c_VolumeMounts := c_VolumeMounts c0 @ added as_mounts a\<rparr> #
           added (as_list pm_AdditionalContainers) a"
proof -
  obtain d0 where d0: "BuildDeployment k options w = Inr d0"
    using assms by (auto simp: BuildDeploymentWithAccessStrategy_def split: sum.splits)
  define c0 where "c0 = buildPrimaryContainer options w (parseResourceRequirements w)"
  have pod: "d_Pod d0 = buildPodSpec options w (parseResourceRequirements w)"
    by (simp add: BuildDeployment_Inr [OF d0] buildDeploymentSpec_def)
  then have cont: "ps_Containers (d_Pod d0) = [c0]"
    by (simp add: buildPodSpec_def c0_def Let_def)
  show ?thesis
  proof (cases a)
    case None
    then show ?thesis
      using assms d0 cont pod that [OF c0_def, of "c_Env c0"]
      by (simp add: BuildDeploymentWithAccessStrategy_def added_def)
  next
    case (Some x)
    then have "ApplyAccessStrategyToDeployment k d0 w x = Inr d"
      using assms d0 by (auto simp: BuildDeploymentWithAccessStrategy_def split: sum.splits)
    from ApplyAccessStrategyToDeployment_pod [OF this cont] show ?thesis
      using pod that [OF c0_def] Some by (metis added_def option.simps(5))
  qed
qed

text \<open>
  The deployment built for a workspace, with or without an access strategy: its first container
  is named \<open>workspace\<close>, runs the resolved image and requests the resolved resources, and when the
  mounts an access strategy adds name volumes it also adds or volumes of the workspace, every
  volume mount of that container names a volume the pod declares.
\<close>

theorem BuildDeployment_primary_container:
  assumes "BuildDeploymentWithAccessStrategy k options w a = Inr d"
    and "set (map vm_Name (added as_mounts a)) \<subseteq>
      set (map v_Name (added (as_list pm_Volumes) a)) \<union>
      set (map v_Name (ps_Volumes (buildPodSpec options w (parseResourceRequirements w))))"
  shows "\<exists>c cs. ps_Containers (d_Pod d) = c # cs \<and> c_Name c = ''workspace'' \<and>
     c_Image c = ResolveImage (co_ApplicationImagesRegistry options) w \<and>
     c_Resources c = parseResourceRequirements w \<and>
     set (map vm_Name (c_VolumeMounts c)) \<subseteq> set (map v_Name (ps_Volumes (d_Pod d)))"
proof -
  obtain c0 env where c0: "c0 = buildPrimaryContainer options w (parseResourceRequirements w)"
    and vols: "ps_Volumes (d_Pod d) =
           ps_Volumes (buildPodSpec options w (parseResourceRequirements w)) @
           added (as_list pm_Volumes) a"
    and conts: "ps_Containers (d_Pod d) =
           c0\<lparr>c_Env := env, c_VolumeMounts := c_VolumeMounts c0 @ added as_mounts a\<rparr> #
           added (as_list pm_AdditionalContainers) a"
    by (rule BuildDeploymentWithAccessStrategy_pod [OF assms(1)])
  have names: "map vm_Name (c_VolumeMounts c0) =
      map v_Name (ps_Volumes (buildPodSpec options w (parseResourceRequirements w)))"
    using buildPodSpec_mounts [of options w "parseResourceRequirements w"]
    by (simp add: c0 buildPodSpec_def Let_def)
  have "c_Name c0 = ''workspace''" "c_Resources c0 = parseResourceRequirements w"
    "c_Image c0 = ResolveImage (co_ApplicationImagesRegistry options) w"
    by (simp_all add: c0 buildPrimaryContainer_def Let_def split: prod.splits)
  moreover have "set (map vm_Name (c_VolumeMounts c0 @ added as_mounts a)) \<subseteq>
      set (map v_Name (ps_Volumes (d_Pod d)))"
    using assms(2) unfolding map_append set_append names vols by auto
  ultimately show ?thesis
    using conts by (simp add: image_Un)
qed

definition sample_options :: controller_options where
  "sample_options = \<lparr>co_ApplicationImagesPullPolicy = ''Always'', co_ApplicationImagesRegistry = '''',
     co_WatchTraefik = False, co_ResourceWatches = [], co_EnableWorkspacePodWatching = False,
     co_DefaultTemplateNamespace = ''''\<rparr>"

lemma BuildDeployment_empty_server:
  "\<exists>d. BuildDeploymentWithAccessStrategy empty_server options w None = Inr d"
  by (simp add: BuildDeploymentWithAccessStrategy_def BuildDeployment_def empty_server_def Let_def)

theorem BuildDeployment_primary_container_witness:
  "\<exists>d. BuildDeploymentWithAccessStrategy empty_server sample_options sample_workspace None = Inr d \<and>
     (\<exists>c cs. ps_Containers (d_Pod d) = c # cs \<and> c_Image c = DefaultJupyterImage)"
proof -
  obtain d where d: "BuildDeploymentWithAccessStrategy empty_server sample_options sample_workspace None = Inr d"
    using BuildDeployment_empty_server by blast
  have "ResolveImage '''' sample_workspace = DefaultJupyterImage"
    by (simp add: ResolveImage_def sample_workspace_def empty_spec_def IsBuiltInImage_def
        jupyterImages_def Let_def)
  then show ?thesis
    using BuildDeployment_primary_container [OF d] d by (auto simp: added_def sample_options_def)
qed

lemma map_le_map_add_iff: "g \<subseteq>\<^sub>m g ++ l \<longleftrightarrow> (\<forall>x \<in> dom g. l x \<in> {None, g x})"
proof -
  have "(g x = (g ++ l) x) \<longleftrightarrow> l x \<in> {None, g x}" for x
    by (cases "l x") (auto simp: map_add_def)
  then show ?thesis
    by (simp add: map_le_def)
qed

lemma dom_GenerateLabels: "dom (GenerateLabels n) = {''app'', LabelWorkspaceName, LabelComponent}"
  by (auto simp: GenerateLabels_def)

lemma GenerateLabels_apply:
  "GenerateLabels n ''app'' = Some ''jupyter''" "GenerateLabels n LabelWorkspaceName = Some n"
  "GenerateLabels n LabelComponent = Some ''workspace''"
  by (simp_all add: GenerateLabels_def)

text \<open>
  The deployment's selector matches its own pod template exactly when no label of the workspace
  gives another value to one of the three generated labels; user labels override the generated ones
  in the pod template while the selector keeps the generated values.
\<close>

theorem selector_matches_template:
  "ds_Selector (buildDeploymentSpec options w r) \<subseteq>\<^sub>m ds_TemplateLabels (buildDeploymentSpec options w r)
   \<longleftrightarrow> (case w_Labels w of None \<Rightarrow> True
        | Some l \<Rightarrow> l ''app'' \<in> {None, Some ''jupyter''} \<and> l LabelWorkspaceName \<in> {None, Some (w_Name w)} \<and>
                   l LabelComponent \<in> {None, Some ''workspace''})"
  by (cases "w_Labels w")
     (simp_all only: buildDeploymentSpec_def buildPodLabels_def copy_labels_def option.case
       deployment_spec.simps map_le_map_add_iff dom_GenerateLabels ball_simps GenerateLabels_apply
       map_le_refl simp_thms)

end
