(* ===== verification/ResourceManager.thy ===== *)
theory ResourceManager
  imports Builders
begin

text \<open>
  The resource manager (\<open>internal/controller/resource_manager.go\<close>, \<open>resource_manager_helper.go\<close>,
  \<open>resource_manager_access.go\<close>): reading, creating, updating and deleting the deployment, service
  and claim of a workspace, and the routing objects an access strategy defines.

  A pair \<open>(object, error)\<close> of the source is a sum; a nil object without an error is \<open>Inr None\<close>.
  Operations that modify the workspace's status through its pointer return the workspace.

  The locale \<open>ensure_deleted\<close> states the contract of the deletion operations, \<open>ensure_exists\<close> that
  of the creating ones; both are interpreted on the operations of the model.
\<close>

section \<open>Calls\<close>

text \<open>Sequencing on the error of a call, as \<open>if err != nil { return ..., err }\<close> does.\<close>

definition on_ok :: "('a res) io \<Rightarrow> (goerr \<Rightarrow> goerr) \<Rightarrow> ('a \<Rightarrow> ('b res) io) \<Rightarrow> ('b res) io" where
  "on_ok m w f = do {
     r \<leftarrow> m;
     (case r of Inl e \<Rightarrow> State_Monad.return (Inl (w e)) | Inr x \<Rightarrow> f x)
   }"

lemma run_on_ok [simp]:
  "run_state (on_ok m w f) h = (case run_state m h of
     (Inl e, h') \<Rightarrow> (Inl (w e), h') | (Inr x, h') \<Rightarrow> run_state (f x) h')"
  by (auto simp: on_ok_def split: prod.splits sum.splits)

lemma issues_only_on_ok [intro]:
  "issues_only P m \<Longrightarrow> (\<And>x. issues_only P (f x)) \<Longrightarrow> issues_only P (on_ok m w f)"
  unfolding on_ok_def by (rule issues_only_bind) (auto split: sum.splits)

definition lift :: "'a res \<Rightarrow> ('a res) io" where
  "lift r = State_Monad.return r"

lemma run_lift [simp]: "run_state (lift r) h = (r, h)"
  by (simp add: lift_def)

lemma issues_only_lift [intro, simp]: "issues_only P (lift r)"
  by (simp add: lift_def)

text \<open>The error of a deletion as a result.\<close>

definition del_res :: "goerr option \<Rightarrow> unit res" where
  "del_res r = (case r of None \<Rightarrow> Inr () | Some e \<Rightarrow> Inl e)"

section \<open>Helpers\<close>

fun deployment_condition_loop :: "(string \<times> cond_status) list \<Rightarrow> bool option" where
  "deployment_condition_loop [] = None"
| "deployment_condition_loop ((t, s) # cs) =
     (if t = ''Available'' then Some (s = CTrue) else deployment_condition_loop cs)"

text \<open>The fallback dereferences \<open>Spec.Replicas\<close>, a run-time panic when it is nil.\<close>

definition IsDeploymentAvailable :: "deployment option \<Rightarrow> bool res" where
  "IsDeploymentAvailable deployment = (case deployment of
     None \<Rightarrow> Inr False
   | Some d \<Rightarrow> (case deployment_condition_loop (dst_Conditions (d_Status d)) of
       Some b \<Rightarrow> Inr b
     | None \<Rightarrow>
         if dst_AvailableReplicas (d_Status d) > 0
         then (case ds_Replicas (d_Spec d) of
                 None \<Rightarrow> Inl (Panic ''nil pointer dereference'')
               | Some r \<Rightarrow> Inr (dst_ReadyReplicas (d_Status d) \<ge> r))
         else Inr False))"

definition IsDeploymentMissingOrDeleting :: "deployment option \<Rightarrow> bool" where
  "IsDeploymentMissingOrDeleting deployment = (case deployment of
     None \<Rightarrow> True | Some d \<Rightarrow> is_deleting (d_meta d))"

definition IsServiceAvailable :: "service option \<Rightarrow> bool" where
  "IsServiceAvailable service = (case service of
     None \<Rightarrow> False
   | Some s \<Rightarrow> if sv_Type (s_Spec s) = ''LoadBalancer'' then length (s_Ingress s) > 0 else True)"

definition IsServiceMissingOrDeleting :: "service option \<Rightarrow> bool" where
  "IsServiceMissingOrDeleting service = (case service of
     None \<Rightarrow> True | Some s \<Rightarrow> is_deleting (s_meta s))"

definition IsPVCMissingOrDeleting :: "pvc option \<Rightarrow> bool" where
  "IsPVCMissingOrDeleting p = (case p of None \<Rightarrow> True | Some x \<Rightarrow> is_deleting (p_meta x))"

section \<open>Reading and creating\<close>

definition getDeployment :: "client \<Rightarrow> workspace \<Rightarrow> (deployment res) io" where
  "getDeployment k workspace =
     (let key = nn (w_Namespace workspace) (GenerateDeploymentName (w_Name workspace))
      in call (\<lambda>h. k_get_Deployment k h key) (CGetDeployment key))"

definition getService :: "client \<Rightarrow> workspace \<Rightarrow> (service res) io" where
  "getService k workspace =
     (let key = nn (w_Namespace workspace) (GenerateServiceName (w_Name workspace))
      in call (\<lambda>h. k_get_Service k h key) (CGetService key))"

definition getPVC :: "client \<Rightarrow> workspace \<Rightarrow> (pvc res) io" where
  "getPVC k workspace =
     (let key = nn (w_Namespace workspace) (GeneratePVCName (w_Name workspace))
      in call (\<lambda>h. k_get_PVC k h key) (CGetPVC key))"

definition createDeployment ::
  "client \<Rightarrow> controller_options \<Rightarrow> workspace \<Rightarrow> access_strategy option \<Rightarrow> (deployment res) io" where
  "createDeployment k options workspace accessStrategy =
     on_ok (lift (BuildDeploymentWithAccessStrategy k options workspace accessStrategy))
       (Wrap ''failed to build deployment'')
       (\<lambda>deployment. on_ok (call (\<lambda>h. k_create_Deployment k h deployment) (CCreateDeployment deployment))
          (Wrap ''failed to create deployment'') (lift \<circ> Inr))"

definition createService :: "client \<Rightarrow> workspace \<Rightarrow> (service res) io" where
  "createService k workspace =
     on_ok (lift (BuildService k workspace)) (Wrap ''failed to build service'')
       (\<lambda>service. on_ok (call (\<lambda>h. k_create_Service k h service) (CCreateService service))
          (Wrap ''failed to create service'') (lift \<circ> Inr))"

definition createPVC :: "client \<Rightarrow> workspace \<Rightarrow> (pvc option res) io" where
  "createPVC k workspace =
     on_ok (lift (BuildPVC k workspace)) (Wrap ''failed to build PVC'')
       (\<lambda>p. case p of
          None \<Rightarrow> lift (Inr None)
        | Some pvc \<Rightarrow> on_ok (call (\<lambda>h. k_create_PVC k h pvc) (CCreatePVC pvc))
            (Wrap ''failed to create PVC'') (lift \<circ> Inr \<circ> Some))"

definition deleteDeployment :: "client \<Rightarrow> deployment \<Rightarrow> (unit res) io" where
  "deleteDeployment k deployment =
     on_ok (call (\<lambda>h. del_res (k_delete_Deployment k h (key_of (d_meta deployment))))
              (CDeleteDeployment (key_of (d_meta deployment))))
       (Wrap ''failed to delete deployment'') (\<lambda>_. lift (Inr ()))"

definition deleteService :: "client \<Rightarrow> service \<Rightarrow> (unit res) io" where
  "deleteService k service =
     on_ok (call (\<lambda>h. del_res (k_delete_Service k h (key_of (s_meta service))))
              (CDeleteService (key_of (s_meta service))))
       (Wrap ''failed to delete service'') (\<lambda>_. lift (Inr ()))"

section \<open>Deployments\<close>

definition GetAccessStrategyForWorkspace :: "client \<Rightarrow> workspace \<Rightarrow> (access_strategy option res) io" where
  "GetAccessStrategyForWorkspace k workspace = (case ws_AccessStrategy (w_Spec workspace) of
     None \<Rightarrow> lift (Inr None)
   | Some ref \<Rightarrow>
       let ns = (if asr_Namespace ref \<noteq> '''' then asr_Namespace ref else w_Namespace workspace);
           key = nn ns (asr_Name ref)
       in on_ok (call (\<lambda>h. k_get_AccessStrategy k h key) (CGetAccessStrategy key))
            (\<lambda>err. if IsNotFound err
                   then Msg (''access strategy '' @ asr_Name ref @ '' not found in namespace '' @ ns)
                   else Wrap ''failed to get access strategy'' err)
            (lift \<circ> Inr \<circ> Some))"

text \<open>
  Both the comparison and the update fetch the access strategy themselves when the caller gave none
  although the workspace names one.
\<close>

definition provided_or_fetched ::
  "client \<Rightarrow> workspace \<Rightarrow> access_strategy option \<Rightarrow> string \<Rightarrow> (access_strategy option res) io" where
  "provided_or_fetched k workspace accessStrategy msg =
     (if accessStrategy = None \<and> ws_AccessStrategy (w_Spec workspace) \<noteq> None
      then on_ok (GetAccessStrategyForWorkspace k workspace) (Wrap msg) (lift \<circ> Inr)
      else lift (Inr accessStrategy))"

definition updateDeployment ::
  "client \<Rightarrow> controller_options \<Rightarrow> deployment \<Rightarrow> workspace \<Rightarrow> access_strategy option \<Rightarrow> (deployment res) io" where
  "updateDeployment k options deployment workspace accessStrategy =
     on_ok (provided_or_fetched k workspace accessStrategy ''failed to retrieve access strategy for deployment'') id
       (\<lambda>a. on_ok (lift (update_deployment_spec k options a deployment workspace)) id
          (\<lambda>d. on_ok (call (\<lambda>h. k_update_Deployment k h d) (CUpdateDeployment d))
             (Wrap ''failed to update deployment'') (lift \<circ> Inr)))"

definition ensureDeploymentUpToDate ::
  "client \<Rightarrow> controller_options \<Rightarrow> deployment \<Rightarrow> workspace \<Rightarrow> access_strategy option \<Rightarrow> (deployment res) io" where
  "ensureDeploymentUpToDate k options deployment workspace accessStrategy =
     (if \<not> IsWorkspaceAvailable workspace then lift (Inr deployment)
      else on_ok (provided_or_fetched k workspace accessStrategy
                    ''failed to retrieve access strategy for comparison'') id
        (\<lambda>a. on_ok (lift (deployment_NeedsUpdate k options deployment workspace a))
                (Wrap ''failed to check if deployment needs update'')
           (\<lambda>needsUpdate. if needsUpdate then updateDeployment k options deployment workspace a
                          else lift (Inr deployment))))"

definition EnsureDeploymentExists ::
  "client \<Rightarrow> controller_options \<Rightarrow> workspace \<Rightarrow> access_strategy option \<Rightarrow> (deployment res) io" where
  "EnsureDeploymentExists k options workspace accessStrategy = do {
     r \<leftarrow> getDeployment k workspace;
     (case r of
        Inl err \<Rightarrow> if IsNotFound err then createDeployment k options workspace accessStrategy
                   else lift (Inl (Wrap ''failed to get deployment'' err))
      | Inr deployment \<Rightarrow> ensureDeploymentUpToDate k options deployment workspace accessStrategy)
   }"

section \<open>Services and claims\<close>

definition updateService :: "client \<Rightarrow> service \<Rightarrow> workspace \<Rightarrow> (service res) io" where
  "updateService k service workspace =
     on_ok (lift (UpdateServiceSpec k service workspace)) (Wrap ''failed to update service spec'')
       (\<lambda>s. on_ok (call (\<lambda>h. k_update_Service k h s) (CUpdateService s))
          (Wrap ''failed to update service'') (lift \<circ> Inr))"

definition ensureServiceUpToDate :: "client \<Rightarrow> service \<Rightarrow> workspace \<Rightarrow> (service res) io" where
  "ensureServiceUpToDate k service workspace =
     (if \<not> IsWorkspaceAvailable workspace then lift (Inr service)
      else on_ok (lift (service_NeedsUpdate k service workspace))
             (Wrap ''failed to check if service needs update'')
        (\<lambda>needsUpdate. if needsUpdate then updateService k service workspace else lift (Inr service)))"

definition EnsureServiceExists :: "client \<Rightarrow> workspace \<Rightarrow> (service res) io" where
  "EnsureServiceExists k workspace = do {
     r \<leftarrow> getService k workspace;
     (case r of
        Inl err \<Rightarrow> if IsNotFound err then createService k workspace
                   else lift (Inl (Wrap ''failed to get service'' err))
      | Inr service \<Rightarrow> ensureServiceUpToDate k service workspace)
   }"

definition updatePVC :: "client \<Rightarrow> pvc \<Rightarrow> workspace \<Rightarrow> (pvc res) io" where
  "updatePVC k p workspace =
     on_ok (lift (UpdatePVCSpec k p workspace)) (Wrap ''failed to update PVC spec'')
       (\<lambda>p'. on_ok (call (\<lambda>h. k_update_PVC k h p') (CUpdatePVC p'))
          (Wrap ''failed to update PVC'') (lift \<circ> Inr))"

definition ensurePVCUpToDate :: "client \<Rightarrow> pvc \<Rightarrow> workspace \<Rightarrow> (pvc res) io" where
  "ensurePVCUpToDate k p workspace =
     (if \<not> IsWorkspaceAvailable workspace then lift (Inr p)
      else on_ok (lift (pvc_NeedsUpdate k p workspace)) (Wrap ''failed to check if PVC needs update'')
        (\<lambda>needsUpdate. if needsUpdate then updatePVC k p workspace else lift (Inr p)))"

definition EnsurePVCExists :: "client \<Rightarrow> workspace \<Rightarrow> (pvc option res) io" where
  "EnsurePVCExists k workspace =
     (if ws_Storage (w_Spec workspace) = None then lift (Inr None)
      else do {
        r \<leftarrow> getPVC k workspace;
        (case r of
           Inl err \<Rightarrow> if IsNotFound err then createPVC k workspace
                      else lift (Inl (Wrap ''failed to get PVC'' err))
         | Inr p \<Rightarrow> on_ok (ensurePVCUpToDate k p workspace) id (lift \<circ> Inr \<circ> Some))
      })"

section \<open>Deletion\<close>

definition EnsureDeploymentDeleted :: "client \<Rightarrow> workspace \<Rightarrow> (deployment option res) io" where
  "EnsureDeploymentDeleted k workspace = do {
     r \<leftarrow> getDeployment k workspace;
     (case r of
        Inl err \<Rightarrow> if IsNotFound err then lift (Inr None)
                   else lift (Inl (Wrap ''failed to get deployment'' err))
      | Inr deployment \<Rightarrow>
          if \<not> IsDeploymentMissingOrDeleting (Some deployment)
          then on_ok (deleteDeployment k deployment) id (\<lambda>_. lift (Inr (Some deployment)))
          else lift (Inr (Some deployment)))
   }"

definition EnsureServiceDeleted :: "client \<Rightarrow> workspace \<Rightarrow> (service option res) io" where
  "EnsureServiceDeleted k workspace = do {
     r \<leftarrow> getService k workspace;
     (case r of
        Inl err \<Rightarrow> if IsNotFound err then lift (Inr None)
                   else lift (Inl (Wrap ''failed to get service'' err))
      | Inr service \<Rightarrow>
          if \<not> IsServiceMissingOrDeleting (Some service)
          then on_ok (deleteService k service) id (\<lambda>_. lift (Inr (Some service)))
          else lift (Inr (Some service)))
   }"

definition EnsurePVCDeleted :: "client \<Rightarrow> workspace \<Rightarrow> (pvc option res) io" where
  "EnsurePVCDeleted k workspace = do {
     r \<leftarrow> getPVC k workspace;
     (case r of
        Inl err \<Rightarrow> if IsNotFound err then lift (Inr None)
                   else lift (Inl (Wrap ''failed to get PVC'' err))
      | Inr p \<Rightarrow>
          if om_DeletionTimestamp (p_meta p) = None
          then on_ok (call (\<lambda>h. del_res (k_delete_PVC k h (key_of (p_meta p))))
                        (CDeletePVC (key_of (p_meta p)))) id (\<lambda>_. lift (Inr (Some p)))
          else lift (Inr (Some p)))
   }"

section \<open>Access resources\<close>

definition getGroupVersionKind :: "string \<Rightarrow> string \<Rightarrow> gvk" where
  "getGroupVersionKind apiVersion kind = (case split_char (CHR ''/'') apiVersion of
     [grp, version] \<Rightarrow> \<lparr>gvk_Group = grp, gvk_Version = version, gvk_Kind = kind\<rparr>
   | _ \<Rightarrow> \<lparr>gvk_Group = '''', gvk_Version = apiVersion, gvk_Kind = kind\<rparr>)"

text \<open>\<open>Unstructured.GetAPIVersion\<close> prints group and version with a slash, the core group without.\<close>

definition gvk_APIVersion :: "gvk \<Rightarrow> string" where
  "gvk_APIVersion g = (if gvk_Group g = '''' then gvk_Version g else gvk_Group g @ ''/'' @ gvk_Version g)"

definition ensureAccessResourceDeleted :: "client \<Rightarrow> access_resource_status \<Rightarrow> (bool res) io" where
  "ensureAccessResourceDeleted k accessResource = do {
     let g = getGroupVersionKind (ars_APIVersion accessResource) (ars_Kind accessResource);
     let key = nn (ars_Namespace accessResource) (ars_Name accessResource);
     r \<leftarrow> call (\<lambda>h. k_get_Unstructured k h g key) (CGetUnstructured g key);
     (case r of
        Inl err \<Rightarrow> if IsNotFound err then lift (Inr True)
                   else lift (Inl (Wrap ''failed to retrieve AccessResource'' err))
      | Inr existing \<Rightarrow> do {
          let ekey = key_of (u_meta existing);
          d \<leftarrow> call (\<lambda>h. k_delete_Unstructured k h (u_GVK existing) ekey)
                 (CDeleteUnstructured (u_GVK existing) ekey);
          (case d of
             Some err \<Rightarrow> if IsNotFound err then lift (Inr True)
                         else lift (Inl (Wrap ''failed to delete resource'' err))
           | None \<Rightarrow> lift (Inr True))
        })
   }"

fun delete_access_loop ::
  "client \<Rightarrow> access_resource_status list \<Rightarrow> access_resource_status list \<Rightarrow> (access_resource_status list res) io" where
  "delete_access_loop k [] filtered = lift (Inr filtered)"
| "delete_access_loop k (r # rs) filtered =
     on_ok (ensureAccessResourceDeleted k r) id
       (\<lambda>removed. delete_access_loop k rs (if \<not> removed then filtered @ [r] else filtered))"

definition set_AccessResources :: "workspace \<Rightarrow> access_resource_status list \<Rightarrow> workspace" where
  "set_AccessResources w rs = w\<lparr>w_Status := (w_Status w)\<lparr>st_AccessResources := rs\<rparr>\<rparr>"

definition EnsureAccessResourcesDeleted :: "client \<Rightarrow> workspace \<Rightarrow> (workspace \<times> goerr option) io" where
  "EnsureAccessResourcesDeleted k workspace =
     (if length (st_AccessResources (w_Status workspace)) = 0
      then State_Monad.return (workspace, None)
      else do {
        r \<leftarrow> delete_access_loop k (st_AccessResources (w_Status workspace)) [];
        State_Monad.return (case r of
            Inl e \<Rightarrow> (workspace, Some e)
          | Inr filtered \<Rightarrow> (set_AccessResources workspace filtered, None))
      })"

definition AreAccessResourcesDeleted :: "workspace \<Rightarrow> bool" where
  "AreAccessResourcesDeleted workspace = (length (st_AccessResources (w_Status workspace)) = 0)"

text \<open>The search of the status loop: index and entry of the first match.\<close>

fun find_access_status ::
  "access_resource_status list \<Rightarrow> string \<Rightarrow> string \<Rightarrow> string \<Rightarrow> nat \<Rightarrow> (nat \<times> access_resource_status) option" where
  "find_access_status [] kind name ns i = None"
| "find_access_status (r # rs) kind name ns i =
     (if ars_Kind r = kind \<and> ars_Name r = name \<and> ars_Namespace r = ns then Some (i, r)
      else find_access_status rs kind name ns (Suc i))"

definition lookup_name :: "access_resource_template \<Rightarrow> workspace \<Rightarrow> string" where
  "lookup_name tmpl workspace = art_NamePrefix tmpl @ ''-'' @ w_Name workspace"

text \<open>Case 2 of the source: create the resource, or update it when it exists already.\<close>

definition create_access_resource ::
  "client \<Rightarrow> workspace \<Rightarrow> access_strategy \<Rightarrow> service option \<Rightarrow> access_resource_template \<Rightarrow> bool
     \<Rightarrow> (workspace \<times> goerr option) io" where
  "create_access_resource k workspace accessStrategy service tmpl addToStatus =
     (case BuildUnstructuredResource k tmpl workspace accessStrategy service of
        Inl e \<Rightarrow> State_Monad.return (workspace, Some (Wrap ''failed to build resource'' e))
      | Inr built \<Rightarrow> (case k_set_controller_ref k workspace (u_meta built) of
          Inl e \<Rightarrow> State_Monad.return (workspace, Some (Wrap ''failed to set controller reference'' e))
        | Inr m \<Rightarrow> do {
            let obj = built\<lparr>u_meta := m\<rparr>;
            let okey = key_of (u_meta obj);
            r \<leftarrow> call (\<lambda>h. k_create_Unstructured k h obj) (CCreateUnstructured obj);
            o' \<leftarrow> (case r of
                Inr o1 \<Rightarrow> lift (Inr o1)
              | Inl err \<Rightarrow>
                  if IsAlreadyExists err
                  then on_ok (call (\<lambda>h. k_get_Unstructured k h (u_GVK obj) okey) (CGetUnstructured (u_GVK obj) okey))
                         (Wrap ''failed to get existing resource'')
                         (\<lambda>existing.
                            let o1 = obj\<lparr>u_meta := (u_meta obj)\<lparr>om_ResourceVersion := om_ResourceVersion (u_meta existing)\<rparr>\<rparr>
                            in on_ok (call (\<lambda>h. k_update_Unstructured k h o1) (CUpdateUnstructured o1))
                                 (Wrap ''failed to update resource'') (lift \<circ> Inr))
                  else lift (Inl (Wrap ''failed to create resource'' err)));
            State_Monad.return (case o' of
                Inl e \<Rightarrow> (workspace, Some e)
              | Inr o1 \<Rightarrow>
                  (if addToStatus
                   then set_AccessResources workspace (st_AccessResources (w_Status workspace) @
                          [\<lparr>ars_Kind = gvk_Kind (u_GVK o1), ars_APIVersion = gvk_APIVersion (u_GVK o1),
                            ars_Name = om_Name (u_meta o1), ars_Namespace = om_Namespace (u_meta o1)\<rparr>])
                   else workspace, None))
          }))"

text \<open>Case 1 of the source: the resource is in the status and the server still has it.\<close>

definition refresh_access_resource ::
  "client \<Rightarrow> workspace \<Rightarrow> access_strategy \<Rightarrow> service option \<Rightarrow> access_resource_template \<Rightarrow> unstructured
     \<Rightarrow> (goerr option) io" where
  "refresh_access_resource k workspace accessStrategy service tmpl existing =
     (case BuildUnstructuredResource k tmpl workspace accessStrategy service of
        Inl e \<Rightarrow> State_Monad.return (Some (Wrap ''failed to build expected resource'' e))
      | Inr expected \<Rightarrow>
          if u_Spec existing \<noteq> None \<and> u_Spec expected \<noteq> None \<and> u_Spec existing \<noteq> u_Spec expected
          then do {
            let obj = expected\<lparr>u_meta := (u_meta expected)\<lparr>om_ResourceVersion := om_ResourceVersion (u_meta existing)\<rparr>\<rparr>;
            r \<leftarrow> call (\<lambda>h. k_update_Unstructured k h obj) (CUpdateUnstructured obj);
            State_Monad.return (case r of Inl e \<Rightarrow> Some (Wrap ''failed to update access resource'' e) | Inr _ \<Rightarrow> None)
          }
          else State_Monad.return None)"

definition ensureAccessResourceExists ::
  "client \<Rightarrow> workspace \<Rightarrow> access_strategy \<Rightarrow> service option \<Rightarrow> access_resource_template \<Rightarrow> string
     \<Rightarrow> (workspace \<times> goerr option) io" where
  "ensureAccessResourceExists k workspace accessStrategy service tmpl ns =
     (case find_access_status (st_AccessResources (w_Status workspace)) (art_Kind tmpl)
             (lookup_name tmpl workspace) ns 0 of
        None \<Rightarrow> create_access_resource k workspace accessStrategy service tmpl True
      | Some (statusIdx, s) \<Rightarrow> do {
          let g = getGroupVersionKind (ars_APIVersion s) (ars_Kind s);
          let key = nn (ars_Namespace s) (ars_Name s);
          r \<leftarrow> call (\<lambda>h. k_get_Unstructured k h g key) (CGetUnstructured g key);
          (case r of
             Inr existing \<Rightarrow> do {
               e \<leftarrow> refresh_access_resource k workspace accessStrategy service tmpl existing;
               State_Monad.return (workspace, e)
             }
           | Inl err \<Rightarrow>
               if \<not> IsNotFound err
               then State_Monad.return (workspace, Some (Wrap ''error getting access resource'' err))
               else let rs = st_AccessResources (w_Status workspace);
                        w = set_AccessResources workspace (take statusIdx rs @ drop (Suc statusIdx) rs)
                    in create_access_resource k w accessStrategy service tmpl True)
        })"

text \<open>The key under which a resource is recorded as defined by the current access strategy.\<close>

definition resource_key :: "string \<Rightarrow> string \<Rightarrow> string \<Rightarrow> string" where
  "resource_key kind name ns = kind @ ''/'' @ name @ ''/'' @ ns"

fun ensure_templates_loop ::
  "client \<Rightarrow> access_strategy \<Rightarrow> service option \<Rightarrow> access_resource_template list \<Rightarrow> workspace
     \<Rightarrow> (workspace \<times> goerr option) io" where
  "ensure_templates_loop k accessStrategy service [] workspace = State_Monad.return (workspace, None)"
| "ensure_templates_loop k accessStrategy service (t # ts) workspace = do {
     r \<leftarrow> ensureAccessResourceExists k workspace accessStrategy service t (w_Namespace workspace);
     (case r of
        (w, Some e) \<Rightarrow> State_Monad.return (w, Some e)
      | (w, None) \<Rightarrow> ensure_templates_loop k accessStrategy service ts w)
   }"

fun delete_removed_loop :: "client \<Rightarrow> access_resource_status list \<Rightarrow> bool \<Rightarrow> (bool res) io" where
  "delete_removed_loop k [] resourcesDeleted = lift (Inr resourcesDeleted)"
| "delete_removed_loop k (r # rs) resourcesDeleted =
     on_ok (ensureAccessResourceDeleted k r) (Wrap ''failed to delete removed access resource'')
       (\<lambda>removed. delete_removed_loop k rs (if removed then True else resourcesDeleted))"

definition EnsureAccessResourcesExist ::
  "client \<Rightarrow> workspace \<Rightarrow> access_strategy \<Rightarrow> service option \<Rightarrow> (workspace \<times> goerr option) io" where
  "EnsureAccessResourcesExist k workspace accessStrategy service =
     (let templates = as_AccessResourceTemplates (a_Spec accessStrategy);
          currentResources = set (map (\<lambda>t. resource_key (art_Kind t) (lookup_name t workspace)
                                             (w_Namespace workspace)) templates)
      in do {
        r \<leftarrow> ensure_templates_loop k accessStrategy service templates workspace;
        (case r of
           (w, Some e) \<Rightarrow> State_Monad.return (w, Some e)
         | (w, None) \<Rightarrow>
             let current = (\<lambda>x. resource_key (ars_Kind x) (ars_Name x) (ars_Namespace x) \<in> currentResources);
                 resourcesToDelete = filter (\<lambda>x. \<not> current x) (st_AccessResources (w_Status w));
                 resourcesToKeep = filter current (st_AccessResources (w_Status w))
             in do {
               d \<leftarrow> delete_removed_loop k resourcesToDelete False;
               State_Monad.return (case d of
                   Inl e \<Rightarrow> (w, Some e)
                 | Inr deleted \<Rightarrow> (if deleted then set_AccessResources w resourcesToKeep else w, None))
             })
      })"

section \<open>Cleanup\<close>

definition AreAllResourcesDeleted :: "client \<Rightarrow> workspace \<Rightarrow> bool io" where
  "AreAllResourcesDeleted k workspace = do {
     d \<leftarrow> getDeployment k workspace;
     (case d of
        Inr _ \<Rightarrow> State_Monad.return False
      | Inl e1 \<Rightarrow> if \<not> IsNotFound e1 then State_Monad.return False else do {
          s \<leftarrow> getService k workspace;
          (case s of
             Inr _ \<Rightarrow> State_Monad.return False
           | Inl e2 \<Rightarrow> if \<not> IsNotFound e2 then State_Monad.return False else do {
               p \<leftarrow> getPVC k workspace;
               (case p of
                  Inr _ \<Rightarrow> State_Monad.return False
                | Inl e3 \<Rightarrow> if \<not> IsNotFound e3 then State_Monad.return False
                            else State_Monad.return (AreAccessResourcesDeleted workspace))
             })
        })
   }"

definition CleanupAllResources :: "client \<Rightarrow> workspace \<Rightarrow> (workspace \<times> bool res) io" where
  "CleanupAllResources k workspace = do {
     (w, accessError) \<leftarrow> EnsureAccessResourcesDeleted k workspace;
     r \<leftarrow> on_ok (EnsureDeploymentDeleted k w) id
            (\<lambda>_. on_ok (EnsureServiceDeleted k w) id
               (\<lambda>_. on_ok (EnsurePVCDeleted k w) id (\<lambda>_. do {
                  gone \<leftarrow> AreAllResourcesDeleted k w;
                  lift (Inr gone) })));
     State_Monad.return (w, r)
   }"

section \<open>The contract of the deletion operations\<close>

locale ensure_deleted =
  fixes get :: "hist \<Rightarrow> nsname \<Rightarrow> 'o res"
    and del :: "hist \<Rightarrow> nsname \<Rightarrow> goerr option"
    and get_call del_call :: "nsname \<Rightarrow> api_call"
    and key :: "workspace \<Rightarrow> nsname"
    and meta :: "'o \<Rightarrow> object_meta"
    and ensure :: "workspace \<Rightarrow> ('o option res) io"
  assumes missing: "get h (key w) = Inl e \<Longrightarrow> IsNotFound e \<Longrightarrow>
      run_state (ensure w) h = (Inr None, h @ [get_call (key w)])"
    and unreadable: "get h (key w) = Inl e \<Longrightarrow> \<not> IsNotFound e \<Longrightarrow>
      \<exists>e'. run_state (ensure w) h = (Inl e', h @ [get_call (key w)])"
    and deleting: "get h (key w) = Inr x \<Longrightarrow> is_deleting (meta x) \<Longrightarrow>
      run_state (ensure w) h = (Inr (Some x), h @ [get_call (key w)])"
    and live: "get h (key w) = Inr x \<Longrightarrow> \<not> is_deleting (meta x) \<Longrightarrow>
      \<exists>r. run_state (ensure w) h = (r, h @ [get_call (key w), del_call (key_of (meta x))]) \<and>
        (case del (h @ [get_call (key w)]) (key_of (meta x)) of
           None \<Rightarrow> r = Inr (Some x) | Some e \<Rightarrow> \<exists>e'. r = Inl e')"
begin

text \<open>Every run reads once and deletes at most once; the object deleted is the one read.\<close>

lemma calls:
  "\<exists>ds. snd (run_state (ensure w) h) = h @ get_call (key w) # ds \<and>
     (ds = [] \<or> (\<exists>x. get h (key w) = Inr x \<and> \<not> is_deleting (meta x) \<and> ds = [del_call (key_of (meta x))]))"
proof (cases "get h (key w)")
  case (Inl e)
  then show ?thesis
    using missing [OF Inl] unreadable [OF Inl] by (cases "IsNotFound e") fastforce+
next
  case (Inr x)
  then show ?thesis
    using deleting [OF Inr] live [OF Inr] by (cases "is_deleting (meta x)") fastforce+
qed

text \<open>No object is returned exactly when the server reports that there is none.\<close>

lemma none_iff:
  "fst (run_state (ensure w) h) = Inr None \<longleftrightarrow> (\<exists>e. get h (key w) = Inl e \<and> IsNotFound e)"
proof (cases "get h (key w)")
  case (Inl e)
  then show ?thesis
    using missing [OF Inl] unreadable [OF Inl] by (cases "IsNotFound e") fastforce+
next
  case (Inr x)
  then show ?thesis
    using deleting [OF Inr] live [OF Inr]
    by (cases "is_deleting (meta x)") (fastforce split: option.splits)+
qed

text \<open>The object returned is the object read: after an accepted deletion it is not marked yet.\<close>

lemma returned:
  assumes "fst (run_state (ensure w) h) = Inr (Some x)"
  shows "get h (key w) = Inr x"
proof (cases "get h (key w)")
  case (Inl e)
  then show ?thesis
    using assms missing [OF Inl] unreadable [OF Inl] by (cases "IsNotFound e") fastforce+
next
  case (Inr y)
  then show ?thesis
    using assms deleting [OF Inr] live [OF Inr]
    by (cases "is_deleting (meta y)") (fastforce split: option.splits)+
qed

end

lemmas deletion_defs = getDeployment_def getService_def getPVC_def deleteDeployment_def
  deleteService_def del_res_def IsDeploymentMissingOrDeleting_def IsServiceMissingOrDeleting_def
  is_deleting_def Let_def

interpretation deployment_deleted: ensure_deleted "k_get_Deployment k" "k_delete_Deployment k"
  CGetDeployment CDeleteDeployment "\<lambda>w. nn (w_Namespace w) (GenerateDeploymentName (w_Name w))"
  d_meta "EnsureDeploymentDeleted k"
  by unfold_locales (auto simp: EnsureDeploymentDeleted_def deletion_defs split: option.splits)

interpretation service_deleted: ensure_deleted "k_get_Service k" "k_delete_Service k"
  CGetService CDeleteService "\<lambda>w. nn (w_Namespace w) (GenerateServiceName (w_Name w))"
  s_meta "EnsureServiceDeleted k"
  by unfold_locales (auto simp: EnsureServiceDeleted_def deletion_defs split: option.splits)

interpretation pvc_deleted: ensure_deleted "k_get_PVC k" "k_delete_PVC k"
  CGetPVC CDeletePVC "\<lambda>w. nn (w_Namespace w) (GeneratePVCName (w_Name w))"
  p_meta "EnsurePVCDeleted k"
  by unfold_locales (auto simp: EnsurePVCDeleted_def deletion_defs split: option.splits)

section \<open>Access resources\<close>

lemma ensureAccessResourceDeleted_ok:
  "fst (run_state (ensureAccessResourceDeleted k r) h) = Inr b \<Longrightarrow> b"
  by (auto simp: ensureAccessResourceDeleted_def Let_def split: sum.splits option.splits if_splits)

lemma delete_access_loop_ok:
  "run_state (delete_access_loop k rs acc) h = (Inr out, h') \<Longrightarrow> out = acc"
proof (induction rs arbitrary: acc h)
  case (Cons r rs)
  then show ?case
    using ensureAccessResourceDeleted_ok [of k r h]
    by (auto split: prod.splits sum.splits if_splits)
qed simp

lemma delete_removed_loop_ok:
  "run_state (delete_removed_loop k rs b) h = (Inr out, h') \<Longrightarrow> out = (b \<or> rs \<noteq> [])"
proof (induction rs arbitrary: b h)
  case (Cons r rs)
  then show ?case
    using ensureAccessResourceDeleted_ok [of k r h]
    by (auto split: prod.splits sum.splits if_splits)
qed simp

lemma set_AccessResources_sel [simp]:
  "st_AccessResources (w_Status (set_AccessResources w rs)) = rs"
  "w_meta (set_AccessResources w rs) = w_meta w" "w_Spec (set_AccessResources w rs) = w_Spec w"
  "st_Conditions (w_Status (set_AccessResources w rs)) = st_Conditions (w_Status w)"
  by (simp_all add: set_AccessResources_def)

lemma EnsureAccessResourcesDeleted_ok:
  assumes "run_state (EnsureAccessResourcesDeleted k w) h = ((w', None), h')"
  shows "st_AccessResources (w_Status w') = []" "w_meta w' = w_meta w" "w_Spec w' = w_Spec w"
  using assms delete_access_loop_ok [of k "st_AccessResources (w_Status w)" "[]" h]
  by (auto simp: EnsureAccessResourcesDeleted_def split: if_splits prod.splits sum.splits)

lemma EnsureAccessResourcesDeleted_err:
  assumes "run_state (EnsureAccessResourcesDeleted k w) h = ((w', Some e), h')"
  shows "w' = w"
  using assms
  by (auto simp: EnsureAccessResourcesDeleted_def split: if_splits prod.splits sum.splits)

lemma create_access_resource_keeps:
  assumes "run_state (create_access_resource k w a s t b) h = ((w', e), h')"
  shows "w_meta w' = w_meta w" "w_Spec w' = w_Spec w"
  using assms
  by (auto simp: create_access_resource_def Let_def split: sum.splits if_splits prod.splits)

lemma ensureAccessResourceExists_keeps:
  assumes "run_state (ensureAccessResourceExists k w a s t ns) h = ((w', e), h')"
  shows "w_meta w' = w_meta w" "w_Spec w' = w_Spec w"
  using assms
  by (auto simp: ensureAccessResourceExists_def Let_def split: sum.splits if_splits prod.splits option.splits
      dest: create_access_resource_keeps)

lemma ensure_templates_loop_keeps:
  "run_state (ensure_templates_loop k a s ts w) h = ((w', e), h') \<Longrightarrow>
     w_meta w' = w_meta w \<and> w_Spec w' = w_Spec w"
proof (induction ts arbitrary: w h)
  case (Cons t ts)
  then show ?case
    by (auto split: prod.splits option.splits dest: ensureAccessResourceExists_keeps)
qed simp

text \<open>The entries of the status that belong to a resource the access strategy defines.\<close>

definition is_current :: "access_strategy \<Rightarrow> workspace \<Rightarrow> access_resource_status \<Rightarrow> bool" where
  "is_current a w x \<longleftrightarrow> resource_key (ars_Kind x) (ars_Name x) (ars_Namespace x) \<in>
     set (map (\<lambda>t. resource_key (art_Kind t) (lookup_name t w) (w_Namespace w))
            (as_AccessResourceTemplates (a_Spec a)))"

text \<open>A successful run: the templates are applied, then exactly the stale entries are dropped.\<close>

lemma EnsureAccessResourcesExist_ok:
  assumes "run_state (EnsureAccessResourcesExist k w a s) h = ((w', None), h')"
  obtains w1 h1 where
    "run_state (ensure_templates_loop k a s (as_AccessResourceTemplates (a_Spec a)) w) h = ((w1, None), h1)"
    and "st_AccessResources (w_Status w') = filter (is_current a w) (st_AccessResources (w_Status w1))"
    and "w_meta w' = w_meta w" and "w_Spec w' = w_Spec w"
proof -
  from assms obtain w1 h1 b where
    l: "run_state (ensure_templates_loop k a s (as_AccessResourceTemplates (a_Spec a)) w) h = ((w1, None), h1)"
    and d: "run_state (delete_removed_loop k (filter (\<lambda>x. \<not> is_current a w x)
          (st_AccessResources (w_Status w1))) False) h1 = (Inr b, h')"
    and w': "w' = (if b then set_AccessResources w1
        (filter (is_current a w) (st_AccessResources (w_Status w1))) else w1)"
    unfolding EnsureAccessResourcesExist_def Let_def is_current_def [symmetric]
    by (auto split: prod.splits option.splits sum.splits)
  from delete_removed_loop_ok [OF d]
  have "\<not> b \<Longrightarrow> filter (is_current a w) (st_AccessResources (w_Status w1)) = st_AccessResources (w_Status w1)"
    by (auto simp: filter_empty_conv filter_id_conv)
  then show ?thesis
    using that [OF l] w' ensure_templates_loop_keeps [OF l] by (cases b) auto
qed

text \<open>
  What the code relies on of the API: a created or updated object comes back under the name and
  kind it was sent with, and setting the controller reference does not rename the object.
\<close>

definition echoes_unstructured :: "client \<Rightarrow> bool" where
  "echoes_unstructured k \<longleftrightarrow>
     (\<forall>h u u'. k_create_Unstructured k h u = Inr u' \<longrightarrow> u_GVK u' = u_GVK u \<and> key_of (u_meta u') = key_of (u_meta u)) \<and>
     (\<forall>h u u'. k_update_Unstructured k h u = Inr u' \<longrightarrow> u_GVK u' = u_GVK u \<and> key_of (u_meta u') = key_of (u_meta u)) \<and>
     (\<forall>w m m'. k_set_controller_ref k w m = Inr m' \<longrightarrow> key_of m' = key_of m)"

definition tracked :: "access_resource_template \<Rightarrow> workspace \<Rightarrow> bool" where
  "tracked t w \<longleftrightarrow> (\<exists>x \<in> set (st_AccessResources (w_Status w)).
     ars_Kind x = art_Kind t \<and> ars_Name x = lookup_name t w \<and> ars_Namespace x = w_Namespace w)"

lemma BuildUnstructuredResource_key:
  "BuildUnstructuredResource k t w a s = Inr u \<Longrightarrow>
     gvk_Kind (u_GVK u) = art_Kind t \<and> key_of (u_meta u) = nn (w_Namespace w) (lookup_name t w)"
  by (auto simp: BuildUnstructuredResource_def Let_def key_of_def lookup_name_def
      split: tmpl_result.splits sum.splits prod.splits)

lemma create_access_resource_adds:
  assumes "echoes_unstructured k"
    and "run_state (create_access_resource k w a s t True) h = ((w', None), h')"
  obtains x where "st_AccessResources (w_Status w') = st_AccessResources (w_Status w) @ [x]"
    and "ars_Kind x = art_Kind t" "ars_Name x = lookup_name t w" "ars_Namespace x = w_Namespace w"
proof -
  from assms(2) obtain u m o1 where b: "BuildUnstructuredResource k t w a s = Inr u"
    and m: "k_set_controller_ref k w (u_meta u) = Inr m"
    and o1: "(\<exists>h. k_create_Unstructured k h (u\<lparr>u_meta := m\<rparr>) = Inr o1) \<or>
      (\<exists>h rv. k_update_Unstructured k h (u\<lparr>u_meta := m\<lparr>om_ResourceVersion := rv\<rparr>\<rparr>) = Inr o1)"
    and w': "w' = set_AccessResources w (st_AccessResources (w_Status w) @
        [\<lparr>ars_Kind = gvk_Kind (u_GVK o1), ars_APIVersion = gvk_APIVersion (u_GVK o1),
          ars_Name = om_Name (u_meta o1), ars_Namespace = om_Namespace (u_meta o1)\<rparr>])"
    by (auto simp: create_access_resource_def Let_def split: sum.splits if_splits prod.splits) blast+
  have "key_of (u_meta o1) = key_of m \<and> u_GVK o1 = u_GVK u"
    using o1 assms(1) unfolding echoes_unstructured_def by (fastforce simp: key_of_def)
  moreover have "key_of m = nn (w_Namespace w) (lookup_name t w) \<and> gvk_Kind (u_GVK u) = art_Kind t"
    using BuildUnstructuredResource_key [OF b] m assms(1) unfolding echoes_unstructured_def by metis
  ultimately show ?thesis
    using that w' by (simp add: key_of_def)
qed

lemma find_access_status_Some:
  "find_access_status rs kind name ns n = Some (i, x) \<Longrightarrow>
     n \<le> i \<and> i < n + length rs \<and> rs ! (i - n) = x \<and>
     ars_Kind x = kind \<and> ars_Name x = name \<and> ars_Namespace x = ns"
proof (induction rs arbitrary: n)
  case (Cons r rs)
  show ?case
  proof (cases "ars_Kind r = kind \<and> ars_Name r = name \<and> ars_Namespace r = ns")
    case True
    then show ?thesis using Cons.prems by auto
  next
    case False
    then have "find_access_status rs kind name ns (Suc n) = Some (i, x)"
      using Cons.prems by (auto split: if_splits)
    note IH = Cons.IH [OF this]
    then have "i - n = Suc (i - Suc n)"
      by linarith
    then show ?thesis
      using IH by simp
  qed
qed simp

lemma tracked_mono:
  assumes "set (st_AccessResources (w_Status w)) \<subseteq> set (st_AccessResources (w_Status w'))"
    and "w_meta w' = w_meta w" and "tracked t w"
  shows "tracked t w'"
  using assms by (auto simp: tracked_def lookup_name_def)

lemma set_take_drop_nth:
  "i < length xs \<Longrightarrow> set xs = insert (xs ! i) (set (take i xs @ drop (Suc i) xs))"
  by (metis id_take_nth_drop list.set(2) set_append Un_insert_right)

lemma ensureAccessResourceExists_tracks:
  assumes "echoes_unstructured k"
    and "run_state (ensureAccessResourceExists k w a s t (w_Namespace w)) h = ((w', None), h')"
  shows "tracked t w' \<and> (tracked u w \<longrightarrow> tracked u w')"
proof (cases "find_access_status (st_AccessResources (w_Status w)) (art_Kind t) (lookup_name t w) (w_Namespace w) 0")
  case None
  then have "run_state (create_access_resource k w a s t True) h = ((w', None), h')"
    using assms(2) by (simp add: ensureAccessResourceExists_def)
  note c = create_access_resource_adds [OF assms(1) this] create_access_resource_keeps [OF this]
  show ?thesis
    by (rule c(1)) (use c(2) in \<open>auto simp: tracked_def lookup_name_def\<close>)
next
  case (Some p)
  then obtain i x where fnd: "find_access_status (st_AccessResources (w_Status w)) (art_Kind t)
      (lookup_name t w) (w_Namespace w) 0 = Some (i, x)"
    by (cases p) auto
  note x = find_access_status_Some [OF fnd]
  let ?rs = "st_AccessResources (w_Status w)"
  let ?w = "set_AccessResources w (take i ?rs @ drop (Suc i) ?rs)"
  have same: "tracked t w"
    using x by (auto simp: tracked_def)
  consider "w' = w" | h1 where "run_state (create_access_resource k ?w a s t True) h1 = ((w', None), h')"
    using assms(2) fnd
    by (auto simp: ensureAccessResourceExists_def Let_def split: sum.splits if_splits prod.splits)
  then show ?thesis
  proof cases
    case 1
    then show ?thesis using same by simp
  next
    case 2
    note c = create_access_resource_adds [OF assms(1) 2] create_access_resource_keeps [OF 2]
    have sub: "set ?rs = insert x (set (take i ?rs @ drop (Suc i) ?rs))"
      using x set_take_drop_nth [of i ?rs] by simp
    show ?thesis
      by (rule c(1)) (use c(2) sub x in \<open>auto simp: tracked_def lookup_name_def\<close>)
  qed
qed

lemma ensure_templates_loop_tracks:
  assumes "echoes_unstructured k"
  shows "run_state (ensure_templates_loop k a s ts w) h = ((w', None), h') \<Longrightarrow>
    (\<forall>t \<in> set ts. tracked t w') \<and> (\<forall>u. tracked u w \<longrightarrow> tracked u w')"
proof (induction ts arbitrary: w h)
  case (Cons t ts)
  then obtain w1 h1 where
    1: "run_state (ensureAccessResourceExists k w a s t (w_Namespace w)) h = ((w1, None), h1)"
    and 2: "run_state (ensure_templates_loop k a s ts w1) h1 = ((w', None), h')"
    by (auto split: prod.splits option.splits)
  show ?case
    using ensureAccessResourceExists_tracks [OF assms 1] Cons.IH [OF 2] by auto
qed simp

text \<open>What identifies an entry of the status, and what a template makes of it.\<close>

definition entry_id :: "access_resource_status \<Rightarrow> string \<times> string \<times> string" where
  "entry_id x = (ars_Kind x, ars_Name x, ars_Namespace x)"

definition template_id :: "workspace \<Rightarrow> access_resource_template \<Rightarrow> string \<times> string \<times> string" where
  "template_id w t = (art_Kind t, lookup_name t w, w_Namespace w)"

definition listed_once :: "workspace \<Rightarrow> bool" where
  "listed_once w \<longleftrightarrow> distinct (map entry_id (st_AccessResources (w_Status w)))"

lemma find_access_status_None:
  "find_access_status rs kind name ns n = None \<Longrightarrow> (kind, name, ns) \<notin> entry_id ` set rs"
  by (induction rs arbitrary: n) (auto simp: entry_id_def split: if_splits)

lemma distinct_without:
  assumes "distinct (map f xs)" "i < length xs"
  shows "distinct (map f (take i xs @ drop (Suc i) xs))" "f (xs ! i) \<notin> f ` set (take i xs @ drop (Suc i) xs)"
proof -
  have "distinct (map f (take i xs) @ f (xs ! i) # map f (drop (Suc i) xs))"
    using assms by (metis id_take_nth_drop list.simps(9) map_append)
  then show "distinct (map f (take i xs @ drop (Suc i) xs))" "f (xs ! i) \<notin> f ` set (take i xs @ drop (Suc i) xs)"
    by auto
qed

lemma exactly_one: "distinct (map f xs) \<Longrightarrow> y \<in> f ` set xs \<Longrightarrow> length (filter (\<lambda>x. f x = y) xs) = 1"
proof (induction xs)
  case (Cons x xs)
  then show ?case by (cases "f x = y") (auto simp: filter_empty_conv rev_image_eqI)
qed simp

text \<open>No operation lists a resource twice: an entry is added only when there is none, or after the old one was taken out.\<close>

lemma ensureAccessResourceExists_once:
  assumes "echoes_unstructured k" "listed_once w"
    and "run_state (ensureAccessResourceExists k w a s t (w_Namespace w)) h = ((w', None), h')"
  shows "listed_once w'"
proof -
  let ?rs = "st_AccessResources (w_Status w)"
  have adds: "listed_once v'" if "run_state (create_access_resource k v a s t True) h1 = ((v', None), h')"
      "listed_once v" "template_id v t \<notin> entry_id ` set (st_AccessResources (w_Status v))" for v v' h1
  proof (rule create_access_resource_adds [OF assms(1) that(1)])
    fix x
    assume "st_AccessResources (w_Status v') = st_AccessResources (w_Status v) @ [x]"
      "ars_Kind x = art_Kind t" "ars_Name x = lookup_name t v" "ars_Namespace x = w_Namespace v"
    then show ?thesis using that(2,3) by (simp add: listed_once_def template_id_def entry_id_def)
  qed
  show ?thesis
  proof (cases "find_access_status ?rs (art_Kind t) (lookup_name t w) (w_Namespace w) 0")
    case None
    then have "run_state (create_access_resource k w a s t True) h = ((w', None), h')"
      using assms(3) by (simp add: ensureAccessResourceExists_def)
    then show ?thesis
      using adds assms(2) find_access_status_None [OF None] by (simp add: template_id_def)
  next
    case (Some p)
    then obtain i x where fnd: "find_access_status ?rs (art_Kind t) (lookup_name t w) (w_Namespace w) 0 = Some (i, x)"
      by (cases p) auto
    note x = find_access_status_Some [OF fnd]
    let ?w = "set_AccessResources w (take i ?rs @ drop (Suc i) ?rs)"
    consider "w' = w" | h1 where "run_state (create_access_resource k ?w a s t True) h1 = ((w', None), h')"
      using assms(3) fnd by (auto simp: ensureAccessResourceExists_def Let_def split: sum.splits if_splits prod.splits)
    then show ?thesis
    proof cases
      case 2
      have "entry_id (?rs ! i) = template_id ?w t" using x by (simp add: entry_id_def template_id_def lookup_name_def)
      then show ?thesis
        using adds [OF 2] distinct_without [OF assms(2) [unfolded listed_once_def], of i] x by (simp add: listed_once_def)
    qed (use assms(2) in simp)
  qed
qed

lemma ensure_templates_loop_once:
  assumes "echoes_unstructured k"
  shows "run_state (ensure_templates_loop k a s ts w) h = ((w', None), h') \<Longrightarrow> listed_once w \<Longrightarrow> listed_once w'"
proof (induction ts arbitrary: w h)
  case (Cons t ts)
  then obtain w1 h1 where
    1: "run_state (ensureAccessResourceExists k w a s t (w_Namespace w)) h = ((w1, None), h1)"
    and 2: "run_state (ensure_templates_loop k a s ts w1) h1 = ((w', None), h')"
    by (auto split: prod.splits option.splits)
  show ?case
    using Cons.IH [OF 2] ensureAccessResourceExists_once [OF assms Cons.prems(2) 1] .
qed simp

text \<open>
  C10. Applying an access strategy keeps the status in step with it. When the call succeeds, the API returns written objects under
  the name and kind they were sent with, and the status listed no resource twice before, then it lists no resource twice after, every
  template of the strategy has exactly one entry (of its kind, with its name prefix and the workspace's name, in the workspace's
  namespace), and every entry belongs to a template: a resource of an earlier strategy or of a removed template has been deleted
  from the server and from the status. The workspace's spec and metadata are not touched.
\<close>

theorem EnsureAccessResourcesExist_status:
  assumes "run_state (EnsureAccessResourcesExist k w a s) h = ((w', None), h')"
    and "echoes_unstructured k" and "listed_once w"
  shows "listed_once w' \<and> (\<forall>x \<in> set (st_AccessResources (w_Status w')). is_current a w x) \<and>
     (\<forall>t \<in> set (as_AccessResourceTemplates (a_Spec a)).
        length (filter (\<lambda>x. entry_id x = template_id w t) (st_AccessResources (w_Status w'))) = 1) \<and>
     w_meta w' = w_meta w \<and> w_Spec w' = w_Spec w"
proof -
  obtain w1 h1 where l: "run_state (ensure_templates_loop k a s (as_AccessResourceTemplates (a_Spec a)) w) h =
      ((w1, None), h1)"
    and st: "st_AccessResources (w_Status w') = filter (is_current a w) (st_AccessResources (w_Status w1))"
    and m: "w_meta w' = w_meta w" "w_Spec w' = w_Spec w"
    by (rule EnsureAccessResourcesExist_ok [OF assms(1)])
  have once: "listed_once w'"
    using ensure_templates_loop_once [OF assms(2) l assms(3)] by (simp add: listed_once_def st distinct_map_filter)
  have "length (filter (\<lambda>x. entry_id x = template_id w t) (st_AccessResources (w_Status w'))) = 1"
    if "t \<in> set (as_AccessResourceTemplates (a_Spec a))" for t
  proof -
    have "tracked t w'"
      using ensure_templates_loop_tracks [OF assms(2) l] ensure_templates_loop_keeps [OF l] that st m
      by (fastforce simp: tracked_def is_current_def lookup_name_def)
    then have "template_id w t \<in> set (map entry_id (st_AccessResources (w_Status w')))"
      using m(1) by (force simp: tracked_def template_id_def entry_id_def lookup_name_def image_iff)
    then show ?thesis using once exactly_one by (force simp: listed_once_def)
  qed
  then show ?thesis
    using st m once by auto
qed

definition sample_template_resource :: access_resource_template where
  "sample_template_resource = \<lparr>art_Kind = ''IngressRoute'', art_ApiVersion = ''traefik.io/v1alpha1'',
     art_NamePrefix = ''route'', art_Template = ''spec: {}''\<rparr>"

definition sample_access_strategy :: access_strategy where
  "sample_access_strategy = \<lparr>a_meta = empty_meta\<lparr>om_Name := ''web''\<rparr>,
     a_Spec = empty_as_spec\<lparr>as_AccessResourceTemplates := [sample_template_resource]\<rparr>, a_Conditions = []\<rparr>"

text \<open>A server that also decodes every YAML document to an object with an empty spec.\<close>

definition yaml_server :: client where
  "yaml_server = empty_server\<lparr>k_yaml := \<lambda>_. Inr \<lparr>u_GVK = \<lparr>gvk_Group = '''', gvk_Version = '''', gvk_Kind = ''''\<rparr>,
     u_meta = empty_meta, u_Spec = Some ''{}'', u_Other = ''''\<rparr>\<rparr>"

theorem EnsureAccessResourcesExist_status_witness:
  "\<exists>w' h'. run_state (EnsureAccessResourcesExist yaml_server sample_workspace sample_access_strategy None) [] =
      ((w', None), h') \<and>
     length (filter (\<lambda>x. entry_id x = template_id sample_workspace sample_template_resource) (st_AccessResources (w_Status w'))) = 1"
proof -
  let ?r = "run_state (EnsureAccessResourcesExist yaml_server sample_workspace sample_access_strategy None) []"
  have "snd (fst ?r) = None"
    by (simp add: EnsureAccessResourcesExist_def sample_access_strategy_def empty_as_spec_def Let_def
        ensureAccessResourceExists_def create_access_resource_def BuildUnstructuredResource_def
        sample_template_resource_def yaml_server_def empty_server_def sample_workspace_def empty_status_def
        resource_key_def lookup_name_def empty_meta_def split: prod.splits)
  then obtain w' h' where r: "?r = ((w', None), h')"
    by (metis prod.collapse)
  have "echoes_unstructured yaml_server"
    by (simp add: echoes_unstructured_def yaml_server_def empty_server_def)
  moreover have "listed_once sample_workspace"
    by (simp add: listed_once_def sample_workspace_def empty_status_def)
  ultimately show ?thesis
    using EnsureAccessResourcesExist_status [OF r] r by (auto simp: sample_access_strategy_def)
qed

section \<open>Cleanup\<close>

text \<open>The keys of the three objects of a workspace.\<close>

definition deployment_key :: "workspace \<Rightarrow> nsname" where
  "deployment_key w = nn (w_Namespace w) (GenerateDeploymentName (w_Name w))"

definition service_key :: "workspace \<Rightarrow> nsname" where
  "service_key w = nn (w_Namespace w) (GenerateServiceName (w_Name w))"

definition pvc_key :: "workspace \<Rightarrow> nsname" where
  "pvc_key w = nn (w_Namespace w) (GeneratePVCName (w_Name w))"

definition answers_not_found :: "'a res \<Rightarrow> bool" where
  "answers_not_found r = (case r of Inl e \<Rightarrow> IsNotFound e | Inr _ \<Rightarrow> False)"

lemma AreAllResourcesDeleted_True:
  assumes "run_state (AreAllResourcesDeleted k w) h = (True, h')"
  shows "h' = h @ [CGetDeployment (deployment_key w), CGetService (service_key w), CGetPVC (pvc_key w)]"
    and "answers_not_found (k_get_Deployment k h (deployment_key w))"
    and "answers_not_found (k_get_Service k (h @ [CGetDeployment (deployment_key w)]) (service_key w))"
    and "answers_not_found (k_get_PVC k (h @ [CGetDeployment (deployment_key w), CGetService (service_key w)]) (pvc_key w))"
    and "st_AccessResources (w_Status w) = []"
  using assms
  by (auto simp: AreAllResourcesDeleted_def getDeployment_def getService_def getPVC_def Let_def
      AreAccessResourcesDeleted_def answers_not_found_def deployment_key_def service_key_def pvc_key_def
      split: sum.splits if_splits)

lemma CleanupAllResources_True:
  assumes "run_state (CleanupAllResources k w) h = ((w', Inr True), h')"
  obtains h1 e where "run_state (AreAllResourcesDeleted k w') h1 = (True, h')"
    and "fst (run_state (EnsureAccessResourcesDeleted k w) h) = (w', e)"
  using assms
  by (auto simp: CleanupAllResources_def split: prod.splits sum.splits)

lemma EnsureAccessResourcesDeleted_keeps:
  "fst (run_state (EnsureAccessResourcesDeleted k w) h) = (w', e) \<Longrightarrow> w_meta w' = w_meta w \<and> w_Spec w' = w_Spec w"
  by (auto simp: EnsureAccessResourcesDeleted_def split: if_splits prod.splits sum.splits)

text \<open>
  The cleanup of a workspace reports completion only when nothing is left. Its last three calls
  are reads of the deployment, the service and the claim of the workspace, the server answered
  NotFound to each of them, and the status no longer lists an access resource; a failure to delete
  an access resource, which the cleanup only logs, cannot lead to a report of completion, because
  the resource stays in the status.
\<close>

theorem CleanupAllResources_complete:
  assumes "run_state (CleanupAllResources k w) h = ((w', Inr True), h')"
  shows "\<exists>h1. h' = h1 @ [CGetDeployment (deployment_key w), CGetService (service_key w), CGetPVC (pvc_key w)] \<and>
     answers_not_found (k_get_Deployment k h1 (deployment_key w)) \<and>
     answers_not_found (k_get_Service k (h1 @ [CGetDeployment (deployment_key w)]) (service_key w)) \<and>
     answers_not_found (k_get_PVC k (h1 @ [CGetDeployment (deployment_key w), CGetService (service_key w)]) (pvc_key w)) \<and>
     st_AccessResources (w_Status w') = [] \<and> w_meta w' = w_meta w"
proof -
  obtain h1 e where 1: "run_state (AreAllResourcesDeleted k w') h1 = (True, h')"
    and 2: "fst (run_state (EnsureAccessResourcesDeleted k w) h) = (w', e)"
    by (rule CleanupAllResources_True [OF assms])
  have "w_meta w' = w_meta w"
    using EnsureAccessResourcesDeleted_keeps [OF 2] by simp
  then have "deployment_key w' = deployment_key w" "service_key w' = service_key w" "pvc_key w' = pvc_key w"
    by (simp_all add: deployment_key_def service_key_def pvc_key_def)
  then show ?thesis
    using AreAllResourcesDeleted_True [OF 1] \<open>w_meta w' = w_meta w\<close> by auto
qed

theorem CleanupAllResources_complete_witness:
  "\<exists>w' h'. run_state (CleanupAllResources empty_server sample_workspace) [] = ((w', Inr True), h') \<and>
     st_AccessResources (w_Status w') = []"
proof -
  have r: "\<exists>w' h'. run_state (CleanupAllResources empty_server sample_workspace) [] = ((w', Inr True), h')"
    by (simp add: CleanupAllResources_def EnsureAccessResourcesDeleted_def EnsureDeploymentDeleted_def
        EnsureServiceDeleted_def EnsurePVCDeleted_def AreAllResourcesDeleted_def AreAccessResourcesDeleted_def
        deletion_defs empty_server_def sample_workspace_def empty_status_def not_found_def)
  then obtain w' h' where "run_state (CleanupAllResources empty_server sample_workspace) [] = ((w', Inr True), h')"
    by blast
  from CleanupAllResources_complete [OF this] this show ?thesis
    by blast
qed

section \<open>Creating and updating\<close>

text \<open>Calls that change the specification of an existing object.\<close>

fun is_update :: "api_call \<Rightarrow> bool" where
  "is_update (CUpdateDeployment _) = True"
| "is_update (CUpdateService _) = True"
| "is_update (CUpdatePVC _) = True"
| "is_update _ = False"

lemma issues_only_option [intro]:
  "(x = None \<Longrightarrow> issues_only P a) \<Longrightarrow> (\<And>y. x = Some y \<Longrightarrow> issues_only P (b y)) \<Longrightarrow>
   issues_only P (case x of None \<Rightarrow> a | Some y \<Rightarrow> b y)"
  by (cases x) auto

lemma issues_only_sum [intro]:
  "(\<And>e. x = Inl e \<Longrightarrow> issues_only P (a e)) \<Longrightarrow> (\<And>y. x = Inr y \<Longrightarrow> issues_only P (b y)) \<Longrightarrow>
   issues_only P (case x of Inl e \<Rightarrow> a e | Inr y \<Rightarrow> b y)"
  by (cases x) auto

lemma issues_only_if [intro]:
  "(c \<Longrightarrow> issues_only P a) \<Longrightarrow> (\<not> c \<Longrightarrow> issues_only P b) \<Longrightarrow> issues_only P (if c then a else b)"
  by simp

text \<open>
  Objects are only updated while the workspace is available. When its Available condition is
  not True, ensuring the deployment, the service or the claim issues no update of any of them, so a
  workspace that is still being created is not disturbed.
\<close>

theorem no_update_unless_available:
  assumes "\<not> IsWorkspaceAvailable w"
  shows "issues_only (Not \<circ> is_update) (EnsureDeploymentExists k options w a) \<and>
     issues_only (Not \<circ> is_update) (EnsureServiceExists k w) \<and>
     issues_only (Not \<circ> is_update) (EnsurePVCExists k w)"
  using assms
  by (auto simp: EnsureDeploymentExists_def EnsureServiceExists_def EnsurePVCExists_def
      getDeployment_def getService_def getPVC_def createDeployment_def createService_def createPVC_def
      ensureDeploymentUpToDate_def ensureServiceUpToDate_def ensurePVCUpToDate_def Let_def
      intro!: issues_only_bind issues_only_call issues_only_on_ok issues_only_sum issues_only_option)

theorem no_update_unless_available_witness:
  "issues_only (Not \<circ> is_update) (EnsureServiceExists empty_server sample_workspace)"
  using no_update_unless_available [of sample_workspace empty_server sample_options None]
  by (simp add: IsWorkspaceAvailable_def sample_workspace_def empty_status_def)

text \<open>What the three operations may send: the built object, or an update that compares equal to it.\<close>

fun sends_desired :: "client \<Rightarrow> controller_options \<Rightarrow> workspace \<Rightarrow> access_strategy option \<Rightarrow> api_call \<Rightarrow> bool" where
  "sends_desired k options w a (CCreateDeployment d) = (BuildDeploymentWithAccessStrategy k options w a = Inr d)"
| "sends_desired k options w a (CUpdateDeployment d) = (deployment_NeedsUpdate k options d w a = Inr False)"
| "sends_desired k options w a (CCreateService s) = (BuildService k w = Inr s)"
| "sends_desired k options w a (CUpdateService s) = (service_NeedsUpdate k s w = Inr False)"
| "sends_desired k options w a (CCreatePVC p) = (BuildPVC k w = Inr (Some p))"
| "sends_desired k options w a (CUpdatePVC p) = (pvc_NeedsUpdate k p w = Inr False)"
| "sends_desired k options w a (CGetDeployment key) = (key = deployment_key w)"
| "sends_desired k options w a (CGetService key) = (key = service_key w)"
| "sends_desired k options w a (CGetPVC key) = (key = pvc_key w)"
| "sends_desired k options w a _ = False"

lemma issues_only_on_lift:
  "(\<And>x. r = Inr x \<Longrightarrow> issues_only P (f x)) \<Longrightarrow> issues_only P (on_ok (lift r) wrp f)"
  unfolding on_ok_def lift_def by (cases r) auto

lemma provided_no_fetch:
  "a \<noteq> None \<or> ws_AccessStrategy (w_Spec w) = None \<Longrightarrow> provided_or_fetched k w a msg = lift (Inr a)"
  by (auto simp: provided_or_fetched_def)

lemma updates_send_desired:
  "a \<noteq> None \<or> ws_AccessStrategy (w_Spec w) = None \<Longrightarrow>
     issues_only (sends_desired k options w a) (updateDeployment k options d w a)"
  "issues_only (sends_desired k options w a) (updateService k s w)"
  "issues_only (sends_desired k options w a) (updatePVC k p w)"
  by (auto simp: updateDeployment_def updateService_def updatePVC_def provided_no_fetch
      deployment_upd.converges service_upd.converges pvc_upd.converges
      intro!: issues_only_on_lift issues_only_on_ok issues_only_call)

lemma creates_send_desired:
  "issues_only (sends_desired k options w a) (createDeployment k options w a)"
  "issues_only (sends_desired k options w a) (createService k w)"
  "issues_only (sends_desired k options w a) (createPVC k w)"
  by (auto simp: createDeployment_def createService_def createPVC_def
      intro!: issues_only_on_lift issues_only_on_ok issues_only_call split: option.splits)



text \<open>
  The update of an access resource that drifted from its template sends the object as built from
  the template with the live resource version only: the owner references of the live object, which
  the creation path sets, are not carried over.
\<close>

theorem refresh_drops_owner:
  assumes "BuildUnstructuredResource k t w a s = Inr expected"
    and "u_Spec existing = Some x" and "u_Spec expected = Some y" and "x \<noteq> y"
  shows "\<exists>obj. snd (run_state (refresh_access_resource k w a s t existing) h) = h @ [CUpdateUnstructured obj] \<and>
     om_OwnerReferences (u_meta obj) = om_OwnerReferences (u_meta expected)"
  using assms by (simp add: refresh_access_resource_def Let_def)

section \<open>The contract of the creating operations\<close>

text \<open>
  An object that is missing is created as built, one that exists is left alone while the workspace is not available, and nothing is created
  when the read or the build fails. \<open>due\<close> says when the workspace asks for the object at all, \<open>wrap\<close> how the operation returns it.
\<close>

locale ensure_exists =
  fixes get :: "hist \<Rightarrow> nsname \<Rightarrow> 'o res"
    and create :: "hist \<Rightarrow> 'o \<Rightarrow> 'o res"
    and get_call :: "nsname \<Rightarrow> api_call"
    and create_call :: "'o \<Rightarrow> api_call"
    and key :: "workspace \<Rightarrow> nsname"
    and due :: "workspace \<Rightarrow> bool"
    and build :: "workspace \<Rightarrow> 'o res"
    and wrap :: "'o \<Rightarrow> 'r"
    and ensure :: "workspace \<Rightarrow> ('r res) io"
  assumes unreadable: "due w \<Longrightarrow> get h (key w) = Inl e \<Longrightarrow> \<not> IsNotFound e \<Longrightarrow>
      \<exists>e'. run_state (ensure w) h = (Inl e', h @ [get_call (key w)])"
    and unbuilt: "due w \<Longrightarrow> get h (key w) = Inl e \<Longrightarrow> IsNotFound e \<Longrightarrow> build w = Inl b \<Longrightarrow>
      \<exists>e'. run_state (ensure w) h = (Inl e', h @ [get_call (key w)])"
    and missing: "due w \<Longrightarrow> get h (key w) = Inl e \<Longrightarrow> IsNotFound e \<Longrightarrow> build w = Inr x \<Longrightarrow>
      \<exists>r. run_state (ensure w) h = (r, h @ [get_call (key w), create_call x]) \<and>
        (case create (h @ [get_call (key w)]) x of Inl c \<Rightarrow> \<exists>e'. r = Inl e' | Inr y \<Rightarrow> r = Inr (wrap y))"
    and existing: "due w \<Longrightarrow> get h (key w) = Inr x \<Longrightarrow> \<not> IsWorkspaceAvailable w \<Longrightarrow>
      run_state (ensure w) h = (Inr (wrap x), h @ [get_call (key w)])"
begin

text \<open>While the workspace is not available an operation reads once and creates at most once, what it built.\<close>

lemma calls:
  assumes "due w" "\<not> IsWorkspaceAvailable w"
  shows "\<exists>cs. snd (run_state (ensure w) h) = h @ get_call (key w) # cs \<and> (cs = [] \<or> (\<exists>x. build w = Inr x \<and> cs = [create_call x]))"
proof (cases "get h (key w)")
  case (Inl e)
  show ?thesis
  proof (cases "IsNotFound e")
    case True
    then show ?thesis
      using unbuilt [OF assms(1) Inl True] missing [OF assms(1) Inl True] by (cases "build w") fastforce+
  qed (use unreadable [OF assms(1) Inl] in fastforce)
next
  case (Inr x)
  then show ?thesis
    using existing [OF assms(1) Inr assms(2)] by simp
qed

text \<open>The result is the object read or the server's answer to the creation.\<close>

lemma returned:
  assumes "due w" "\<not> IsWorkspaceAvailable w" "fst (run_state (ensure w) h) = Inr r"
  shows "\<exists>x. r = wrap x \<and> (get h (key w) = Inr x \<or> (\<exists>b. build w = Inr b \<and> create (h @ [get_call (key w)]) b = Inr x))"
proof (cases "get h (key w)")
  case (Inl e)
  have nf: "IsNotFound e"
    using unreadable [OF assms(1) Inl] assms(3) by fastforce
  show ?thesis
  proof (cases "build w")
    case (Inl b)
    then show ?thesis using unbuilt [OF assms(1) \<open>get h (key w) = Inl e\<close> nf Inl] assms(3) by auto
  next
    case (Inr b)
    then show ?thesis using missing [OF assms(1) \<open>get h (key w) = Inl e\<close> nf Inr] assms(3)
      by (cases "create (h @ [get_call (key w)]) b") auto
  qed
next
  case (Inr x)
  then show ?thesis
    using existing [OF assms(1) Inr assms(2)] assms(3) by auto
qed

end

definition built_claim :: "client \<Rightarrow> workspace \<Rightarrow> pvc res" where
  "built_claim k w = (case BuildPVC k w of Inl e \<Rightarrow> Inl e | Inr None \<Rightarrow> Inl (Msg ''no storage'') | Inr (Some p) \<Rightarrow> Inr p)"

lemma built_claim_iff:
  "built_claim k w = Inr p \<longleftrightarrow> BuildPVC k w = Inr (Some p)"
  "ws_Storage (w_Spec w) \<noteq> None \<Longrightarrow> built_claim k w = Inl e \<longleftrightarrow> BuildPVC k w = Inl e"
  by (auto simp: built_claim_def BuildPVC_def ResolveStorageConfig_def Let_def split: sum.splits option.splits)

lemmas ensure_defs = EnsureDeploymentExists_def EnsureServiceExists_def EnsurePVCExists_def getDeployment_def getService_def getPVC_def
  createDeployment_def createService_def createPVC_def ensureDeploymentUpToDate_def ensureServiceUpToDate_def ensurePVCUpToDate_def

text \<open>
  An update is decided by comparing the whole live spec with the built one, which sets no field the sources do not know. A service or a
  pod template that the API server completed with defaults therefore always differs: every pass over an available workspace writes
  both objects again.
\<close>

theorem defaulted_objects_rewritten:
  assumes "IsWorkspaceAvailable w"
  shows "k_get_Service k h (service_key w) = Inr s \<Longrightarrow> sv_Other (s_Spec s) \<noteq> '''' \<Longrightarrow> BuildService k w = Inr b \<Longrightarrow>
      snd (run_state (EnsureServiceExists k w) h) = h @ [CGetService (service_key w), CUpdateService (s\<lparr>s_Spec := s_Spec b\<rparr>)]"
    and "k_get_Deployment k h (deployment_key w) = Inr d \<Longrightarrow> ps_Other (d_Pod d) \<noteq> '''' \<Longrightarrow>
      BuildDeploymentWithAccessStrategy k options w None = Inr e \<Longrightarrow> ws_AccessStrategy (w_Spec w) = None \<Longrightarrow>
      \<exists>d'. snd (run_state (EnsureDeploymentExists k options w None) h) = h @ [CGetDeployment (deployment_key w), CUpdateDeployment d']"
proof -
  assume svc: "k_get_Service k h (service_key w) = Inr s" "sv_Other (s_Spec s) \<noteq> ''''" "BuildService k w = Inr b"
  have "sv_Other (s_Spec b) = ''''" using svc(3) by (auto simp: BuildService_def buildServiceSpec_def Let_def split: sum.splits)
  then have "s_Spec s \<noteq> s_Spec b" using svc(2) by auto
  then show "snd (run_state (EnsureServiceExists k w) h) = h @ [CGetService (service_key w), CUpdateService (s\<lparr>s_Spec := s_Spec b\<rparr>)]"
    using assms svc by (simp add: ensure_defs service_key_def service_NeedsUpdate_def updateService_def UpdateServiceSpec_def Let_def split: sum.split)
next
  assume dep: "k_get_Deployment k h (deployment_key w) = Inr d" "ps_Other (d_Pod d) \<noteq> ''''"
    "BuildDeploymentWithAccessStrategy k options w None = Inr e" "ws_AccessStrategy (w_Spec w) = None"
  have "ps_Other (d_Pod e) = ''''"
    using dep(3,4) by (auto simp: BuildDeploymentWithAccessStrategy_def BuildDeployment_def buildDeploymentSpec_def buildPodSpec_def Let_def split: sum.splits)
  then have "\<not> pod_spec_sem_eq (d_Pod d) (d_Pod e)" using dep(2) by (simp add: pod_spec_sem_eq_def)
  then show "\<exists>d'. snd (run_state (EnsureDeploymentExists k options w None) h) = h @ [CGetDeployment (deployment_key w), CUpdateDeployment d']"
    using assms dep by (simp add: ensure_defs deployment_key_def deployment_NeedsUpdate_def updateDeployment_def update_deployment_spec_def provided_no_fetch Let_def split: sum.split)
qed

interpretation deployment_exists: ensure_exists "k_get_Deployment k" "k_create_Deployment k" CGetDeployment CCreateDeployment deployment_key
  "\<lambda>_. True" "\<lambda>w. BuildDeploymentWithAccessStrategy k options w a" id "\<lambda>w. EnsureDeploymentExists k options w a"
  by unfold_locales (auto simp: ensure_defs deployment_key_def Let_def split: sum.split)

interpretation service_exists: ensure_exists "k_get_Service k" "k_create_Service k" CGetService CCreateService service_key
  "\<lambda>_. True" "BuildService k" id "EnsureServiceExists k"
  by unfold_locales (auto simp: ensure_defs service_key_def Let_def split: sum.split)

interpretation pvc_exists: ensure_exists "k_get_PVC k" "k_create_PVC k" CGetPVC CCreatePVC pvc_key
  "\<lambda>w. ws_Storage (w_Spec w) \<noteq> None" "built_claim k" Some "EnsurePVCExists k"
  by unfold_locales (auto simp: ensure_defs pvc_key_def Let_def built_claim_iff split: sum.split)

end
