(* ===== verification/GoText.thy ===== *)
theory GoText
  imports Prelude
begin

text \<open>
  Text handling of the Go standard library that the webhooks rely on, and the two source functions
  built on it: \<open>SanitizeUsername\<close> (\<open>internal/stringutil/string.go\<close>, the string escaping of
  \<open>encoding/json\<close>) and \<open>matchPattern\<close> (\<open>internal/webhook/v1alpha1/service_account_validator.go\<close>,
  \<open>regexp.QuoteMeta\<close>, \<open>strings.ReplaceAll\<close> and \<open>regexp.MatchString\<close>).

  Strings are bytes; \<open>runes\<close> is the decoding of UTF-8 with its replacement of invalid bytes. Of the
  regular expressions only the fragment that \<open>matchPattern\<close> builds is modelled: escaped literals,
  plain literals, \<open>.\<close> and \<open>.*\<close> between the two anchors.
\<close>

section \<open>UTF-8\<close>

abbreviation byte :: "char \<Rightarrow> nat" where
  "byte c \<equiv> of_char c"

abbreviation RuneError :: nat where
  "RuneError \<equiv> 65533"

definition within :: "nat \<Rightarrow> nat \<Rightarrow> char \<Rightarrow> bool" where
  "within lo hi c \<longleftrightarrow> lo \<le> byte c \<and> byte c \<le> hi"

text \<open>
  \<open>utf8.DecodeRuneInString\<close> on a string with first byte \<open>c\<close>: the rune and its width, by the number of
  bytes the first one announces.
\<close>

fun decode2 :: "nat \<Rightarrow> string \<Rightarrow> nat \<times> nat" where
  "decode2 b (c1 # _) =
     (if within 128 191 c1 then ((b - 192) * 64 + (byte c1 - 128), 2) else (RuneError, 1))"
| "decode2 b _ = (RuneError, 1)"

fun decode3 :: "nat \<Rightarrow> string \<Rightarrow> nat \<times> nat" where
  "decode3 b (c1 # c2 # _) =
     (if within (if b = 224 then 160 else 128) (if b = 237 then 159 else 191) c1 \<and> within 128 191 c2
      then ((b - 224) * 4096 + (byte c1 - 128) * 64 + (byte c2 - 128), 3) else (RuneError, 1))"
| "decode3 b _ = (RuneError, 1)"

fun decode4 :: "nat \<Rightarrow> string \<Rightarrow> nat \<times> nat" where
  "decode4 b (c1 # c2 # c3 # _) =
     (if within (if b = 240 then 144 else 128) (if b = 244 then 143 else 191) c1 \<and>
         within 128 191 c2 \<and> within 128 191 c3
      then ((b - 240) * 262144 + (byte c1 - 128) * 4096 + (byte c2 - 128) * 64 + (byte c3 - 128), 4)
      else (RuneError, 1))"
| "decode4 b _ = (RuneError, 1)"

definition decode_rune :: "char \<Rightarrow> string \<Rightarrow> nat \<times> nat" where
  "decode_rune c s = (let b = byte c in
     if b < 128 then (b, 1)
     else if 194 \<le> b \<and> b \<le> 223 then decode2 b s
     else if 224 \<le> b \<and> b \<le> 239 then decode3 b s
     else if 240 \<le> b \<and> b \<le> 244 then decode4 b s
     else (RuneError, 1))"

text \<open>The runes of a string, each with the bytes it was decoded from.\<close>

function runes :: "string \<Rightarrow> (nat \<times> string) list" where
  "runes [] = []"
| "runes (c # s) = (let (r, n) = decode_rune c s in (r, take n (c # s)) # runes (drop (n - 1) s))"
  by pat_completeness auto
termination by (relation "measure length") auto

declare runes.simps(2) [simp del]

text \<open>An invalid byte decodes to the error rune with width one; a string without one is valid UTF-8.\<close>

definition invalid_rune :: "nat \<times> string \<Rightarrow> bool" where
  "invalid_rune p \<longleftrightarrow> fst p = RuneError \<and> length (snd p) = 1"

definition valid_utf8 :: "string \<Rightarrow> bool" where
  "valid_utf8 s \<longleftrightarrow> list_all (\<lambda>p. \<not> invalid_rune p) (runes s)"

text \<open>
  \<open>strings.ToUpper\<close>: besides the ASCII letters, two other runes have an ASCII upper case (the dotless i
  and the long s); invalid bytes become the replacement character. Other letters stay outside ASCII,
  which is all that matters for decoding and for reading a time.
\<close>

definition upper_rune :: "nat \<times> string \<Rightarrow> string" where
  "upper_rune p = (let (r, bs) = p in
     if r < 128 then map upper_char bs
     else if r = 305 then ''I'' else if r = 383 then ''S''
     else if invalid_rune p then [char_of (239::nat), char_of (191::nat), char_of (189::nat)]
     else bs)"

definition ToUpper :: "string \<Rightarrow> string" where
  "ToUpper s = concat (map upper_rune (runes s))"

text \<open>\<open>strings.TrimSpace\<close>: the runes of \<open>unicode.IsSpace\<close> are cut off at both ends.\<close>

definition IsSpace :: "nat \<Rightarrow> bool" where
  "IsSpace r \<longleftrightarrow> 9 \<le> r \<and> r \<le> 13 \<or> r = 32 \<or> r = 133 \<or> r = 160 \<or> r = 5760 \<or> 8192 \<le> r \<and> r \<le> 8202 \<or>
     r = 8232 \<or> r = 8233 \<or> r = 8239 \<or> r = 8287 \<or> r = 12288"

definition TrimSpace :: "string \<Rightarrow> string" where
  "TrimSpace s = concat (map snd (rev (dropWhile (IsSpace \<circ> fst) (rev (dropWhile (IsSpace \<circ> fst) (runes s))))))"

section \<open>Escaping of user names\<close>

abbreviation bslash :: char where
  "bslash \<equiv> CHR 0x5C"

definition hex_digit :: "nat \<Rightarrow> char" where
  "hex_digit n = (if n < 10 then char_of (n + 48) else char_of (n + 87))"

text \<open>The escape of one rune by \<open>json.Marshal\<close>, which also escapes the HTML characters.\<close>

definition json_rune :: "nat \<times> string \<Rightarrow> string" where
  "json_rune p = (let (r, bs) = p in
     if r < 128 then
       (if r = 92 \<or> r = 34 then bslash # bs
        else if r = 8 then [bslash, CHR ''b'']
        else if r = 12 then [bslash, CHR ''f'']
        else if r = 10 then [bslash, CHR ''n'']
        else if r = 13 then [bslash, CHR ''r'']
        else if r = 9 then [bslash, CHR ''t'']
        else if r < 32 \<or> r = 60 \<or> r = 62 \<or> r = 38
        then [bslash, CHR ''u'', CHR ''0'', CHR ''0'', hex_digit (r div 16), hex_digit (r mod 16)]
        else bs)
     else if invalid_rune p then bslash # ''ufffd''
     else if r = 8232 \<or> r = 8233 then bslash # ''u202'' @ [hex_digit (r mod 16)]
     else bs)"

definition json_marshal :: "string \<Rightarrow> string" where
  "json_marshal s = CHR 0x22 # concat (map json_rune (runes s)) @ [CHR 0x22]"

definition SanitizeUsername :: "string \<Rightarrow> string" where
  "SanitizeUsername username = (let escaped = json_marshal username in take (length escaped - 2) (drop 1 escaped))"

section \<open>Wildcard patterns\<close>

text \<open>\<open>regexp.QuoteMeta\<close> and \<open>strings.ReplaceAll\<close>.\<close>

definition special :: "char \<Rightarrow> bool" where
  "special c \<longleftrightarrow> c \<in> set (bslash # ''.+*?()|[]{}^$'')"

definition QuoteMeta :: "string \<Rightarrow> string" where
  "QuoteMeta s = concat (map (\<lambda>c. if special c then [bslash, c] else [c]) s)"

function ReplaceAll :: "string \<Rightarrow> string \<Rightarrow> string \<Rightarrow> string" where
  "ReplaceAll [] old new = []"
| "ReplaceAll (c # s) old new =
     (if old \<noteq> [] \<and> has_prefix (c # s) old then new @ ReplaceAll (drop (length old) (c # s)) old new
      else c # ReplaceAll s old new)"
  by pat_completeness auto
termination by (relation "measure (\<lambda>(s, _, _). length s)") (auto simp: has_prefix_iff)

declare ReplaceAll.simps(2) [simp del]

text \<open>
  The fragment of regular expressions: atoms, each once or starred. A dot matches every rune but the
  newline, which is the default of the package.
\<close>

datatype re_atom = RLit nat | RAny

datatype re_item = Once re_atom | Star re_atom

definition punct :: "nat \<Rightarrow> bool" where
  "punct r \<longleftrightarrow> r < 128 \<and> special (char_of r)"

fun parse_re :: "nat list \<Rightarrow> re_item list option" where
  "parse_re [] = Some []"
| "parse_re (r # rs) =
     (if r = 92 then
        (case rs of x # t \<Rightarrow> if punct x then map_option ((#) (Once (RLit x))) (parse_re t) else None | [] \<Rightarrow> None)
      else if r = 46 then
        (case rs of
           x # t \<Rightarrow> if x = 42 then map_option ((#) (Star RAny)) (parse_re t)
                    else map_option ((#) (Once RAny)) (parse_re rs)
         | [] \<Rightarrow> Some [Once RAny])
      else if punct r then None
      else map_option ((#) (Once (RLit r))) (parse_re rs))"

fun atom_ok :: "re_atom \<Rightarrow> nat \<Rightarrow> bool" where
  "atom_ok (RLit x) r = (r = x)"
| "atom_ok RAny r = (r \<noteq> 10)"

fun match_items :: "re_item list \<Rightarrow> nat list \<Rightarrow> bool" where
  "match_items [] s = (s = [])"
| "match_items (Once a # items) s = (case s of [] \<Rightarrow> False | r # t \<Rightarrow> atom_ok a r \<and> match_items items t)"
| "match_items (Star a # items) s =
     (match_items items s \<or> (case s of [] \<Rightarrow> False | r # t \<Rightarrow> atom_ok a r \<and> match_items (Star a # items) t))"

text \<open>
  \<open>regexp.MatchString\<close> on an anchored expression; an expression that is not valid UTF-8 does not
  compile, and the error leaves the result false.
\<close>

definition MatchString :: "string \<Rightarrow> string \<Rightarrow> bool" where
  "MatchString regexPattern str =
     (let body = take (length regexPattern - 2) (drop 1 regexPattern) in
      valid_utf8 body \<and>
      (case parse_re (map fst (runes body)) of
         None \<Rightarrow> False | Some items \<Rightarrow> match_items items (map fst (runes str))))"

definition matchPattern :: "string \<Rightarrow> string \<Rightarrow> bool" where
  "matchPattern pattern str =
     (let escaped1 = QuoteMeta pattern;
          escaped2 = ReplaceAll escaped1 [bslash, CHR ''*''] ''.*'';
          escaped3 = ReplaceAll escaped2 [bslash, CHR ''?''] ''.'';
          regexPattern = ''^'' @ escaped3 @ ''$''
      in MatchString regexPattern str)"

section \<open>Decoding\<close>

lemma byte_less [simp]: "byte c < 256"
  using of_char_mod_256 [where 'a = nat, of c] by (metis mod_less_divisor zero_less_numeral)

lemma decode_rune_width:
  assumes "decode_rune c s = (r, n)"
  shows "0 < n \<and> n \<le> Suc (length s)"
  using assms
  by (auto simp: decode_rune_def Let_def split: if_splits elim!: decode2.elims decode3.elims decode4.elims)

text \<open>The bytes of the runes, in order, are the string.\<close>

lemma concat_runes: "concat (map snd (runes s)) = s"
proof (induction s rule: runes.induct)
  case (2 c s)
  obtain r n where rn: "decode_rune c s = (r, n)"
    by (cases "decode_rune c s")
  then obtain m where m: "n = Suc m" "m \<le> length s"
    using decode_rune_width [OF rn] by (cases n) auto
  show ?case
    using 2 rn m by (simp add: runes.simps)
qed simp

text \<open>A rune together with its bytes: either one ASCII byte, or bytes that are all at least 128.\<close>

definition rune_bytes :: "nat \<Rightarrow> string \<Rightarrow> bool" where
  "rune_bytes r bs \<longleftrightarrow> (\<exists>c t. bs = c # t \<and> (\<forall>s. decode_rune c (t @ s) = (r, Suc (length t))) \<and>
     (if r < 128 then t = [] \<and> byte c = r else \<forall>x \<in> set bs. 128 \<le> byte x))"

text \<open>A multi-byte rune is at least 128, its bytes too, and the decoding does not look further.\<close>

definition long_rune :: "nat \<Rightarrow> (string \<Rightarrow> nat \<times> nat) \<Rightarrow> string \<Rightarrow> nat \<Rightarrow> nat \<Rightarrow> bool" where
  "long_rune b d s r n \<longleftrightarrow> (\<exists>t u. s = t @ u \<and> n = Suc (length t) \<and> t \<noteq> [] \<and> (\<forall>v. d (t @ v) = (r, n)) \<and>
     128 \<le> r \<and> (\<forall>x \<in> set t. 128 \<le> byte x))"

lemma decode2_long:
  assumes "decode2 b s = (r, n)" and "\<not> (r = RuneError \<and> n = 1)" and "194 \<le> b"
  shows "long_rune b (decode2 b) s r n"
proof (cases s)
  case (Cons c1 u)
  then have ok: "within 128 191 c1" "r = (b - 192) * 64 + (byte c1 - 128)" "n = 2"
    using assms(1,2) by (simp_all split: if_split_asm)
  have "128 \<le> r"
    using ok(2) assms(3) by linarith
  then show ?thesis
    unfolding long_rune_def using Cons ok by (intro exI [of _ "[c1]"] exI [of _ u]) (auto simp: within_def)
qed (use assms in simp)

lemma decode3_long:
  assumes "decode3 b s = (r, n)" and "\<not> (r = RuneError \<and> n = 1)" and "224 \<le> b"
  shows "long_rune b (decode3 b) s r n"
proof -
  obtain c1 c2 u where s: "s = c1 # c2 # u"
    using assms(1,2) by (cases "(b, s)" rule: decode3.cases) auto
  have ok: "within (if b = 224 then 160 else 128) (if b = 237 then 159 else 191) c1" "within 128 191 c2"
    "r = (b - 224) * 4096 + (byte c1 - 128) * 64 + (byte c2 - 128)" "n = 3"
    using assms(1,2) unfolding s by (simp_all only: decode3.simps split: if_split_asm) simp_all
  have c1: "128 \<le> byte c1" "b = 224 \<longrightarrow> 160 \<le> byte c1"
    using ok(1) by (auto simp: within_def split: if_split_asm)
  have "128 \<le> r"
    using ok(3) c1 assms(3) by (cases "b = 224") auto
  moreover have "\<forall>v. decode3 b ([c1, c2] @ v) = (r, n)"
    using ok by simp
  ultimately show ?thesis
    unfolding long_rune_def using s ok(2,4) c1
    by (intro exI [of _ "[c1, c2]"] exI [of _ u]) (simp add: within_def)
qed

lemma decode4_long:
  assumes "decode4 b s = (r, n)" and "\<not> (r = RuneError \<and> n = 1)" and "240 \<le> b"
  shows "long_rune b (decode4 b) s r n"
proof -
  obtain c1 c2 c3 u where s: "s = c1 # c2 # c3 # u"
    using assms(1,2) by (cases "(b, s)" rule: decode4.cases) auto
  have ok: "within (if b = 240 then 144 else 128) (if b = 244 then 143 else 191) c1" "within 128 191 c2"
    "within 128 191 c3" "n = 4"
    "r = (b - 240) * 262144 + (byte c1 - 128) * 4096 + (byte c2 - 128) * 64 + (byte c3 - 128)"
    using assms(1,2) unfolding s by (simp_all only: decode4.simps split: if_split_asm) simp_all
  have c1: "128 \<le> byte c1" "b = 240 \<longrightarrow> 144 \<le> byte c1"
    using ok(1) by (auto simp: within_def split: if_split_asm)
  have "128 \<le> r"
    using ok(5) c1 assms(3) by (cases "b = 240") auto
  moreover have "\<forall>v. decode4 b ([c1, c2, c3] @ v) = (r, n)"
    using ok by simp
  ultimately show ?thesis
    unfolding long_rune_def using s ok(2-4) c1
    by (intro exI [of _ "[c1, c2, c3]"] exI [of _ u]) (simp add: within_def)
qed

lemma decode_rune_bytes:
  assumes d: "decode_rune c s = (r, n)" and ok: "\<not> (r = RuneError \<and> n = 1)"
  shows "rune_bytes r (take n (c # s))"
proof (cases "byte c < 128")
  case True
  then show ?thesis
    using d by (auto simp: decode_rune_def rune_bytes_def)
next
  case False
  have "long_rune (byte c) (decode_rune c) s r n"
  proof -
    consider "194 \<le> byte c \<and> byte c \<le> 223" | "224 \<le> byte c \<and> byte c \<le> 239" | "240 \<le> byte c \<and> byte c \<le> 244"
      using d ok False by (auto simp: decode_rune_def Let_def split: if_split_asm)
    then show ?thesis
    proof cases
      case 1
      then have "decode_rune c = decode2 (byte c)"
        using False by (auto simp: decode_rune_def fun_eq_iff)
      then show ?thesis
        using decode2_long d ok 1 by simp
    next
      case 2
      then have "decode_rune c = decode3 (byte c)"
        using False by (auto simp: decode_rune_def fun_eq_iff)
      then show ?thesis
        using decode3_long d ok 2 by simp
    next
      case 3
      then have "decode_rune c = decode4 (byte c)"
        using False by (auto simp: decode_rune_def fun_eq_iff)
      then show ?thesis
        using decode4_long d ok 3 by simp
    qed
  qed
  then show ?thesis
    using False by (auto simp: long_rune_def rune_bytes_def)
qed

lemma runes_append:
  assumes "rune_bytes r bs"
  shows "runes (bs @ s) = (r, bs) # runes s"
  using assms by (auto simp: rune_bytes_def runes.simps)

lemma valid_runes:
  assumes "valid_utf8 s" and "(r, bs) \<in> set (runes s)"
  shows "rune_bytes r bs"
  using assms
proof (induction s rule: runes.induct)
  case (2 c s)
  obtain r' n where rn: "decode_rune c s = (r', n)"
    by (cases "decode_rune c s")
  have w: "\<not> (r' = RuneError \<and> n = 1)"
    using 2(2) rn by (auto simp: runes.simps valid_utf8_def invalid_rune_def)
  show ?case
    using 2 rn decode_rune_bytes [OF rn w] by (auto simp: runes.simps valid_utf8_def)
qed simp

section \<open>User names are escaped without loss\<close>

lemma SanitizeUsername_eq: "SanitizeUsername s = concat (map json_rune (runes s))"
  by (simp add: SanitizeUsername_def json_marshal_def Let_def)

definition hex_val :: "char \<Rightarrow> nat" where
  "hex_val c = (if byte c < 58 then byte c - 48 else byte c - 87)"

lemma hex_val_digit [simp]: "n < 16 \<Longrightarrow> hex_val (hex_digit n) = n"
  by (auto simp: hex_val_def hex_digit_def)

text \<open>The reading of the escapes: what a JSON decoder does on the text between the quotes.\<close>

fun json_read :: "string \<Rightarrow> string" where
  "json_read [] = []"
| "json_read (c # s) =
     (if c \<noteq> bslash then c # json_read s
      else case s of
        [] \<Rightarrow> []
      | x # t \<Rightarrow>
          if x = CHR ''b'' then char_of (8::nat) # json_read t
          else if x = CHR ''f'' then char_of (12::nat) # json_read t
          else if x = CHR ''n'' then char_of (10::nat) # json_read t
          else if x = CHR ''r'' then char_of (13::nat) # json_read t
          else if x = CHR ''t'' then char_of (9::nat) # json_read t
          else if x = CHR ''u'' then
            (case t of
               h1 # h2 # h3 # h4 # u \<Rightarrow>
                 if h1 = CHR ''0'' then char_of (hex_val h3 * 16 + hex_val h4) # json_read u
                 else char_of (226::nat) # char_of (128::nat) # char_of (160 + hex_val h4) # json_read u
             | _ \<Rightarrow> [])
          else x # json_read t)"

lemma json_read_plain: "bslash \<notin> set bs \<Longrightarrow> json_read (bs @ t) = bs @ json_read t"
  by (induction bs) auto

text \<open>The two line separators that JSON escapes have three bytes: two and four bytes decode to smaller and to larger runes.\<close>

lemma separator_three:
  assumes "decode3 (byte c) t = (r, Suc (length t))" and "r = 8232 \<or> r = 8233" and "224 \<le> byte c"
  shows "c # t = [char_of (226::nat), char_of (128::nat), char_of (r - 8064)]"
proof -
  obtain c1 c2 u where t: "t = c1 # c2 # u"
    using assms(1,2) by (cases "(byte c, t)" rule: decode3.cases) auto
  have ok: "within 128 191 c1" "within 128 191 c2" "u = []"
    "r = (byte c - 224) * 4096 + (byte c1 - 128) * 64 + (byte c2 - 128)"
    using assms(1,2) unfolding t by (auto simp: within_def split: if_split_asm)
  define x y z where "x = byte c - 224" and "y = byte c1 - 128" and "z = byte c2 - 128"
  have yz: "y < 64" "z < 64" "r = x * 4096 + y * 64 + z"
    using ok by (auto simp: within_def x_def y_def z_def)
  have x: "x = 2"
    using yz assms(2) by (cases "x \<le> 1"; cases "x \<ge> 3") auto
  have y: "y = 0"
    using yz assms(2) x by (cases "y = 0") auto
  have "byte c = 226" "byte c1 = 128" "byte c2 = r - 8064"
    using x y yz(3) assms(2,3) ok(1,2) by (auto simp: x_def y_def z_def within_def)
  then show ?thesis
    unfolding t ok(3) by (metis char_of_char)
qed

lemma decode2_small:
  "decode2 (byte c) t = (r, Suc (length t)) \<Longrightarrow> byte c \<le> 223 \<Longrightarrow> r \<le> (223 - 192) * 64 + 63 \<or> r = RuneError"
  by (cases t) (auto simp: within_def split: if_split_asm)

lemma decode4_large:
  assumes "decode4 (byte c) t = (r, Suc (length t))" "240 \<le> byte c" "r \<noteq> RuneError"
  shows "65536 \<le> r"
proof -
  obtain c1 c2 c3 u where t: "t = c1 # c2 # c3 # u"
    using assms(1,3) by (cases "(byte c, t)" rule: decode4.cases) auto
  have "byte c = 240 \<longrightarrow> 144 \<le> byte c1"
    "r = (byte c - 240) * 262144 + (byte c1 - 128) * 4096 + (byte c2 - 128) * 64 + (byte c3 - 128)"
    using assms(1,3) unfolding t by (auto simp: within_def split: if_split_asm)
  then show ?thesis
    using assms(2) by (cases "byte c = 240") auto
qed

lemma separator_bytes:
  assumes "rune_bytes r bs" and "r = 8232 \<or> r = 8233"
  shows "bs = [char_of (226::nat), char_of (128::nat), char_of (r - 8064)]"
proof -
  obtain c t where bs: "bs = c # t" and d0: "\<forall>s. decode_rune c (t @ s) = (r, Suc (length t))"
    using assms(1) unfolding rune_bytes_def by blast
  have d: "decode_rune c t = (r, Suc (length t))"
    using d0 [THEN spec, of "[]"] by simp
  consider "byte c < 128" | "194 \<le> byte c \<and> byte c \<le> 223" | "224 \<le> byte c \<and> byte c \<le> 239" | "240 \<le> byte c \<and> byte c \<le> 244"
    using d assms(2) by (auto simp: decode_rune_def Let_def split: if_split_asm)
  then show ?thesis
  proof cases
    case 1
    then show ?thesis
      using d assms(2) by (auto simp: decode_rune_def)
  next
    case 2
    then have "decode2 (byte c) t = (r, Suc (length t))"
      using d by (simp add: decode_rune_def Let_def)
    then show ?thesis
      using decode2_small [of c t r] 2 assms(2) by auto
  next
    case 3
    then have "decode3 (byte c) t = (r, Suc (length t))"
      using d by (simp add: decode_rune_def Let_def)
    then show ?thesis
      using separator_three [of c t r] 3 assms(2) bs by simp
  next
    case 4
    then have "decode4 (byte c) t = (r, Suc (length t))"
      using d by (simp add: decode_rune_def Let_def)
    then show ?thesis
      using decode4_large [of c t r] 4 assms(2) by auto
  qed
qed

lemma char_of_is: "n < 256 \<Longrightarrow> (char_of n = c) = (byte c = n)"
  by (metis char_of_char mod_less of_char_of)

lemma json_read_ascii:
  assumes "r < 128"
  shows "json_read (json_rune (r, [char_of r]) @ t) = char_of r # json_read t"
proof -
  consider "r \<in> {92, 34, 8, 12, 10, 13, 9}" | "r \<notin> {92, 34, 8, 12, 10, 13, 9}" "r < 32 \<or> r = 60 \<or> r = 62 \<or> r = 38"
    | "r \<notin> {92, 34, 8, 12, 10, 13, 9}" "\<not> (r < 32 \<or> r = 60 \<or> r = 62 \<or> r = 38)"
    by blast
  then show ?thesis
  proof cases
    case 1
    then show ?thesis
      by (elim insertE emptyE) (simp_all add: json_rune_def char_of_is)
  next
    case 2
    then have "json_rune (r, [char_of r]) = [bslash, CHR ''u'', CHR ''0'', CHR ''0'', hex_digit (r div 16), hex_digit (r mod 16)]"
      using assms by (simp add: json_rune_def Let_def)
    then show ?thesis
      using assms by (simp add: div_mult_mod_eq)
  next
    case 3
    then have "json_rune (r, [char_of r]) = [char_of r]"
      using assms by (simp add: json_rune_def Let_def)
    moreover have "(char_of r :: char) \<noteq> bslash"
      using 3 assms by (simp add: char_of_is)
    ultimately show ?thesis
      by simp
  qed
qed

lemma json_read_rune:
  assumes "rune_bytes r bs" and "\<not> invalid_rune (r, bs)"
  shows "json_read (json_rune (r, bs) @ t) = bs @ json_read t"
proof (cases "r < 128")
  case True
  then obtain c where c: "bs = [c]" "byte c = r"
    using assms by (auto simp: rune_bytes_def)
  have ch: "c = char_of r"
    using c(2) by (metis char_of_char)
  show ?thesis
    using json_read_ascii [OF True] c(1) unfolding ch by simp
next
  case False
  have "\<forall>x \<in> set bs. 128 \<le> byte x"
    using assms False by (auto simp: rune_bytes_def)
  moreover have "byte bslash = 92"
    by simp
  ultimately have plain: "bslash \<notin> set bs"
    by force
  show ?thesis
  proof (cases "r = 8232 \<or> r = 8233")
    case True
    have "json_rune (r, bs) = bslash # ''u202'' @ [hex_digit (r mod 16)]"
      using True assms(2) by (auto simp: json_rune_def)
    moreover have "hex_val (hex_digit (r mod 16)) = r mod 16" "160 + r mod 16 = r - 8064"
      using True by auto
    ultimately show ?thesis
      using separator_bytes [OF assms(1) True] by simp
  next
    case sep: False
    then show ?thesis
      using False plain assms(2) by (simp add: json_rune_def Let_def json_read_plain)
  qed
qed

lemma json_read_runes:
  assumes "\<forall>(r, bs) \<in> set ps. rune_bytes r bs \<and> \<not> invalid_rune (r, bs)"
  shows "json_read (concat (map json_rune ps)) = concat (map snd ps)"
  using assms by (induction ps) (auto simp: json_read_rune)

lemma SanitizeUsername_read:
  assumes "valid_utf8 s"
  shows "json_read (SanitizeUsername s) = s"
proof -
  have "\<forall>(r, bs) \<in> set (runes s). rune_bytes r bs \<and> \<not> invalid_rune (r, bs)"
    using assms valid_runes [OF assms] by (auto simp: valid_utf8_def list_all_iff)
  then show ?thesis
    unfolding SanitizeUsername_eq by (simp add: json_read_runes concat_runes)
qed

text \<open>
  C22. The owner recorded for a workspace identifies the user. Escaping a user name that is valid UTF-8
  loses nothing: reading the escapes gives the name back, so two different users never have the same
  escaped name.
\<close>

theorem SanitizeUsername_roundtrip:
  assumes "valid_utf8 u"
  shows "json_read (SanitizeUsername u) = u \<and> (\<forall>v. valid_utf8 v \<longrightarrow> SanitizeUsername v = SanitizeUsername u \<longrightarrow> v = u)"
  using assms SanitizeUsername_read by metis

theorem SanitizeUsername_roundtrip_witness:
  "json_read (SanitizeUsername ''team<admin>&x'') = ''team<admin>&x'' \<and>
   SanitizeUsername ''team<admin>&x'' \<noteq> ''team<admin>&x''"
proof
  show "json_read (SanitizeUsername ''team<admin>&x'') = ''team<admin>&x''"
    using SanitizeUsername_roundtrip [of "''team<admin>&x''"]
    by (simp add: valid_utf8_def invalid_rune_def runes.simps decode_rune_def)
  show "SanitizeUsername ''team<admin>&x'' \<noteq> ''team<admin>&x''"
    by (simp add: SanitizeUsername_eq runes.simps decode_rune_def json_rune_def hex_digit_def)
qed

section \<open>Patterns mean what they say\<close>

text \<open>
  The meaning of a pattern: the string splits into one piece per pattern rune, where a star takes any
  piece without a newline, a question mark one rune other than a newline, and every other rune itself.
\<close>

definition fits :: "nat \<Rightarrow> nat list \<Rightarrow> bool" where
  "fits p w \<longleftrightarrow> (if p = 42 then 10 \<notin> set w else if p = 63 then \<exists>r. w = [r] \<and> r \<noteq> 10 else w = [p])"

definition wildcard_match :: "nat list \<Rightarrow> nat list \<Rightarrow> bool" where
  "wildcard_match p s \<longleftrightarrow> (\<exists>ws. list_all2 fits p ws \<and> concat ws = s)"

definition re_of :: "nat \<Rightarrow> re_item" where
  "re_of r = (if r = 42 then Star RAny else if r = 63 then Once RAny else Once (RLit r))"

lemma wildcard_Nil [simp]: "wildcard_match [] s \<longleftrightarrow> s = []"
  by (auto simp: wildcard_match_def)

lemma wildcard_Cons: "wildcard_match (p # ps) s \<longleftrightarrow> (\<exists>w t. s = w @ t \<and> fits p w \<and> wildcard_match ps t)"
proof
  assume "wildcard_match (p # ps) s"
  then obtain w ws where "fits p w" "list_all2 fits ps ws" "s = w @ concat ws"
    by (auto simp: wildcard_match_def list_all2_Cons1)
  then show "\<exists>w t. s = w @ t \<and> fits p w \<and> wildcard_match ps t"
    unfolding wildcard_match_def by blast
next
  assume "\<exists>w t. s = w @ t \<and> fits p w \<and> wildcard_match ps t"
  then obtain w ws where "fits p w" "list_all2 fits ps ws" "s = w @ concat ws"
    unfolding wildcard_match_def by blast
  then show "wildcard_match (p # ps) s"
    unfolding wildcard_match_def by (intro exI [of _ "w # ws"]) simp
qed

lemma star_split:
  "match_items (Star RAny # items) s \<longleftrightarrow> (\<exists>w t. s = w @ t \<and> 10 \<notin> set w \<and> match_items items t)"
proof (induction s)
  case (Cons r s)
  show ?case
  proof
    assume "match_items (Star RAny # items) (r # s)"
    then consider "match_items items (r # s)" | "r \<noteq> 10" "match_items (Star RAny # items) s"
      by auto
    then show "\<exists>w t. r # s = w @ t \<and> 10 \<notin> set w \<and> match_items items t"
    proof cases
      case 1
      then show ?thesis
        by (intro exI [of _ "[]"] exI [of _ "r # s"]) simp
    next
      case 2
      then obtain w t where "s = w @ t" "10 \<notin> set w" "match_items items t"
        using Cons by auto
      then show ?thesis
        using 2(1) by (intro exI [of _ "r # w"] exI [of _ t]) simp
    qed
  next
    assume "\<exists>w t. r # s = w @ t \<and> 10 \<notin> set w \<and> match_items items t"
    then show "match_items (Star RAny # items) (r # s)"
      using Cons by (auto simp: Cons_eq_append_conv simp del: match_items.simps(3)) (simp_all, blast)
  qed
qed simp

lemma fits_one: "p \<noteq> 42 \<Longrightarrow> fits p w \<longleftrightarrow> (\<exists>r. w = [r] \<and> (if p = 63 then r \<noteq> 10 else r = p))"
  by (auto simp: fits_def)

lemma match_items_wildcard: "match_items (map re_of p) s \<longleftrightarrow> wildcard_match p s"
proof (induction p arbitrary: s)
  case (Cons r p)
  show ?case
  proof (cases "r = 42")
    case True
    then show ?thesis
      using Cons re_of_def [of 42] by (auto simp: wildcard_Cons star_split fits_def simp del: match_items.simps(3))
  next
    case False
    have "wildcard_match (r # p) s \<longleftrightarrow> (\<exists>x t. s = x # t \<and> (if r = 63 then x \<noteq> 10 else x = r) \<and> wildcard_match p t)"
      unfolding wildcard_Cons fits_one [OF False] by (metis append_Cons append_Nil)
    then show ?thesis
      using Cons False by (cases s) (auto simp: re_of_def [of r])
  qed
qed simp

text \<open>The expression built from a pattern, rune by rune and byte by byte.\<close>

definition esc_rune :: "nat \<Rightarrow> nat list" where
  "esc_rune r = (if r = 42 then [46, 42] else if r = 63 then [46] else if punct r then [92, r] else [r])"

definition esc_byte :: "char \<Rightarrow> string" where
  "esc_byte c = (if c = CHR ''*'' then ''.*'' else if c = CHR ''?'' then ''.''
     else if special c then [bslash, c] else [c])"

lemma punct_values: "punct 42" "punct 92" "punct 46" "punct 63"
  by (simp_all add: punct_def special_def char_of_is)

lemma esc_head: "concat (map esc_rune p) = x # t \<Longrightarrow> x \<noteq> 42"
  using punct_values by (cases p) (auto simp: esc_rune_def split: if_splits)

lemma parse_esc_rune:
  assumes "\<And>x t. q = x # t \<Longrightarrow> x \<noteq> 42"
  shows "parse_re (esc_rune r @ q) = map_option ((#) (re_of r)) (parse_re q)"
  using assms punct_values by (cases q) (auto simp: esc_rune_def re_of_def)

lemma parse_esc: "parse_re (concat (map esc_rune p)) = Some (map re_of p)"
proof (induction p)
  case (Cons r p)
  show ?case
    using Cons parse_esc_rune [of "concat (map esc_rune p)" r] esc_head by auto
qed simp

lemma ReplaceAll_step:
  assumes "d \<noteq> bslash" and "\<And>x t. s = x # t \<Longrightarrow> x \<noteq> d"
  shows "c \<noteq> bslash \<Longrightarrow> ReplaceAll (c # s) [bslash, d] new = c # ReplaceAll s [bslash, d] new"
    and "ReplaceAll (bslash # c # s) [bslash, d] new =
       (if c = d then new else [bslash, c]) @ ReplaceAll s [bslash, d] new"
  using assms by (auto simp: ReplaceAll.simps(2) split: list.splits) (cases s; auto simp: ReplaceAll.simps(2))+

definition tok_star :: "char \<Rightarrow> string" where
  "tok_star c = (if c = CHR ''*'' then ''.*'' else if special c then [bslash, c] else [c])"

lemma special_values: "special bslash" "special CHR ''*''" "special CHR ''?''" "special CHR ''.''"
  by (simp_all add: special_def)

lemma QuoteMeta_Cons: "QuoteMeta (c # p) = (if special c then [bslash, c] else [c]) @ QuoteMeta p"
  by (simp add: QuoteMeta_def)

lemma replace_star: "ReplaceAll (QuoteMeta p) [bslash, CHR ''*''] ''.*'' = concat (map tok_star p)"
proof (induction p)
  case (Cons c p)
  have "x \<noteq> CHR ''*''" if "QuoteMeta p = x # t" for x t
    using that special_values by (cases p) (auto simp: QuoteMeta_def split: if_splits)
  note step = ReplaceAll_step [where d = "CHR ''*''", OF _ this]
  have nb: "\<not> special c \<Longrightarrow> c \<noteq> bslash"
    using special_values by auto
  show ?case
    using Cons special_values nb by (cases "special c") (auto simp: QuoteMeta_Cons step tok_star_def [of c])
qed (simp add: QuoteMeta_def)

lemma replace_question: "ReplaceAll (concat (map tok_star p)) [bslash, CHR ''?''] ''.'' = concat (map esc_byte p)"
proof (induction p)
  case (Cons c p)
  have hd: "x \<noteq> CHR ''?''" if "concat (map tok_star p) = x # t" for x t
    using that special_values by (cases p) (auto simp: tok_star_def split: if_splits)
  note step = ReplaceAll_step [where d = "CHR ''?''", OF _ hd]
  have star: "ReplaceAll (CHR ''.'' # CHR ''*'' # concat (map tok_star p)) [bslash, CHR ''?''] ''.'' =
      ''.*'' @ ReplaceAll (concat (map tok_star p)) [bslash, CHR ''?''] ''.''"
    by (simp add: ReplaceAll.simps(2))
  have nb: "\<not> special c \<Longrightarrow> c \<noteq> bslash"
    using special_values by auto
  have tok: "tok_star CHR ''*'' = ''.*''" "esc_byte CHR ''*'' = ''.*''"
    by (simp_all add: tok_star_def esc_byte_def)
  show ?case
    using Cons special_values nb
    by (cases "c = CHR ''*''"; cases "special c") (auto simp: star step tok tok_star_def [of c] esc_byte_def [of c])
qed simp

lemma ascii_runes: "byte c < 128 \<Longrightarrow> runes (c # s) = (byte c, [c]) # runes s"
  by (simp add: runes.simps decode_rune_def)

lemma ToUpper_ascii: "\<forall>c \<in> set s. byte c < 128 \<Longrightarrow> ToUpper s = map upper_char s"
  by (induction s) (auto simp: ToUpper_def ascii_runes upper_rune_def)

lemma esc_byte_high: "128 \<le> byte c \<Longrightarrow> esc_byte c = [c]"
proof -
  assume "128 \<le> byte c"
  moreover have "\<forall>x \<in> set (bslash # ''.+*?()|[]{}^$''). byte x < 128"
    by simp
  ultimately have "\<not> special c"
    unfolding special_def by (metis not_le)
  then show ?thesis
    using special_values by (auto simp: esc_byte_def)
qed

lemma esc_byte_ascii:
  assumes "byte c < 128"
  shows "\<forall>x \<in> set (esc_byte c). byte x < 128" and "map byte (esc_byte c) = esc_rune (byte c)"
proof -
  show "\<forall>x \<in> set (esc_byte c). byte x < 128"
    using assms by (auto simp: esc_byte_def)
  have "c = CHR ''*'' \<longleftrightarrow> byte c = 42" "c = CHR ''?'' \<longleftrightarrow> byte c = 63"
    using of_char_eq_iff [where 'a = nat, of c "CHR ''*''"] of_char_eq_iff [where 'a = nat, of c "CHR ''?''"] by auto
  then show "map byte (esc_byte c) = esc_rune (byte c)"
    using assms by (auto simp: esc_byte_def esc_rune_def punct_def)
qed

lemma ascii_runes_append:
  "\<forall>x \<in> set a. byte x < 128 \<Longrightarrow> runes (a @ s) = map (\<lambda>x. (byte x, [x])) a @ runes s"
  by (induction a) (auto simp: ascii_runes)

lemma runes_esc_rune:
  assumes "rune_bytes r bs" and "\<not> invalid_rune (r, bs)"
  shows "\<exists>ps. runes (concat (map esc_byte bs) @ s) = ps @ runes s \<and> map fst ps = esc_rune r \<and>
    list_all (\<lambda>p. \<not> invalid_rune p) ps"
proof (cases "r < 128")
  case True
  then obtain c where c: "bs = [c]" "byte c = r"
    using assms by (auto simp: rune_bytes_def)
  then show ?thesis
    using esc_byte_ascii [of c] True
    by (intro exI [of _ "map (\<lambda>x. (byte x, [x])) (esc_byte c)"])
      (auto simp: ascii_runes_append o_def list_all_iff invalid_rune_def)
next
  case False
  then have "\<forall>x \<in> set bs. 128 \<le> byte x"
    using assms by (auto simp: rune_bytes_def)
  then have "concat (map esc_byte bs) = bs"
    by (induction bs) (auto simp: esc_byte_high)
  moreover have "esc_rune r = [r]"
    using False by (simp add: esc_rune_def punct_def)
  ultimately show ?thesis
    using assms by (intro exI [of _ "[(r, bs)]"]) (simp add: runes_append)
qed

lemma runes_esc:
  assumes "\<forall>(r, bs) \<in> set ps. rune_bytes r bs \<and> \<not> invalid_rune (r, bs)"
  shows "map fst (runes (concat (map esc_byte (concat (map snd ps))))) = concat (map esc_rune (map fst ps)) \<and>
    valid_utf8 (concat (map esc_byte (concat (map snd ps))))"
  using assms
proof (induction ps)
  case (Cons p ps)
  obtain r bs where p: "p = (r, bs)"
    by (cases p)
  obtain qs where "runes (concat (map esc_byte bs) @ concat (map esc_byte (concat (map snd ps)))) =
      qs @ runes (concat (map esc_byte (concat (map snd ps))))" "map fst qs = esc_rune r"
      "list_all (\<lambda>p. \<not> invalid_rune p) qs"
    using runes_esc_rune Cons.prems p by fastforce
  then show ?case
    using Cons p by (simp add: valid_utf8_def)
qed (simp add: valid_utf8_def)

text \<open>
  C21. The patterns of a service account mean what they say. For a pattern in valid UTF-8 the regular
  expression assembled by quoting and two replacements always compiles, and accepts a user name exactly
  when the name splits along the pattern: a star takes any piece, a question mark one character, every
  other character, including those special in regular expressions, only itself.
\<close>

theorem matchPattern_wildcard:
  assumes "valid_utf8 pattern"
  shows "matchPattern pattern str \<longleftrightarrow> wildcard_match (map fst (runes pattern)) (map fst (runes str))"
proof -
  have "\<forall>(r, bs) \<in> set (runes pattern). rune_bytes r bs \<and> \<not> invalid_rune (r, bs)"
    using assms valid_runes [OF assms] by (auto simp: valid_utf8_def list_all_iff)
  from runes_esc [OF this] show ?thesis
    by (simp add: matchPattern_def MatchString_def Let_def replace_star replace_question concat_runes parse_esc
        match_items_wildcard del: map_map)
qed

theorem matchPattern_wildcard_witness:
  "matchPattern ''team-*'' ''team-a'' \<and> \<not> matchPattern ''te.m'' ''team''"
proof -
  have valid: "valid_utf8 ''team-*''" "valid_utf8 ''te.m''"
    by (simp_all add: valid_utf8_def invalid_rune_def ascii_runes)
  have "wildcard_match (map fst (runes ''team-*'')) (map fst (runes ''team-a''))"
    by (simp add: ascii_runes match_items_wildcard [symmetric] re_of_def)
  moreover have "\<not> wildcard_match (map fst (runes ''te.m'')) (map fst (runes ''team''))"
    by (simp add: ascii_runes match_items_wildcard [symmetric] re_of_def)
  ultimately show ?thesis
    using matchPattern_wildcard [OF valid(1)] matchPattern_wildcard [OF valid(2)] by blast
qed

end
