(* ===== verification/Idle.thy ===== *)
theory Idle
  imports ResourceManager GoText "HOL-Library.Word"
begin

text \<open>
  Idle detection (\<open>internal/controller/idle_checker.go\<close>, \<open>idle_detectors.go\<close>, and the output handling
  of \<open>pod_exec_util.go\<close>): the running pod of a workspace is looked up by its labels, \<open>curl\<close> is run
  in its primary container, and the answer is compared with the idle timeout.

  Durations are 64-bit signed numbers of nanoseconds, so the conversion of the timeout from minutes
  wraps and the elapsed time saturates, as in Go. The decoders of the standard library (JSON and
  RFC 3339) are the two fields of \<open>idle_decoders\<close>; the stream to the pod is the \<open>k_exec\<close> field of the
  client, which answers with the raw standard output.
\<close>

section \<open>Definitions\<close>

record idle_decoders =
  dec_json :: "string \<Rightarrow> string res"
  dec_time :: "string \<Rightarrow> int res"

record idle_result =
  IsIdle :: bool
  ShouldRetry :: bool

definition GenerateLabels_list :: "string \<Rightarrow> (string \<times> string) list" where
  "GenerateLabels_list n = [(''app'', ''jupyter''), (LabelWorkspaceName, n), (LabelComponent, ''workspace'')]"

fun first_running :: "pod list \<Rightarrow> pod option" where
  "first_running [] = None"
| "first_running (p # ps) = (if pod_Phase p = ''Running'' then Some p else first_running ps)"

definition findWorkspacePod :: "client \<Rightarrow> workspace \<Rightarrow> (pod res) io" where
  "findWorkspacePod k workspace =
     (let labels = GenerateLabels_list (w_Name workspace) in
      on_ok (call (\<lambda>h. k_list_Pods k h (w_Namespace workspace) labels) (CListPods (w_Namespace workspace) labels))
        (Wrap ''failed to list pods'')
        (\<lambda>pods. case first_running pods of
           Some p \<Rightarrow> lift (Inr p)
         | None \<Rightarrow> lift (Inl (Msg ''no running pod found for workspace''))))"

definition ExecInPod :: "client \<Rightarrow> pod \<Rightarrow> string \<Rightarrow> string list \<Rightarrow> string \<Rightarrow> (string res) io" where
  "ExecInPod k p containerName cmd stdin =
     on_ok (call (\<lambda>h. k_exec k h (key_of (pod_meta p)) containerName cmd stdin)
              (CExec (key_of (pod_meta p)) containerName cmd stdin)) id
       (\<lambda>out. lift (Inr (TrimSpace out)))"

text \<open>\<open>time.Duration(minutes) * time.Minute\<close>: a product of 64-bit integers.\<close>

definition minutes_duration :: "int \<Rightarrow> int" where
  "minutes_duration m = sint (word_of_int m * word_of_int 60000000000 :: 64 word)"

text \<open>\<open>time.Since\<close>: the difference of two instants, saturated to the range of a duration.\<close>

definition since :: "int \<Rightarrow> int \<Rightarrow> int" where
  "since now t = max (- (2 ^ 63)) (min (2 ^ 63 - 1) (now - t))"

definition checkIdleTimeout :: "idle_decoders \<Rightarrow> int \<Rightarrow> string \<Rightarrow> idle_shutdown_spec \<Rightarrow> bool" where
  "checkIdleTimeout dec now lastActivity idleConfig =
     (case dec_time dec (ToUpper lastActivity) of
        Inl _ \<Rightarrow> False
      | Inr t \<Rightarrow> since now t > minutes_duration (is_IdleTimeoutInMinutes idleConfig))"

text \<open>The loop over the output lines: the status line is split off, empty lines are dropped.\<close>

fun parse_lines :: "string list \<Rightarrow> string \<times> string \<Rightarrow> string \<times> string" where
  "parse_lines [] (body, code) = (body, code)"
| "parse_lines (l # ls) (body, code) =
     parse_lines ls
       (if has_prefix l ''HTTP Status: '' then (body, trim_prefix l ''HTTP Status: '')
        else if l \<noteq> '''' then ((if body \<noteq> '''' then body @ [CHR 0x0A] else body) @ l, code)
        else (body, code))"

definition interpret_response ::
  "idle_decoders \<Rightarrow> int \<Rightarrow> idle_shutdown_spec \<Rightarrow> string \<Rightarrow> idle_result \<times> goerr option" where
  "interpret_response dec now idleConfig output =
     (let (responseBody, statusCode) = parse_lines (split_char (CHR 0x0A) output) ('''', '''')
      in if statusCode = ''404''
         then (\<lparr>IsIdle = False, ShouldRetry = False\<rparr>, Some (Msg ''endpoint not found''))
         else if statusCode = ''200''
         then (case dec_json dec responseBody of
             Inl e \<Rightarrow> (\<lparr>IsIdle = False, ShouldRetry = True\<rparr>, Some (Wrap ''failed to parse idle response'' e))
           | Inr lastActivity \<Rightarrow>
               if lastActivity = ''''
               then (\<lparr>IsIdle = False, ShouldRetry = True\<rparr>,
                     Some (Msg ''invalid idle response: empty lastActiveTimestamp''))
               else (\<lparr>IsIdle = checkIdleTimeout dec now lastActivity idleConfig, ShouldRetry = True\<rparr>, None))
         else (\<lparr>IsIdle = False, ShouldRetry = True\<rparr>, Some (Msg (''unexpected HTTP status: '' @ statusCode))))"

definition idle_url :: "http_get_action \<Rightarrow> string" where
  "idle_url cfg = (if hg_Scheme cfg = '''' then ''http'' else hg_Scheme cfg) @ ''://localhost:'' @
     hg_Port cfg @ hg_Path cfg"

definition idle_cmd :: "http_get_action \<Rightarrow> string list" where
  "idle_cmd cfg = [''curl'', ''-s'', ''-w'',
     [CHR 0x5C] @ ''nHTTP Status: %{http_code}'' @ [CHR 0x5C] @ ''n'', idle_url cfg]"

definition CheckIdle ::
  "client \<Rightarrow> idle_decoders \<Rightarrow> pod \<Rightarrow> idle_shutdown_spec \<Rightarrow> (idle_result \<times> goerr option) io" where
  "CheckIdle k dec p idleConfig = (case id_HTTPGet (is_Detection idleConfig) of
     None \<Rightarrow> State_Monad.return (\<lparr>IsIdle = False, ShouldRetry = False\<rparr>, Some (Msg ''httpGet config is nil''))
   | Some cfg \<Rightarrow> do {
       r \<leftarrow> ExecInPod k p ''workspace'' (idle_cmd cfg) '''';
       now \<leftarrow> time_now k;
       State_Monad.return (case r of
           Inl err \<Rightarrow>
             (\<lparr>IsIdle = False, ShouldRetry = True\<rparr>,
              Some (if contains (err_text err) ''exit code 7'' then Msg ''connection refused''
                    else Wrap ''curl execution failed'' err))
         | Inr output \<Rightarrow> interpret_response dec now idleConfig output)
     })"

text \<open>
  Commands in pods need a client of their own; the detector panics when it cannot be made. A panic ends the reconciliation, so
  it is passed on as it is.
\<close>

definition NewPodExecUtil :: "client \<Rightarrow> unit res" where
  "NewPodExecUtil k = (case k_config_err k of
     Some err \<Rightarrow> Inl (Wrap ''failed to get Kubernetes config'' err)
   | None \<Rightarrow> (case k_clientset_err k of
       Some err \<Rightarrow> Inl (Wrap ''failed to create Kubernetes clientset'' err)
     | None \<Rightarrow> Inr ()))"

definition NewHTTPGetDetector :: "client \<Rightarrow> unit res" where
  "NewHTTPGetDetector k = (case NewPodExecUtil k of
     Inl err \<Rightarrow> Inl (Panic (''Failed to create pod exec util: '' @ err_text err))
   | Inr _ \<Rightarrow> Inr ())"

definition createIdleDetectorImpl :: "client \<Rightarrow> idle_detection_spec \<Rightarrow> unit res" where
  "createIdleDetectorImpl k detection =
     (if id_HTTPGet detection \<noteq> None then NewHTTPGetDetector k else Inl (Msg ''no detection method configured''))"

definition CheckWorkspaceIdle ::
  "client \<Rightarrow> idle_decoders \<Rightarrow> workspace \<Rightarrow> idle_shutdown_spec \<Rightarrow> (idle_result \<times> goerr option) io" where
  "CheckWorkspaceIdle k dec workspace idleConfig = do {
     r \<leftarrow> findWorkspacePod k workspace;
     (case r of
        Inl err \<Rightarrow> State_Monad.return (\<lparr>IsIdle = False, ShouldRetry = True\<rparr>,
                     Some (Wrap ''failed to find workspace pod'' err))
      | Inr p \<Rightarrow>
          (case createIdleDetectorImpl k (is_Detection idleConfig) of
             Inl (Panic m) \<Rightarrow> State_Monad.return (\<lparr>IsIdle = False, ShouldRetry = False\<rparr>, Some (Panic m))
           | Inl err \<Rightarrow> State_Monad.return (\<lparr>IsIdle = False, ShouldRetry = False\<rparr>,
                 Some (Wrap ''failed to create idle detector'' err))
           | Inr _ \<Rightarrow> CheckIdle k dec p idleConfig))
   }"

section \<open>Lemmas\<close>

lemma map_of_GenerateLabels_list: "map_of (GenerateLabels_list n) = GenerateLabels n"
  by (rule ext) (simp add: GenerateLabels_list_def GenerateLabels_def)

lemma first_running_Some: "first_running ps = Some p \<Longrightarrow> p \<in> set ps \<and> pod_Phase p = ''Running''"
  by (induction ps) (auto split: if_splits)

text \<open>Within 64 bits the timeout in nanoseconds is exact.\<close>

lemma minutes_duration_exact:
  assumes "0 \<le> m" "m \<le> 153722867"
  shows "minutes_duration m = m * 60000000000"
proof -
  have "minutes_duration m = signed_take_bit 63 (m * 60000000000)"
    unfolding minutes_duration_def of_int_mult [symmetric] sint_sbintrunc' by simp
  moreover have "- (2 ^ 63) \<le> m * 60000000000" "m * 60000000000 < 2 ^ 63"
    using assms by auto
  ultimately show ?thesis
    by (simp only: signed_take_bit_int_eq_self)
qed

lemma since_exact: "\<bar>now - t\<bar> < 2 ^ 63 \<Longrightarrow> since now t = now - t"
  by (auto simp: since_def)

section \<open>Properties\<close>

lemma interpret_response_idle:
  "IsIdle (fst (interpret_response dec now cfg out)) \<longleftrightarrow>
     (\<exists>body last t. parse_lines (split_char (CHR 0x0A) out) ('''', '''') = (body, ''200'') \<and>
        dec_json dec body = Inr last \<and> last \<noteq> '''' \<and> dec_time dec (ToUpper last) = Inr t \<and>
        since now t > minutes_duration (is_IdleTimeoutInMinutes cfg))"
  by (auto simp: interpret_response_def checkIdleTimeout_def Let_def split: prod.splits sum.splits)

lemma interpret_response_idle_ok:
  "IsIdle (fst (interpret_response dec now cfg out)) \<Longrightarrow> snd (interpret_response dec now cfg out) = None"
  by (auto simp: interpret_response_def Let_def split: prod.splits sum.splits)

text \<open>
  C12. A workspace is reported idle only on evidence. For a timeout that fits a duration (at most
  153722867 minutes), if the check reports idle then it reports no error, a running pod carrying the
  workspace's labels query was found, the endpoint answered 200 with a non-empty time stamp, and more
  than the timeout has passed since that time stamp. Every failure (no pod, no detection method, a
  failed command, another status, an unreadable answer) reports not idle.
\<close>

theorem CheckWorkspaceIdle_evidence:
  assumes "IsIdle (fst (fst (run_state (CheckWorkspaceIdle k dec w cfg) h)))"
    and "0 \<le> is_IdleTimeoutInMinutes cfg" "is_IdleTimeoutInMinutes cfg \<le> 153722867"
  defines "labels \<equiv> GenerateLabels_list (w_Name w)"
  defines "h1 \<equiv> h @ [CListPods (w_Namespace w) labels]"
  shows "snd (fst (run_state (CheckWorkspaceIdle k dec w cfg) h)) = None \<and>
    (\<exists>pods p hc out body last t.
       k_list_Pods k h (w_Namespace w) labels = Inr pods \<and> p \<in> set pods \<and> pod_Phase p = ''Running'' \<and>
       id_HTTPGet (is_Detection cfg) = Some hc \<and>
       k_exec k h1 (key_of (pod_meta p)) ''workspace'' (idle_cmd hc) '''' = Inr out \<and>
       parse_lines (split_char (CHR 0x0A) (TrimSpace out)) ('''', '''') = (body, ''200'') \<and>
       dec_json dec body = Inr last \<and> last \<noteq> '''' \<and> dec_time dec (ToUpper last) = Inr t \<and>
       k_now k (h1 @ [CExec (key_of (pod_meta p)) ''workspace'' (idle_cmd hc) '''']) - t >
         is_IdleTimeoutInMinutes cfg * 60000000000)"
proof -
  from assms(1) obtain pods p hc out where
    pods: "k_list_Pods k h (w_Namespace w) labels = Inr pods"
    and p: "first_running pods = Some p" and hc: "id_HTTPGet (is_Detection cfg) = Some hc"
    and out: "k_exec k h1 (key_of (pod_meta p)) ''workspace'' (idle_cmd hc) '''' = Inr out"
    and run: "fst (run_state (CheckWorkspaceIdle k dec w cfg) h) = interpret_response dec
        (k_now k (h1 @ [CExec (key_of (pod_meta p)) ''workspace'' (idle_cmd hc) ''''])) cfg (TrimSpace out)"
    by (auto simp: CheckWorkspaceIdle_def findWorkspacePod_def CheckIdle_def ExecInPod_def Let_def
        createIdleDetectorImpl_def NewHTTPGetDetector_def h1_def labels_def split: sum.splits option.splits if_splits)
  let ?now = "k_now k (h1 @ [CExec (key_of (pod_meta p)) ''workspace'' (idle_cmd hc) ''''])"
  from assms(1) run have idle: "IsIdle (fst (interpret_response dec ?now cfg (TrimSpace out)))"
    by simp
  then obtain body last t where
    r: "parse_lines (split_char (CHR 0x0A) (TrimSpace out)) ('''', '''') = (body, ''200'')"
    "dec_json dec body = Inr last" "last \<noteq> ''''" "dec_time dec (ToUpper last) = Inr t"
    and late: "since ?now t > minutes_duration (is_IdleTimeoutInMinutes cfg)"
    unfolding interpret_response_idle by blast
  from late have "?now - t > is_IdleTimeoutInMinutes cfg * 60000000000"
    using assms(2,3) by (simp add: minutes_duration_exact since_def)
  then show ?thesis
    using pods hc out r first_running_Some [OF p] interpret_response_idle_ok [OF idle] run by metis
qed

text \<open>A server with one running pod whose endpoint last saw activity a day before.\<close>

definition idle_server :: client where
  "idle_server = empty_server\<lparr>
     k_list_Pods := \<lambda>_ _ _. Inr [\<lparr>pod_meta = empty_meta, pod_Phase = ''Running'',
       pod_Conditions = [(''Ready'', CTrue)], pod_ContainerStatuses = []\<rparr>],
     k_exec := \<lambda>_ _ _ _ _. Inr (''{}'' @ [CHR 0x0A] @ ''HTTP Status: 200''),
     k_now := \<lambda>_. 86400000000000\<rparr>"

definition sample_decoders :: idle_decoders where
  "sample_decoders = \<lparr>dec_json = \<lambda>_. Inr ''t'', dec_time = \<lambda>_. Inr 0\<rparr>"

definition sample_idle :: idle_shutdown_spec where
  "sample_idle = \<lparr>is_Enabled = True, is_IdleTimeoutInMinutes = 30,
     is_Detection = \<lparr>id_HTTPGet = Some \<lparr>hg_Path = ''/api/idle'', hg_Port = ''8888'', hg_Scheme = ''''\<rparr>\<rparr>\<rparr>"

lemma idle_server_idle:
  "IsIdle (fst (fst (run_state (CheckWorkspaceIdle idle_server sample_decoders sample_workspace sample_idle) h)))"
  by (simp add: CheckWorkspaceIdle_def findWorkspacePod_def createIdleDetectorImpl_def NewHTTPGetDetector_def NewPodExecUtil_def
      CheckIdle_def ExecInPod_def Let_def idle_server_def empty_server_def sample_idle_def sample_decoders_def interpret_response_def
      TrimSpace_def IsSpace_def ascii_runes trim_prefix_def checkIdleTimeout_def minutes_duration_exact since_def)

theorem CheckWorkspaceIdle_evidence_witness:
  "snd (fst (run_state (CheckWorkspaceIdle idle_server sample_decoders sample_workspace sample_idle) [])) = None"
  using CheckWorkspaceIdle_evidence [OF idle_server_idle [of "[]"]]
  by (simp add: sample_idle_def)

text \<open>
  The timeout is converted by a 64-bit product: 200 million minutes become a negative duration, and a
  workspace with activity in the very last nanosecond counts as idle.
\<close>

theorem idle_timeout_overflow: "minutes_duration 200000000 < 0"
  by (simp add: minutes_duration_def)

end
