(* ===== verification/StateMachine.thy ===== *)
theory StateMachine
  imports Idle
begin

text \<open>
  The state machine of a workspace (\<open>internal/controller/state_machine.go\<close>,
  \<open>state_machine_access.go\<close>): bringing a workspace to its desired status, idle shutdown, and deletion.

  A \<open>ctrl.Result\<close> with its error is the pair of the requeue delay in milliseconds (0 for none) and
  the optional error. Every operation returns the workspace as it leaves it.
\<close>

section \<open>Definitions\<close>

type_synonym outcome = "int \<times> goerr option"

abbreviation DesiredStateRunning :: string where "DesiredStateRunning \<equiv> ''Running''"
abbreviation DesiredStateStopped :: string where "DesiredStateStopped \<equiv> ''Stopped''"
abbreviation DefaultDesiredStatus :: string where "DefaultDesiredStatus \<equiv> ''Running''"
abbreviation MinimalRequeueDelay :: int where "MinimalRequeueDelay \<equiv> 10"
abbreviation PollRequeueDelay :: int where "PollRequeueDelay \<equiv> 200"
abbreviation LongRequeueDelay :: int where "LongRequeueDelay \<equiv> 60000"
abbreviation IdleCheckInterval :: int where "IdleCheckInterval \<equiv> 300000"
abbreviation WorkspaceFinalizerName :: string where
  "WorkspaceFinalizerName \<equiv> ''workspace.jupyter.org/workspace-protection''"

definition getDesiredStatus :: "workspace \<Rightarrow> string" where
  "getDesiredStatus workspace =
     (if ws_DesiredStatus (w_Spec workspace) = '''' then DefaultDesiredStatus
      else ws_DesiredStatus (w_Spec workspace))"

text \<open>Recording an error in the status; a failure to record is only logged.\<close>

definition report_error ::
  "client \<Rightarrow> workspace \<Rightarrow> string \<Rightarrow> goerr \<Rightarrow> workspace_status \<Rightarrow> (workspace \<times> outcome) io" where
  "report_error k workspace reason err snapshot = do {
     (w, _) \<leftarrow> UpdateErrorStatus k workspace reason (err_text err) snapshot;
     State_Monad.return (w, 0, Some err)
   }"

definition clear_access :: "workspace \<Rightarrow> workspace" where
  "clear_access w = w\<lparr>w_Status := (w_Status w)\<lparr>st_AccessURL := '''', st_AccessResourceSelector := ''''\<rparr>\<rparr>"

definition ReconcileAccessForDesiredStoppedStatus :: "client \<Rightarrow> workspace \<Rightarrow> (workspace \<times> goerr option) io" where
  "ReconcileAccessForDesiredStoppedStatus k workspace =
     EnsureAccessResourcesDeleted k (clear_access workspace)"

definition ReconcileAccessForDesiredRunningStatus ::
  "client \<Rightarrow> workspace \<Rightarrow> service \<Rightarrow> access_strategy option \<Rightarrow> (workspace \<times> goerr option) io" where
  "ReconcileAccessForDesiredRunningStatus k workspace service accessStrategy =
     (if ws_AccessStrategy (w_Spec workspace) \<noteq> None
      then (case accessStrategy of
          None \<Rightarrow> State_Monad.return (workspace, Some (Panic ''nil pointer dereference''))
        | Some a \<Rightarrow> do {
            r \<leftarrow> EnsureAccessResourcesExist k workspace a (Some service);
            State_Monad.return (case r of
                (w, Some e) \<Rightarrow> (w, Some e)
              | (w, None) \<Rightarrow> (case ResolveAccessURL k w a (Some service) of
                  Inl e \<Rightarrow> (w, Some e)
                | Inr url \<Rightarrow>
                    (w\<lparr>w_Status := (w_Status w)\<lparr>st_AccessURL := url,
                        st_AccessResourceSelector := ResolveAccessResourceSelector w a\<rparr>\<rparr>, None)))
          })
      else EnsureAccessResourcesDeleted k (clear_access workspace))"

definition reconcileDesiredStoppedStatus ::
  "client \<Rightarrow> workspace \<Rightarrow> workspace_status \<Rightarrow> (workspace \<times> outcome) io" where
  "reconcileDesiredStoppedStatus k workspace snapshot = do {
     (w, accessError) \<leftarrow> ReconcileAccessForDesiredStoppedStatus k workspace;
     d \<leftarrow> EnsureDeploymentDeleted k w;
     (case d of
        Inl e \<Rightarrow> report_error k w ReasonDeploymentError (Wrap ''failed to get deployment'' e) snapshot
      | Inr deployment \<Rightarrow> do {
          s \<leftarrow> EnsureServiceDeleted k w;
          (case s of
             Inl e \<Rightarrow> report_error k w ReasonServiceError (Wrap ''failed to get service'' e) snapshot
           | Inr service \<Rightarrow>
               let deploymentDeleted = IsDeploymentMissingOrDeleting deployment;
                   serviceDeleted = IsServiceMissingOrDeleting service;
                   accessResourcesDeleted = AreAccessResourcesDeleted w;
                   readiness = \<lparr>computeStopped = deploymentDeleted, serviceStopped = serviceDeleted,
                                accessResourcesStopped = accessResourcesDeleted\<rparr>
               in if deploymentDeleted \<and> serviceDeleted
                  then (case accessError of
                      Some e \<Rightarrow> report_error k w ReasonServiceError e snapshot
                    | None \<Rightarrow>
                        if \<not> accessResourcesDeleted
                        then do {
                          (w', err) \<leftarrow> UpdateStoppingStatus k w readiness snapshot;
                          State_Monad.return (w', (case err of Some e \<Rightarrow> (0, Some e) | None \<Rightarrow> (PollRequeueDelay, None)))
                        }
                        else do {
                          Recorder_Event (key_of (w_meta w)) ''Normal'' ''WorkspaceStopped''
                            (if w_Annotations w \<noteq> None \<and>
                                map_get (w_Annotations w) PreemptionReasonAnnotation = PreemptedReason
                             then PreemptedReason else ''Workspace has been stopped'');
                          (w', err) \<leftarrow> UpdateStoppedStatus k w snapshot;
                          State_Monad.return (w', 0, err)
                        })
                  else if deploymentDeleted \<or> serviceDeleted
                  then do {
                    (w', err) \<leftarrow> UpdateStoppingStatus k w readiness snapshot;
                    State_Monad.return (w', (case err of Some e \<Rightarrow> (0, Some e) | None \<Rightarrow> (PollRequeueDelay, None)))
                  }
                  else report_error k w ReasonDeploymentError
                    (Msg ''unexpected state: both deployment and service should be in deletion process'') snapshot)
        })
   }"

fun ready_condition_loop :: "(string \<times> cond_status) list \<Rightarrow> bool" where
  "ready_condition_loop [] = False"
| "ready_condition_loop ((t, s) # cs) = (if t = ''Ready'' \<and> s = CTrue then True else ready_condition_loop cs)"

fun ready_pod_loop :: "pod list \<Rightarrow> bool" where
  "ready_pod_loop [] = False"
| "ready_pod_loop (p # ps) =
     (if pod_Phase p = ''Running'' \<and> ready_condition_loop (pod_Conditions p) then True else ready_pod_loop ps)"

definition isAtLeastOneWorkspacePodReady :: "client \<Rightarrow> workspace \<Rightarrow> (bool res) io" where
  "isAtLeastOneWorkspacePodReady k workspace =
     (let labels = GenerateLabels_list (w_Name workspace) in
      on_ok (call (\<lambda>h. k_list_Pods k h (w_Namespace workspace) labels) (CListPods (w_Namespace workspace) labels))
        (Wrap ''failed to list pods'') (\<lambda>pods. lift (Inr (ready_pod_loop pods))))"

definition stopWorkspaceDueToIdle ::
  "client \<Rightarrow> workspace \<Rightarrow> idle_shutdown_spec \<Rightarrow> (workspace \<times> outcome) io" where
  "stopWorkspaceDueToIdle k workspace idleConfig = do {
     Recorder_Event (key_of (w_meta workspace)) ''Normal'' ''IdleShutdown''
       (''Stopping workspace due to idle timeout of '' @ int_text (is_IdleTimeoutInMinutes idleConfig) @ '' minutes'');
     let w = workspace\<lparr>w_Spec := (w_Spec workspace)\<lparr>ws_DesiredStatus := DesiredStateStopped\<rparr>\<rparr>;
     r \<leftarrow> call (\<lambda>h. k_update_Workspace k h w) (CUpdateWorkspace w);
     State_Monad.return (case r of Inl e \<Rightarrow> (w, 0, Some e) | Inr w' \<Rightarrow> (w', MinimalRequeueDelay, None))
   }"

definition handleIdleShutdownForRunningWorkspace ::
  "client \<Rightarrow> idle_decoders \<Rightarrow> workspace \<Rightarrow> (workspace \<times> outcome) io" where
  "handleIdleShutdownForRunningWorkspace k dec workspace = (case ws_IdleShutdown (w_Spec workspace) of
     None \<Rightarrow> State_Monad.return (workspace, 0, None)
   | Some idleConfig \<Rightarrow>
       if \<not> is_Enabled idleConfig then State_Monad.return (workspace, 0, None)
       else do {
         ready \<leftarrow> isAtLeastOneWorkspacePodReady k workspace;
         (case ready of
            Inl _ \<Rightarrow> State_Monad.return (workspace, IdleCheckInterval, None)
          | Inr podsReady \<Rightarrow>
              if \<not> podsReady then State_Monad.return (workspace, IdleCheckInterval, None)
              else do {
                (result, err) \<leftarrow> CheckWorkspaceIdle k dec workspace idleConfig;
                (case err of
                   Some (Panic m) \<Rightarrow> State_Monad.return (workspace, 0, Some (Panic m))
                 | Some _ \<Rightarrow> State_Monad.return (workspace, if \<not> ShouldRetry result then 0 else IdleCheckInterval, None)
                 | None \<Rightarrow> if IsIdle result then stopWorkspaceDueToIdle k workspace idleConfig
                           else State_Monad.return (workspace, IdleCheckInterval, None))
              })
       })"

definition reconcileDesiredRunningStatus ::
  "client \<Rightarrow> controller_options \<Rightarrow> idle_decoders \<Rightarrow> workspace \<Rightarrow> workspace_status \<Rightarrow> access_strategy option
     \<Rightarrow> (workspace \<times> outcome) io" where
  "reconcileDesiredRunningStatus k options dec workspace snapshot accessStrategy = do {
     p \<leftarrow> EnsurePVCExists k workspace;
     (case p of
        Inl e \<Rightarrow> report_error k workspace ReasonDeploymentError (Wrap ''failed to ensure PVC exists'' e) snapshot
      | Inr _ \<Rightarrow> do {
          d \<leftarrow> EnsureDeploymentExists k options workspace accessStrategy;
          (case d of
             Inl e \<Rightarrow> report_error k workspace ReasonDeploymentError
                        (Wrap ''failed to ensure deployment exists'' e) snapshot
           | Inr deployment \<Rightarrow> do {
               s \<leftarrow> EnsureServiceExists k workspace;
               (case s of
                  Inl e \<Rightarrow> report_error k workspace ReasonServiceError
                             (Wrap ''failed to ensure service exists'' e) snapshot
                | Inr service \<Rightarrow> (case IsDeploymentAvailable (Some deployment) of
                    Inl panic \<Rightarrow> State_Monad.return (workspace, 0, Some panic)
                  | Inr deploymentReady \<Rightarrow>
                      let serviceReady = IsServiceAvailable (Some service)
                      in if deploymentReady \<and> serviceReady
                         then do {
                           (w, accErr) \<leftarrow> ReconcileAccessForDesiredRunningStatus k workspace service accessStrategy;
                           (case accErr of
                              Some e \<Rightarrow> State_Monad.return (w, 0, Some e)
                            | None \<Rightarrow> do {
                                Recorder_Event (key_of (w_meta w)) ''Normal'' ''WorkspaceRunning''
                                  ''Workspace is now running'';
                                (w', err) \<leftarrow> UpdateRunningStatus k w snapshot;
                                (case err of
                                   Some e \<Rightarrow> State_Monad.return (w', 0, Some e)
                                 | None \<Rightarrow> handleIdleShutdownForRunningWorkspace k dec w')
                              })
                         }
                         else do {
                           let w = workspace\<lparr>w_Status := (w_Status workspace)
                                     \<lparr>st_DeploymentName := om_Name (d_meta deployment),
                                      st_ServiceName := om_Name (s_meta service)\<rparr>\<rparr>;
                           (w', err) \<leftarrow> UpdateStartingStatus k w
                             \<lparr>computeReady = deploymentReady, serviceReady = serviceReady,
                              accessResourcesReady = False\<rparr> snapshot;
                           State_Monad.return (w', (case err of Some e \<Rightarrow> (0, Some e) | None \<Rightarrow> (PollRequeueDelay, None)))
                         }))
             })
        })
   }"

definition ReconcileDesiredState ::
  "client \<Rightarrow> controller_options \<Rightarrow> idle_decoders \<Rightarrow> workspace \<Rightarrow> access_strategy option \<Rightarrow> (workspace \<times> outcome) io" where
  "ReconcileDesiredState k options dec workspace accessStrategy =
     (let desiredStatus = getDesiredStatus workspace;
          snapshot = w_Status workspace
      in if desiredStatus = DesiredStateStopped then reconcileDesiredStoppedStatus k workspace snapshot
         else if desiredStatus = DesiredStateRunning
         then reconcileDesiredRunningStatus k options dec workspace snapshot accessStrategy
         else do {
           let err = Msg (''unknown desired status: '' @ desiredStatus);
           (w, statusErr) \<leftarrow> UpdateErrorStatus k workspace ReasonDeploymentError (err_text err) snapshot;
           State_Monad.return (w, (case statusErr of Some _ \<Rightarrow> 0 | None \<Rightarrow> LongRequeueDelay), Some err)
         })"

definition ReconcileDeletion :: "client \<Rightarrow> workspace \<Rightarrow> (workspace \<times> outcome) io" where
  "ReconcileDeletion k workspace =
     (if \<not> contains_finalizer (om_Finalizers (w_meta workspace)) WorkspaceFinalizerName
      then State_Monad.return (workspace, 0, None)
      else do {
        (w, err) \<leftarrow> UpdateDeletingStatus k workspace;
        (case err of
           Some e \<Rightarrow> State_Monad.return (w, 0, Some e)
         | None \<Rightarrow> do {
             (w1, r) \<leftarrow> CleanupAllResources k w;
             (case r of
                Inl e \<Rightarrow> State_Monad.return (w1, 0, Some e)
              | Inr allDeleted \<Rightarrow>
                  if \<not> allDeleted then State_Monad.return (w1, PollRequeueDelay, None)
                  else do {
                    let w2 = w1\<lparr>w_meta := (w_meta w1)\<lparr>om_Finalizers :=
                               remove_finalizer (om_Finalizers (w_meta w1)) WorkspaceFinalizerName\<rparr>\<rparr>;
                    u \<leftarrow> call (\<lambda>h. k_update_Workspace k h w2) (CUpdateWorkspace w2);
                    State_Monad.return (case u of Inl e \<Rightarrow> (w2, 0, Some e) | Inr w3 \<Rightarrow> (w3, 0, None))
                  })
           })
      })"

section \<open>Which calls an operation may issue\<close>

lemma issues_only_prod [intro]:
  "(\<And>a b. x = (a, b) \<Longrightarrow> issues_only P (f a b)) \<Longrightarrow> issues_only P (case x of (a, b) \<Rightarrow> f a b)"
  by (cases x) auto

lemma issues_only_goerr [intro]:
  "(\<And>m. x = Msg m \<Longrightarrow> issues_only P (a m)) \<Longrightarrow> (\<And>r m. x = ApiErr r m \<Longrightarrow> issues_only P (b r m)) \<Longrightarrow>
   (\<And>m e. x = Wrap m e \<Longrightarrow> issues_only P (c m e)) \<Longrightarrow> (\<And>m. x = Panic m \<Longrightarrow> issues_only P (d m)) \<Longrightarrow>
   issues_only P (case x of Msg m \<Rightarrow> a m | ApiErr r m \<Rightarrow> b r m | Wrap m e \<Rightarrow> c m e | Panic m \<Rightarrow> d m)"
  by (cases x) auto

lemmas issues_intros = issues_only_goerr issues_only_bind issues_only_call issues_only_on_ok issues_only_sum
  issues_only_option issues_only_if issues_only_prod issues_only_event

section \<open>Deletion\<close>

fun writes_workspace :: "api_call \<Rightarrow> bool" where
  "writes_workspace (CUpdateWorkspace _) = True"
| "writes_workspace _ = False"

lemma cleanup_no_write: "issues_only (Not \<circ> writes_workspace) (CleanupAllResources k w)"
proof -
  have del: "issues_only (Not \<circ> writes_workspace) (ensureAccessResourceDeleted k r)" for r
    by (auto simp: ensureAccessResourceDeleted_def Let_def intro!: issues_intros)
  have "issues_only (Not \<circ> writes_workspace) (delete_access_loop k rs acc)" for rs acc
    by (induction rs arbitrary: acc) (auto intro!: issues_intros del)
  then show ?thesis
    by (auto simp: CleanupAllResources_def EnsureAccessResourcesDeleted_def EnsureDeploymentDeleted_def
        EnsureServiceDeleted_def EnsurePVCDeleted_def AreAllResourcesDeleted_def deletion_defs
        intro!: issues_intros)
qed

text \<open>What the code relies on of the API: a status write answers with the same object.\<close>

definition status_keeps_key :: "client \<Rightarrow> bool" where
  "status_keeps_key k \<longleftrightarrow> (\<forall>h w w'. k_status_Workspace k h w = Inr w' \<longrightarrow> key_of (w_meta w') = key_of (w_meta w))"

lemma run_UpdateDeletingStatus:
  "\<exists>s. w_meta s = w_meta w \<and>
     run_state (UpdateDeletingStatus k w) h =
       ((case k_status_Workspace k h s of Inl e \<Rightarrow> (s, Some e) | Inr w' \<Rightarrow> (w', None)), h @ [CStatusUpdateWorkspace s])"
  by (simp add: UpdateDeletingStatus_def Let_def)

lemma keys_of_key:
  "key_of (w_meta a) = key_of (w_meta b) \<Longrightarrow>
     deployment_key a = deployment_key b \<and> service_key a = service_key b \<and> pvc_key a = pvc_key b"
  by (simp add: deployment_key_def service_key_def pvc_key_def key_of_def)

text \<open>The three reads at the end of the history found nothing.\<close>

definition all_gone :: "client \<Rightarrow> workspace \<Rightarrow> hist \<Rightarrow> bool" where
  "all_gone k w h \<longleftrightarrow> (\<exists>h1. h = h1 @ [CGetDeployment (deployment_key w), CGetService (service_key w), CGetPVC (pvc_key w)] \<and>
     answers_not_found (k_get_Deployment k h1 (deployment_key w)) \<and>
     answers_not_found (k_get_Service k (h1 @ [CGetDeployment (deployment_key w)]) (service_key w)) \<and>
     answers_not_found (k_get_PVC k (h1 @ [CGetDeployment (deployment_key w), CGetService (service_key w)]) (pvc_key w)))"

lemma cleanup_all_gone:
  assumes "run_state (CleanupAllResources k w) h = ((w', Inr True), h')"
  shows "all_gone k w h' \<and> st_AccessResources (w_Status w') = [] \<and> w_meta w' = w_meta w"
proof -
  obtain h1 e where 1: "run_state (AreAllResourcesDeleted k w') h1 = (True, h')"
    and 2: "fst (run_state (EnsureAccessResourcesDeleted k w) h) = (w', e)"
    by (rule CleanupAllResources_True [OF assms])
  have m: "w_meta w' = w_meta w"
    using EnsureAccessResourcesDeleted_keeps [OF 2] by simp
  then show ?thesis
    using AreAllResourcesDeleted_True [OF 1] keys_of_key [of w' w] by (auto simp: all_gone_def)
qed

lemma ReconcileDeletion_steps:
  assumes "run_state (ReconcileDeletion k w) h = (r, h')"
  obtains (untouched) "h' = h"
  | (status) s where "h' = h @ [CStatusUpdateWorkspace s]"
  | (cleanup) s w1 w2 c where "k_status_Workspace k h s = Inr w1" "w_meta s = w_meta w"
      "run_state (CleanupAllResources k w1) (h @ [CStatusUpdateWorkspace s]) = ((w2, c), h')" "c \<noteq> Inr True"
  | (removed) s w1 w2 h1 where "k_status_Workspace k h s = Inr w1" "w_meta s = w_meta w"
      "run_state (CleanupAllResources k w1) (h @ [CStatusUpdateWorkspace s]) = ((w2, Inr True), h1)"
      "h' = h1 @ [CUpdateWorkspace (w2\<lparr>w_meta := (w_meta w2)\<lparr>om_Finalizers :=
         remove_finalizer (om_Finalizers (w_meta w2)) WorkspaceFinalizerName\<rparr>\<rparr>)]"
proof -
  obtain s where s: "w_meta s = w_meta w"
    "run_state (UpdateDeletingStatus k w) h =
       ((case k_status_Workspace k h s of Inl e \<Rightarrow> (s, Some e) | Inr w' \<Rightarrow> (w', None)), h @ [CStatusUpdateWorkspace s])"
    using run_UpdateDeletingStatus by metis
  show ?thesis
    using assms s that
    by (auto simp: ReconcileDeletion_def Let_def split: if_splits sum.splits prod.splits)
qed

text \<open>
  C7. The protection finalizer is removed only after everything is gone. If a run of the deletion
  operation writes the workspace, that write is its last call, it is the first one to drop the
  finalizer, the three calls before it are reads of the deployment, the service and the claim that
  the server answered with NotFound, and the workspace written lists no access resource. (A status
  write is assumed to answer with an object of the same name and namespace.)
\<close>

theorem ReconcileDeletion_finalizer_last:
  assumes "run_state (ReconcileDeletion k w) h = (r, h @ new)"
    and "CUpdateWorkspace v \<in> set new" and "status_keeps_key k"
  shows "\<exists>h1. h @ new = h1 @ [CUpdateWorkspace v] \<and> all_gone k w h1 \<and>
     st_AccessResources (w_Status v) = [] \<and>
     \<not> contains_finalizer (om_Finalizers (w_meta v)) WorkspaceFinalizerName"
  using assms(1)
proof (cases rule: ReconcileDeletion_steps)
  case (cleanup s w1 w2 c)
  obtain n2 where "h @ new = (h @ [CStatusUpdateWorkspace s]) @ n2" "list_all (Not \<circ> writes_workspace) n2"
    using issues_only_run [OF cleanup_no_write cleanup(3)] by blast
  then show ?thesis
    using assms(2) by (auto simp: list_all_iff)
next
  case (removed s w1 w2 h1)
  obtain n2 where n2: "h1 = (h @ [CStatusUpdateWorkspace s]) @ n2" "list_all (Not \<circ> writes_workspace) n2"
    using issues_only_run [OF cleanup_no_write removed(3)] by blast
  let ?v = "w2\<lparr>w_meta := (w_meta w2)\<lparr>om_Finalizers :=
         remove_finalizer (om_Finalizers (w_meta w2)) WorkspaceFinalizerName\<rparr>\<rparr>"
  have new: "new = [CStatusUpdateWorkspace s] @ n2 @ [CUpdateWorkspace ?v]"
    using removed(4) n2(1) by simp
  then have v: "v = ?v"
    using assms(2) n2(2) by (auto simp: list_all_iff)
  have "key_of (w_meta w1) = key_of (w_meta w)"
    using assms(3) removed(1,2) by (metis status_keeps_key_def)
  then have "all_gone k w1 h1 = all_gone k w h1"
    using keys_of_key [of w1 w] by (simp add: all_gone_def)
  then show ?thesis
    using cleanup_all_gone [OF removed(3)] removed(4) v by auto
qed (use assms(2) in auto)

text \<open>A workspace under deletion that holds the finalizer.\<close>

definition deleting_workspace :: workspace where
  "deleting_workspace = sample_workspace\<lparr>w_meta := (w_meta sample_workspace)
     \<lparr>om_Finalizers := [WorkspaceFinalizerName], om_DeletionTimestamp := Some 1\<rparr>\<rparr>"

theorem ReconcileDeletion_finalizer_last_witness:
  "\<exists>v h1. snd (run_state (ReconcileDeletion empty_server deleting_workspace) []) = h1 @ [CUpdateWorkspace v] \<and>
     all_gone empty_server deleting_workspace h1"
proof -
  let ?run = "run_state (ReconcileDeletion empty_server deleting_workspace) []"
  have "\<exists>v. CUpdateWorkspace v \<in> set (snd ?run)"
    by (simp add: ReconcileDeletion_def deleting_workspace_def contains_finalizer_def UpdateDeletingStatus_def
        CleanupAllResources_def EnsureAccessResourcesDeleted_def EnsureDeploymentDeleted_def
        EnsureServiceDeleted_def EnsurePVCDeleted_def AreAllResourcesDeleted_def AreAccessResourcesDeleted_def
        deletion_defs empty_server_def sample_workspace_def empty_status_def empty_meta_def not_found_def)
  then obtain v where v: "CUpdateWorkspace v \<in> set (snd ?run)" ..
  have r: "?run = (fst ?run, [] @ snd ?run)"
    by simp
  have k: "status_keeps_key empty_server"
    by (simp add: status_keeps_key_def empty_server_def)
  from ReconcileDeletion_finalizer_last [OF r v k] show ?thesis
    by auto
qed

section \<open>Stopping\<close>

text \<open>The server's view of an object when the deletion operation reads it.\<close>

definition gone_or_deleting :: "('o \<Rightarrow> object_meta) \<Rightarrow> 'o res \<Rightarrow> bool" where
  "gone_or_deleting meta r = (case r of Inl e \<Rightarrow> IsNotFound e | Inr x \<Rightarrow> is_deleting (meta x))"

lemma EnsureDeploymentDeleted_cases:
  assumes "run_state (EnsureDeploymentDeleted k w) h = (Inr d, h')"
  shows "IsDeploymentMissingOrDeleting d = gone_or_deleting d_meta (k_get_Deployment k h (deployment_key w))"
  using assms
  by (auto simp: EnsureDeploymentDeleted_def deletion_defs gone_or_deleting_def deployment_key_def
      split: sum.splits option.splits if_splits)

lemma EnsureServiceDeleted_cases:
  assumes "run_state (EnsureServiceDeleted k w) h = (Inr s, h')"
  shows "IsServiceMissingOrDeleting s = gone_or_deleting s_meta (k_get_Service k h (service_key w))"
  using assms
  by (auto simp: EnsureServiceDeleted_def deletion_defs gone_or_deleting_def service_key_def
      split: sum.splits option.splits if_splits)

text \<open>
  C8. A workspace is reported stopped only when its compute is. If reconciling a workspace to Stopped
  ends without an error and without a requeue, then the deployment and the service were reported
  missing or under deletion when they were read, the status no longer lists an access resource, and
  the last call wrote a status with Stopped True, Available False and Progressing False and with the
  deployment and service names cleared.
\<close>

theorem stopped_only_when_gone:
  assumes "run_state (reconcileDesiredStoppedStatus k w snap) h = ((w', 0, None), h')"
  shows "\<exists>w1 h1 h2 h3 s.
     run_state (ReconcileAccessForDesiredStoppedStatus k w) h = ((w1, None), h1) \<and>
     gone_or_deleting d_meta (k_get_Deployment k h1 (deployment_key w1)) \<and>
     h2 = snd (run_state (EnsureDeploymentDeleted k w1) h1) \<and>
     gone_or_deleting s_meta (k_get_Service k h2 (service_key w1)) \<and>
     st_AccessResources (w_Status s) = [] \<and>
     h' = h3 @ [CStatusUpdateWorkspace s] \<and> shows_phase CFalse CFalse CTrue w1 s \<and>
     st_DeploymentName (w_Status s) = '''' \<and> st_ServiceName (w_Status s) = ''''"
proof -
  obtain w1 e1 h1 where acc: "run_state (ReconcileAccessForDesiredStoppedStatus k w) h = ((w1, e1), h1)"
    by (metis surj_pair)
  from assms acc obtain d h2 s0 h3 where
    d: "run_state (EnsureDeploymentDeleted k w1) h1 = (Inr d, h2)"
    and s0: "run_state (EnsureServiceDeleted k w1) h2 = (Inr s0, h3)"
    and md: "IsDeploymentMissingOrDeleting d" and ms: "IsServiceMissingOrDeleting s0"
    and e1: "e1 = None" and ar: "AreAccessResourcesDeleted w1"
    and fin: "\<exists>ev. run_state (UpdateStoppedStatus k w1 snap) (h3 @ [ev]) = ((w', None), h')"
    by (auto simp: reconcileDesiredStoppedStatus_def report_error_def Let_def
        split: sum.splits prod.splits if_splits option.splits)
  from fin obtain ev where "run_state (UpdateStoppedStatus k w1 snap) (h3 @ [ev]) = ((w', None), h')" ..
  then obtain s where s: "h' = (h3 @ [ev]) @ [CStatusUpdateWorkspace s]"
    and sdef: "s = (let v = sent_status w1 (stopped_conditions w1 (k_now k (h3 @ [ev]))) in
       v\<lparr>w_Status := (w_Status v)\<lparr>st_DeploymentName := '''', st_ServiceName := ''''\<rparr>\<rparr>)"
    unfolding run_UpdateStoppedStatus Let_def by (simp add: Let_def)
  have "shows_phase CFalse CFalse CTrue w1 s"
    unfolding sdef Let_def shows_phase_names
    by (rule shows_phase_sent) (rule stopped.phase_conditions_axioms)
  moreover have "st_AccessResources (w_Status s) = []" "st_DeploymentName (w_Status s) = ''''"
    "st_ServiceName (w_Status s) = ''''"
    using ar by (simp_all add: sdef Let_def sent_status_def AreAccessResourcesDeleted_def)
  ultimately show ?thesis
    using acc e1 s EnsureDeploymentDeleted_cases [OF d] EnsureServiceDeleted_cases [OF s0] md ms d
    by (metis snd_conv)
qed

text \<open>A server on which nothing is left: the stop completes at once.\<close>

theorem stopped_only_when_gone_witness:
  "\<exists>w' h' s h3. run_state (reconcileDesiredStoppedStatus empty_server sample_workspace empty_status) [] = ((w', 0, None), h') \<and>
     h' = h3 @ [CStatusUpdateWorkspace s] \<and> st_DeploymentName (w_Status s) = ''''"
proof -
  have "\<exists>w' h'. run_state (reconcileDesiredStoppedStatus empty_server sample_workspace empty_status) [] = ((w', 0, None), h')"
    by (simp add: reconcileDesiredStoppedStatus_def ReconcileAccessForDesiredStoppedStatus_def clear_access_def
        EnsureAccessResourcesDeleted_def EnsureDeploymentDeleted_def EnsureServiceDeleted_def deletion_defs
        AreAccessResourcesDeleted_def run_UpdateStoppedStatus status_answer_def
        empty_server_def sample_workspace_def empty_status_def not_found_def)
  then obtain w' h' where r: "run_state (reconcileDesiredStoppedStatus empty_server sample_workspace empty_status) [] = ((w', 0, None), h')"
    by blast
  from stopped_only_when_gone [OF r] r show ?thesis
    by blast
qed

lemma access_stopped_none:
  "st_AccessResources (w_Status w) = [] \<Longrightarrow>
     run_state (ReconcileAccessForDesiredStoppedStatus k w) h = ((clear_access w, None), h)"
  by (simp add: ReconcileAccessForDesiredStoppedStatus_def EnsureAccessResourcesDeleted_def clear_access_def)

lemma clear_access_keys [simp]:
  "deployment_key (clear_access w) = deployment_key w" "service_key (clear_access w) = service_key w"
  "st_AccessResources (w_Status (clear_access w)) = st_AccessResources (w_Status w)"
  by (simp_all add: clear_access_def deployment_key_def service_key_def)

text \<open>The calls of the first stop of a running workspace without access resources.\<close>

definition first_stop_calls :: "workspace \<Rightarrow> api_call list" where
  "first_stop_calls w = [CGetDeployment (deployment_key w), CDeleteDeployment (deployment_key w),
     CGetService (service_key w), CDeleteService (service_key w)]"

text \<open>What the server says while both objects are live and accepts their deletion.\<close>

definition both_live :: "client \<Rightarrow> workspace \<Rightarrow> hist \<Rightarrow> bool" where
  "both_live k w h \<longleftrightarrow> (\<exists>d s. k_get_Deployment k h (deployment_key w) = Inr d \<and> \<not> is_deleting (d_meta d) \<and>
     key_of (d_meta d) = deployment_key w \<and>
     k_delete_Deployment k (h @ [CGetDeployment (deployment_key w)]) (deployment_key w) = None \<and>
     k_get_Service k (h @ take 2 (first_stop_calls w)) (service_key w) = Inr s \<and> \<not> is_deleting (s_meta s) \<and>
     key_of (s_meta s) = service_key w \<and>
     k_delete_Service k (h @ take 3 (first_stop_calls w)) (service_key w) = None)"

lemma first_stop_run:
  assumes "both_live k w h" and "st_AccessResources (w_Status w) = []"
  shows "run_state (reconcileDesiredStoppedStatus k w snap) h =
     run_state (report_error k (clear_access w) ReasonDeploymentError
       (Msg ''unexpected state: both deployment and service should be in deletion process'') snap)
       (h @ first_stop_calls w)"
proof -
  from assms(1) obtain d s where d: "k_get_Deployment k h (deployment_key w) = Inr d" "\<not> is_deleting (d_meta d)"
      "key_of (d_meta d) = deployment_key w"
      "k_delete_Deployment k (h @ [CGetDeployment (deployment_key w)]) (deployment_key w) = None"
    and s: "k_get_Service k (h @ take 2 (first_stop_calls w)) (service_key w) = Inr s" "\<not> is_deleting (s_meta s)"
      "key_of (s_meta s) = service_key w"
      "k_delete_Service k (h @ take 3 (first_stop_calls w)) (service_key w) = None"
    unfolding both_live_def by blast
  have "run_state (EnsureDeploymentDeleted k (clear_access w)) h =
      (Inr (Some d), h @ take 2 (first_stop_calls w))"
    using deployment_deleted.live [of k h "clear_access w" d] d
    by (simp add: deployment_key_def [symmetric] first_stop_calls_def)
  moreover have "run_state (EnsureServiceDeleted k (clear_access w)) (h @ take 2 (first_stop_calls w)) =
      (Inr (Some s), h @ first_stop_calls w)"
    using service_deleted.live [of k "h @ take 2 (first_stop_calls w)" "clear_access w" s] s
    by (simp add: service_key_def [symmetric] first_stop_calls_def)
  ultimately show ?thesis
    using d s access_stopped_none [OF assms(2)]
    by (simp add: reconcileDesiredStoppedStatus_def IsDeploymentMissingOrDeleting_def
        IsServiceMissingOrDeleting_def Let_def)
qed

text \<open>
  C14. The first reconciliation that stops a running workspace reports a spurious error. When the
  deployment and the service are live and the server accepts both deletions, the objects compared
  afterwards are the ones read before the deletion, neither is marked for deletion, and the operation
  returns the error of the branch that should not happen and writes a status with Degraded True.
\<close>

theorem first_stop_reports_error:
  assumes "both_live k w h" and "st_AccessResources (w_Status w) = []"
  shows "\<exists>w' s. run_state (reconcileDesiredStoppedStatus k w snap) h =
      ((w', 0, Some (Msg ''unexpected state: both deployment and service should be in deletion process'')),
       h @ first_stop_calls w @ [CStatusUpdateWorkspace s]) \<and>
     cond_value s ConditionTypeDegraded = Some CTrue"
proof -
  let ?h = "h @ first_stop_calls w"
  let ?c = "NewCondition (k_now k ?h) ConditionTypeDegraded CTrue ReasonDeploymentError
      ''unexpected state: both deployment and service should be in deletion process''"
  let ?s = "sent_status (clear_access w) [?c]"
  obtain e where "FindCondition (merged (clear_access w) [?c]) (cond_Type ?c) = Some e" "same_condition e ?c"
    by (rule merged_requested [of ?c "[?c]" "clear_access w"]) auto
  then have "cond_value ?s ConditionTypeDegraded = Some CTrue"
    by (simp add: cond_value_def sent_status_def same_condition_def)
  then show ?thesis
    unfolding first_stop_run [OF assms]
    by (auto simp: report_error_def run_UpdateErrorStatus Let_def split: prod.splits)
qed

text \<open>What the code relies on of the API: an object whose deletion was accepted is eventually not found.\<close>

definition deletion_takes_effect :: "client \<Rightarrow> workspace \<Rightarrow> bool" where
  "deletion_takes_effect k w \<longleftrightarrow>
     (\<forall>h. CDeleteDeployment (deployment_key w) \<in> set h \<longrightarrow> answers_not_found (k_get_Deployment k h (deployment_key w))) \<and>
     (\<forall>h. CDeleteService (service_key w) \<in> set h \<longrightarrow> answers_not_found (k_get_Service k h (service_key w))) \<and>
     (\<forall>h v. \<exists>v'. k_status_Workspace k h v = Inr v')"

lemma UpdateStoppedStatus_accepted:
  assumes "\<And>h v. \<exists>v'. k_status_Workspace k h v = Inr v'"
  shows "\<exists>v' h'. run_state (UpdateStoppedStatus k w snap) h = ((v', None), h')"
proof -
  let ?v = "sent_status w (stopped_conditions w (k_now k h))"
  let ?s = "?v\<lparr>w_Status := (w_Status ?v)\<lparr>st_DeploymentName := '''', st_ServiceName := ''''\<rparr>\<rparr>"
  obtain v' where "k_status_Workspace k h ?s = Inr v'"
    using assms by blast
  then show ?thesis
    by (simp add: run_UpdateStoppedStatus status_answer_def Let_def)
qed

lemma stop_when_missing:
  assumes "answers_not_found (k_get_Deployment k h (deployment_key w))"
    and "answers_not_found (k_get_Service k (h @ [CGetDeployment (deployment_key w)]) (service_key w))"
    and "st_AccessResources (w_Status w) = []" and "\<And>h v. \<exists>v'. k_status_Workspace k h v = Inr v'"
  shows "\<exists>w' h'. run_state (reconcileDesiredStoppedStatus k w snap) h = ((w', 0, None), h')"
proof -
  have "run_state (EnsureDeploymentDeleted k (clear_access w)) h = (Inr None, h @ [CGetDeployment (deployment_key w)])"
    using assms(1) deployment_deleted.missing [of k h "clear_access w"]
    by (auto simp: answers_not_found_def deployment_key_def [symmetric] split: sum.splits)
  moreover have "run_state (EnsureServiceDeleted k (clear_access w)) (h @ [CGetDeployment (deployment_key w)]) =
      (Inr None, h @ [CGetDeployment (deployment_key w), CGetService (service_key w)])"
    using assms(2) service_deleted.missing [of k "h @ [CGetDeployment (deployment_key w)]" "clear_access w"]
    by (auto simp: answers_not_found_def service_key_def [symmetric] split: sum.splits)
  moreover obtain v' h3 where "run_state (UpdateStoppedStatus k (clear_access w) snap)
      (h @ [CGetDeployment (deployment_key w), CGetService (service_key w)] @
        [CEvent (key_of (w_meta (clear_access w))) ''Normal'' ''WorkspaceStopped''
          (if w_Annotations (clear_access w) \<noteq> None \<and>
              map_get (w_Annotations (clear_access w)) PreemptionReasonAnnotation = PreemptedReason
           then PreemptedReason else ''Workspace has been stopped'')]) = ((v', None), h3)"
    using UpdateStoppedStatus_accepted [OF assms(4)] by blast
  ultimately show ?thesis
    using access_stopped_none [OF assms(3)] assms(3)
    by (simp add: reconcileDesiredStoppedStatus_def IsDeploymentMissingOrDeleting_def
        IsServiceMissingOrDeleting_def AreAccessResourcesDeleted_def Let_def del: not_None_eq)
qed

text \<open>
  Stopping completes in two reconciliations. When deletions take effect and status writes are
  accepted, a running workspace without access resources is stopped by the second reconciliation,
  whatever workspace object of the same name it is given: it ends without an error and without a
  requeue, although the first one reported an error.
\<close>

theorem stop_completes_in_two:
  assumes "both_live k w h" and "st_AccessResources (w_Status w) = []"
    and "deletion_takes_effect k w"
    and "key_of (w_meta w2) = key_of (w_meta w)" and "st_AccessResources (w_Status w2) = []"
  shows "\<exists>w' h'. run_state (reconcileDesiredStoppedStatus k w2 snap2)
     (snd (run_state (reconcileDesiredStoppedStatus k w snap) h)) = ((w', 0, None), h')"
proof -
  let ?h1 = "snd (run_state (reconcileDesiredStoppedStatus k w snap) h)"
  have calls: "set (first_stop_calls w) \<subseteq> set ?h1"
    unfolding first_stop_run [OF assms(1,2)]
    by (auto simp: report_error_def run_UpdateErrorStatus Let_def split: prod.splits)
  have keys: "deployment_key w2 = deployment_key w" "service_key w2 = service_key w"
    using keys_of_key [OF assms(4)] by auto
  show ?thesis
  proof (rule stop_when_missing)
    show "answers_not_found (k_get_Deployment k ?h1 (deployment_key w2))"
      using calls assms(3) unfolding keys by (auto simp: deletion_takes_effect_def first_stop_calls_def)
    show "answers_not_found (k_get_Service k (?h1 @ [CGetDeployment (deployment_key w2)]) (service_key w2))"
      using calls assms(3) unfolding keys by (auto simp: deletion_takes_effect_def first_stop_calls_def)
  qed (use assms in \<open>auto simp: deletion_takes_effect_def\<close>)
qed

text \<open>A server that holds the two objects of a workspace until their deletion is requested.\<close>

definition live_server :: "workspace \<Rightarrow> client" where
  "live_server w = empty_server\<lparr>
     k_get_Deployment := \<lambda>h key. if key = deployment_key w \<and> CDeleteDeployment key \<notin> set h
       then Inr \<lparr>d_meta = empty_meta\<lparr>om_Name := key_Name key, om_Namespace := key_Namespace key\<rparr>,
                 d_Spec = buildDeploymentSpec sample_options w (parseResourceRequirements w),
                 d_Status = \<lparr>dst_Conditions = [(''Available'', CTrue)], dst_AvailableReplicas = 1, dst_ReadyReplicas = 1\<rparr>\<rparr>
       else Inl not_found,
     k_get_Service := \<lambda>h key. if key = service_key w \<and> CDeleteService key \<notin> set h
       then Inr \<lparr>s_meta = empty_meta\<lparr>om_Name := key_Name key, om_Namespace := key_Namespace key\<rparr>,
                 s_Spec = buildServiceSpec w, s_Ingress = []\<rparr>
       else Inl not_found\<rparr>"

lemma live_server_both_live: "both_live (live_server sample_workspace) sample_workspace []"
  by (simp add: both_live_def live_server_def empty_server_def first_stop_calls_def is_deleting_def
      empty_meta_def key_of_def deployment_key_def service_key_def)

lemma sample_no_access: "st_AccessResources (w_Status sample_workspace) = []"
  by (simp add: sample_workspace_def empty_status_def)

theorem first_stop_reports_error_witness:
  "\<exists>w' h'. run_state (reconcileDesiredStoppedStatus (live_server sample_workspace) sample_workspace empty_status) [] =
     ((w', 0, Some (Msg ''unexpected state: both deployment and service should be in deletion process'')), h')"
  using first_stop_reports_error [OF live_server_both_live sample_no_access] by blast

theorem stop_completes_in_two_witness:
  "\<exists>w' h'. run_state (reconcileDesiredStoppedStatus (live_server sample_workspace) sample_workspace empty_status)
     (snd (run_state (reconcileDesiredStoppedStatus (live_server sample_workspace) sample_workspace empty_status) [])) =
     ((w', 0, None), h')"
proof -
  have "deletion_takes_effect (live_server sample_workspace) sample_workspace"
    by (simp add: deletion_takes_effect_def live_server_def empty_server_def answers_not_found_def not_found_def)
  from stop_completes_in_two [OF live_server_both_live sample_no_access this refl sample_no_access]
  show ?thesis .
qed

section \<open>Running\<close>

lemma run_report_error:
  "\<exists>w'. fst (run_state (report_error k w reason err snap) h) = (w', 0, Some err)"
  by (simp add: report_error_def run_UpdateErrorStatus Let_def split: prod.splits)

text \<open>
  C9. A workspace is announced as running only when it is. If reconciling a workspace to Running ends
  without an error and not with the polling delay of a starting workspace, then the deployment was
  reported available, the service available, and the access resources were brought in line with the
  access strategy (created, or deleted when the workspace names none) without an error; and before any
  idle handling the status written shows Available True, Progressing False and Stopped False.
\<close>

theorem running_only_when_ready:
  assumes "run_state (reconcileDesiredRunningStatus k options dec w snap a) h = ((w', delay, None), h')"
    and "delay \<noteq> PollRequeueDelay"
  shows "\<exists>p d s w1 w2 h0 hd h1 h2 h3 v.
     run_state (EnsurePVCExists k w) h = (Inr p, h0) \<and>
     run_state (EnsureDeploymentExists k options w a) h0 = (Inr d, hd) \<and>
     run_state (EnsureServiceExists k w) hd = (Inr s, h1) \<and>
     IsDeploymentAvailable (Some d) = Inr True \<and> IsServiceAvailable (Some s) \<and>
     run_state (ReconcileAccessForDesiredRunningStatus k w s a) h1 = ((w1, None), h2) \<and>
     h3 = h2 @ [CEvent (key_of (w_meta w1)) ''Normal'' ''WorkspaceRunning'' ''Workspace is now running''] \<and>
     run_state (UpdateRunningStatus k w1 snap) h3 = ((w2, None), h3 @ [CStatusUpdateWorkspace v]) \<and>
     shows_phase CTrue CFalse CFalse w1 v \<and>
     run_state (handleIdleShutdownForRunningWorkspace k dec w2) (h3 @ [CStatusUpdateWorkspace v]) =
       ((w', delay, None), h')"
proof -
  from assms obtain p d s w1 w2 h0 hd h1 h2 h3 h4 where
    1: "run_state (EnsurePVCExists k w) h = (Inr p, h0)"
      "run_state (EnsureDeploymentExists k options w a) h0 = (Inr d, hd)"
      "run_state (EnsureServiceExists k w) hd = (Inr s, h1)"
      "IsDeploymentAvailable (Some d) = Inr True" "IsServiceAvailable (Some s)"
      "run_state (ReconcileAccessForDesiredRunningStatus k w s a) h1 = ((w1, None), h2)"
      "h3 = h2 @ [CEvent (key_of (w_meta w1)) ''Normal'' ''WorkspaceRunning'' ''Workspace is now running'']"
      "run_state (UpdateRunningStatus k w1 snap) h3 = ((w2, None), h4)"
      "run_state (handleIdleShutdownForRunningWorkspace k dec w2) h4 = ((w', delay, None), h')"
    by (auto simp: reconcileDesiredRunningStatus_def report_error_def Let_def
        split: sum.splits prod.splits if_splits option.splits)
  then have h4: "h4 = h3 @ [CStatusUpdateWorkspace (sent_status w1 (running_conditions (k_now k h3)))]"
    by (simp add: run_UpdateRunningStatus Let_def)
  have "shows_phase CTrue CFalse CFalse w1 (sent_status w1 (running_conditions (k_now k h3)))"
    by (rule shows_phase_sent) (rule running.phase_conditions_axioms)
  with 1 h4 show ?thesis
    by blast
qed

theorem running_only_when_ready_witness:
  "\<exists>w' h' w1 v. run_state (reconcileDesiredRunningStatus (live_server sample_workspace) sample_options sample_decoders
       sample_workspace empty_status None) [] = ((w', 0, None), h') \<and> shows_phase CTrue CFalse CFalse w1 v"
proof -
  have "\<exists>w' h'. run_state (reconcileDesiredRunningStatus (live_server sample_workspace) sample_options sample_decoders
       sample_workspace empty_status None) [] = ((w', 0, None), h')"
    by (simp add: reconcileDesiredRunningStatus_def EnsurePVCExists_def EnsureDeploymentExists_def EnsureServiceExists_def
        getDeployment_def getService_def ensureDeploymentUpToDate_def ensureServiceUpToDate_def
        live_server_def deployment_key_def service_key_def empty_server_def IsDeploymentAvailable_def IsServiceAvailable_def
        buildServiceSpec_def ReconcileAccessForDesiredRunningStatus_def EnsureAccessResourcesDeleted_def clear_access_def
        run_UpdateRunningStatus status_answer_def sent_status_def handleIdleShutdownForRunningWorkspace_def
        sample_workspace_def empty_status_def empty_spec_def IsWorkspaceAvailable_def Let_def)
  then obtain w' h' where r: "run_state (reconcileDesiredRunningStatus (live_server sample_workspace) sample_options
      sample_decoders sample_workspace empty_status None) [] = ((w', 0, None), h')"
    by blast
  from running_only_when_ready [OF r] r show ?thesis
    by auto
qed

lemma stop_calls:
  "\<exists>ev. \<not> writes_workspace ev \<and> snd (run_state (stopWorkspaceDueToIdle k w cfg) h) =
      h @ [ev, CUpdateWorkspace (w\<lparr>w_Spec := (w_Spec w)\<lparr>ws_DesiredStatus := DesiredStateStopped\<rparr>\<rparr>)]"
  by (simp add: stopWorkspaceDueToIdle_def Let_def)

text \<open>
  C11. Idle shutdown stops a workspace only when the idle check says so. If handling idle shutdown
  writes the workspace, then idle shutdown is enabled in its spec, a running pod was ready, the idle
  check reported idle without an error, and the write changes exactly the desired status, to Stopped.
\<close>

theorem idle_shutdown_only_when_idle:
  assumes "run_state (handleIdleShutdownForRunningWorkspace k dec w) h = (r, h @ new)"
    and "CUpdateWorkspace v \<in> set new"
  defines "labels \<equiv> GenerateLabels_list (w_Name w)"
  defines "h1 \<equiv> h @ [CListPods (w_Namespace w) labels]"
  shows "\<exists>cfg pods. ws_IdleShutdown (w_Spec w) = Some cfg \<and> is_Enabled cfg \<and>
     k_list_Pods k h (w_Namespace w) labels = Inr pods \<and> ready_pod_loop pods \<and>
     (\<exists>res. fst (run_state (CheckWorkspaceIdle k dec w cfg) h1) = (res, None) \<and> IsIdle res) \<and>
     v = w\<lparr>w_Spec := (w_Spec w)\<lparr>ws_DesiredStatus := DesiredStateStopped\<rparr>\<rparr>"
proof -
  have nw: "issues_only (Not \<circ> writes_workspace) (CheckWorkspaceIdle k dec w cfg)" for cfg
    by (auto simp: CheckWorkspaceIdle_def findWorkspacePod_def CheckIdle_def ExecInPod_def Let_def intro!: issues_intros)
  from assms(1,2) obtain cfg pods where cfg: "ws_IdleShutdown (w_Spec w) = Some cfg" "is_Enabled cfg"
    and pods: "k_list_Pods k h (w_Namespace w) labels = Inr pods" "ready_pod_loop pods"
    by (auto simp: handleIdleShutdownForRunningWorkspace_def isAtLeastOneWorkspacePodReady_def Let_def labels_def
        split: option.splits if_splits sum.splits)
  obtain res err h2 where chk: "run_state (CheckWorkspaceIdle k dec w cfg) h1 = ((res, err), h2)"
    by (metis surj_pair)
  then obtain n2 where n2: "h2 = h1 @ n2" "list_all (Not \<circ> writes_workspace) n2"
    using issues_only_run [OF nw] by blast
  have calls: "h @ new = (if err = None \<and> IsIdle res
      then snd (run_state (stopWorkspaceDueToIdle k w cfg) h2) else h2)"
    using assms(1) cfg pods chk
    by (auto simp: handleIdleShutdownForRunningWorkspace_def isAtLeastOneWorkspacePodReady_def Let_def
        labels_def h1_def split: option.splits if_splits goerr.splits)
  obtain ev where "\<not> writes_workspace ev" and
    stop: "snd (run_state (stopWorkspaceDueToIdle k w cfg) h2) =
      h2 @ [ev, CUpdateWorkspace (w\<lparr>w_Spec := (w_Spec w)\<lparr>ws_DesiredStatus := DesiredStateStopped\<rparr>\<rparr>)]"
    using stop_calls by blast
  have quiet: "CUpdateWorkspace v \<notin> set n2"
    using n2(2) by (auto simp: list_all_iff)
  have "err = None \<and> IsIdle res"
    using calls assms(2) n2(1) quiet by (auto simp: h1_def split: if_splits)
  moreover from this have "v = w\<lparr>w_Spec := (w_Spec w)\<lparr>ws_DesiredStatus := DesiredStateStopped\<rparr>\<rparr>"
    using calls stop assms(2) n2(1) quiet \<open>\<not> writes_workspace ev\<close> by (auto simp: h1_def)
  ultimately show ?thesis
    using cfg pods chk by auto
qed

definition idle_workspace :: workspace where
  "idle_workspace = sample_workspace\<lparr>w_Spec := empty_spec\<lparr>ws_IdleShutdown := Some sample_idle\<rparr>\<rparr>"

lemma idle_workspace_idle:
  "fst (run_state (CheckWorkspaceIdle idle_server sample_decoders idle_workspace sample_idle) h) =
     (\<lparr>IsIdle = True, ShouldRetry = True\<rparr>, None)"
  by (simp add: CheckWorkspaceIdle_def findWorkspacePod_def createIdleDetectorImpl_def NewHTTPGetDetector_def NewPodExecUtil_def
      CheckIdle_def ExecInPod_def Let_def idle_server_def empty_server_def sample_idle_def sample_decoders_def interpret_response_def
      TrimSpace_def IsSpace_def ascii_runes trim_prefix_def checkIdleTimeout_def minutes_duration_exact since_def)

theorem idle_shutdown_only_when_idle_witness:
  "\<exists>v. CUpdateWorkspace v \<in> set (snd (run_state
       (handleIdleShutdownForRunningWorkspace idle_server sample_decoders idle_workspace) [])) \<and>
     v = idle_workspace\<lparr>w_Spec := (w_Spec idle_workspace)\<lparr>ws_DesiredStatus := DesiredStateStopped\<rparr>\<rparr>"
proof -
  let ?run = "run_state (handleIdleShutdownForRunningWorkspace idle_server sample_decoders idle_workspace) []"
  have i: "ws_IdleShutdown (w_Spec idle_workspace) = Some sample_idle" "is_Enabled sample_idle"
    by (simp_all add: idle_workspace_def empty_spec_def sample_idle_def)
  have l: "k_list_Pods idle_server h ns ls = Inr [\<lparr>pod_meta = empty_meta, pod_Phase = ''Running'',
       pod_Conditions = [(''Ready'', CTrue)], pod_ContainerStatuses = []\<rparr>]" for h ns ls
    by (simp add: idle_server_def empty_server_def)
  let ?h1 = "[CListPods (w_Namespace idle_workspace) (GenerateLabels_list (w_Name idle_workspace))]"
  obtain h2 where "run_state (CheckWorkspaceIdle idle_server sample_decoders idle_workspace sample_idle) ?h1 =
      ((\<lparr>IsIdle = True, ShouldRetry = True\<rparr>, None), h2)"
    by (metis idle_workspace_idle prod.collapse)
  then have "snd ?run = snd (run_state (stopWorkspaceDueToIdle idle_server idle_workspace sample_idle) h2)"
    by (simp add: handleIdleShutdownForRunningWorkspace_def isAtLeastOneWorkspacePodReady_def i l Let_def)
  then have "\<exists>v. CUpdateWorkspace v \<in> set (snd ?run)"
    using stop_calls [of idle_server idle_workspace sample_idle h2] by fastforce
  then obtain v where v: "CUpdateWorkspace v \<in> set (snd ?run)" ..
  have "?run = (fst ?run, [] @ snd ?run)"
    by simp
  from idle_shutdown_only_when_idle [OF this v] v show ?thesis
    by blast
qed

end
