(* ===== verification/WorkspaceUtil.thy ===== *)
theory WorkspaceUtil
  imports StateMachine
begin

text \<open>
  Shared workspace helpers (\<open>internal/workspace\<close>): queries for the active workspaces of a template or
  an access strategy (\<open>queries.go\<close>), finalizers of access strategies under write conflicts
  (\<open>finalizers.go\<close>), template resolution with its fallback namespace (\<open>template_resolver.go\<close>) and the
  pod lookup (\<open>utils.go\<close>).

  The queries share one shape: a list by two labels, then a filter on the spec. The locale
  \<open>reference_query\<close> states it for a kind of reference, and is interpreted on the two kinds.
\<close>

section \<open>Queries\<close>

definition GetTemplateRefNamespace :: "workspace \<Rightarrow> string" where
  "GetTemplateRefNamespace ws = (case ws_TemplateRef (w_Spec ws) of
     None \<Rightarrow> w_Namespace ws
   | Some r \<Rightarrow> if tr_Namespace r = '''' then w_Namespace ws else tr_Namespace r)"

definition GetAccessStrategyRefNamespace :: "workspace \<Rightarrow> string" where
  "GetAccessStrategyRefNamespace ws = (case ws_AccessStrategy (w_Spec ws) of
     None \<Rightarrow> w_Namespace ws
   | Some r \<Rightarrow> if asr_Namespace r = '''' then w_Namespace ws else asr_Namespace r)"

text \<open>The body of the filter loops.\<close>

definition uses_template :: "string \<Rightarrow> string \<Rightarrow> workspace \<Rightarrow> bool" where
  "uses_template templateName templateNamespace ws =
     (if is_deleting (w_meta ws) then False
      else case ws_TemplateRef (w_Spec ws) of
        None \<Rightarrow> False
      | Some r \<Rightarrow> if tr_Name r \<noteq> templateName then False
                  else if templateNamespace \<noteq> '''' then GetTemplateRefNamespace ws = templateNamespace
                  else True)"

definition ListActiveWorkspacesByTemplate ::
  "client \<Rightarrow> string \<Rightarrow> string \<Rightarrow> string \<Rightarrow> int \<Rightarrow> ((workspace list \<times> string) res) io" where
  "ListActiveWorkspacesByTemplate k templateName templateNamespace continueToken limit =
     (let labels = [(LabelWorkspaceTemplate, templateName), (LabelWorkspaceTemplateNamespace, templateNamespace)];
          lim = (if limit > 0 then limit else 0)
      in on_ok (call (\<lambda>h. k_list_Workspaces k h labels continueToken lim) (CListWorkspaces labels continueToken lim))
           (Wrap ''failed to list workspaces by template label'')
           (\<lambda>(items, nextToken). lift (Inr (filter (uses_template templateName templateNamespace) items, nextToken))))"

definition HasActiveWorkspacesWithTemplate :: "client \<Rightarrow> string \<Rightarrow> string \<Rightarrow> (bool res) io" where
  "HasActiveWorkspacesWithTemplate k templateName templateNamespace =
     (let labels = [(LabelWorkspaceTemplate, templateName), (LabelWorkspaceTemplateNamespace, templateNamespace)]
      in on_ok (call (\<lambda>h. k_list_Workspaces k h labels '''' 0) (CListWorkspaces labels '''' 0))
           (Wrap ''failed to check workspaces by template label'')
           (\<lambda>(items, _). lift (Inr (list_ex (uses_template templateName templateNamespace) items))))"

definition uses_access_strategy :: "bool \<Rightarrow> string \<Rightarrow> string \<Rightarrow> workspace \<Rightarrow> bool" where
  "uses_access_strategy anyNamespaceIfEmpty name ns ws =
     (if is_deleting (w_meta ws) then False
      else case ws_AccessStrategy (w_Spec ws) of
        None \<Rightarrow> False
      | Some r \<Rightarrow> if asr_Name r \<noteq> name then False
                  else if anyNamespaceIfEmpty \<and> ns = '''' then True
                  else GetAccessStrategyRefNamespace ws = ns)"

definition HasActiveWorkspacesWithAccessStrategy :: "client \<Rightarrow> string \<Rightarrow> string \<Rightarrow> (bool res) io" where
  "HasActiveWorkspacesWithAccessStrategy k name ns =
     (let labels = [(LabelAccessStrategyName, name), (LabelAccessStrategyNamespace, ns)]
      in on_ok (call (\<lambda>h. k_list_Workspaces k h labels '''' 0) (CListWorkspaces labels '''' 0))
           (Wrap ''failed to check workspaces by access strategy label'')
           (\<lambda>(items, _). lift (Inr (list_ex (uses_access_strategy False name ns) items))))"

definition ListActiveWorkspacesByAccessStrategy ::
  "client \<Rightarrow> string \<Rightarrow> string \<Rightarrow> string \<Rightarrow> int \<Rightarrow> ((workspace list \<times> string) res) io" where
  "ListActiveWorkspacesByAccessStrategy k name ns continueToken limit =
     (let labels = [(LabelAccessStrategyName, name), (LabelAccessStrategyNamespace, ns)];
          lim = (if limit > 0 then limit else 0)
      in on_ok (call (\<lambda>h. k_list_Workspaces k h labels continueToken lim) (CListWorkspaces labels continueToken lim))
           (Wrap ''failed to list workspaces by AccessStrategy label'')
           (\<lambda>(items, nextToken). lift (Inr (filter (uses_access_strategy True name ns) items, nextToken))))"

definition GetWorkspaceReconciliationRequestsForAccessStrategy ::
  "client \<Rightarrow> string \<Rightarrow> string \<Rightarrow> (nsname list res) io" where
  "GetWorkspaceReconciliationRequestsForAccessStrategy k name ns =
     on_ok (ListActiveWorkspacesByAccessStrategy k name ns '''' 0)
       (Wrap ''failed to list workspaces by access strategy'')
       (\<lambda>(workspaces, _). lift (Inr (map (\<lambda>ws. nn (w_Namespace ws) (w_Name ws)) workspaces)))"

section \<open>Finalizers of access strategies\<close>

abbreviation TemplateFinalizerName :: string where
  "TemplateFinalizerName \<equiv> ''workspace.jupyter.org/template-protection''"
abbreviation AccessStrategyFinalizerName :: string where
  "AccessStrategyFinalizerName \<equiv> ''workspace.jupyter.org/accessstrategy-protection''"

definition as_Finalizers :: "access_strategy \<Rightarrow> string list" where
  "as_Finalizers a = om_Finalizers (a_meta a)"

definition as_set_finalizers :: "string list \<Rightarrow> access_strategy \<Rightarrow> access_strategy" where
  "as_set_finalizers fs a = a\<lparr>a_meta := (a_meta a)\<lparr>om_Finalizers := fs\<rparr>\<rparr>"

definition SafelyAddFinalizerToAccessStrategy :: "client \<Rightarrow> access_strategy \<Rightarrow> (goerr option) io" where
  "SafelyAddFinalizerToAccessStrategy k accessStrategy =
     (if contains_finalizer (as_Finalizers accessStrategy) AccessStrategyFinalizerName
      then State_Monad.return None
      else do {
        let a = as_set_finalizers (add_finalizer (as_Finalizers accessStrategy) AccessStrategyFinalizerName) accessStrategy;
        r \<leftarrow> call (\<lambda>h. k_update_AccessStrategy k h a) (CUpdateAccessStrategy a);
        (case r of
           Inr _ \<Rightarrow> State_Monad.return None
         | Inl updateErr \<Rightarrow>
             if \<not> IsConflict updateErr then State_Monad.return (Some updateErr)
             else do {
               let key = key_of (a_meta a);
               g \<leftarrow> call (\<lambda>h. k_get_AccessStrategy k h key) (CGetAccessStrategy key);
               State_Monad.return (case g of
                   Inl err \<Rightarrow> Some err
                 | Inr latest \<Rightarrow>
                     if contains_finalizer (as_Finalizers latest) AccessStrategyFinalizerName then None
                     else Some updateErr)
             })
      })"

definition SafelyRemoveFinalizerFromAccessStrategy :: "client \<Rightarrow> access_strategy \<Rightarrow> bool \<Rightarrow> (goerr option) io" where
  "SafelyRemoveFinalizerFromAccessStrategy k accessStrategy deletedOk =
     (if \<not> contains_finalizer (as_Finalizers accessStrategy) AccessStrategyFinalizerName
      then State_Monad.return None
      else do {
        let a = as_set_finalizers (remove_finalizer (as_Finalizers accessStrategy) AccessStrategyFinalizerName) accessStrategy;
        r \<leftarrow> call (\<lambda>h. k_update_AccessStrategy k h a) (CUpdateAccessStrategy a);
        (case r of
           Inr _ \<Rightarrow> State_Monad.return None
         | Inl updateErr \<Rightarrow>
             if IsNotFound updateErr \<and> deletedOk then State_Monad.return None
             else if \<not> IsConflict updateErr then State_Monad.return (Some updateErr)
             else do {
               let key = key_of (a_meta a);
               g \<leftarrow> call (\<lambda>h. k_get_AccessStrategy k h key) (CGetAccessStrategy key);
               State_Monad.return (case g of
                   Inl err \<Rightarrow> if IsNotFound err \<and> deletedOk then None else Some err
                 | Inr latest \<Rightarrow>
                     if \<not> contains_finalizer (as_Finalizers latest) AccessStrategyFinalizerName then None
                     else Some updateErr)
             })
      })"

section \<open>Template resolution and pod lookup\<close>

definition ResolveTemplate ::
  "client \<Rightarrow> string \<Rightarrow> template_ref option \<Rightarrow> string \<Rightarrow> (workspace_template res) io" where
  "ResolveTemplate k defaultTemplateNamespace templateRef workspaceNamespace = (case templateRef of
     None \<Rightarrow> lift (Inl (Msg ''templateRef is nil''))
   | Some ref \<Rightarrow> do {
       let templateNamespace = (if tr_Namespace ref = '''' then workspaceNamespace else tr_Namespace ref);
       let key = nn templateNamespace (tr_Name ref);
       r \<leftarrow> call (\<lambda>h. k_get_Template k h key) (CGetTemplate key);
       (case r of
          Inr template \<Rightarrow> lift (Inr template)
        | Inl err \<Rightarrow>
            if IsNotFound err \<and> defaultTemplateNamespace \<noteq> '''' \<and> templateNamespace \<noteq> defaultTemplateNamespace
            then let key2 = nn defaultTemplateNamespace (tr_Name ref) in
                 on_ok (call (\<lambda>h. k_get_Template k h key2) (CGetTemplate key2))
                   (Wrap (''failed to get template '' @ tr_Name ref @ '' from namespace '' @ templateNamespace @
                          '' or fallback namespace '' @ defaultTemplateNamespace))
                   (lift \<circ> Inr)
            else lift (Inl (Wrap (''failed to get template '' @ tr_Name ref) err)))
     })"

definition ResolveTemplateForWorkspace ::
  "client \<Rightarrow> string \<Rightarrow> workspace \<Rightarrow> (workspace_template res) io" where
  "ResolveTemplateForWorkspace k defaultTemplateNamespace workspace =
     (if ws_TemplateRef (w_Spec workspace) = None then lift (Inl (Msg ''workspace has no templateRef''))
      else ResolveTemplate k defaultTemplateNamespace (ws_TemplateRef (w_Spec workspace)) (w_Namespace workspace))"

text \<open>The list has no namespace option: it spans every namespace, which the empty name stands for.\<close>

definition GetPodUIDFromWorkspaceName :: "client \<Rightarrow> string \<Rightarrow> (string res) io" where
  "GetPodUIDFromWorkspaceName k workspaceName =
     (let labels = [(LabelWorkspaceName, workspaceName)] in
      on_ok (call (\<lambda>h. k_list_Pods k h '''' labels) (CListPods '''' labels)) id
        (\<lambda>pods. case pods of
           [] \<Rightarrow> lift (Inl (Msg (''no pod found for workspace: '' @ workspaceName)))
         | p # _ \<Rightarrow> lift (Inr (om_UID (pod_meta p)))))"

section \<open>The contract of the queries\<close>

text \<open>
  What the controllers rely on: a listed workspace is active and refers to the object, and the
  existence query agrees with the list.
\<close>

locale reference_query =
  fixes refers :: "string \<Rightarrow> string \<Rightarrow> workspace \<Rightarrow> bool"
    and lst :: "client \<Rightarrow> string \<Rightarrow> string \<Rightarrow> string \<Rightarrow> int \<Rightarrow> ((workspace list \<times> string) res) io"
    and has :: "client \<Rightarrow> string \<Rightarrow> string \<Rightarrow> (bool res) io"
    and selector :: "string \<Rightarrow> string \<Rightarrow> (string \<times> string) list"
  assumes listed: "ns \<noteq> '''' \<Longrightarrow> k_list_Workspaces k h (selector n ns) tok (if lim > 0 then lim else 0) = Inr (items, t) \<Longrightarrow>
      fst (run_state (lst k n ns tok lim) h) =
        Inr (filter (\<lambda>w. \<not> is_deleting (w_meta w) \<and> refers n ns w) items, t)"
    and exists: "ns \<noteq> '''' \<Longrightarrow> k_list_Workspaces k h (selector n ns) '''' 0 = Inr (items, t) \<Longrightarrow>
      fst (run_state (has k n ns) h) = Inr (\<exists>w \<in> set items. \<not> is_deleting (w_meta w) \<and> refers n ns w)"
    and failed: "k_list_Workspaces k h (selector n ns) '''' 0 = Inl e \<Longrightarrow>
      \<exists>e'. fst (run_state (has k n ns) h) = Inl e'"
begin

lemma has_iff_listed:
  assumes "ns \<noteq> ''''"
  shows "fst (run_state (has k n ns) h) = Inr b \<Longrightarrow>
    \<exists>ws t. fst (run_state (lst k n ns '''' 0) h) = Inr (ws, t) \<and> (b \<longleftrightarrow> ws \<noteq> [])"
proof (cases "k_list_Workspaces k h (selector n ns) '''' 0")
  case (Inl e)
  moreover assume "fst (run_state (has k n ns) h) = Inr b"
  ultimately show ?thesis
    using failed [OF Inl] by auto
next
  case (Inr r)
  obtain items t where r: "r = (items, t)"
    by (cases r)
  moreover assume "fst (run_state (has k n ns) h) = Inr b"
  ultimately show ?thesis
    using listed [of ns k h n "''''" 0 items t] exists [of ns k h n items t] Inr assms
    by (auto simp: filter_empty_conv)
qed

end

definition refers_template :: "string \<Rightarrow> string \<Rightarrow> workspace \<Rightarrow> bool" where
  "refers_template n ns w = (case ws_TemplateRef (w_Spec w) of
     None \<Rightarrow> False | Some r \<Rightarrow> tr_Name r = n \<and> GetTemplateRefNamespace w = ns)"

definition refers_access_strategy :: "string \<Rightarrow> string \<Rightarrow> workspace \<Rightarrow> bool" where
  "refers_access_strategy n ns w = (case ws_AccessStrategy (w_Spec w) of
     None \<Rightarrow> False | Some r \<Rightarrow> asr_Name r = n \<and> GetAccessStrategyRefNamespace w = ns)"

lemma uses_template_eq:
  "ns \<noteq> '''' \<Longrightarrow> uses_template n ns = (\<lambda>w. \<not> is_deleting (w_meta w) \<and> refers_template n ns w)"
  by (rule ext) (auto simp: uses_template_def refers_template_def split: option.splits)

lemma uses_access_strategy_eq:
  "ns \<noteq> '''' \<Longrightarrow> uses_access_strategy b n ns = (\<lambda>w. \<not> is_deleting (w_meta w) \<and> refers_access_strategy n ns w)"
  by (rule ext) (auto simp: uses_access_strategy_def refers_access_strategy_def split: option.splits)

interpretation template_query: reference_query refers_template ListActiveWorkspacesByTemplate
  HasActiveWorkspacesWithTemplate
  "\<lambda>n ns. [(LabelWorkspaceTemplate, n), (LabelWorkspaceTemplateNamespace, ns)]"
  by unfold_locales
    (auto simp: ListActiveWorkspacesByTemplate_def HasActiveWorkspacesWithTemplate_def uses_template_eq
      list_ex_iff Let_def split: if_splits)

interpretation access_strategy_query: reference_query refers_access_strategy ListActiveWorkspacesByAccessStrategy
  HasActiveWorkspacesWithAccessStrategy
  "\<lambda>n ns. [(LabelAccessStrategyName, n), (LabelAccessStrategyNamespace, ns)]"
  by unfold_locales
    (auto simp: ListActiveWorkspacesByAccessStrategy_def HasActiveWorkspacesWithAccessStrategy_def
      uses_access_strategy_eq list_ex_iff Let_def split: if_splits)

section \<open>Properties\<close>

text \<open>
  The two queries for the users of a template, and those for the users of an access strategy,
  agree: in a named namespace, when the existence query answers, the unpaginated list answers too, and
  the existence query is true exactly when the list is not empty.
\<close>

theorem queries_agree:
  assumes "ns \<noteq> ''''"
  shows "(fst (run_state (HasActiveWorkspacesWithTemplate k n ns) h) = Inr b \<longrightarrow>
      (\<exists>ws t. fst (run_state (ListActiveWorkspacesByTemplate k n ns '''' 0) h) = Inr (ws, t) \<and> (b \<longleftrightarrow> ws \<noteq> []))) \<and>
    (fst (run_state (HasActiveWorkspacesWithAccessStrategy k n ns) h) = Inr b \<longrightarrow>
      (\<exists>ws t. fst (run_state (ListActiveWorkspacesByAccessStrategy k n ns '''' 0) h) = Inr (ws, t) \<and> (b \<longleftrightarrow> ws \<noteq> [])))"
  using template_query.has_iff_listed [OF assms] access_strategy_query.has_iff_listed [OF assms] by blast

theorem queries_agree_witness:
  "\<exists>ws t. fst (run_state (ListActiveWorkspacesByTemplate empty_server ''t'' ''team'' '''' 0) []) = Inr (ws, t) \<and> ws = []"
proof -
  have "fst (run_state (HasActiveWorkspacesWithTemplate empty_server ''t'' ''team'') []) = Inr False"
    by (simp add: HasActiveWorkspacesWithTemplate_def empty_server_def Let_def)
  then show ?thesis
    using queries_agree [of "''team''" empty_server "''t''" "[]" False] by auto
qed

text \<open>
  Adding or removing the protection finalizer of an access strategy under write conflicts never
  reports success wrongly. When adding returns without an error, the object given, the object the
  server accepted or the object read after a conflict carries the finalizer; when removing returns
  without an error, one of them lacks it (or, if allowed, the object is gone). A removal write keeps
  every other finalizer.
\<close>

theorem finalizer_conflict_safe:
  "(fst (run_state (SafelyAddFinalizerToAccessStrategy k a) h) = None \<longrightarrow>
      (\<exists>x. contains_finalizer (as_Finalizers x) AccessStrategyFinalizerName \<and>
        (x = a \<or> (\<exists>r. k_update_AccessStrategy k h x = Inr r \<and> (\<forall>f. contains_finalizer (as_Finalizers a) f \<longrightarrow>
           contains_finalizer (as_Finalizers x) f)) \<or>
         (\<exists>u. k_get_AccessStrategy k (h @ [CUpdateAccessStrategy u]) (key_of (a_meta a)) = Inr x)))) \<and>
   (fst (run_state (SafelyRemoveFinalizerFromAccessStrategy k a False) h) = None \<longrightarrow>
      (\<exists>x. \<not> contains_finalizer (as_Finalizers x) AccessStrategyFinalizerName \<and>
        (x = a \<or> (\<exists>r. k_update_AccessStrategy k h x = Inr r \<and> (\<forall>f. f \<noteq> AccessStrategyFinalizerName \<longrightarrow>
           contains_finalizer (as_Finalizers x) f = contains_finalizer (as_Finalizers a) f)) \<or>
         (\<exists>u. k_get_AccessStrategy k (h @ [CUpdateAccessStrategy u]) (key_of (a_meta a)) = Inr x))))"
proof -
  have sel: "as_Finalizers (as_set_finalizers fs x) = fs"
    "key_of (a_meta (as_set_finalizers fs x)) = key_of (a_meta x)" for fs x
    by (simp_all add: as_Finalizers_def as_set_finalizers_def key_of_def)
  have add: "contains_finalizer (add_finalizer fs g) f" if "contains_finalizer fs f" for fs f g
    using that by (auto simp: contains_finalizer_def add_finalizer_def)
  show ?thesis
    by (rule conjI; (rule impI))
       (auto simp: SafelyAddFinalizerToAccessStrategy_def SafelyRemoveFinalizerFromAccessStrategy_def Let_def sel
         split: if_splits sum.splits; metis sel add finalizer_laws)+
qed

theorem finalizer_conflict_safe_witness:
  "\<exists>x r. contains_finalizer (as_Finalizers x) AccessStrategyFinalizerName \<and>
     k_update_AccessStrategy empty_server [] x = Inr r"
proof -
  let ?a = "sample_access_strategy"
  have a: "\<not> contains_finalizer (as_Finalizers ?a) AccessStrategyFinalizerName"
    by (simp add: sample_access_strategy_def as_Finalizers_def contains_finalizer_def empty_meta_def)
  then have "fst (run_state (SafelyAddFinalizerToAccessStrategy empty_server ?a) []) = None"
    by (simp add: SafelyAddFinalizerToAccessStrategy_def empty_server_def Let_def)
  with finalizer_conflict_safe [of empty_server ?a "[]"] show ?thesis
    using a by (auto simp: empty_server_def)
qed

end
