(* ===== verification/Controllers.thy ===== *)
theory Controllers
  imports WorkspaceUtil
begin

text \<open>
  The reconcilers: the workspace controller (\<open>internal/controller/workspace_controller.go\<close>), the template
  controller (\<open>workspacetemplate_controller.go\<close>), the access strategy controller
  (\<open>workspaceaccessstrategy_controller.go\<close>) and the pod event handler (\<open>pod_event_handler.go\<close>).

  The locale \<open>lazy_finalizer\<close> is the contract both protecting controllers share: a finalizer is
  present exactly while active workspaces use the object. It is interpreted on the two controllers'
  finalizer steps.
\<close>

section \<open>Workspace controller\<close>

text \<open>Setting a label when its value differs; reports whether it changed.\<close>

definition ensure_label :: "string \<Rightarrow> string \<Rightarrow> smap \<times> bool \<Rightarrow> smap \<times> bool" where
  "ensure_label key v lc = (let (labels, changed) = lc in
     if map_get (Some labels) key \<noteq> v then (labels(key \<mapsto> v), True) else (labels, changed))"

definition drop_label :: "string \<Rightarrow> smap \<times> bool \<Rightarrow> smap \<times> bool" where
  "drop_label key lc = (let (labels, changed) = lc in
     if labels key \<noteq> None then (labels(key := None), True) else (labels, changed))"

definition template_labels :: "workspace \<Rightarrow> smap \<times> bool \<Rightarrow> smap \<times> bool" where
  "template_labels workspace lc = (case ws_TemplateRef (w_Spec workspace) of
     Some r \<Rightarrow> if tr_Name r \<noteq> ''''
       then ensure_label LabelWorkspaceTemplateNamespace (GetTemplateRefNamespace workspace)
              (ensure_label LabelWorkspaceTemplate (tr_Name r) lc)
       else drop_label LabelWorkspaceTemplateNamespace (drop_label LabelWorkspaceTemplate lc)
   | None \<Rightarrow> drop_label LabelWorkspaceTemplateNamespace (drop_label LabelWorkspaceTemplate lc))"

definition access_strategy_labels :: "workspace \<Rightarrow> smap \<times> bool \<Rightarrow> smap \<times> bool" where
  "access_strategy_labels workspace lc = (case ws_AccessStrategy (w_Spec workspace) of
     Some r \<Rightarrow> if asr_Name r \<noteq> ''''
       then ensure_label LabelAccessStrategyNamespace
              (if asr_Namespace r \<noteq> '''' then asr_Namespace r else w_Namespace workspace)
              (ensure_label LabelAccessStrategyName (asr_Name r) lc)
       else drop_label LabelAccessStrategyNamespace (drop_label LabelAccessStrategyName lc)
   | None \<Rightarrow> drop_label LabelAccessStrategyNamespace (drop_label LabelAccessStrategyName lc))"

text \<open>The metadata part of the reconciliation: the workspace with finalizer and labels, and whether it changed.\<close>

definition sync_metadata :: "workspace \<Rightarrow> workspace \<times> bool" where
  "sync_metadata workspace =
     (let hasFin = contains_finalizer (om_Finalizers (w_meta workspace)) WorkspaceFinalizerName;
          fins = (if hasFin then om_Finalizers (w_meta workspace)
                  else add_finalizer (om_Finalizers (w_meta workspace)) WorkspaceFinalizerName);
          labels0 = (case w_Labels workspace of None \<Rightarrow> Map.empty | Some l \<Rightarrow> l);
          (labels, needsUpdate) = access_strategy_labels workspace (template_labels workspace (labels0, \<not> hasFin))
      in (workspace\<lparr>w_meta := (w_meta workspace)\<lparr>om_Finalizers := fins, om_Labels := Some labels\<rparr>\<rparr>, needsUpdate))"

definition getWorkspace :: "client \<Rightarrow> nsname \<Rightarrow> (workspace res) io" where
  "getWorkspace k req = call (\<lambda>h. k_get_Workspace k h req) (CGetWorkspace req)"

definition Reconcile :: "client \<Rightarrow> controller_options \<Rightarrow> idle_decoders \<Rightarrow> nsname \<Rightarrow> outcome io" where
  "Reconcile k options dec req = do {
     r \<leftarrow> getWorkspace k req;
     (case r of
        Inl err \<Rightarrow> State_Monad.return (0, if IsNotFound err then None else Some err)
      | Inr fetched \<Rightarrow>
          if is_deleting (w_meta fetched)
          then do { (_, out) \<leftarrow> ReconcileDeletion k fetched; State_Monad.return out }
          else let (workspace, needsUpdate) = sync_metadata fetched in
            if needsUpdate
            then do {
              u \<leftarrow> call (\<lambda>h. k_update_Workspace k h workspace) (CUpdateWorkspace workspace);
              State_Monad.return (case u of Inl e \<Rightarrow> (0, Some e) | Inr _ \<Rightarrow> (PollRequeueDelay, None))
            }
            else do {
              a \<leftarrow> (if getDesiredStatus workspace \<noteq> DesiredStateStopped \<and> ws_AccessStrategy (w_Spec workspace) \<noteq> None
                    then GetAccessStrategyForWorkspace k workspace else lift (Inr None));
              (case a of
                 Inl err \<Rightarrow> State_Monad.return (0, Some err)
               | Inr accessStrategy \<Rightarrow> do {
                   (_, out) \<leftarrow> ReconcileDesiredState k options dec workspace accessStrategy;
                   State_Monad.return out
                 })
            })
   }"

definition accessStrategyEventHandler :: "client \<Rightarrow> access_strategy \<Rightarrow> (nsname list) io" where
  "accessStrategyEventHandler k accessStrategy = do {
     r \<leftarrow> GetWorkspaceReconciliationRequestsForAccessStrategy k (om_Name (a_meta accessStrategy))
            (om_Namespace (a_meta accessStrategy));
     State_Monad.return (case r of Inl _ \<Rightarrow> [] | Inr requests \<Rightarrow> requests)
   }"

text \<open>Which events the manager delivers to the handlers: the predicates of the watches.\<close>

record k8s_event =
  e_Kind :: string
  e_Reason :: string
  e_Message :: string
  e_Name :: string
  e_Namespace :: string

definition watched_pod :: "pod \<Rightarrow> bool" where
  "watched_pod p = map_has (om_Labels (pod_meta p)) LabelWorkspaceName"

definition watched_event :: "k8s_event \<Rightarrow> bool" where
  "watched_event event \<longleftrightarrow>
     (e_Kind event = ''Pod'' \<and> e_Reason event = ''Stopped'' \<and> contains (e_Message event) ''Preempted'') \<or>
     e_Reason event = ''Preempted''"

section \<open>Template controller\<close>

definition t_set_finalizers :: "string list \<Rightarrow> workspace_template \<Rightarrow> workspace_template" where
  "t_set_finalizers fs t = t\<lparr>t_meta := (t_meta t)\<lparr>om_Finalizers := fs\<rparr>\<rparr>"

definition manageFinalizer :: "client \<Rightarrow> workspace_template \<Rightarrow> (workspace_template \<times> goerr option) io" where
  "manageFinalizer k template = do {
     let hasFinalizer = contains_finalizer (om_Finalizers (t_meta template)) TemplateFinalizerName;
     r \<leftarrow> HasActiveWorkspacesWithTemplate k (om_Name (t_meta template)) (om_Namespace (t_meta template));
     (case r of
        Inl err \<Rightarrow> State_Monad.return (template, Some err)
      | Inr hasWorkspaces \<Rightarrow>
          if hasWorkspaces \<and> \<not> hasFinalizer
          then do {
            let t = t_set_finalizers (add_finalizer (om_Finalizers (t_meta template)) TemplateFinalizerName) template;
            u \<leftarrow> call (\<lambda>h. k_update_Template k h t) (CUpdateTemplate t);
            State_Monad.return (case u of Inl e \<Rightarrow> (t, Some e) | Inr t' \<Rightarrow> (t', None))
          }
          else if \<not> hasWorkspaces \<and> hasFinalizer
          then do {
            let t = t_set_finalizers (remove_finalizer (om_Finalizers (t_meta template)) TemplateFinalizerName) template;
            u \<leftarrow> call (\<lambda>h. k_update_Template k h t) (CUpdateTemplate t);
            State_Monad.return (case u of Inl e \<Rightarrow> (t, Some e) | Inr t' \<Rightarrow> (t', None))
          }
          else State_Monad.return (template, None))
   }"

definition template_handleDeletion :: "client \<Rightarrow> workspace_template \<Rightarrow> (goerr option) io" where
  "template_handleDeletion k template =
     (if \<not> contains_finalizer (om_Finalizers (t_meta template)) TemplateFinalizerName
      then State_Monad.return None
      else do {
        r \<leftarrow> HasActiveWorkspacesWithTemplate k (om_Name (t_meta template)) (om_Namespace (t_meta template));
        (case r of
           Inl err \<Rightarrow> State_Monad.return (Some err)
         | Inr hasWorkspaces \<Rightarrow>
             if hasWorkspaces
             then do {
               Recorder_Event (key_of (t_meta template)) ''Warning'' ''TemplateInUse''
                 ''Cannot delete template: in use by workspace(s)'';
               State_Monad.return None
             }
             else do {
               let t = t_set_finalizers (remove_finalizer (om_Finalizers (t_meta template)) TemplateFinalizerName) template;
               u \<leftarrow> call (\<lambda>h. k_update_Template k h t) (CUpdateTemplate t);
               State_Monad.return (case u of Inl e \<Rightarrow> Some e | Inr _ \<Rightarrow> None)
             })
      })"

definition handleSpecChanges :: "workspace_template \<Rightarrow> bool \<times> int" where
  "handleSpecChanges template =
     (let currentGeneration = om_Generation (t_meta template);
          observedGeneration = tst_ObservedGeneration (t_Status template)
      in if observedGeneration \<ge> currentGeneration then (False, 0)
         else if currentGeneration = 1 \<and> observedGeneration = 0 then (True, 1)
         else (True, currentGeneration))"

definition updateStatusObservedGeneration :: "client \<Rightarrow> workspace_template \<Rightarrow> int \<Rightarrow> (goerr option) io" where
  "updateStatusObservedGeneration k template generation = do {
     let t = template\<lparr>t_Status := (t_Status template)\<lparr>tst_ObservedGeneration := generation\<rparr>\<rparr>;
     u \<leftarrow> call (\<lambda>h. k_status_Template k h t) (CStatusUpdateTemplate t);
     State_Monad.return (case u of Inl e \<Rightarrow> Some (Wrap ''failed to update status'' e) | Inr _ \<Rightarrow> None)
   }"

definition template_Reconcile :: "client \<Rightarrow> nsname \<Rightarrow> outcome io" where
  "template_Reconcile k req = do {
     r \<leftarrow> call (\<lambda>h. k_get_Template k h req) (CGetTemplate req);
     (case r of
        Inl err \<Rightarrow> State_Monad.return (0, if IsNotFound err then None else Some err)
      | Inr template \<Rightarrow>
          if is_deleting (t_meta template)
          then do { e \<leftarrow> template_handleDeletion k template; State_Monad.return (0, e) }
          else do {
            let (shouldUpdateStatus, newGeneration) = handleSpecChanges template;
            (t, err) \<leftarrow> manageFinalizer k template;
            (case err of
               Some e \<Rightarrow> State_Monad.return (0, Some e)
             | None \<Rightarrow>
                 if shouldUpdateStatus
                 then do { e \<leftarrow> updateStatusObservedGeneration k t newGeneration; State_Monad.return (0, e) }
                 else State_Monad.return (0, None))
          })
   }"

definition findTemplatesForWorkspace :: "workspace \<Rightarrow> nsname list" where
  "findTemplatesForWorkspace ws =
     (let templateName = map_get (w_Labels ws) LabelWorkspaceTemplate;
          templateNamespace = map_get (w_Labels ws) LabelWorkspaceTemplateNamespace
      in if templateName = '''' \<or> templateNamespace = '''' then [] else [nn templateNamespace templateName])"

section \<open>Access strategy controller\<close>

definition access_strategy_manage :: "client \<Rightarrow> access_strategy \<Rightarrow> (goerr option) io" where
  "access_strategy_manage k accessStrategy = do {
     let hasFinalizer = contains_finalizer (as_Finalizers accessStrategy) AccessStrategyFinalizerName;
     w \<leftarrow> HasActiveWorkspacesWithAccessStrategy k (om_Name (a_meta accessStrategy)) (om_Namespace (a_meta accessStrategy));
     (case w of
        Inl err \<Rightarrow> State_Monad.return (Some err)
      | Inr hasWorkspaces \<Rightarrow>
          if hasWorkspaces \<and> \<not> hasFinalizer then SafelyAddFinalizerToAccessStrategy k accessStrategy
          else if \<not> hasWorkspaces \<and> hasFinalizer
          then SafelyRemoveFinalizerFromAccessStrategy k accessStrategy False
          else State_Monad.return None)
   }"

definition access_strategy_Reconcile :: "client \<Rightarrow> nsname \<Rightarrow> outcome io" where
  "access_strategy_Reconcile k req = do {
     r \<leftarrow> call (\<lambda>h. k_get_AccessStrategy k h req) (CGetAccessStrategy req);
     (case r of
        Inl err \<Rightarrow> State_Monad.return (0, if IsNotFound err then None else Some err)
      | Inr accessStrategy \<Rightarrow> do { e \<leftarrow> access_strategy_manage k accessStrategy; State_Monad.return (0, e) })
   }"

definition findAccessStrategiesForWorkspace :: "workspace \<Rightarrow> nsname list" where
  "findAccessStrategiesForWorkspace ws =
     (let name = map_get (w_Labels ws) LabelAccessStrategyName;
          ns = map_get (w_Labels ws) LabelAccessStrategyNamespace
      in if name = '''' \<or> ns = '''' then [] else [nn ns name])"

section \<open>Pod events\<close>

definition updateWorkspaceDesiredStatus :: "client \<Rightarrow> string \<Rightarrow> string \<Rightarrow> string \<Rightarrow> unit io" where
  "updateWorkspaceDesiredStatus k workspaceName ns desiredStatus = do {
     let key = nn ns workspaceName;
     r \<leftarrow> call (\<lambda>h. k_get_Workspace k h key) (CGetWorkspace key);
     (case r of
        Inl _ \<Rightarrow> State_Monad.return ()
      | Inr workspace \<Rightarrow> do {
          let ann = (if desiredStatus = DesiredStateStopped
                     then Some ((case w_Annotations workspace of None \<Rightarrow> Map.empty | Some m \<Rightarrow> m)
                            (PreemptionReasonAnnotation \<mapsto> PreemptedReason))
                     else w_Annotations workspace);
          let w = workspace\<lparr>w_meta := (w_meta workspace)\<lparr>om_Annotations := ann\<rparr>,
                            w_Spec := (w_Spec workspace)\<lparr>ws_DesiredStatus := desiredStatus\<rparr>\<rparr>;
          _ \<leftarrow> call (\<lambda>h. k_update_Workspace k h w) (CUpdateWorkspace w);
          State_Monad.return ()
        })
   }"

text \<open>The name extraction of the preemption handler: prefix, at least four dash-separated parts.\<close>

definition preempted_workspace :: "string \<Rightarrow> string option" where
  "preempted_workspace podName =
     (if \<not> has_prefix podName ''jupyter-'' then None
      else let parts = split_char (CHR ''-'') podName
           in if length parts < 4 then None
              else Some (join ''-'' (drop 1 (take (length parts - 2) parts))))"

definition HandleKubernetesEvents :: "client \<Rightarrow> k8s_event \<Rightarrow> (nsname list) io" where
  "HandleKubernetesEvents k event =
     (if e_Kind event = ''Pod'' \<and> e_Reason event = DesiredStateStopped \<and> contains (e_Message event) ''Preempted''
      then (case preempted_workspace (e_Name event) of
          None \<Rightarrow> State_Monad.return []
        | Some workspaceName \<Rightarrow> do {
            updateWorkspaceDesiredStatus k workspaceName (e_Namespace event) DesiredStateStopped;
            State_Monad.return [nn (e_Namespace event) workspaceName]
          })
      else State_Monad.return [])"

section \<open>Label and finalizer synchronisation\<close>

lemma ensure_label_apply:
  "fst (ensure_label key v lc) x = (if x = key \<and> v \<noteq> '''' then Some v
     else if x = key \<and> fst lc key \<noteq> None then Some v else fst lc x)"
  by (cases lc) (auto simp: ensure_label_def split: option.splits)

lemma ensure_label_stable:
  "map_get (Some (fst lc)) key = v \<Longrightarrow> ensure_label key v lc = lc"
  by (cases lc) (simp add: ensure_label_def)

lemma drop_label_apply: "fst (drop_label key lc) x = (if x = key then None else fst lc x)"
  by (cases lc) (auto simp: drop_label_def)

lemma drop_label_stable: "fst lc key = None \<Longrightarrow> drop_label key lc = lc"
  by (cases lc) (simp add: drop_label_def)

text \<open>The labels a workspace carries for its two references, once in line with the spec.\<close>

definition labels_in_line :: "workspace \<Rightarrow> smap \<Rightarrow> bool" where
  "labels_in_line w l \<longleftrightarrow>
     (case ws_TemplateRef (w_Spec w) of
        Some r \<Rightarrow> if tr_Name r \<noteq> ''''
          then map_get (Some l) LabelWorkspaceTemplate = tr_Name r \<and>
               map_get (Some l) LabelWorkspaceTemplateNamespace = GetTemplateRefNamespace w
          else l LabelWorkspaceTemplate = None \<and> l LabelWorkspaceTemplateNamespace = None
      | None \<Rightarrow> l LabelWorkspaceTemplate = None \<and> l LabelWorkspaceTemplateNamespace = None) \<and>
     (case ws_AccessStrategy (w_Spec w) of
        Some r \<Rightarrow> if asr_Name r \<noteq> ''''
          then map_get (Some l) LabelAccessStrategyName = asr_Name r \<and>
               map_get (Some l) LabelAccessStrategyNamespace = GetAccessStrategyRefNamespace w
          else l LabelAccessStrategyName = None \<and> l LabelAccessStrategyNamespace = None
      | None \<Rightarrow> l LabelAccessStrategyName = None \<and> l LabelAccessStrategyNamespace = None)"

lemma template_labels_get:
  "ws_TemplateRef (w_Spec w) = Some r \<Longrightarrow> tr_Name r \<noteq> '''' \<Longrightarrow>
     map_get (Some (fst (template_labels w lc))) LabelWorkspaceTemplate = tr_Name r \<and>
     map_get (Some (fst (template_labels w lc))) LabelWorkspaceTemplateNamespace = GetTemplateRefNamespace w"
  by (simp add: template_labels_def ensure_label_apply split: option.splits)

lemma template_labels_none:
  "ws_TemplateRef (w_Spec w) = None \<or> ws_TemplateRef (w_Spec w) = Some r \<and> tr_Name r = '''' \<Longrightarrow>
     fst (template_labels w lc) LabelWorkspaceTemplate = None \<and>
     fst (template_labels w lc) LabelWorkspaceTemplateNamespace = None"
  by (auto simp: template_labels_def drop_label_apply)

lemma template_labels_other:
  "x \<noteq> LabelWorkspaceTemplate \<Longrightarrow> x \<noteq> LabelWorkspaceTemplateNamespace \<Longrightarrow>
     fst (template_labels w lc) x = fst lc x"
  by (simp add: template_labels_def ensure_label_apply drop_label_apply split: option.splits)

lemma access_strategy_labels_get:
  "ws_AccessStrategy (w_Spec w) = Some r \<Longrightarrow> asr_Name r \<noteq> '''' \<Longrightarrow>
     map_get (Some (fst (access_strategy_labels w lc))) LabelAccessStrategyName = asr_Name r \<and>
     map_get (Some (fst (access_strategy_labels w lc))) LabelAccessStrategyNamespace = GetAccessStrategyRefNamespace w"
  by (simp add: access_strategy_labels_def ensure_label_apply GetAccessStrategyRefNamespace_def split: option.splits)

lemma access_strategy_labels_none:
  "ws_AccessStrategy (w_Spec w) = None \<or> ws_AccessStrategy (w_Spec w) = Some r \<and> asr_Name r = '''' \<Longrightarrow>
     fst (access_strategy_labels w lc) LabelAccessStrategyName = None \<and>
     fst (access_strategy_labels w lc) LabelAccessStrategyNamespace = None"
  by (auto simp: access_strategy_labels_def drop_label_apply)

lemma access_strategy_labels_other:
  "x \<noteq> LabelAccessStrategyName \<Longrightarrow> x \<noteq> LabelAccessStrategyNamespace \<Longrightarrow>
     fst (access_strategy_labels w lc) x = fst lc x"
  by (simp add: access_strategy_labels_def ensure_label_apply drop_label_apply split: option.splits)

lemma labels_in_line_after:
  "labels_in_line w (fst (access_strategy_labels w (template_labels w lc)))"
proof -
  let ?l = "fst (access_strategy_labels w (template_labels w lc))"
  have t: "?l LabelWorkspaceTemplate = fst (template_labels w lc) LabelWorkspaceTemplate"
    "?l LabelWorkspaceTemplateNamespace = fst (template_labels w lc) LabelWorkspaceTemplateNamespace"
    by (simp_all add: access_strategy_labels_other)
  show ?thesis
    unfolding labels_in_line_def
    using t template_labels_get [of w _ lc] template_labels_none [of w _ lc]
      access_strategy_labels_get [of w _ "template_labels w lc"]
      access_strategy_labels_none [of w _ "template_labels w lc"]
    by (simp split: option.split)
qed

lemma template_labels_stable:
  assumes "labels_in_line w (fst lc)"
  shows "template_labels w lc = lc"
  using assms unfolding labels_in_line_def template_labels_def
  by (cases "ws_TemplateRef (w_Spec w)")
     (auto simp: ensure_label_stable drop_label_stable simp del: map_get_simps split: if_splits)

lemma access_strategy_labels_stable:
  assumes "labels_in_line w (fst lc)"
  shows "access_strategy_labels w lc = lc"
  using assms unfolding labels_in_line_def access_strategy_labels_def GetAccessStrategyRefNamespace_def
  by (cases "ws_AccessStrategy (w_Spec w)")
     (auto simp: ensure_label_stable drop_label_stable simp del: map_get_simps split: if_splits)

lemma labels_stable:
  "labels_in_line w (fst lc) \<Longrightarrow> access_strategy_labels w (template_labels w lc) = lc"
  by (simp add: template_labels_stable access_strategy_labels_stable)

lemma labels_in_line_cong:
  "w_Spec w' = w_Spec w \<Longrightarrow> w_Namespace w' = w_Namespace w \<Longrightarrow> labels_in_line w' l = labels_in_line w l"
proof -
  assume "w_Spec w' = w_Spec w" "w_Namespace w' = w_Namespace w"
  then have eqs: "GetTemplateRefNamespace w' = GetTemplateRefNamespace w"
    "GetAccessStrategyRefNamespace w' = GetAccessStrategyRefNamespace w"
    by (simp_all add: GetTemplateRefNamespace_def GetAccessStrategyRefNamespace_def split: option.split)
  show ?thesis
    unfolding labels_in_line_def \<open>w_Spec w' = w_Spec w\<close> eqs by (rule refl)
qed

lemma sync_metadata_sel:
  "w_Spec (fst (sync_metadata w)) = w_Spec w" "w_Status (fst (sync_metadata w)) = w_Status w"
  "key_of (w_meta (fst (sync_metadata w))) = key_of (w_meta w)"
  "contains_finalizer (om_Finalizers (w_meta (fst (sync_metadata w)))) WorkspaceFinalizerName"
  "\<exists>l. w_Labels (fst (sync_metadata w)) = Some l \<and> labels_in_line w l"
  using labels_in_line_after [of w]
  by (auto simp: sync_metadata_def Let_def key_of_def split: prod.splits) (metis fst_conv)+

text \<open>
  One metadata write brings a workspace in line. After synchronisation the workspace carries its
  protection finalizer, its template and access strategy labels are exactly those its spec asks for
  (absent when it refers to none), name, namespace, spec and status are unchanged, and synchronising
  again asks for no further write.
\<close>

theorem sync_metadata_converges:
  fixes w :: workspace
  defines "w' \<equiv> fst (sync_metadata w)"
  shows "contains_finalizer (om_Finalizers (w_meta w')) WorkspaceFinalizerName \<and>
     (\<exists>l. w_Labels w' = Some l \<and> labels_in_line w' l) \<and>
     key_of (w_meta w') = key_of (w_meta w) \<and> w_Spec w' = w_Spec w \<and> w_Status w' = w_Status w \<and>
     sync_metadata w' = (w', False)"
proof -
  obtain l where l: "w_Labels w' = Some l" "labels_in_line w l"
    using sync_metadata_sel(5) unfolding w'_def by blast
  have key: "key_of (w_meta w') = key_of (w_meta w)" "w_Spec w' = w_Spec w" "w_Status w' = w_Status w"
    and fin: "contains_finalizer (om_Finalizers (w_meta w')) WorkspaceFinalizerName"
    unfolding w'_def by (rule sync_metadata_sel)+
  then have ns: "w_Namespace w' = w_Namespace w"
    by (simp add: key_of_def)
  have line: "labels_in_line w' l"
    using l(2) labels_in_line_cong [OF key(2) ns] by simp
  then have "sync_metadata w' = (w', False)"
    using labels_stable [of w' "(l, False)"] fin l(1)
    by (cases w', cases "w_meta w'") (simp add: sync_metadata_def Let_def)
  with line l key fin show ?thesis by auto
qed

lemma sync_metadata_adds:
  assumes "\<not> contains_finalizer (om_Finalizers (w_meta w)) WorkspaceFinalizerName"
  shows "snd (sync_metadata w)"
proof -
  have keep: "snd lc \<Longrightarrow> snd (ensure_label key v lc)" "snd lc \<Longrightarrow> snd (drop_label key lc)" for key v lc
    by (cases lc; simp add: ensure_label_def drop_label_def)+
  have "snd (access_strategy_labels w (template_labels w (l, True)))" for l
    by (simp add: access_strategy_labels_def template_labels_def keep split: option.split)
  then show ?thesis
    using assms by (simp add: sync_metadata_def Let_def split: prod.split) (metis snd_conv)
qed

text \<open>
  Nothing is created for a workspace before its protection finalizer is stored. When the fetched
  workspace is not under deletion and lacks the finalizer, the reconciliation issues exactly two calls,
  the read and one write of the workspace that adds the finalizer, and asks to be run again.
\<close>

theorem Reconcile_finalizer_first:
  assumes "k_get_Workspace k h req = Inr w" and "\<not> is_deleting (w_meta w)"
    and "\<not> contains_finalizer (om_Finalizers (w_meta w)) WorkspaceFinalizerName"
  shows "\<exists>w' out. run_state (Reconcile k options dec req) h = (out, h @ [CGetWorkspace req, CUpdateWorkspace w']) \<and>
     contains_finalizer (om_Finalizers (w_meta w')) WorkspaceFinalizerName \<and> w_Spec w' = w_Spec w \<and>
     (snd out = None \<longrightarrow> fst out = PollRequeueDelay)"
proof -
  obtain w' b where s: "sync_metadata w = (w', b)"
    by (cases "sync_metadata w")
  have b: "b"
    using sync_metadata_adds [OF assms(3)] s by simp
  have "contains_finalizer (om_Finalizers (w_meta w')) WorkspaceFinalizerName" "w_Spec w' = w_Spec w"
    using sync_metadata_sel [of w] s by simp_all
  then show ?thesis
    using assms s b by (auto simp: Reconcile_def getWorkspace_def split: sum.splits)
qed

definition workspace_server :: "workspace \<Rightarrow> client" where
  "workspace_server w = empty_server\<lparr>k_get_Workspace := \<lambda>_ _. Inr w\<rparr>"

theorem Reconcile_finalizer_first_witness:
  "\<exists>w' out. run_state (Reconcile (workspace_server sample_workspace) sample_options sample_decoders (nn ''team'' ''ws'')) [] =
     (out, [CGetWorkspace (nn ''team'' ''ws''), CUpdateWorkspace w']) \<and>
     contains_finalizer (om_Finalizers (w_meta w')) WorkspaceFinalizerName"
  using Reconcile_finalizer_first [of "workspace_server sample_workspace" "[]" "nn ''team'' ''ws''" sample_workspace
      sample_options sample_decoders]
  by (auto simp: workspace_server_def is_deleting_def sample_workspace_def empty_meta_def contains_finalizer_def)

section \<open>Use of templates and access strategies\<close>

text \<open>
  The workspaces of a cluster, and what they use, without the queries of the code. A live workspace names the template of
  its reference, in its own namespace when the reference has none; the fallback to the default namespace is not a use in this sense.
\<close>

definition names_template :: "nsname \<Rightarrow> workspace \<Rightarrow> bool" where
  "names_template key w \<longleftrightarrow> \<not> is_deleting (w_meta w) \<and> (\<exists>r. ws_TemplateRef (w_Spec w) = Some r \<and> tr_Name r = key_Name key \<and>
     (if tr_Namespace r = '''' then w_Namespace w else tr_Namespace r) = key_Namespace key)"

definition names_access_strategy :: "nsname \<Rightarrow> workspace \<Rightarrow> bool" where
  "names_access_strategy key w \<longleftrightarrow> \<not> is_deleting (w_meta w) \<and> (\<exists>r. ws_AccessStrategy (w_Spec w) = Some r \<and> asr_Name r = key_Name key \<and>
     (if asr_Namespace r = '''' then w_Namespace w else asr_Namespace r) = key_Namespace key)"

definition template_in_use :: "workspace list \<Rightarrow> nsname \<Rightarrow> bool" where
  "template_in_use ws key \<longleftrightarrow> list_ex (names_template key) ws"

definition access_strategy_in_use :: "workspace list \<Rightarrow> nsname \<Rightarrow> bool" where
  "access_strategy_in_use ws key \<longleftrightarrow> list_ex (names_access_strategy key) ws"

text \<open>
  What the queries rely on: a list by labels returns the workspaces that carry the labels, and workspaces carry the labels of what
  they name, as a pass of the workspace controller leaves them.
\<close>

definition holds_workspaces :: "client \<Rightarrow> workspace list \<Rightarrow> bool" where
  "holds_workspaces k ws \<longleftrightarrow>
     (\<forall>h sel items tok. k_list_Workspaces k h sel '''' 0 = Inr (items, tok) \<longrightarrow>
        set items = {w \<in> set ws. matches_labels (w_Labels w) sel}) \<and>
     (\<forall>w \<in> set ws. \<not> is_deleting (w_meta w) \<longrightarrow> (\<exists>l. w_Labels w = Some l \<and> labels_in_line w l))"

definition named :: "nsname \<Rightarrow> bool" where
  "named key \<longleftrightarrow> key_Name key \<noteq> '''' \<and> key_Namespace key \<noteq> ''''"

definition template_users :: "client \<Rightarrow> nsname \<Rightarrow> (bool res) io" where
  "template_users k key = HasActiveWorkspacesWithTemplate k (key_Name key) (key_Namespace key)"

definition access_strategy_users :: "client \<Rightarrow> nsname \<Rightarrow> (bool res) io" where
  "access_strategy_users k key = HasActiveWorkspacesWithAccessStrategy k (key_Name key) (key_Namespace key)"

definition template_selector :: "nsname \<Rightarrow> (string \<times> string) list" where
  "template_selector key = [(LabelWorkspaceTemplate, key_Name key), (LabelWorkspaceTemplateNamespace, key_Namespace key)]"

definition access_strategy_selector :: "nsname \<Rightarrow> (string \<times> string) list" where
  "access_strategy_selector key = [(LabelAccessStrategyName, key_Name key), (LabelAccessStrategyNamespace, key_Namespace key)]"

lemma label_Some: "map_get (Some l) key = v \<Longrightarrow> v \<noteq> '''' \<Longrightarrow> l key = Some v"
  by (simp split: option.splits)

text \<open>A workspace that names an object carries the labels the query selects by, and passes its filter.\<close>

lemma names_selected:
  assumes "named key" "w_Labels w = Some l" "labels_in_line w l"
  shows "names_template key w \<Longrightarrow> matches_labels (w_Labels w) (template_selector key)"
    and "names_access_strategy key w \<Longrightarrow> matches_labels (w_Labels w) (access_strategy_selector key)"
proof -
  assume "names_template key w"
  then have "map_get (Some l) LabelWorkspaceTemplate = key_Name key" "map_get (Some l) LabelWorkspaceTemplateNamespace = key_Namespace key"
    using assms by (auto simp: names_template_def labels_in_line_def named_def GetTemplateRefNamespace_def simp del: map_get_simps)
  then have "l LabelWorkspaceTemplate = Some (key_Name key)" "l LabelWorkspaceTemplateNamespace = Some (key_Namespace key)"
    using assms(1) label_Some unfolding named_def by blast+
  then show "matches_labels (w_Labels w) (template_selector key)"
    by (simp add: assms(2) matches_labels_iff template_selector_def)
next
  assume "names_access_strategy key w"
  then have "map_get (Some l) LabelAccessStrategyName = key_Name key" "map_get (Some l) LabelAccessStrategyNamespace = key_Namespace key"
    using assms by (auto simp: names_access_strategy_def labels_in_line_def named_def GetAccessStrategyRefNamespace_def simp del: map_get_simps)
  then have "l LabelAccessStrategyName = Some (key_Name key)" "l LabelAccessStrategyNamespace = Some (key_Namespace key)"
    using assms(1) label_Some unfolding named_def by blast+
  then show "matches_labels (w_Labels w) (access_strategy_selector key)"
    by (simp add: assms(2) matches_labels_iff access_strategy_selector_def)
qed

lemma names_filter:
  assumes "named key"
  shows "uses_template (key_Name key) (key_Namespace key) w = names_template key w"
    and "uses_access_strategy False (key_Name key) (key_Namespace key) w = names_access_strategy key w"
proof -
  show "uses_template (key_Name key) (key_Namespace key) w = names_template key w"
    using assms by (cases "ws_TemplateRef (w_Spec w)") (simp_all add: uses_template_def names_template_def named_def GetTemplateRefNamespace_def)
  show "uses_access_strategy False (key_Name key) (key_Namespace key) w = names_access_strategy key w"
    by (cases "ws_AccessStrategy (w_Spec w)")
      (simp_all add: uses_access_strategy_def names_access_strategy_def GetAccessStrategyRefNamespace_def)
qed

text \<open>The queries are exact.\<close>

lemma run_users:
  "run_state (template_users k key) h = ((case k_list_Workspaces k h (template_selector key) '''' 0 of
     Inl e \<Rightarrow> Inl (Wrap ''failed to check workspaces by template label'' e)
   | Inr (items, _) \<Rightarrow> Inr (list_ex (uses_template (key_Name key) (key_Namespace key)) items)), h @ [CListWorkspaces (template_selector key) '''' 0])"
  "run_state (access_strategy_users k key) h = ((case k_list_Workspaces k h (access_strategy_selector key) '''' 0 of
     Inl e \<Rightarrow> Inl (Wrap ''failed to check workspaces by access strategy label'' e)
   | Inr (items, _) \<Rightarrow> Inr (list_ex (uses_access_strategy False (key_Name key) (key_Namespace key)) items)),
   h @ [CListWorkspaces (access_strategy_selector key) '''' 0])"
  by (auto simp: template_users_def access_strategy_users_def HasActiveWorkspacesWithTemplate_def HasActiveWorkspacesWithAccessStrategy_def
      template_selector_def access_strategy_selector_def Let_def split: sum.split prod.split)

lemma users_exact:
  assumes "holds_workspaces k ws" "named key"
  shows "fst (run_state (template_users k key) h) = Inr b \<Longrightarrow> b = template_in_use ws key"
    and "fst (run_state (access_strategy_users k key) h) = Inr b \<Longrightarrow> b = access_strategy_in_use ws key"
proof -
  have items: "\<And>sel items tok. k_list_Workspaces k h sel '''' 0 = Inr (items, tok) \<Longrightarrow> set items = {w \<in> set ws. matches_labels (w_Labels w) sel}"
    and labels: "\<And>w. w \<in> set ws \<Longrightarrow> \<not> is_deleting (w_meta w) \<Longrightarrow> \<exists>l. w_Labels w = Some l \<and> labels_in_line w l"
    using assms(1) unfolding holds_workspaces_def by blast+
  have "names_template key w \<Longrightarrow> matches_labels (w_Labels w) (template_selector key)"
    "names_access_strategy key w \<Longrightarrow> matches_labels (w_Labels w) (access_strategy_selector key)" if "w \<in> set ws" for w
    using labels [OF that] names_selected [OF assms(2), of w] by (auto simp: names_template_def names_access_strategy_def)
  then show "fst (run_state (template_users k key) h) = Inr b \<Longrightarrow> b = template_in_use ws key"
    "fst (run_state (access_strategy_users k key) h) = Inr b \<Longrightarrow> b = access_strategy_in_use ws key"
    by (auto simp: run_users names_filter [OF assms(2)] list_ex_iff template_in_use_def access_strategy_in_use_def dest!: items split: sum.splits)
qed

section \<open>Lazy finalizers\<close>

text \<open>
  The contract of a protecting controller: when the query for users succeeds, the object is written once, with the protection set as
  the query says and nothing else changed, if it differs, and not written if it agrees; when the query fails nothing is written.
\<close>

locale lazy_finalizer =
  fixes query :: "'o \<Rightarrow> (bool res) io"
    and protected :: "'o \<Rightarrow> bool"
    and adjusts :: "'o \<Rightarrow> 'o \<Rightarrow> bool"
    and written :: "api_call \<Rightarrow> 'o option"
    and manage :: "'o \<Rightarrow> 'r io"
  assumes agrees: "run_state (query x) h = (Inr b, h1) \<Longrightarrow> protected x = b \<Longrightarrow> snd (run_state (manage x) h) = h1"
    and differs: "run_state (query x) h = (Inr b, h1) \<Longrightarrow> protected x \<noteq> b \<Longrightarrow>
      \<exists>c x' rest. snd (run_state (manage x) h) = h1 @ c # rest \<and> written c = Some x' \<and> protected x' = b \<and> adjusts x x' \<and>
        list_all (\<lambda>d. written d = None) rest"
    and failed: "run_state (query x) h = (Inl e, h1) \<Longrightarrow> snd (run_state (manage x) h) = h1"
    and query_reads: "\<exists>new. snd (run_state (query x) h) = h @ new \<and> list_all (\<lambda>c. written c = None) new"
begin

lemma unwritten: "list_all (\<lambda>c. written c = None) cs \<Longrightarrow> List.map_filter written cs = []"
  by (induction cs) auto

text \<open>What a step writes when the query is exact.\<close>

lemma settles:
  assumes exact: "\<And>b. fst (run_state (query x) h) = Inr b \<Longrightarrow> b = used"
    and asked: "ok \<Longrightarrow> \<exists>b. fst (run_state (query x) h) = Inr b"
  shows "\<exists>new. snd (run_state (manage x) h) = h @ new \<and> length (List.map_filter written new) \<le> 1 \<and>
    (\<forall>x' \<in> set (List.map_filter written new). protected x' = used \<and> protected x' \<noteq> protected x \<and> adjusts x x') \<and>
    (ok \<longrightarrow> protected (last (x # List.map_filter written new)) = used)"
proof -
  obtain r n1 where q: "run_state (query x) h = (r, h @ n1)" "List.map_filter written n1 = []"
    using query_reads [of x h] unwritten by (metis prod.collapse)
  show ?thesis
  proof (cases "r = Inr used \<and> protected x \<noteq> used")
    case True
    then obtain c x' rest where w: "snd (run_state (manage x) h) = h @ n1 @ c # rest" "written c = Some x'" "protected x' = used" "adjusts x x'"
      "List.map_filter written rest = []"
      using differs [of x h used "h @ n1"] q(1) unwritten by fastforce
    then have "List.map_filter written (n1 @ c # rest) = [x']" using q(2) by (simp add: List.map_filter_def)
    then show ?thesis using w True by (intro exI [of _ "n1 @ c # rest"]) simp
  next
    case False
    then have "snd (run_state (manage x) h) = h @ n1" using agrees [of x h] failed [of x h] exact q(1) by (cases r) auto
    moreover have "protected x = used" if ok: ok
    proof -
      obtain b where "r = Inr b" using asked [OF ok] q(1) by auto
      then show ?thesis using exact [of b] q(1) False by auto
    qed
    ultimately show ?thesis using q(2) by (intro exI [of _ n1]) simp
  qed
qed

end

definition template_protected :: "workspace_template \<Rightarrow> bool" where
  "template_protected t = contains_finalizer (om_Finalizers (t_meta t)) TemplateFinalizerName"

definition access_strategy_protected :: "access_strategy \<Rightarrow> bool" where
  "access_strategy_protected a = contains_finalizer (as_Finalizers a) AccessStrategyFinalizerName"

text \<open>Two versions of an object that differ in the protection only.\<close>

definition template_adjusts :: "workspace_template \<Rightarrow> workspace_template \<Rightarrow> bool" where
  "template_adjusts t t' \<longleftrightarrow> (\<exists>fs. t' = t_set_finalizers fs t \<and>
     (\<forall>f. f \<noteq> TemplateFinalizerName \<longrightarrow> contains_finalizer fs f = contains_finalizer (om_Finalizers (t_meta t)) f))"

definition access_strategy_adjusts :: "access_strategy \<Rightarrow> access_strategy \<Rightarrow> bool" where
  "access_strategy_adjusts a a' \<longleftrightarrow> (\<exists>fs. a' = as_set_finalizers fs a \<and>
     (\<forall>f. f \<noteq> AccessStrategyFinalizerName \<longrightarrow> contains_finalizer fs f = contains_finalizer (as_Finalizers a) f))"

fun written_template :: "api_call \<Rightarrow> workspace_template option" where
  "written_template (CUpdateTemplate t) = Some t"
| "written_template _ = None"

fun written_access_strategy :: "api_call \<Rightarrow> access_strategy option" where
  "written_access_strategy (CUpdateAccessStrategy a) = Some a"
| "written_access_strategy _ = None"

text \<open>The objects written in a history.\<close>

abbreviation template_writes :: "hist \<Rightarrow> workspace_template list" where
  "template_writes \<equiv> List.map_filter written_template"

abbreviation access_strategy_writes :: "hist \<Rightarrow> access_strategy list" where
  "access_strategy_writes \<equiv> List.map_filter written_access_strategy"

lemma template_set_laws:
  "template_protected (t_set_finalizers (add_finalizer (om_Finalizers (t_meta t)) TemplateFinalizerName) t)"
  "\<not> template_protected (t_set_finalizers (remove_finalizer (om_Finalizers (t_meta t)) TemplateFinalizerName) t)"
  "template_adjusts t (t_set_finalizers (add_finalizer (om_Finalizers (t_meta t)) TemplateFinalizerName) t)"
  "template_adjusts t (t_set_finalizers (remove_finalizer (om_Finalizers (t_meta t)) TemplateFinalizerName) t)"
  by (auto simp: template_protected_def template_adjusts_def) (auto simp: t_set_finalizers_def intro!: exI)

lemma access_strategy_set_laws:
  "access_strategy_protected (as_set_finalizers (add_finalizer (as_Finalizers a) AccessStrategyFinalizerName) a)"
  "\<not> access_strategy_protected (as_set_finalizers (remove_finalizer (as_Finalizers a) AccessStrategyFinalizerName) a)"
  "access_strategy_adjusts a (as_set_finalizers (add_finalizer (as_Finalizers a) AccessStrategyFinalizerName) a)"
  "access_strategy_adjusts a (as_set_finalizers (remove_finalizer (as_Finalizers a) AccessStrategyFinalizerName) a)"
  by (auto simp: access_strategy_protected_def access_strategy_adjusts_def)
    (auto simp: as_set_finalizers_def as_Finalizers_def intro!: exI)

abbreviation template_key :: "workspace_template \<Rightarrow> nsname" where
  "template_key t \<equiv> key_of (t_meta t)"

abbreviation access_strategy_key :: "access_strategy \<Rightarrow> nsname" where
  "access_strategy_key a \<equiv> key_of (a_meta a)"

lemma key_of_sel [simp]: "key_Name (key_of m) = om_Name m" "key_Namespace (key_of m) = om_Namespace m"
  by (simp_all add: key_of_def nn_def)

interpretation template_lazy: lazy_finalizer "\<lambda>t. template_users k (template_key t)" template_protected template_adjusts
  written_template "manageFinalizer k"
proof unfold_locales
  fix x h b h1
  assume q: "run_state (template_users k (template_key x)) h = (Inr b, h1)"
  show "template_protected x = b \<Longrightarrow> snd (run_state (manageFinalizer k x) h) = h1"
    using q by (auto simp: manageFinalizer_def template_users_def template_protected_def Let_def)
  show "template_protected x \<noteq> b \<Longrightarrow> \<exists>c x' rest. snd (run_state (manageFinalizer k x) h) = h1 @ c # rest \<and>
      written_template c = Some x' \<and> template_protected x' = b \<and> template_adjusts x x' \<and> list_all (\<lambda>d. written_template d = None) rest"
    using q template_set_laws [of x] by (auto simp: manageFinalizer_def template_users_def template_protected_def [of x] Let_def)
next
  fix x h e h1
  assume "run_state (template_users k (template_key x)) h = (Inl e, h1)"
  then show "snd (run_state (manageFinalizer k x) h) = h1"
    by (simp add: manageFinalizer_def template_users_def Let_def)
qed (simp add: run_users)

interpretation access_strategy_lazy: lazy_finalizer "\<lambda>a. access_strategy_users k (access_strategy_key a)" access_strategy_protected
  access_strategy_adjusts written_access_strategy "access_strategy_manage k"
proof unfold_locales
  fix x h b h1
  assume q: "run_state (access_strategy_users k (access_strategy_key x)) h = (Inr b, h1)"
  show "access_strategy_protected x = b \<Longrightarrow> snd (run_state (access_strategy_manage k x) h) = h1"
    using q by (auto simp: access_strategy_manage_def access_strategy_users_def access_strategy_protected_def Let_def)
  show "access_strategy_protected x \<noteq> b \<Longrightarrow> \<exists>c x' rest. snd (run_state (access_strategy_manage k x) h) = h1 @ c # rest \<and>
      written_access_strategy c = Some x' \<and> access_strategy_protected x' = b \<and> access_strategy_adjusts x x' \<and>
      list_all (\<lambda>d. written_access_strategy d = None) rest"
    using q access_strategy_set_laws [of x]
    by (auto simp: access_strategy_manage_def access_strategy_users_def access_strategy_protected_def [of x]
        SafelyAddFinalizerToAccessStrategy_def SafelyRemoveFinalizerFromAccessStrategy_def Let_def split: sum.splits)
next
  fix x h e h1
  assume "run_state (access_strategy_users k (access_strategy_key x)) h = (Inl e, h1)"
  then show "snd (run_state (access_strategy_manage k x) h) = h1"
    by (simp add: access_strategy_manage_def access_strategy_users_def Let_def)
qed (simp add: run_users)

text \<open>A step that ends without an error has asked who uses the object.\<close>

lemma manage_asked:
  "snd (fst (run_state (manageFinalizer k t) h)) = None \<Longrightarrow> \<exists>b. fst (run_state (template_users k (template_key t)) h) = Inr b"
  "fst (run_state (access_strategy_manage k a) h) = None \<Longrightarrow> \<exists>b. fst (run_state (access_strategy_users k (access_strategy_key a)) h) = Inr b"
  by (auto simp: manageFinalizer_def access_strategy_manage_def template_users_def access_strategy_users_def Let_def
      split: sum.splits prod.splits)

lemma writes_append [simp]:
  "template_writes (xs @ ys) = template_writes xs @ template_writes ys"
  "access_strategy_writes (xs @ ys) = access_strategy_writes xs @ access_strategy_writes ys"
  by (simp_all add: List.map_filter_def)



text \<open>A server on which one workspace, labelled as its controller leaves it, uses a template and an access strategy.\<close>

definition used_template :: workspace_template where
  "used_template = \<lparr>t_meta = empty_meta\<lparr>om_Name := ''t'', om_Namespace := ''team''\<rparr>,
     t_Spec = empty_template_spec, t_Status = \<lparr>tst_ObservedGeneration = 0\<rparr>\<rparr>"

definition user_workspace :: workspace where
  "user_workspace = sample_workspace\<lparr>w_meta := (w_meta sample_workspace)\<lparr>om_Labels := Some [LabelWorkspaceTemplate \<mapsto> ''t'',
       LabelWorkspaceTemplateNamespace \<mapsto> ''team'', LabelAccessStrategyName \<mapsto> ''web'', LabelAccessStrategyNamespace \<mapsto> ''team'']\<rparr>,
     w_Spec := empty_spec\<lparr>ws_TemplateRef := Some \<lparr>tr_Name = ''t'', tr_Namespace = ''''\<rparr>,
       ws_AccessStrategy := Some \<lparr>asr_Name = ''web'', asr_Namespace = ''team''\<rparr>\<rparr>\<rparr>"

definition used_server :: "workspace_template \<Rightarrow> client" where
  "used_server t = empty_server\<lparr>k_get_Template := \<lambda>_ _. Inr t,
     k_get_AccessStrategy := \<lambda>_ _. Inr (sample_access_strategy\<lparr>a_meta := empty_meta\<lparr>om_Name := ''web'', om_Namespace := ''team''\<rparr>\<rparr>),
     k_list_Workspaces := \<lambda>_ sel _ _. Inr (filter (\<lambda>w. matches_labels (w_Labels w) sel) [user_workspace], [])\<rparr>"

lemma used_server_holds: "holds_workspaces (used_server t) [user_workspace]"
  by (auto simp: holds_workspaces_def used_server_def user_workspace_def labels_in_line_def GetTemplateRefNamespace_def
      GetAccessStrategyRefNamespace_def sample_workspace_def empty_meta_def)

lemma used_in_use:
  "template_in_use [user_workspace] (nn ''team'' ''t'')" "access_strategy_in_use [user_workspace] (nn ''team'' ''web'')"
  "named (nn ''team'' ''t'')" "named (nn ''team'' ''web'')"
  by (simp_all add: template_in_use_def access_strategy_in_use_def names_template_def names_access_strategy_def user_workspace_def
      sample_workspace_def empty_meta_def is_deleting_def named_def nn_def)

lemma used_template_sel: "template_key used_template = nn ''team'' ''t''" "\<not> is_deleting (t_meta used_template)" "\<not> template_protected used_template"
  by (simp_all add: used_template_def key_of_def is_deleting_def empty_meta_def template_protected_def contains_finalizer_def)





text \<open>
  The fallback namespace escapes protection. When a workspace's template reference names no
  namespace, the workspace is not in the default template namespace and its own namespace has no such
  template, the template of the default namespace is resolved; but it is never recorded as used: after
  label synchronisation the workspace neither matches the label query for that template nor passes the
  filter of the query, so the template's finalizer is not kept for this workspace.
\<close>

theorem fallback_template_unprotected:
  assumes ref: "ws_TemplateRef (w_Spec w) = Some r" "tr_Namespace r = ''''" "tr_Name r \<noteq> ''''"
    and ns: "w_Namespace w \<noteq> defaultNs" "defaultNs \<noteq> ''''"
    and missing: "k_get_Template k h (nn (w_Namespace w) (tr_Name r)) = Inl e" "IsNotFound e"
    and fallback: "k_get_Template k (h @ [CGetTemplate (nn (w_Namespace w) (tr_Name r))]) (nn defaultNs (tr_Name r)) = Inr t"
  shows "fst (run_state (ResolveTemplateForWorkspace k defaultNs w) h) = Inr t \<and>
    \<not> matches_labels (w_Labels (fst (sync_metadata w)))
        [(LabelWorkspaceTemplate, tr_Name r), (LabelWorkspaceTemplateNamespace, defaultNs)] \<and>
    \<not> uses_template (tr_Name r) defaultNs (fst (sync_metadata w))"
proof (intro conjI)
  show "fst (run_state (ResolveTemplateForWorkspace k defaultNs w) h) = Inr t"
    using assms by (simp add: ResolveTemplateForWorkspace_def ResolveTemplate_def Let_def)
  obtain l where l: "w_Labels (fst (sync_metadata w)) = Some l" "labels_in_line w l"
    using sync_metadata_sel(5) by blast
  have own: "GetTemplateRefNamespace w = w_Namespace w"
    using ref by (simp add: GetTemplateRefNamespace_def)
  then have "map_get (Some l) LabelWorkspaceTemplateNamespace = w_Namespace w"
    using l(2) ref by (simp add: labels_in_line_def)
  then show "\<not> matches_labels (w_Labels (fst (sync_metadata w)))
      [(LabelWorkspaceTemplate, tr_Name r), (LabelWorkspaceTemplateNamespace, defaultNs)]"
    using ns l(1) by (simp add: matches_labels_def del: map_get_simps)
  have "w_Namespace (fst (sync_metadata w)) = w_Namespace w"
    using sync_metadata_sel(3) [of w] by (simp add: key_of_def)
  then show "\<not> uses_template (tr_Name r) defaultNs (fst (sync_metadata w))"
    using ref ns by (simp add: uses_template_def GetTemplateRefNamespace_def sync_metadata_sel)
qed

definition fallback_server :: client where
  "fallback_server = empty_server\<lparr>k_get_Template := \<lambda>_ key.
     if key = nn ''shared'' ''t'' then Inr used_template else Inl not_found\<rparr>"

theorem fallback_template_unprotected_witness:
  "fst (run_state (ResolveTemplateForWorkspace fallback_server ''shared'' (sample_workspace\<lparr>w_Spec :=
       empty_spec\<lparr>ws_TemplateRef := Some \<lparr>tr_Name = ''t'', tr_Namespace = ''''\<rparr>\<rparr>\<rparr>)) []) = Inr used_template"
  using fallback_template_unprotected [of "sample_workspace\<lparr>w_Spec :=
       empty_spec\<lparr>ws_TemplateRef := Some \<lparr>tr_Name = ''t'', tr_Namespace = ''''\<rparr>\<rparr>\<rparr>"
      "\<lparr>tr_Name = ''t'', tr_Namespace = ''''\<rparr>" "''shared''" fallback_server "[]" not_found used_template]
  by (simp add: sample_workspace_def fallback_server_def not_found_def)

section \<open>Preemption events\<close>

text \<open>
  The preemption handler recovers a workspace's name from a pod named with the prefix it expects
  and the two hash suffixes of a replica set pod, dashes in the name included; but the deployments of
  this controller are named with another prefix, so no pod of a workspace deployment is ever recognised.
\<close>

theorem preempted_workspace_names:
  assumes "CHR ''-'' \<notin> set hash1" and "CHR ''-'' \<notin> set hash2"
  shows "preempted_workspace (''jupyter-'' @ name @ ''-'' @ hash1 @ ''-'' @ hash2) = Some name \<and>
     preempted_workspace (GenerateDeploymentName name @ ''-'' @ hash1 @ ''-'' @ hash2) = None"
proof -
  have split: "split_char c (a @ c # s) = split_char c a @ split_char c s" for c a s
  proof (induction a)
    case (Cons x xs)
    then show ?case
      by (cases "split_char c xs") auto
  qed simp
  have parts: "split_char (CHR ''-'') (''jupyter-'' @ name @ ''-'' @ hash1 @ ''-'' @ hash2) =
      ''jupyter'' # split_char (CHR ''-'') name @ [hash1, hash2]"
    using split [of "CHR ''-''" "''jupyter''" "name @ ''-'' @ hash1 @ ''-'' @ hash2"]
      split [of "CHR ''-''" name "hash1 @ ''-'' @ hash2"] split [of "CHR ''-''" hash1 hash2] assms
    by (simp add: split_char_no_sep)
  have "length (split_char (CHR ''-'') name) \<ge> 1"
    by (simp add: Suc_le_eq)
  then have "preempted_workspace (''jupyter-'' @ name @ ''-'' @ hash1 @ ''-'' @ hash2) = Some name"
    unfolding preempted_workspace_def Let_def parts using join_split_char [of "CHR ''-''" name] by simp
  then show ?thesis
    by (simp add: preempted_workspace_def GenerateDeploymentName_def)
qed

theorem preempted_workspace_names_witness:
  "preempted_workspace ''jupyter-my-lab-5d9f-x2z'' = Some ''my-lab'' \<and>
   preempted_workspace ''workspace-my-lab-5d9f-x2z'' = None"
  using preempted_workspace_names [of "''5d9f''" "''x2z''" "''my-lab''"]
  by (simp add: GenerateDeploymentName_def)

end
