(* ===== verification/Requests.thy ===== *)
theory Requests
  imports Controllers
begin

text \<open>
  What the workspace controller may request of the cluster: for every call that creates, updates or deletes an object of a
  workspace, the state of the workspace, as it was read, that permits it.
\<close>

section \<open>Permitted changes\<close>

text \<open>Calls that create, update or delete no claim, deployment, service or access resource, other than deletions of access resources.\<close>

fun keeps_children :: "api_call \<Rightarrow> bool" where
  "keeps_children (CDeletePVC _) = False"
| "keeps_children (CDeleteDeployment _) = False"
| "keeps_children (CDeleteService _) = False"
| "keeps_children (CCreatePVC _) = False"
| "keeps_children (CCreateDeployment _) = False"
| "keeps_children (CCreateService _) = False"
| "keeps_children (CCreateUnstructured _) = False"
| "keeps_children (CUpdatePVC _) = False"
| "keeps_children (CUpdateDeployment _) = False"
| "keeps_children (CUpdateService _) = False"
| "keeps_children (CUpdateUnstructured _) = False"
| "keeps_children _ = True"

text \<open>When a workspace is to be stopped, and when it is to run: live, protected by the finalizer, and desired to run.\<close>

definition to_be_stopped :: "workspace \<Rightarrow> bool" where
  "to_be_stopped w \<longleftrightarrow> is_deleting (w_meta w) \<or> getDesiredStatus w = DesiredStateStopped"

definition to_be_run :: "workspace \<Rightarrow> bool" where
  "to_be_run w \<longleftrightarrow> \<not> is_deleting (w_meta w) \<and> getDesiredStatus w = DesiredStateRunning \<and>
     contains_finalizer (om_Finalizers (w_meta w)) WorkspaceFinalizerName"

definition claim_of :: "workspace \<Rightarrow> nsname" where
  "claim_of w = nn (w_Namespace w) (GeneratePVCName (w_Name w))"

definition deployment_of :: "workspace \<Rightarrow> nsname" where
  "deployment_of w = nn (w_Namespace w) (GenerateDeploymentName (w_Name w))"

definition service_of :: "workspace \<Rightarrow> nsname" where
  "service_of w = nn (w_Namespace w) (GenerateServiceName (w_Name w))"

text \<open>An access resource of a workspace is in its namespace, under a prefix followed by its name.\<close>

definition access_resource_of :: "workspace \<Rightarrow> nsname \<Rightarrow> bool" where
  "access_resource_of w key \<longleftrightarrow> (\<exists>pre. key = nn (w_Namespace w) (pre @ ''-'' @ w_Name w))"

lemmas child_keys = claim_of_def deployment_of_def service_of_def

text \<open>
  The calls that may be made for a workspace: its objects are created and updated only when it is to run; its claim is deleted only
  when it is being deleted, its deployment and its service only when it is to be stopped.
\<close>

fun permitted :: "workspace \<Rightarrow> api_call \<Rightarrow> bool" where
  "permitted w (CDeletePVC key) \<longleftrightarrow> is_deleting (w_meta w) \<and> key = claim_of w"
| "permitted w (CDeleteDeployment key) \<longleftrightarrow> to_be_stopped w \<and> key = deployment_of w"
| "permitted w (CDeleteService key) \<longleftrightarrow> to_be_stopped w \<and> key = service_of w"
| "permitted w (CCreatePVC p) \<longleftrightarrow> to_be_run w \<and> key_of (p_meta p) = claim_of w"
| "permitted w (CCreateDeployment d) \<longleftrightarrow> to_be_run w \<and> key_of (d_meta d) = deployment_of w"
| "permitted w (CCreateService s) \<longleftrightarrow> to_be_run w \<and> key_of (s_meta s) = service_of w"
| "permitted w (CCreateUnstructured u) \<longleftrightarrow> to_be_run w \<and> access_resource_of w (key_of (u_meta u))"
| "permitted w (CUpdatePVC p) \<longleftrightarrow> to_be_run w \<and> key_of (p_meta p) = claim_of w"
| "permitted w (CUpdateDeployment d) \<longleftrightarrow> to_be_run w \<and> key_of (d_meta d) = deployment_of w"
| "permitted w (CUpdateService s) \<longleftrightarrow> to_be_run w \<and> key_of (s_meta s) = service_of w"
| "permitted w (CUpdateUnstructured u) \<longleftrightarrow> to_be_run w \<and> access_resource_of w (key_of (u_meta u))"
| "permitted w _ = True"

lemma keeps_children_permitted: "keeps_children c \<Longrightarrow> permitted w c"
  by (cases c) simp_all

text \<open>
  An object that is read carries the key it was asked for, and neither a status update nor setting the controller reference changes
  a key.
\<close>

definition answers_keyed :: "client \<Rightarrow> bool" where
  "answers_keyed k \<longleftrightarrow>
     (\<forall>h key x. k_get_PVC k h key = Inr x \<longrightarrow> key_of (p_meta x) = key) \<and>
     (\<forall>h key x. k_get_Deployment k h key = Inr x \<longrightarrow> key_of (d_meta x) = key) \<and>
     (\<forall>h key x. k_get_Service k h key = Inr x \<longrightarrow> key_of (s_meta x) = key) \<and> status_keeps_key k \<and>
     (\<forall>w m m'. k_set_controller_ref k w m = Inr m' \<longrightarrow> key_of m' = key_of m)"

lemma answers_keyedD:
  assumes "answers_keyed k"
  shows "k_get_PVC k h x = Inr p \<Longrightarrow> key_of (p_meta p) = x" "k_get_Deployment k h x = Inr d \<Longrightarrow> key_of (d_meta d) = x"
    "k_get_Service k h x = Inr s \<Longrightarrow> key_of (s_meta s) = x" "k_set_controller_ref k w m = Inr m' \<Longrightarrow> key_of m' = key_of m"
    "k_status_Workspace k h v = Inr v' \<Longrightarrow> key_of (w_meta v') = key_of (w_meta v)"
  using assms unfolding answers_keyed_def status_keeps_key_def by blast+

text \<open>The calculus where the continuation needs to know the result.\<close>

lemma issues_only_bind_result:
  assumes "issues_only P m" "\<And>h x. x = fst (run_state m h) \<Longrightarrow> issues_only P (f x)"
  shows "issues_only P (m \<bind> f)"
proof -
  have "adds_only P h (snd (run_state (m \<bind> f) h))" for h
  proof -
    obtain x h1 where run: "run_state m h = (x, h1)" by (cases "run_state m h")
    then have "adds_only P h h1" "adds_only P h1 (snd (run_state (f x) h1))"
      using assms(1) assms(2) [of x h] unfolding state_io_rel_def by (metis snd_conv, metis fst_conv)
    then show ?thesis using transp_adds_only [of P] run unfolding transp_def by auto
  qed
  then show ?thesis by (simp add: state_io_rel_def)
qed

lemma issues_only_permitted: "issues_only keeps_children m \<Longrightarrow> issues_only (permitted w) m"
  using issues_only_mono keeps_children_permitted by blast

section \<open>Operations that change no object\<close>

lemma keeps_children_status:
  "issues_only keeps_children (UpdateErrorStatus k w r m s)"
  "issues_only keeps_children (UpdateStartingStatus k w rr s)"
  "issues_only keeps_children (UpdateRunningStatus k w s)"
  "issues_only keeps_children (UpdateStoppingStatus k w sr s)"
  "issues_only keeps_children (UpdateStoppedStatus k w s)"
  "issues_only keeps_children (UpdateDeletingStatus k w)"
  "issues_only keeps_children (report_error k w r e s)"
  by (auto simp: UpdateErrorStatus_def UpdateStartingStatus_def UpdateRunningStatus_def UpdateDeletingStatus_def
      UpdateStoppingStatus_def UpdateStoppedStatus_def updateStatus_def report_error_def Let_def
      intro!: issues_intros)

lemma keeps_children_access_deleted: "issues_only keeps_children (ensureAccessResourceDeleted k r)"
  by (auto simp: ensureAccessResourceDeleted_def Let_def intro!: issues_intros)

lemma keeps_children_loops:
  "issues_only keeps_children (delete_access_loop k rs acc)"
  "issues_only keeps_children (delete_removed_loop k rs b)"
  by (induction rs arbitrary: acc b) (auto intro!: issues_intros keeps_children_access_deleted)

lemma keeps_children_access:
  "issues_only keeps_children (EnsureAccessResourcesDeleted k w)"
  by (auto simp: EnsureAccessResourcesDeleted_def intro!: issues_intros keeps_children_loops)

lemma keeps_children_strategy: "issues_only keeps_children (GetAccessStrategyForWorkspace k w)"
  by (auto simp: GetAccessStrategyForWorkspace_def Let_def intro!: issues_intros)

lemma keeps_children_idle: "issues_only keeps_children (handleIdleShutdownForRunningWorkspace k dec w)"
  by (auto simp: handleIdleShutdownForRunningWorkspace_def isAtLeastOneWorkspacePodReady_def
      CheckWorkspaceIdle_def findWorkspacePod_def CheckIdle_def ExecInPod_def stopWorkspaceDueToIdle_def Let_def
      intro!: issues_intros)

lemmas keeps_children = keeps_children_status keeps_children_access keeps_children_loops keeps_children_strategy keeps_children_idle

lemmas permitted_keeps = keeps_children [THEN issues_only_permitted]

section \<open>Running\<close>

lemma key_of_version [simp]: "key_of (m\<lparr>om_ResourceVersion := rv\<rparr>) = key_of m"
  by (simp add: key_of_def)

text \<open>What the builder makes of a template belongs to the workspace.\<close>

lemma built_access_resource:
  assumes "BuildUnstructuredResource k t w a s = Inr u" "key_of (w_meta w) = key_of (w_meta v)"
  shows "access_resource_of v (key_of (u_meta u))"
proof -
  have "key_of (u_meta u) = nn (w_Namespace v) (art_NamePrefix t @ ''-'' @ w_Name v)"
    using BuildUnstructuredResource_key [OF assms(1)] assms(2) by (simp add: lookup_name_def key_of_def nn_def)
  then show ?thesis unfolding access_resource_of_def by blast
qed

lemma permitted_access_resource:
  assumes "answers_keyed k" "to_be_run v" "key_of (w_meta w) = key_of (w_meta v)"
  shows "issues_only (permitted v) (create_access_resource k w a s t b)"
    and "issues_only (permitted v) (refresh_access_resource k w a s t x)"
    and "issues_only (permitted v) (ensureAccessResourceExists k w a s t ns)"
proof -
  have create: "issues_only (permitted v) (create_access_resource k w a s t b)" if "key_of (w_meta w) = key_of (w_meta v)" for w b
    using assms(2) built_access_resource [OF _ that] answers_keyedD(4) [OF assms(1)]
    unfolding create_access_resource_def Let_def by (auto intro!: issues_intros split: sum.splits)
  show "issues_only (permitted v) (create_access_resource k w a s t b)" by (rule create [OF assms(3)])
  show refresh: "issues_only (permitted v) (refresh_access_resource k w a s t x)" for x
    using assms(2) unfolding refresh_access_resource_def Let_def
    by (auto simp: built_access_resource [OF _ assms(3)] intro!: issues_intros split: sum.splits)
  show "issues_only (permitted v) (ensureAccessResourceExists k w a s t ns)"
    unfolding ensureAccessResourceExists_def Let_def using assms(3)
    by (auto intro!: issues_intros refresh create split: prod.splits)
qed

lemma permitted_access_resources:
  assumes "answers_keyed k" "to_be_run v" "key_of (w_meta w) = key_of (w_meta v)"
  shows "issues_only (permitted v) (EnsureAccessResourcesExist k w a s)"
proof -
  have "issues_only (permitted v) (ensure_templates_loop k a s ts w)" if "key_of (w_meta w) = key_of (w_meta v)" for ts w
    using that
  proof (induction ts arbitrary: w)
    case (Cons t ts)
    show ?case
      unfolding ensure_templates_loop.simps
    proof (rule issues_only_bind_result, goal_cases)
      case 1
      show ?case by (rule permitted_access_resource(3) [OF assms(1,2) Cons.prems])
    next
      case (2 h r)
      then have "key_of (w_meta (fst r)) = key_of (w_meta v)"
        using ensureAccessResourceExists_keeps(1) [of k w a s t "w_Namespace w" h "fst r" "snd r"] Cons.prems by (metis prod.collapse)
      then show ?case using Cons.IH by (auto intro!: issues_intros split: prod.splits option.splits)
    qed
  qed (auto intro!: issues_intros)
  then show ?thesis
    using assms(3) by (auto simp: EnsureAccessResourcesExist_def Let_def intro!: issues_intros permitted_keeps)
qed

lemma built_keys:
  assumes "answers_keyed k"
  shows "BuildPVC k w = Inr (Some p) \<Longrightarrow> key_of (p_meta p) = claim_of w"
    and "BuildService k w = Inr s \<Longrightarrow> key_of (s_meta s) = service_of w"
    and "BuildDeployment k options w = Inr d \<Longrightarrow> key_of (d_meta d) = deployment_of w"
  by (auto simp: BuildPVC_def BuildService_def BuildDeployment_def pvc_buildObjectMeta_def service_buildObjectMeta_def
      deployment_buildObjectMeta_def child_keys Let_def dest!: answers_keyedD(4) [OF assms] split: sum.splits option.splits)

lemma modifications_keep_meta: "applyDeploymentSpecModifications d a = Inr d' \<Longrightarrow> d_meta d' = d_meta d"
  unfolding applyDeploymentSpecModifications_def with_pod_def Let_def by (auto split: option.splits if_splits)

lemma built_deployment_key:
  assumes "answers_keyed k" "BuildDeploymentWithAccessStrategy k options w a = Inr d"
  shows "key_of (d_meta d) = deployment_of w"
  using assms(2) built_keys(3) [OF assms(1)]
  by (auto simp: BuildDeploymentWithAccessStrategy_def ApplyAccessStrategyToDeployment_def with_pod_def dest!: modifications_keep_meta
      split: sum.splits option.splits list.splits)

lemma permitted_creations:
  assumes "answers_keyed k" "to_be_run w"
  shows "issues_only (permitted w) (createDeployment k options w a)"
    and "issues_only (permitted w) (createService k w)"
    and "issues_only (permitted w) (createPVC k w)"
  using assms by (auto simp: createDeployment_def createService_def createPVC_def built_deployment_key built_keys
      intro!: issues_only_on_lift issues_only_on_ok issues_only_call issues_only_option)

lemma permitted_updates:
  assumes "to_be_run w"
  shows "key_of (d_meta d) = deployment_of w \<Longrightarrow> issues_only (permitted w) (updateDeployment k options d w a)"
    and "key_of (s_meta s) = service_of w \<Longrightarrow> issues_only (permitted w) (updateService k s w)"
    and "key_of (p_meta p) = claim_of w \<Longrightarrow> issues_only (permitted w) (updatePVC k p w)"
  using assms by (auto simp: updateDeployment_def updateService_def updatePVC_def provided_or_fetched_def update_deployment_spec_def
      UpdateServiceSpec_def UpdatePVCSpec_def
      intro!: issues_only_on_lift issues_only_on_ok issues_only_call issues_only_if permitted_keeps split: sum.splits option.splits)

lemma permitted_ensure:
  assumes "answers_keyed k" "to_be_run w"
  shows "issues_only (permitted w) (EnsureDeploymentExists k options w a)" (is ?d)
    and "issues_only (permitted w) (EnsureServiceExists k w)" (is ?s)
    and "issues_only (permitted w) (EnsurePVCExists k w)" (is ?p)
proof -
  note key = answers_keyedD(1-3) [OF assms(1)]
  show ?d
    unfolding EnsureDeploymentExists_def getDeployment_def Let_def
    by (rule issues_only_bind_result)
      (auto simp: ensureDeploymentUpToDate_def provided_or_fetched_def deployment_of_def dest!: sym [of "Inr _"] key
        intro!: issues_intros permitted_creations assms permitted_updates permitted_keeps)
  show ?s
    unfolding EnsureServiceExists_def getService_def Let_def
    by (rule issues_only_bind_result)
      (auto simp: ensureServiceUpToDate_def service_of_def dest!: sym [of "Inr _"] key intro!: issues_intros permitted_creations assms permitted_updates)
  show ?p
    unfolding EnsurePVCExists_def getPVC_def Let_def
    by (rule issues_only_if, simp, rule issues_only_bind_result)
      (auto simp: ensurePVCUpToDate_def claim_of_def dest!: sym [of "Inr _"] key intro!: issues_intros permitted_creations assms permitted_updates)
qed

section \<open>Stopping and deletion\<close>

lemma same_key:
  "key_of (w_meta w) = key_of (w_meta v) \<longleftrightarrow> w_Namespace w = w_Namespace v \<and> w_Name w = w_Name v"
  by (auto simp: key_of_def nn_def)

lemma same_children:
  "key_of (w_meta w) = key_of (w_meta v) \<Longrightarrow> claim_of w = claim_of v \<and> deployment_of w = deployment_of v \<and> service_of w = service_of v"
  by (simp add: same_key child_keys)

lemma permitted_deletions:
  assumes "answers_keyed k" "key_of (w_meta w) = key_of (w_meta v)" "to_be_stopped v"
  shows "issues_only (permitted v) (EnsureDeploymentDeleted k w)" (is ?d)
    and "issues_only (permitted v) (EnsureServiceDeleted k w)" (is ?s)
    and "is_deleting (w_meta v) \<Longrightarrow> issues_only (permitted v) (EnsurePVCDeleted k w)" (is "_ \<Longrightarrow> ?p")
proof -
  note law = answers_keyedD [OF assms(1)] and key = same_children [OF assms(2), unfolded child_keys]
  show ?d ?s
    using deployment_deleted.calls [of k w] service_deleted.calls [of k w] assms(3) key
    unfolding state_io_rel_def adds_only_def by (fastforce simp: law child_keys)+
  show ?p if "is_deleting (w_meta v)"
    using pvc_deleted.calls [of k w] that key unfolding state_io_rel_def adds_only_def by (fastforce simp: law child_keys)
qed

lemma EnsureAccessResourcesDeleted_meta: "w_meta (fst (fst (run_state (EnsureAccessResourcesDeleted k w) h))) = w_meta w"
  by (auto simp: EnsureAccessResourcesDeleted_def set_AccessResources_def split: prod.split sum.split)

lemma stopped_permitted:
  assumes "answers_keyed k" "to_be_stopped w"
  shows "issues_only (permitted w) (reconcileDesiredStoppedStatus k w s)"
  unfolding reconcileDesiredStoppedStatus_def ReconcileAccessForDesiredStoppedStatus_def
proof (rule issues_only_bind_result, goal_cases)
  case 1
  show ?case by (rule permitted_keeps)
next
  case (2 h r)
  then have key: "key_of (w_meta (fst r)) = key_of (w_meta w)"
    by (simp add: EnsureAccessResourcesDeleted_meta clear_access_def)
  have "issues_only (permitted w) (EnsureDeploymentDeleted k (fst r))" "issues_only (permitted w) (EnsureServiceDeleted k (fst r))"
    by (rule permitted_deletions [OF assms(1) key assms(2)])+
  then show ?case
    by (cases r) (auto simp: Let_def intro!: issues_intros permitted_keeps)
qed

lemma running_permitted:
  assumes "answers_keyed k" "to_be_run w"
  shows "issues_only (permitted w) (reconcileDesiredRunningStatus k options dec w s a)"
  using permitted_ensure [OF assms] permitted_access_resources [OF assms refl]
  by (auto simp: reconcileDesiredRunningStatus_def ReconcileAccessForDesiredRunningStatus_def Let_def intro!: issues_intros permitted_keeps)

lemma ReconcileDesiredState_permitted:
  assumes "answers_keyed k" "\<not> is_deleting (w_meta w)" "contains_finalizer (om_Finalizers (w_meta w)) WorkspaceFinalizerName"
  shows "issues_only (permitted w) (ReconcileDesiredState k options dec w a)"
  using assms
  by (auto simp: ReconcileDesiredState_def to_be_run_def to_be_stopped_def Let_def
      intro!: issues_intros permitted_keeps stopped_permitted running_permitted)

lemma CleanupAllResources_permitted:
  assumes "answers_keyed k" "key_of (w_meta w) = key_of (w_meta v)" "is_deleting (w_meta v)"
  shows "issues_only (permitted v) (CleanupAllResources k w)"
  unfolding CleanupAllResources_def
proof (rule issues_only_bind_result, goal_cases)
  case 1
  show ?case by (rule permitted_keeps)
next
  case (2 h r)
  then have key: "key_of (w_meta (fst r)) = key_of (w_meta v)"
    using assms(2) by (simp add: EnsureAccessResourcesDeleted_meta)
  have "to_be_stopped v" using assms(3) by (simp add: to_be_stopped_def)
  note del = permitted_deletions [OF assms(1) key this] permitted_deletions(3) [OF assms(1) key this assms(3)]
  have "issues_only (permitted v) (AreAllResourcesDeleted k (fst r))"
    by (auto simp: AreAllResourcesDeleted_def getDeployment_def getService_def getPVC_def Let_def intro!: issues_intros)
  then show ?case
    using del assms(3) by (cases r) (auto intro!: issues_intros)
qed

lemma ReconcileDeletion_permitted:
  assumes "answers_keyed k" "is_deleting (w_meta v)"
  shows "issues_only (permitted v) (ReconcileDeletion k v)"
proof (cases "contains_finalizer (om_Finalizers (w_meta v)) WorkspaceFinalizerName")
  case True
  have "key_of (w_meta (fst r)) = key_of (w_meta v)" if "r = fst (run_state (UpdateDeletingStatus k v) h)" "snd r = None" for r h
    using that assms(1) by (auto simp: UpdateDeletingStatus_def Let_def dest!: answers_keyedD(5) [OF assms(1)] split: sum.splits)
  then have "issues_only (permitted v) (CleanupAllResources k (fst r))"
    if "r = fst (run_state (UpdateDeletingStatus k v) h)" "snd r = None" for r h
    using that CleanupAllResources_permitted [OF assms(1) _ assms(2)] by blast
  note cleanup = this
  have "issues_only (permitted v) (UpdateDeletingStatus k v \<bind> f)"
    if "\<And>w. issues_only (permitted v) (CleanupAllResources k w) \<Longrightarrow> issues_only (permitted v) (f (w, None))"
      "\<And>w e. issues_only (permitted v) (f (w, Some e))" for f
  proof (rule issues_only_bind_result [OF permitted_keeps(6)], goal_cases)
    case (1 h r)
    show ?case
    proof (cases "snd r")
      case None
      then show ?thesis using that(1) [OF cleanup [OF 1 None]] by (simp flip: None)
    next
      case (Some e)
      then show ?thesis using that(2) [of "fst r" e] by (simp flip: Some)
    qed
  qed
  note deleting = this
  show ?thesis
    unfolding ReconcileDeletion_def if_not_P [OF not_not [THEN iffD2, OF True]]
  proof (rule deleting, goal_cases)
    case (1 w)
    then show ?case by (auto simp: Let_def intro!: issues_intros)
  qed simp
qed (simp add: ReconcileDeletion_def)


section \<open>The reconciliation\<close>

text \<open>A pass that goes on after the metadata was in line found the finalizer, and what is then permitted was permitted for the workspace read.\<close>

lemma sync_metadata_in_line:
  assumes "sync_metadata w = (v, False)"
  shows "contains_finalizer (om_Finalizers (w_meta v)) WorkspaceFinalizerName" "is_deleting (w_meta v) = is_deleting (w_meta w)"
    and "permitted v c \<Longrightarrow> permitted w c"
proof -
  have fin: "contains_finalizer (om_Finalizers (w_meta w)) WorkspaceFinalizerName"
    using sync_metadata_adds [of w] assms by fastforce
  then obtain l where v: "v = w\<lparr>w_meta := (w_meta w)\<lparr>om_Labels := Some l\<rparr>\<rparr>"
    using assms by (auto simp: sync_metadata_def Let_def split: prod.splits)
  show "contains_finalizer (om_Finalizers (w_meta v)) WorkspaceFinalizerName" "is_deleting (w_meta v) = is_deleting (w_meta w)"
    using fin by (simp_all add: v is_deleting_def)
  have same: "to_be_run v = to_be_run w" "to_be_stopped v = to_be_stopped w" "claim_of v = claim_of w" "deployment_of v = deployment_of w"
      "service_of v = service_of w" "is_deleting (w_meta v) = is_deleting (w_meta w)"
    by (simp_all add: v to_be_run_def to_be_stopped_def child_keys is_deleting_def getDesiredStatus_def)
  have "access_resource_of v = access_resource_of w" by (simp add: fun_eq_iff access_resource_of_def v)
  then show "permitted v c \<Longrightarrow> permitted w c"
    by (cases c) (simp_all add: same)
qed

text \<open>What follows the read of a reconciliation.\<close>

lemma Reconcile_permitted:
  assumes "answers_keyed k" "sync_metadata ws = (v, False)" "\<not> is_deleting (w_meta ws)"
  shows "issues_only (permitted ws) (ReconcileDesiredState k options dec v a)"
  using ReconcileDesiredState_permitted [OF assms(1), of v] sync_metadata_in_line [OF assms(2)] assms(3)
  by (blast intro: issues_only_mono)

section \<open>Justified histories\<close>

text \<open>
  A change of an object is justified by the calls before it when a workspace was read for which it is permitted.
\<close>

definition justified_call :: "client \<Rightarrow> hist \<Rightarrow> api_call \<Rightarrow> bool" where
  "justified_call k h c \<longleftrightarrow> keeps_children c \<or>
     (\<exists>before key since ws. h = before @ CGetWorkspace key # since \<and> k_get_Workspace k before key = Inr ws \<and> permitted ws c)"

definition justified :: "client \<Rightarrow> hist \<Rightarrow> bool" where
  "justified k h \<longleftrightarrow> (\<forall>before c since. h = before @ c # since \<longrightarrow> justified_call k before c)"

lemma justified_empty [simp]: "justified k []"
  by (simp add: justified_def)

lemma justified_snoc [simp]: "justified k (h @ [c]) \<longleftrightarrow> justified k h \<and> justified_call k h c"
proof
  assume all: "justified k (h @ [c])"
  have "justified_call k before d" if "h = before @ d # since" for before d since
    using all that unfolding justified_def by (metis append_Cons append_assoc)
  then show "justified k h \<and> justified_call k h c" using all unfolding justified_def by blast
next
  assume "justified k h \<and> justified_call k h c"
  then show "justified k (h @ [c])"
    unfolding justified_def by (auto simp: append_eq_append_conv2 Cons_eq_append_conv append_eq_Cons_conv)
qed

lemma justified_keeps:
  assumes "justified k h" "list_all keeps_children new"
  shows "justified k (h @ new)"
  using assms(2)
proof (induction new rule: rev_induct)
  case (snoc c cs)
  then have "justified k (h @ cs)" "justified_call k (h @ cs) c" by (auto simp: justified_call_def)
  then show ?case by (simp flip: append_assoc)
qed (simp add: assms(1))

lemma justified_read:
  assumes "justified k h" "k_get_Workspace k h key = Inr ws" "list_all (permitted ws) new"
  shows "justified k (h @ CGetWorkspace key # new)"
  using assms(3)
proof (induction new rule: rev_induct)
  case Nil
  then show ?case using assms(1) by (simp add: justified_call_def)
next
  case (snoc c cs)
  then have "justified k (h @ CGetWorkspace key # cs)" "justified_call k (h @ CGetWorkspace key # cs) c"
    using assms(2) unfolding justified_call_def by (simp, auto)
  then show ?case by (simp flip: append_assoc append_Cons)
qed

lemma read_justified:
  assumes "justified k h"
    and read: "\<And>ws. k_get_Workspace k h req = Inr ws \<Longrightarrow> issues_only (permitted ws) (f (Inr ws))"
    and unread: "\<And>e. issues_only keeps_children (f (Inl e))"
  shows "justified k (snd (run_state (getWorkspace k req \<bind> f) h))"
proof -
  have run: "run_state (getWorkspace k req \<bind> f) h = run_state (f (k_get_Workspace k h req)) (h @ [CGetWorkspace req])"
    by (simp add: getWorkspace_def)
  show ?thesis
  proof (cases "k_get_Workspace k h req")
    case (Inl e)
    obtain new where "snd (run_state (f (Inl e)) (h @ [CGetWorkspace req])) = (h @ [CGetWorkspace req]) @ new" "list_all keeps_children new"
      using unread [of e] unfolding state_io_rel_def adds_only_def by blast
    then show ?thesis using assms(1) run Inl justified_keeps [of k "h @ [CGetWorkspace req]"] by (simp add: justified_call_def)
  next
    case (Inr ws)
    obtain new where "snd (run_state (f (Inr ws)) (h @ [CGetWorkspace req])) = (h @ [CGetWorkspace req]) @ new" "list_all (permitted ws) new"
      using read [OF Inr] unfolding state_io_rel_def adds_only_def by blast
    then show ?thesis using justified_read [OF assms(1) Inr] run Inr by simp
  qed
qed

lemma Reconcile_justified:
  assumes "answers_keyed k" "justified k h"
  shows "justified k (snd (run_state (Reconcile k options dec req) h))"
  unfolding Reconcile_def
proof (rule read_justified [OF assms(2)], goal_cases)
  case (1 ws)
  then show ?case
    by (auto simp: Let_def intro!: issues_intros ReconcileDeletion_permitted [OF assms(1)] Reconcile_permitted [OF assms(1)] permitted_keeps)
qed simp

end
