(* ===== verification/WebhookDefaults.thy ===== *)
theory WebhookDefaults
  imports Controllers
begin

text \<open>
  The defaulting half of the workspace webhook (\<open>internal/webhook/v1alpha1\<close>): the eight default
  applicators of \<open>template_defaulter.go\<close> (one per \<open>*_defaulter.go\<close>), the default template
  (\<open>template_getter.go\<close>), the default service account (\<open>service_account_defaulter.go\<close>) and the sharing
  defaults (\<open>sharing_defaulter.go\<close>).

  The contract the applicators share, that a default never replaces what the user set and touches
  nothing else, is the locale \<open>default_step\<close>; \<open>default_applicator\<close> adds that applying twice is applying
  once. Both are interpreted on every applicator and on their composition.
\<close>

section \<open>Applicators\<close>

definition set_if_empty :: "string \<Rightarrow> string \<Rightarrow> string" where
  "set_if_empty v d = (if v = '''' \<and> d \<noteq> '''' then d else v)"

definition set_if_nil :: "'a option \<Rightarrow> 'a option \<Rightarrow> 'a option" where
  "set_if_nil v d = (if v = None \<and> d \<noteq> None then d else v)"

definition on_spec :: "(workspace_spec \<Rightarrow> workspace_spec) \<Rightarrow> workspace \<Rightarrow> workspace" where
  "on_spec f workspace = workspace\<lparr>w_Spec := f (w_Spec workspace)\<rparr>"

definition applyCoreDefaults :: "workspace \<Rightarrow> workspace_template \<Rightarrow> workspace" where
  "applyCoreDefaults workspace template = on_spec (\<lambda>s. s\<lparr>
     ws_Image := set_if_empty (ws_Image s) (ts_DefaultImage (t_Spec template)),
     ws_OwnershipType := set_if_empty (ws_OwnershipType s) (ts_DefaultOwnershipType (t_Spec template)),
     ws_ContainerConfig := set_if_nil (ws_ContainerConfig s) (ts_DefaultContainerConfig (t_Spec template)),
     ws_AccessType := set_if_empty (ws_AccessType s) (ts_DefaultAccessType (t_Spec template)),
     ws_AppType := set_if_empty (ws_AppType s) (ts_AppType (t_Spec template))\<rparr>) workspace"

definition applyResourceDefaults :: "workspace \<Rightarrow> workspace_template \<Rightarrow> workspace" where
  "applyResourceDefaults workspace template = on_spec (\<lambda>s. s\<lparr>
     ws_Resources := set_if_nil (ws_Resources s) (ts_DefaultResources (t_Spec template))\<rparr>) workspace"

text \<open>The zero value of a storage spec.\<close>

definition empty_storage :: storage_spec where
  "empty_storage = \<lparr>ss_StorageClassName = None, ss_Size = Quantity 0 ''0'', ss_MountPath = ''''\<rparr>"

definition fill_storage :: "storage_config \<Rightarrow> storage_spec \<Rightarrow> storage_spec" where
  "fill_storage cfg st = st\<lparr>
     ss_Size := (if q_is_zero (ss_Size st) \<and> \<not> q_is_zero (sc_DefaultSize cfg) then sc_DefaultSize cfg else ss_Size st),
     ss_StorageClassName := set_if_nil (ss_StorageClassName st) (sc_DefaultStorageClassName cfg),
     ss_MountPath := set_if_empty (ss_MountPath st) (sc_DefaultMountPath cfg)\<rparr>"

definition applyStorageDefaults :: "workspace \<Rightarrow> workspace_template \<Rightarrow> workspace" where
  "applyStorageDefaults workspace template = (case ts_PrimaryStorage (t_Spec template) of
     None \<Rightarrow> workspace
   | Some cfg \<Rightarrow> on_spec (\<lambda>s. s\<lparr>ws_Storage := map_option (fill_storage cfg)
       (if ws_Storage s = None \<and> \<not> q_is_zero (sc_DefaultSize cfg) then Some empty_storage else ws_Storage s)\<rparr>) workspace)"

definition applySchedulingDefaults :: "workspace \<Rightarrow> workspace_template \<Rightarrow> workspace" where
  "applySchedulingDefaults workspace template = on_spec (\<lambda>s. s\<lparr>
     ws_NodeSelector := set_if_nil (ws_NodeSelector s) (ts_DefaultNodeSelector (t_Spec template)),
     ws_Affinity := set_if_nil (ws_Affinity s) (ts_DefaultAffinity (t_Spec template)),
     ws_Tolerations := set_if_nil (ws_Tolerations s) (ts_DefaultTolerations (t_Spec template))\<rparr>) workspace"

definition applyMetadataDefaults :: "workspace \<Rightarrow> workspace_template \<Rightarrow> workspace" where
  "applyMetadataDefaults workspace template =
     (let labels = (case w_Labels workspace of None \<Rightarrow> Map.empty | Some l \<Rightarrow> l) in
      workspace\<lparr>w_meta := (w_meta workspace)\<lparr>om_Labels := Some (labels
        (LabelWorkspaceTemplate \<mapsto> om_Name (t_meta template),
         LabelWorkspaceTemplateNamespace \<mapsto> GetTemplateRefNamespace workspace))\<rparr>\<rparr>)"

definition applyAccessStrategyDefaults :: "workspace \<Rightarrow> workspace_template \<Rightarrow> workspace" where
  "applyAccessStrategyDefaults workspace template = on_spec (\<lambda>s. s\<lparr>
     ws_AccessStrategy := set_if_nil (ws_AccessStrategy s) (ts_DefaultAccessStrategy (t_Spec template))\<rparr>) workspace"

definition applyLifecycleDefaults :: "workspace \<Rightarrow> workspace_template \<Rightarrow> workspace" where
  "applyLifecycleDefaults workspace template = on_spec (\<lambda>s. s\<lparr>
     ws_Lifecycle := set_if_nil (ws_Lifecycle s) (ts_DefaultLifecycle (t_Spec template)),
     ws_IdleShutdown := set_if_nil (ws_IdleShutdown s) (ts_DefaultIdleShutdown (t_Spec template))\<rparr>) workspace"

definition applySecurityDefaults :: "workspace \<Rightarrow> workspace_template \<Rightarrow> workspace" where
  "applySecurityDefaults workspace template = on_spec (\<lambda>s. s\<lparr>
     ws_PodSecurityContext := set_if_nil (ws_PodSecurityContext s) (ts_DefaultPodSecurityContext (t_Spec template))\<rparr>) workspace"

section \<open>Template defaults\<close>

type_synonym default_applicator_fun = "workspace \<Rightarrow> workspace_template \<Rightarrow> workspace"

definition defaultApplicators :: "default_applicator_fun list" where
  "defaultApplicators = [applyCoreDefaults, applyResourceDefaults, applyStorageDefaults, applySchedulingDefaults,
     applyMetadataDefaults, applyAccessStrategyDefaults, applyLifecycleDefaults, applySecurityDefaults]"

definition apply_applicators :: "default_applicator_fun list \<Rightarrow> default_applicator_fun" where
  "apply_applicators applicators workspace template = foldl (\<lambda>w applicator. applicator w template) workspace applicators"

definition ApplyTemplateDefaults :: "client \<Rightarrow> string \<Rightarrow> workspace \<Rightarrow> (workspace res) io" where
  "ApplyTemplateDefaults k defaultTemplateNamespace workspace = (case ws_TemplateRef (w_Spec workspace) of
     None \<Rightarrow> lift (Inr workspace)
   | Some ref \<Rightarrow>
       if tr_Name ref = '''' then lift (Inr workspace)
       else on_ok (ResolveTemplate k defaultTemplateNamespace (Some ref) (w_Namespace workspace)) id
              (\<lambda>template. lift (Inr (apply_applicators defaultApplicators workspace template))))"

section \<open>Default template, service account and sharing\<close>

abbreviation DefaultClusterTemplateLabel :: string where
  "DefaultClusterTemplateLabel \<equiv> ''workspace.jupyter.org/default-cluster-template''"
abbreviation DefaultServiceAccountLabel :: string where
  "DefaultServiceAccountLabel \<equiv> ''workspace.jupyter.org/default-service-account''"
abbreviation OwnershipTypeOwnerOnly :: string where
  "OwnershipTypeOwnerOnly \<equiv> ''OwnerOnly''"
abbreviation OwnershipTypePublic :: string where
  "OwnershipTypePublic \<equiv> ''Public''"

text \<open>The \<open>%v\<close> form of a string slice.\<close>

definition slice_text :: "string list \<Rightarrow> string" where
  "slice_text ss = ''['' @ join '' '' ss @ '']''"

definition getTemplateNames :: "workspace_template list \<Rightarrow> string list" where
  "getTemplateNames templates = map (\<lambda>t. om_Name (t_meta t)) templates"

definition ApplyTemplateName :: "client \<Rightarrow> workspace \<Rightarrow> (workspace res) io" where
  "ApplyTemplateName k workspace =
     (if (case ws_TemplateRef (w_Spec workspace) of None \<Rightarrow> False | Some r \<Rightarrow> tr_Name r \<noteq> '''')
      then lift (Inr workspace)
      else let sel = [(DefaultClusterTemplateLabel, ''true'')] in
        on_ok (call (\<lambda>h. k_list_Templates k h sel) (CListTemplates sel))
          (Wrap ''failed to list templates with default-cluster-template label'')
          (\<lambda>items. lift (case items of
              [] \<Rightarrow> Inr workspace
            | [t] \<Rightarrow> Inr (on_spec (\<lambda>s. s\<lparr>ws_TemplateRef :=
                Some \<lparr>tr_Name = om_Name (t_meta t), tr_Namespace = ''''\<rparr>\<rparr>) workspace)
            | _ \<Rightarrow> Inl (Msg (''multiple templates found with default-cluster-template label: '' @
                slice_text (getTemplateNames items) @ '', expected exactly one'')))))"

definition GetDefaultServiceAccount :: "client \<Rightarrow> string \<Rightarrow> (string res) io" where
  "GetDefaultServiceAccount k ns =
     (let sel = [(DefaultServiceAccountLabel, ''true'')] in
      on_ok (call (\<lambda>h. k_list_ServiceAccounts k h ns sel) (CListServiceAccounts ns sel))
        (Wrap ''failed to list service accounts'')
        (\<lambda>items. lift (case items of
            [] \<Rightarrow> Inr ''default''
          | [sa] \<Rightarrow> Inr (om_Name (sa_meta sa))
          | _ \<Rightarrow> Inl (Msg (''multiple service accounts found with default label in namespace '' @ ns)))))"

definition ApplyServiceAccountDefaults :: "client \<Rightarrow> workspace \<Rightarrow> (workspace res) io" where
  "ApplyServiceAccountDefaults k workspace =
     (if ws_ServiceAccountName (w_Spec workspace) \<noteq> '''' then lift (Inr workspace)
      else on_ok (GetDefaultServiceAccount k (w_Namespace workspace)) id
             (\<lambda>defaultSA. lift (Inr (on_spec (\<lambda>s. s\<lparr>ws_ServiceAccountName := defaultSA\<rparr>) workspace))))"

definition setWorkspaceSharingDefaults :: "workspace \<Rightarrow> workspace" where
  "setWorkspaceSharingDefaults = on_spec (\<lambda>s.
     let s1 = (if ws_OwnershipType s = '''' then s\<lparr>ws_OwnershipType := OwnershipTypePublic\<rparr> else s)
     in if ws_AccessType s1 = '''' then s1\<lparr>ws_AccessType := ws_OwnershipType s1\<rparr> else s1)"

section \<open>The contract of a default\<close>

text \<open>What the user set stays: a non-empty string, a non-nil pointer, a non-zero quantity.\<close>

definition kept :: "string \<Rightarrow> string \<Rightarrow> bool" where
  "kept v v' \<longleftrightarrow> v = '''' \<or> v' = v"

definition kept_ptr :: "'a option \<Rightarrow> 'a option \<Rightarrow> bool" where
  "kept_ptr v v' \<longleftrightarrow> v = None \<or> v' = v"

definition kept_storage :: "storage_spec option \<Rightarrow> storage_spec option \<Rightarrow> bool" where
  "kept_storage v v' \<longleftrightarrow> (case v of None \<Rightarrow> True | Some s \<Rightarrow> (case v' of None \<Rightarrow> False | Some s' \<Rightarrow>
     (q_is_zero (ss_Size s) \<or> ss_Size s' = ss_Size s) \<and>
     kept_ptr (ss_StorageClassName s) (ss_StorageClassName s') \<and> kept (ss_MountPath s) (ss_MountPath s')))"

definition kept_spec :: "workspace_spec \<Rightarrow> workspace_spec \<Rightarrow> bool" where
  "kept_spec s s' \<longleftrightarrow>
     ws_DisplayName s' = ws_DisplayName s \<and> ws_DesiredStatus s' = ws_DesiredStatus s \<and>
     ws_Volumes s' = ws_Volumes s \<and> ws_TemplateRef s' = ws_TemplateRef s \<and>
     ws_ServiceAccountName s' = ws_ServiceAccountName s \<and>
     kept (ws_Image s) (ws_Image s') \<and> kept (ws_OwnershipType s) (ws_OwnershipType s') \<and>
     kept (ws_AccessType s) (ws_AccessType s') \<and> kept (ws_AppType s) (ws_AppType s') \<and>
     kept_ptr (ws_Resources s) (ws_Resources s') \<and> kept_storage (ws_Storage s) (ws_Storage s') \<and>
     kept_ptr (ws_ContainerConfig s) (ws_ContainerConfig s') \<and> kept_ptr (ws_NodeSelector s) (ws_NodeSelector s') \<and>
     kept_ptr (ws_Affinity s) (ws_Affinity s') \<and> kept_ptr (ws_Tolerations s) (ws_Tolerations s') \<and>
     kept_ptr (ws_Lifecycle s) (ws_Lifecycle s') \<and> kept_ptr (ws_AccessStrategy s) (ws_AccessStrategy s') \<and>
     kept_ptr (ws_IdleShutdown s) (ws_IdleShutdown s') \<and>
     kept_ptr (ws_PodSecurityContext s) (ws_PodSecurityContext s')"

text \<open>Outside the spec only the two tracking labels may change.\<close>

definition label_of :: "workspace \<Rightarrow> string \<Rightarrow> string option" where
  "label_of w key = (case w_Labels w of None \<Rightarrow> None | Some l \<Rightarrow> l key)"

definition kept_rest :: "workspace \<Rightarrow> workspace \<Rightarrow> bool" where
  "kept_rest w w' \<longleftrightarrow> w_Status w' = w_Status w \<and> w_meta w' = (w_meta w)\<lparr>om_Labels := w_Labels w'\<rparr> \<and>
     (\<forall>key. key \<noteq> LabelWorkspaceTemplate \<longrightarrow> key \<noteq> LabelWorkspaceTemplateNamespace \<longrightarrow> label_of w' key = label_of w key)"

lemma kept_simps [simp]:
  "kept v v" "kept_ptr p p" "kept_storage st st"
  "kept v (set_if_empty v d)" "kept_ptr p (set_if_nil p d')"
  by (auto simp: kept_def kept_ptr_def kept_storage_def set_if_empty_def set_if_nil_def split: option.splits)

lemma kept_trans:
  "kept a b \<Longrightarrow> kept b c \<Longrightarrow> kept a c" "kept_ptr p q \<Longrightarrow> kept_ptr q r \<Longrightarrow> kept_ptr p r"
  "kept_storage s t \<Longrightarrow> kept_storage t u \<Longrightarrow> kept_storage s u"
  by (auto simp: kept_def kept_ptr_def kept_storage_def split: option.splits)

lemma kept_spec_refl [simp]: "kept_spec s s"
  by (simp add: kept_spec_def)

lemma kept_spec_trans:
  assumes "kept_spec s t" and "kept_spec t u"
  shows "kept_spec s u"
  using assms unfolding kept_spec_def by (elim conjE, intro conjI) (simp, (blast intro: kept_trans | simp)+)

lemma kept_rest_refl [simp]: "kept_rest w w"
  by (simp add: kept_rest_def)

lemma kept_rest_trans: "kept_rest a b \<Longrightarrow> kept_rest b c \<Longrightarrow> kept_rest a c"
  unfolding kept_rest_def by (elim conjE, intro conjI) (simp, metis object_meta.update_convs(6) object_meta.surjective object_meta.select_convs(6), simp)

lemma kept_rest_namespace: "kept_rest w w' \<Longrightarrow> w_Namespace w' = w_Namespace w"
  unfolding kept_rest_def
  by (metis object_meta.select_convs(2) object_meta.surjective object_meta.update_convs(6))

lemma set_if_idem [simp]:
  "set_if_empty (set_if_empty v d) d = set_if_empty v d" "set_if_nil (set_if_nil p q) q = set_if_nil p q"
  by (auto simp: set_if_empty_def set_if_nil_def)

lemma on_spec_simps [simp]:
  "w_Spec (on_spec f w) = f (w_Spec w)" "w_meta (on_spec f w) = w_meta w" "w_Status (on_spec f w) = w_Status w"
  by (simp_all add: on_spec_def)

lemma on_spec_kept_rest [simp]: "kept_rest w (on_spec f w)"
  by (simp add: kept_rest_def label_of_def)

locale default_step =
  fixes app :: default_applicator_fun
  assumes spec_kept: "kept_spec (w_Spec w) (w_Spec (app w t))"
    and rest_kept: "kept_rest w (app w t)"
begin

lemma step_from:
  assumes "kept_spec (w_Spec v) (w_Spec w)" and "kept_rest v w"
  shows "kept_spec (w_Spec v) (w_Spec (app w t)) \<and> kept_rest v (app w t)"
  using assms spec_kept rest_kept kept_spec_trans kept_rest_trans by blast

lemma user_image_kept: "ws_Image (w_Spec w) \<noteq> '''' \<Longrightarrow> ws_Image (w_Spec (app w t)) = ws_Image (w_Spec w)"
  using spec_kept [of w t] by (simp add: kept_spec_def kept_def)

end

locale default_applicator = default_step +
  assumes idem: "app (app w t) t = app w t"
begin

lemma repeat_once: "(((\<lambda>w. app w t) ^^ Suc n) w) = app w t"
  by (induction n) (simp_all add: idem)

end

lemma default_step_fold:
  assumes "\<forall>a \<in> set apps. default_step a"
  shows "default_step (apply_applicators apps)"
proof -
  have "kept_spec (w_Spec v) (w_Spec (foldl (\<lambda>w a. a w t) w apps)) \<and> kept_rest v (foldl (\<lambda>w a. a w t) w apps)"
    if "kept_spec (w_Spec v) (w_Spec w)" "kept_rest v w" for v w t
    using that assms by (induction apps arbitrary: w) (simp_all add: default_step.step_from)
  then show ?thesis
    by unfold_locales (simp_all add: apply_applicators_def)
qed

lemmas applicator_defs = applyCoreDefaults_def applyResourceDefaults_def applyStorageDefaults_def
  applySchedulingDefaults_def applyAccessStrategyDefaults_def applyLifecycleDefaults_def applySecurityDefaults_def

lemma fill_storage_kept: "kept_storage (Some s) (Some (fill_storage cfg s))"
  by (auto simp: kept_storage_def fill_storage_def)

lemma fill_storage_idem [simp]: "fill_storage cfg (fill_storage cfg s) = fill_storage cfg s"
  by (auto simp: fill_storage_def)

interpretation core_default: default_applicator applyCoreDefaults
  by unfold_locales (simp_all add: applyCoreDefaults_def kept_spec_def on_spec_def kept_rest_def label_of_def)

interpretation resource_default: default_applicator applyResourceDefaults
  by unfold_locales (simp_all add: applyResourceDefaults_def kept_spec_def on_spec_def kept_rest_def label_of_def)

interpretation storage_default: default_applicator applyStorageDefaults
proof unfold_locales
  fix w :: workspace and t :: workspace_template
  have "kept_storage (ws_Storage (w_Spec w)) (map_option (fill_storage cfg)
      (if ws_Storage (w_Spec w) = None \<and> \<not> q_is_zero (sc_DefaultSize cfg) then Some empty_storage else ws_Storage (w_Spec w)))" for cfg
    using fill_storage_kept by (cases "ws_Storage (w_Spec w)") (auto simp: kept_storage_def)
  then show "kept_spec (w_Spec w) (w_Spec (applyStorageDefaults w t))"
    by (simp add: applyStorageDefaults_def kept_spec_def split: option.split)
  show "kept_rest w (applyStorageDefaults w t)"
    by (simp add: applyStorageDefaults_def split: option.split)
  show "applyStorageDefaults (applyStorageDefaults w t) t = applyStorageDefaults w t"
    by (cases "ws_Storage (w_Spec w)") (auto simp: applyStorageDefaults_def on_spec_def split: option.split)
qed

interpretation scheduling_default: default_applicator applySchedulingDefaults
  by unfold_locales (simp_all add: applySchedulingDefaults_def kept_spec_def on_spec_def kept_rest_def label_of_def)

interpretation metadata_default: default_applicator applyMetadataDefaults
  by unfold_locales
    (auto simp: applyMetadataDefaults_def kept_rest_def label_of_def GetTemplateRefNamespace_def fun_upd_twist
      split: option.split)

interpretation access_default: default_applicator applyAccessStrategyDefaults
  by unfold_locales (simp_all add: applyAccessStrategyDefaults_def kept_spec_def on_spec_def kept_rest_def label_of_def)

interpretation lifecycle_default: default_applicator applyLifecycleDefaults
  by unfold_locales (simp_all add: applyLifecycleDefaults_def kept_spec_def on_spec_def kept_rest_def label_of_def)

interpretation security_default: default_applicator applySecurityDefaults
  by unfold_locales (simp_all add: applySecurityDefaults_def kept_spec_def on_spec_def kept_rest_def label_of_def)

lemma all_steps: "\<forall>a \<in> set defaultApplicators. default_step a"
  by (simp add: defaultApplicators_def core_default.default_step_axioms resource_default.default_step_axioms
      storage_default.default_step_axioms scheduling_default.default_step_axioms metadata_default.default_step_axioms
      access_default.default_step_axioms lifecycle_default.default_step_axioms security_default.default_step_axioms)

text \<open>The two tracking labels, and the rest of the composition, are stable under a second application.\<close>

lemma apply_all_eq:
  "apply_applicators defaultApplicators w t =
     applySecurityDefaults (applyLifecycleDefaults (applyAccessStrategyDefaults (applyMetadataDefaults
       (applySchedulingDefaults (applyStorageDefaults (applyResourceDefaults (applyCoreDefaults w t) t) t) t) t) t) t) t"
  by (simp add: apply_applicators_def defaultApplicators_def)

text \<open>Each spec applicator works on fields of its own, so it commutes with the others.\<close>

lemma applicators_commute:
  "applyResourceDefaults (applyCoreDefaults w t) t = applyCoreDefaults (applyResourceDefaults w t) t"
  "applyStorageDefaults (applyCoreDefaults w t) t = applyCoreDefaults (applyStorageDefaults w t) t"
  "applyStorageDefaults (applyResourceDefaults w t) t = applyResourceDefaults (applyStorageDefaults w t) t"
  "applySchedulingDefaults (applyCoreDefaults w t) t = applyCoreDefaults (applySchedulingDefaults w t) t"
  "applySchedulingDefaults (applyResourceDefaults w t) t = applyResourceDefaults (applySchedulingDefaults w t) t"
  "applySchedulingDefaults (applyStorageDefaults w t) t = applyStorageDefaults (applySchedulingDefaults w t) t"
  "applyMetadataDefaults (applyCoreDefaults w t) t = applyCoreDefaults (applyMetadataDefaults w t) t"
  "applyMetadataDefaults (applyResourceDefaults w t) t = applyResourceDefaults (applyMetadataDefaults w t) t"
  "applyMetadataDefaults (applyStorageDefaults w t) t = applyStorageDefaults (applyMetadataDefaults w t) t"
  "applyMetadataDefaults (applySchedulingDefaults w t) t = applySchedulingDefaults (applyMetadataDefaults w t) t"
  "applyAccessStrategyDefaults (applyCoreDefaults w t) t = applyCoreDefaults (applyAccessStrategyDefaults w t) t"
  "applyAccessStrategyDefaults (applyResourceDefaults w t) t = applyResourceDefaults (applyAccessStrategyDefaults w t) t"
  "applyAccessStrategyDefaults (applyStorageDefaults w t) t = applyStorageDefaults (applyAccessStrategyDefaults w t) t"
  "applyAccessStrategyDefaults (applySchedulingDefaults w t) t = applySchedulingDefaults (applyAccessStrategyDefaults w t) t"
  "applyAccessStrategyDefaults (applyMetadataDefaults w t) t = applyMetadataDefaults (applyAccessStrategyDefaults w t) t"
  "applyLifecycleDefaults (applyCoreDefaults w t) t = applyCoreDefaults (applyLifecycleDefaults w t) t"
  "applyLifecycleDefaults (applyResourceDefaults w t) t = applyResourceDefaults (applyLifecycleDefaults w t) t"
  "applyLifecycleDefaults (applyStorageDefaults w t) t = applyStorageDefaults (applyLifecycleDefaults w t) t"
  "applyLifecycleDefaults (applySchedulingDefaults w t) t = applySchedulingDefaults (applyLifecycleDefaults w t) t"
  "applyLifecycleDefaults (applyMetadataDefaults w t) t = applyMetadataDefaults (applyLifecycleDefaults w t) t"
  "applyLifecycleDefaults (applyAccessStrategyDefaults w t) t = applyAccessStrategyDefaults (applyLifecycleDefaults w t) t"
  "applySecurityDefaults (applyCoreDefaults w t) t = applyCoreDefaults (applySecurityDefaults w t) t"
  "applySecurityDefaults (applyResourceDefaults w t) t = applyResourceDefaults (applySecurityDefaults w t) t"
  "applySecurityDefaults (applyStorageDefaults w t) t = applyStorageDefaults (applySecurityDefaults w t) t"
  "applySecurityDefaults (applySchedulingDefaults w t) t = applySchedulingDefaults (applySecurityDefaults w t) t"
  "applySecurityDefaults (applyMetadataDefaults w t) t = applyMetadataDefaults (applySecurityDefaults w t) t"
  "applySecurityDefaults (applyAccessStrategyDefaults w t) t = applyAccessStrategyDefaults (applySecurityDefaults w t) t"
  "applySecurityDefaults (applyLifecycleDefaults w t) t = applyLifecycleDefaults (applySecurityDefaults w t) t"
  by (simp_all add: applicator_defs applyMetadataDefaults_def on_spec_def GetTemplateRefNamespace_def split: option.split)

interpretation template_default_step: default_step "apply_applicators defaultApplicators"
  by (rule default_step_fold [OF all_steps])

interpretation template_defaults: default_applicator "apply_applicators defaultApplicators"
  by unfold_locales
    (simp add: apply_all_eq applicators_commute core_default.idem resource_default.idem storage_default.idem
      scheduling_default.idem metadata_default.idem access_default.idem lifecycle_default.idem security_default.idem)

section \<open>Properties\<close>

text \<open>The spec a template stands for: field by field, the user's value or else the template's.\<close>

definition or_else :: "string \<Rightarrow> string \<Rightarrow> string" where
  "or_else v d = (if v = '''' then d else v)"

definition or_ptr :: "'a option \<Rightarrow> 'a option \<Rightarrow> 'a option" where
  "or_ptr v d = (case v of None \<Rightarrow> d | Some x \<Rightarrow> Some x)"

definition merged_storage :: "storage_spec option \<Rightarrow> storage_config option \<Rightarrow> storage_spec option" where
  "merged_storage v c = (case c of None \<Rightarrow> v | Some cfg \<Rightarrow>
     (case v of
        None \<Rightarrow> if q_value (sc_DefaultSize cfg) = 0 then None
          else Some \<lparr>ss_StorageClassName = sc_DefaultStorageClassName cfg, ss_Size = sc_DefaultSize cfg,
                 ss_MountPath = sc_DefaultMountPath cfg\<rparr>
      | Some s \<Rightarrow> Some \<lparr>ss_StorageClassName = or_ptr (ss_StorageClassName s) (sc_DefaultStorageClassName cfg),
          ss_Size = (if q_value (ss_Size s) = 0 \<and> q_value (sc_DefaultSize cfg) \<noteq> 0 then sc_DefaultSize cfg else ss_Size s),
          ss_MountPath = or_else (ss_MountPath s) (sc_DefaultMountPath cfg)\<rparr>))"

definition merged_spec :: "workspace_spec \<Rightarrow> workspace_template_spec \<Rightarrow> workspace_spec" where
  "merged_spec s t = \<lparr>ws_DisplayName = ws_DisplayName s, ws_Image = or_else (ws_Image s) (ts_DefaultImage t),
     ws_DesiredStatus = ws_DesiredStatus s, ws_OwnershipType = or_else (ws_OwnershipType s) (ts_DefaultOwnershipType t),
     ws_AccessType = or_else (ws_AccessType s) (ts_DefaultAccessType t),
     ws_Resources = or_ptr (ws_Resources s) (ts_DefaultResources t),
     ws_Storage = merged_storage (ws_Storage s) (ts_PrimaryStorage t), ws_Volumes = ws_Volumes s,
     ws_ContainerConfig = or_ptr (ws_ContainerConfig s) (ts_DefaultContainerConfig t),
     ws_NodeSelector = or_ptr (ws_NodeSelector s) (ts_DefaultNodeSelector t),
     ws_Affinity = or_ptr (ws_Affinity s) (ts_DefaultAffinity t),
     ws_Tolerations = or_ptr (ws_Tolerations s) (ts_DefaultTolerations t),
     ws_Lifecycle = or_ptr (ws_Lifecycle s) (ts_DefaultLifecycle t),
     ws_AccessStrategy = or_ptr (ws_AccessStrategy s) (ts_DefaultAccessStrategy t),
     ws_TemplateRef = ws_TemplateRef s, ws_IdleShutdown = or_ptr (ws_IdleShutdown s) (ts_DefaultIdleShutdown t),
     ws_AppType = or_else (ws_AppType s) (ts_AppType t), ws_ServiceAccountName = ws_ServiceAccountName s,
     ws_PodSecurityContext = or_ptr (ws_PodSecurityContext s) (ts_DefaultPodSecurityContext t)\<rparr>"

lemma set_if_or: "set_if_empty v d = or_else v d" "set_if_nil p q = or_ptr p q"
  by (auto simp: set_if_empty_def or_else_def set_if_nil_def or_ptr_def split: option.split)

lemma merged_storage_eq:
  "merged_storage v (Some cfg) = map_option (fill_storage cfg)
     (if v = None \<and> \<not> q_is_zero (sc_DefaultSize cfg) then Some empty_storage else v)"
  by (auto simp: merged_storage_def fill_storage_def empty_storage_def set_if_or or_else_def or_ptr_def
      split: option.split)

lemma applyStorageDefaults_eq:
  "applyStorageDefaults w t =
     on_spec (\<lambda>s. s\<lparr>ws_Storage := merged_storage (ws_Storage s) (ts_PrimaryStorage (t_Spec t))\<rparr>) w"
proof (cases "ts_PrimaryStorage (t_Spec t)")
  case None
  then show ?thesis
    by (simp add: applyStorageDefaults_def on_spec_def merged_storage_def)
next
  case (Some cfg)
  then show ?thesis
    by (simp add: applyStorageDefaults_def on_spec_def merged_storage_eq)
qed

lemma apply_all_spec: "w_Spec (apply_applicators defaultApplicators w t) = merged_spec (w_Spec w) (t_Spec t)"
  by (rule workspace_spec.equality)
    (simp_all add: apply_all_eq applyStorageDefaults_eq applyCoreDefaults_def applyResourceDefaults_def
      applySchedulingDefaults_def applyAccessStrategyDefaults_def applyLifecycleDefaults_def applySecurityDefaults_def
      applyMetadataDefaults_def merged_spec_def set_if_or)

text \<open>
  C17. Template defaults fill in what the user left open, and nothing else. When the referenced template
  is found, defaulting gives exactly the field-by-field merge of the workspace spec and the template:
  every value the user set is kept, every other field takes the template's default; outside the spec
  only the two labels that track the template may change. Applying the defaults of the same template
  again changes nothing.
\<close>

theorem ApplyTemplateDefaults_merges:
  assumes ref: "ws_TemplateRef (w_Spec w) = Some r" "tr_Name r \<noteq> ''''"
    and found: "fst (run_state (ResolveTemplate k ns (Some r) (w_Namespace w)) h) = Inr t"
  shows "\<exists>w'. fst (run_state (ApplyTemplateDefaults k ns w) h) = Inr w' \<and>
    w_Spec w' = merged_spec (w_Spec w) (t_Spec t) \<and> kept_spec (w_Spec w) (w_Spec w') \<and> kept_rest w w' \<and>
    (\<forall>k2 h2. fst (run_state (ResolveTemplate k2 ns (Some r) (w_Namespace w)) h2) = Inr t \<longrightarrow>
       fst (run_state (ApplyTemplateDefaults k2 ns w') h2) = Inr w')"
proof -
  let ?w = "apply_applicators defaultApplicators w t"
  have run: "fst (run_state (ApplyTemplateDefaults k ns w) h) = Inr (apply_applicators defaultApplicators w t)"
    if "ws_TemplateRef (w_Spec w) = Some r" "fst (run_state (ResolveTemplate k ns (Some r) (w_Namespace w)) h) = Inr t" for k w h
    using that ref(2) by (auto simp: ApplyTemplateDefaults_def split: prod.split)
  have same: "ws_TemplateRef (w_Spec ?w) = Some r" "w_Namespace ?w = w_Namespace w"
    using ref(1) kept_rest_namespace [OF template_default_step.rest_kept] by (simp_all add: apply_all_spec merged_spec_def)
  show ?thesis
  proof (intro exI [of _ ?w] conjI allI impI)
    fix k2 h2
    assume "fst (run_state (ResolveTemplate k2 ns (Some r) (w_Namespace w)) h2) = Inr t"
    then show "fst (run_state (ApplyTemplateDefaults k2 ns ?w) h2) = Inr ?w"
      using run [of ?w k2 h2] same template_defaults.idem [of w t] by simp
  qed (fact run [OF ref(1) found] apply_all_spec template_default_step.spec_kept template_default_step.rest_kept)+
qed

definition default_template :: workspace_template where
  "default_template = used_template\<lparr>t_Spec := empty_template_spec\<lparr>ts_DefaultImage := ''jupyter'',
     ts_DefaultOwnershipType := OwnershipTypeOwnerOnly\<rparr>\<rparr>"

definition template_server :: client where
  "template_server = empty_server\<lparr>k_get_Template := \<lambda>_ _. Inr default_template\<rparr>"

definition templated_workspace :: workspace where
  "templated_workspace = sample_workspace\<lparr>w_Spec := empty_spec\<lparr>ws_OwnershipType := OwnershipTypePublic,
     ws_TemplateRef := Some \<lparr>tr_Name = ''t'', tr_Namespace = ''''\<rparr>\<rparr>\<rparr>"

theorem ApplyTemplateDefaults_merges_witness:
  "\<exists>w'. fst (run_state (ApplyTemplateDefaults template_server '''' templated_workspace) []) = Inr w' \<and>
     ws_Image (w_Spec w') = ''jupyter'' \<and> ws_OwnershipType (w_Spec w') = OwnershipTypePublic"
  using ApplyTemplateDefaults_merges [of templated_workspace "\<lparr>tr_Name = ''t'', tr_Namespace = ''''\<rparr>" template_server "''''" "[]" default_template]
  by (auto simp: templated_workspace_def template_server_def ResolveTemplate_def default_template_def merged_spec_def
      or_else_def empty_spec_def empty_template_spec_def)

text \<open>
  After the sharing defaults every workspace has an ownership type and an access type: the user's
  where set, otherwise public ownership and the access type of the ownership.
\<close>

theorem sharing_defaults:
  "let s = w_Spec w; s' = w_Spec (setWorkspaceSharingDefaults w) in
   ws_OwnershipType s' = or_else (ws_OwnershipType s) OwnershipTypePublic \<and>
   ws_AccessType s' = or_else (ws_AccessType s) (or_else (ws_OwnershipType s) OwnershipTypePublic) \<and>
   s' = s\<lparr>ws_OwnershipType := ws_OwnershipType s', ws_AccessType := ws_AccessType s'\<rparr>"
  by (simp add: setWorkspaceSharingDefaults_def or_else_def Let_def)

end
