(* ===== verification/WebhookValidation.thy ===== *)
theory WebhookValidation
  imports WebhookDefaults GoText
begin

text \<open>
  The validators of the workspace webhook (\<open>internal/webhook/v1alpha1\<close>): image, storage, resource and
  volume constraints of a template (\<open>*_validator.go\<close>), their composition for creation and update
  (\<open>template_validator.go\<close>, \<open>spec_comparator.go\<close>) and access to service accounts
  (\<open>service_account_validator.go\<close>).

  The YAML decoder of the service account annotations is the field \<open>k_yaml_strings\<close> of the client record;
  the admission request travels in the context as a result, an error when there is none.
\<close>

section \<open>Violations\<close>

record template_violation =
  tv_Type :: string
  tv_Field :: string
  tv_Message :: string
  tv_Allowed :: string
  tv_Actual :: string

definition formatViolations :: "template_violation list \<Rightarrow> string" where
  "formatViolations violations = (case violations of
     [] \<Rightarrow> ''''
   | [v] \<Rightarrow> tv_Message v
   | _ \<Rightarrow> int_text (int (length violations)) @ '' violations: '' @ join ''; '' (map tv_Message violations))"

section \<open>Template constraints\<close>

definition validateImageAllowed :: "string \<Rightarrow> workspace_template \<Rightarrow> template_violation option" where
  "validateImageAllowed img template =
     (if ts_AllowCustomImages (t_Spec template) = Some True then None
      else let effectiveAllowedImages =
             (if length (ts_AllowedImages (t_Spec template)) = 0 then [ts_DefaultImage (t_Spec template)]
              else ts_AllowedImages (t_Spec template))
        in if list_ex (\<lambda>allowed. img = allowed) effectiveAllowedImages then None
           else Some \<lparr>tv_Type = ''ImageNotAllowed'', tv_Field = ''spec.image'',
             tv_Message = ''Image '' @ [CHR 0x27] @ img @ [CHR 0x27] @ '' is not allowed by template '' @ [CHR 0x27] @
               om_Name (t_meta template) @ [CHR 0x27] @ ''. Allowed images: '' @ slice_text effectiveAllowedImages,
             tv_Allowed = slice_text effectiveAllowedImages, tv_Actual = img\<rparr>)"

text \<open>A bound violation of the given field: the shared shape of the storage and resource messages.\<close>

definition bound_violation ::
  "string \<Rightarrow> string \<Rightarrow> string \<Rightarrow> string \<Rightarrow> string \<Rightarrow> quantity \<Rightarrow> quantity \<Rightarrow> workspace_template \<Rightarrow> template_violation" where
  "bound_violation ty field subject relation limitname actual bound template =
     \<lparr>tv_Type = ty, tv_Field = field,
      tv_Message = subject @ '' '' @ q_string actual @ relation @ q_string bound @
        (if limitname = ''min: '' then '' required by template '' else '' allowed by template '') @
        [CHR 0x27] @ om_Name (t_meta template) @ [CHR 0x27],
      tv_Allowed = limitname @ q_string bound, tv_Actual = q_string actual\<rparr>"

definition validateStorageSize :: "quantity \<Rightarrow> workspace_template \<Rightarrow> template_violation option" where
  "validateStorageSize sz template = (case ts_PrimaryStorage (t_Spec template) of
     None \<Rightarrow> None
   | Some config \<Rightarrow>
       (case sc_MinSize config of
          Some m \<Rightarrow> if q_cmp sz m < 0
            then Some (bound_violation ''StorageExceeded'' ''spec.storage.size'' ''Storage size''
                         '' is below minimum '' ''min: '' sz m template)
            else (case sc_MaxSize config of
                Some m' \<Rightarrow> if 0 < q_cmp sz m'
                  then Some (bound_violation ''StorageExceeded'' ''spec.storage.size'' ''Storage size''
                               '' exceeds maximum '' ''max: '' sz m' template)
                  else None
              | None \<Rightarrow> None)
        | None \<Rightarrow> (case sc_MaxSize config of
                Some m' \<Rightarrow> if 0 < q_cmp sz m'
                  then Some (bound_violation ''StorageExceeded'' ''spec.storage.size'' ''Storage size''
                               '' exceeds maximum '' ''max: '' sz m' template)
                  else None
              | None \<Rightarrow> None)))"

definition storageEqual :: "storage_spec option \<Rightarrow> storage_spec option \<Rightarrow> bool" where
  "storageEqual old new = (case (old, new) of
     (None, None) \<Rightarrow> True
   | (Some o', Some n) \<Rightarrow> q_eq (ss_Size o') (ss_Size n) \<and> ss_MountPath o' = ss_MountPath n
   | _ \<Rightarrow> False)"

text \<open>The limit of one resource against its request.\<close>

definition limit_below_request :: "string \<Rightarrow> string \<Rightarrow> resource_list \<Rightarrow> resource_list \<Rightarrow> template_violation list" where
  "limit_below_request name message requests limits = (case map_of requests name of
     None \<Rightarrow> []
   | Some request \<Rightarrow> (case map_of limits name of
       None \<Rightarrow> []
     | Some lim \<Rightarrow> if q_cmp lim request < 0
         then [\<lparr>tv_Type = ''ResourceExceeded'', tv_Field = ''spec.resources.limits.'' @ name, tv_Message = message,
                tv_Allowed = q_string request, tv_Actual = q_string lim\<rparr>]
         else []))"

definition out_of_range :: "workspace_template \<Rightarrow> resource_list \<Rightarrow> string \<times> resource_range \<Rightarrow> template_violation list" where
  "out_of_range template requests p = (let (resourceName, resourceRange) = p in
     case map_of requests resourceName of
       None \<Rightarrow> []
     | Some request \<Rightarrow>
         (if q_cmp request (rg_Min resourceRange) < 0
          then [bound_violation ''ResourceExceeded'' (''spec.resources.requests.'' @ resourceName) (resourceName @ '' request'')
                  '' is below minimum '' ''min: '' request (rg_Min resourceRange) template]
          else []) @
         (if 0 < q_cmp request (rg_Max resourceRange)
          then [bound_violation ''ResourceExceeded'' (''spec.resources.requests.'' @ resourceName) (resourceName @ '' request'')
                  '' exceeds maximum '' ''max: '' request (rg_Max resourceRange) template]
          else []))"

definition validateResourceBounds :: "resource_requirements \<Rightarrow> workspace_template \<Rightarrow> template_violation list" where
  "validateResourceBounds resources template =
     (let limit_violations = (case (rr_Requests resources, rr_Limits resources) of
            (Some requests, Some limits) \<Rightarrow>
              limit_below_request ''cpu'' ''CPU limit must be greater than or equal to CPU request'' requests limits @
              limit_below_request ''memory'' ''Memory limit must be greater than or equal to memory request'' requests limits
          | _ \<Rightarrow> [])
      in case ts_ResourceBounds (t_Spec template) of
           None \<Rightarrow> limit_violations
         | Some bounds \<Rightarrow> limit_violations @
             (case (rb_Resources bounds, rr_Requests resources) of
                (Some ranges, Some requests) \<Rightarrow> concat (map (out_of_range template requests) ranges)
              | _ \<Rightarrow> []))"

definition resourceListEqual :: "resource_list option \<Rightarrow> resource_list option \<Rightarrow> bool" where
  "resourceListEqual old new \<longleftrightarrow> length (ApiTypes.slice old) = length (ApiTypes.slice new) \<and>
     list_all (\<lambda>(key, oldVal). case map_of (ApiTypes.slice new) key of None \<Rightarrow> False | Some newVal \<Rightarrow> q_eq oldVal newVal) (ApiTypes.slice old)"

definition resourcesEqual :: "resource_requirements option \<Rightarrow> resource_requirements option \<Rightarrow> bool" where
  "resourcesEqual old new = (case (old, new) of
     (None, None) \<Rightarrow> True
   | (Some o', Some n) \<Rightarrow> resourceListEqual (rr_Requests o') (rr_Requests n) \<and> resourceListEqual (rr_Limits o') (rr_Limits n)
   | _ \<Rightarrow> False)"

definition validateSecondaryStorages :: "volume_spec list \<Rightarrow> workspace_template \<Rightarrow> template_violation option" where
  "validateSecondaryStorages volumes template =
     (if length volumes = 0 then None
      else if ts_AllowSecondaryStorages (t_Spec template) = Some False
      then Some \<lparr>tv_Type = ''SecondaryStorageNotAllowed'', tv_Field = ''spec.volumes'',
        tv_Message = ''Template '' @ [CHR 0x27] @ om_Name (t_meta template) @ [CHR 0x27] @
          '' does not allow secondary storage volumes, but workspace specifies '' @ int_text (int (length volumes)) @ '' volume(s)'',
        tv_Allowed = ''no secondary volumes'', tv_Actual = int_text (int (length volumes)) @ '' volume(s)''\<rparr>
      else None)"

section \<open>Volume ownership\<close>

definition foreign_owner :: "workspace \<Rightarrow> owner_reference \<Rightarrow> bool" where
  "foreign_owner workspace ownerRef \<longleftrightarrow>
     or_APIVersion ownerRef = ''workspace.jupyter.org/v1alpha1'' \<and> or_Kind ownerRef = ''Workspace'' \<and>
     or_UID ownerRef \<noteq> om_UID (w_meta workspace)"

fun ownership_loop :: "client \<Rightarrow> workspace \<Rightarrow> volume_spec list \<Rightarrow> (template_violation option) io" where
  "ownership_loop k workspace [] = State_Monad.return None"
| "ownership_loop k workspace (volume # volumes) = do {
     let key = nn (w_Namespace workspace) (vs_PersistentVolumeClaimName volume);
     r \<leftarrow> call (\<lambda>h. k_get_PVC k h key) (CGetPVC key);
     (case r of
        Inl _ \<Rightarrow> ownership_loop k workspace volumes
      | Inr p \<Rightarrow> (case find (foreign_owner workspace) (om_OwnerReferences (p_meta p)) of
            None \<Rightarrow> ownership_loop k workspace volumes
          | Some ownerRef \<Rightarrow> State_Monad.return (Some
              \<lparr>tv_Type = ''VolumeOwnedByAnotherWorkspace'',
               tv_Field = ''spec.volumes['' @ vs_Name volume @ ''].persistentVolumeClaimName'',
               tv_Message = ''Volume '' @ [CHR 0x27] @ vs_Name volume @ [CHR 0x27] @ '' references PVC '' @ [CHR 0x27] @
                 vs_PersistentVolumeClaimName volume @ [CHR 0x27] @ '' which is owned by another workspace '' @ [CHR 0x27] @
                 or_Name ownerRef @ [CHR 0x27],
               tv_Allowed = ''PVCs not owned by other workspaces'',
               tv_Actual = ''PVC owned by workspace '' @ [CHR 0x27] @ or_Name ownerRef @ [CHR 0x27]\<rparr>)))
   }"

definition validateVolumeOwnership :: "client \<Rightarrow> workspace \<Rightarrow> (template_violation option) io" where
  "validateVolumeOwnership k workspace = ownership_loop k workspace (ws_Volumes (w_Spec workspace))"

definition ValidateVolumeOwnership :: "client \<Rightarrow> workspace \<Rightarrow> (goerr option) io" where
  "ValidateVolumeOwnership k workspace = do {
     violation \<leftarrow> validateVolumeOwnership k workspace;
     State_Monad.return (map_option (\<lambda>v. Msg (''workspace violates volume ownership constraints: '' @ tv_Message v)) violation)
   }"

section \<open>Service accounts\<close>

record user_info =
  ui_Username :: string
  ui_Groups :: "string list"

record admission_request =
  rq_Operation :: string
  rq_Name :: string
  rq_Namespace :: string
  rq_UserInfo :: user_info

type_synonym admission_ctx = "admission_request res"

abbreviation AnnotationServiceAccountUsers :: string where
  "AnnotationServiceAccountUsers \<equiv> ''workspace.jupyter.org/service-account-users''"
abbreviation AnnotationServiceAccountUserPatterns :: string where
  "AnnotationServiceAccountUserPatterns \<equiv> ''workspace.jupyter.org/service-account-user-patterns''"
abbreviation AnnotationServiceAccountGroups :: string where
  "AnnotationServiceAccountGroups \<equiv> ''workspace.jupyter.org/service-account-groups''"

text \<open>The list an annotation holds: empty when it is missing or does not decode.\<close>

definition annotation_list :: "client \<Rightarrow> service_account \<Rightarrow> string \<Rightarrow> string list" where
  "annotation_list k sa key =
     (if \<not> map_has (om_Annotations (sa_meta sa)) key then []
      else case k_yaml_strings k (map_get (om_Annotations (sa_meta sa)) key) of Inl _ \<Rightarrow> [] | Inr xs \<Rightarrow> xs)"

definition checkUsernameAccess :: "client \<Rightarrow> string \<Rightarrow> service_account \<Rightarrow> bool" where
  "checkUsernameAccess k username sa = list_ex (\<lambda>user. username = user) (annotation_list k sa AnnotationServiceAccountUsers)"

definition checkUsernamePatternAccess :: "client \<Rightarrow> string \<Rightarrow> service_account \<Rightarrow> bool" where
  "checkUsernamePatternAccess k username sa =
     list_ex (\<lambda>pattern. matchPattern pattern username) (annotation_list k sa AnnotationServiceAccountUserPatterns)"

definition checkGroupAccess :: "client \<Rightarrow> string list \<Rightarrow> service_account \<Rightarrow> bool" where
  "checkGroupAccess k userGroups sa =
     list_ex (\<lambda>g. list_ex (\<lambda>userGroup. g = userGroup) userGroups) (annotation_list k sa AnnotationServiceAccountGroups)"

definition hasServiceAccountAccess :: "client \<Rightarrow> user_info \<Rightarrow> service_account \<Rightarrow> bool" where
  "hasServiceAccountAccess k userInfo sa \<longleftrightarrow>
     om_Annotations (sa_meta sa) \<noteq> None \<and>
     (checkUsernameAccess k (ui_Username userInfo) sa \<or> checkUsernamePatternAccess k (ui_Username userInfo) sa \<or>
      checkGroupAccess k (ui_Groups userInfo) sa)"

definition ValidateServiceAccountAccess :: "client \<Rightarrow> admission_ctx \<Rightarrow> workspace \<Rightarrow> (goerr option) io" where
  "ValidateServiceAccountAccess k ctx workspace =
     (let name = ws_ServiceAccountName (w_Spec workspace) in
      if name = '''' then State_Monad.return None
      else case ctx of
        Inl err \<Rightarrow> State_Monad.return (Some (Wrap ''unable to extract user information'' err))
      | Inr req \<Rightarrow> do {
          let key = nn (w_Namespace workspace) name;
          r \<leftarrow> call (\<lambda>h. k_get_ServiceAccount k h key) (CGetServiceAccount key);
          (case r of
             Inl err \<Rightarrow> State_Monad.return (Some (Wrap (''failed to get service account '' @ name) err))
           | Inr sa \<Rightarrow> do {
               d \<leftarrow> GetDefaultServiceAccount k (w_Namespace workspace);
               State_Monad.return
                 (if (case d of Inl _ \<Rightarrow> False | Inr defaultSA \<Rightarrow> name = defaultSA) then None
                  else if \<not> hasServiceAccountAccess k (rq_UserInfo req) sa
                  then Some (Msg (''access denied: user does not have access to service account '' @ name))
                  else None)
             })
        })"

section \<open>Creation and update\<close>

definition specChanged :: "workspace_spec \<Rightarrow> workspace_spec \<Rightarrow> bool" where
  "specChanged oldSpec newSpec = (\<not> spec_sem_eq oldSpec newSpec)"

definition onlyDesiredStatusChanged :: "workspace_spec \<Rightarrow> workspace_spec \<Rightarrow> bool" where
  "onlyDesiredStatusChanged oldSpec newSpec =
     (if ws_DesiredStatus oldSpec = ws_DesiredStatus newSpec then False
      else spec_sem_eq (oldSpec\<lparr>ws_DesiredStatus := ws_DesiredStatus newSpec\<rparr>) newSpec)"

definition template_violations :: "workspace \<Rightarrow> workspace_template \<Rightarrow> template_violation list" where
  "template_violations workspace template =
     (let s = w_Spec workspace in
      (if ws_Image s \<noteq> '''' then (case validateImageAllowed (ws_Image s) template of None \<Rightarrow> [] | Some v \<Rightarrow> [v]) else []) @
      (case ws_Resources s of None \<Rightarrow> [] | Some r \<Rightarrow> validateResourceBounds r template) @
      (case ws_Storage s of None \<Rightarrow> [] | Some st \<Rightarrow>
         if q_is_zero (ss_Size st) then []
         else (case validateStorageSize (ss_Size st) template of None \<Rightarrow> [] | Some v \<Rightarrow> [v])) @
      (case validateSecondaryStorages (ws_Volumes s) template of None \<Rightarrow> [] | Some v \<Rightarrow> [v]))"

definition ValidateCreateWorkspace :: "client \<Rightarrow> string \<Rightarrow> workspace \<Rightarrow> (goerr option) io" where
  "ValidateCreateWorkspace k defaultTemplateNamespace workspace = (case ws_TemplateRef (w_Spec workspace) of
     None \<Rightarrow> State_Monad.return None
   | Some ref \<Rightarrow> do {
       r \<leftarrow> ResolveTemplate k defaultTemplateNamespace (Some ref) (w_Namespace workspace);
       State_Monad.return (case r of
           Inl err \<Rightarrow> Some err
         | Inr template \<Rightarrow>
             let violations = template_violations workspace template in
             if length violations > 0
             then Some (Msg (''workspace violates template '' @ [CHR 0x27] @ tr_Name ref @ [CHR 0x27] @ '' constraints: '' @
                    formatViolations violations))
             else None)
     })"

definition ValidateUpdateWorkspace :: "client \<Rightarrow> string \<Rightarrow> workspace \<Rightarrow> workspace \<Rightarrow> (goerr option) io" where
  "ValidateUpdateWorkspace k defaultTemplateNamespace oldWorkspace newWorkspace =
     (let oldRef = ws_TemplateRef (w_Spec oldWorkspace); newRef = ws_TemplateRef (w_Spec newWorkspace) in
      if oldRef \<noteq> None \<and> newRef = None then State_Monad.return None
      else if oldRef \<noteq> None \<and> newRef \<noteq> None \<and> tr_Name (the oldRef) \<noteq> tr_Name (the newRef)
      then ValidateCreateWorkspace k defaultTemplateNamespace newWorkspace
      else if oldRef = None \<and> newRef \<noteq> None
      then ValidateCreateWorkspace k defaultTemplateNamespace newWorkspace
      else if newRef = None then State_Monad.return None
      else if \<not> specChanged (w_Spec oldWorkspace) (w_Spec newWorkspace) then State_Monad.return None
      else if ws_DesiredStatus (w_Spec newWorkspace) = DesiredStateStopped \<and>
              ws_DesiredStatus (w_Spec oldWorkspace) \<noteq> DesiredStateStopped \<and>
              onlyDesiredStatusChanged (w_Spec oldWorkspace) (w_Spec newWorkspace)
      then State_Monad.return None
      else ValidateCreateWorkspace k defaultTemplateNamespace newWorkspace)"

section \<open>What the constraints mean\<close>

text \<open>
  The constraints of a template that the validator looks at, stated over the spec without violations or messages: images, resources,
  primary storage and secondary storage. The override policy for idle shutdown, which the types document as a constraint as
  well, is not among them; it is stated below as \<open>idle_override_allowed\<close>.
\<close>

definition image_allowed :: "workspace_template_spec \<Rightarrow> string \<Rightarrow> bool" where
  "image_allowed t i \<longleftrightarrow> ts_AllowCustomImages t = Some True \<or> i \<in> set (ts_AllowedImages t) \<or>
     (ts_AllowedImages t = [] \<and> i = ts_DefaultImage t)"

definition limit_ok :: "resource_requirements \<Rightarrow> string \<Rightarrow> bool" where
  "limit_ok r name \<longleftrightarrow> (\<forall>q l. map_of (ApiTypes.slice (rr_Requests r)) name = Some q \<longrightarrow>
     map_of (ApiTypes.slice (rr_Limits r)) name = Some l \<longrightarrow> q_value q \<le> q_value l)"

definition requests_in_range :: "workspace_template_spec \<Rightarrow> resource_requirements \<Rightarrow> bool" where
  "requests_in_range t r \<longleftrightarrow> (\<forall>b ranges. ts_ResourceBounds t = Some b \<longrightarrow> rb_Resources b = Some ranges \<longrightarrow>
     (\<forall>(name, rg) \<in> set ranges. \<forall>q. map_of (ApiTypes.slice (rr_Requests r)) name = Some q \<longrightarrow>
        q_value (rg_Min rg) \<le> q_value q \<and> q_value q \<le> q_value (rg_Max rg)))"

definition size_ok :: "workspace_template_spec \<Rightarrow> quantity \<Rightarrow> bool" where
  "size_ok t q \<longleftrightarrow> (\<forall>c. ts_PrimaryStorage t = Some c \<longrightarrow>
     (\<forall>m. sc_MinSize c = Some m \<longrightarrow> q_value m \<le> q_value q) \<and> (\<forall>m. sc_MaxSize c = Some m \<longrightarrow> q_value q \<le> q_value m))"

definition within_checked :: "workspace_template_spec \<Rightarrow> workspace_spec \<Rightarrow> bool" where
  "within_checked t s \<longleftrightarrow>
     (ws_Image s = '''' \<or> image_allowed t (ws_Image s)) \<and>
     (\<forall>r. ws_Resources s = Some r \<longrightarrow> limit_ok r ''cpu'' \<and> limit_ok r ''memory'' \<and> requests_in_range t r) \<and>
     (\<forall>st. ws_Storage s = Some st \<longrightarrow> q_value (ss_Size st) = 0 \<or> size_ok t (ss_Size st)) \<and>
     (ws_Volumes s = [] \<or> ts_AllowSecondaryStorages t \<noteq> Some False)"

lemma validateImageAllowed_iff: "validateImageAllowed i t = None \<longleftrightarrow> image_allowed (t_Spec t) i"
  by (auto simp: validateImageAllowed_def image_allowed_def Let_def list_ex_iff)

lemma validateStorageSize_iff: "validateStorageSize q t = None \<longleftrightarrow> size_ok (t_Spec t) q"
  by (auto simp: validateStorageSize_def size_ok_def split: option.splits if_splits)

lemma validateSecondaryStorages_iff:
  "validateSecondaryStorages vs t = None \<longleftrightarrow> vs = [] \<or> ts_AllowSecondaryStorages (t_Spec t) \<noteq> Some False"
  by (auto simp: validateSecondaryStorages_def)

lemma limit_below_request_iff:
  assumes "rr_Requests r = Some rq" and "rr_Limits r = Some lm"
  shows "limit_below_request n m rq lm = [] \<longleftrightarrow> limit_ok r n"
  using assms by (auto simp: limit_below_request_def limit_ok_def split: option.splits)

lemma out_of_range_iff:
  "out_of_range t rq (n, rg) = [] \<longleftrightarrow>
     (\<forall>q. map_of rq n = Some q \<longrightarrow> q_value (rg_Min rg) \<le> q_value q \<and> q_value q \<le> q_value (rg_Max rg))"
  by (auto simp: out_of_range_def split: option.splits)

lemma validateResourceBounds_iff:
  "validateResourceBounds r t = [] \<longleftrightarrow> limit_ok r ''cpu'' \<and> limit_ok r ''memory'' \<and> requests_in_range (t_Spec t) r"
proof -
  have lim: "(case (rr_Requests r, rr_Limits r) of (Some rq, Some lm) \<Rightarrow>
      limit_below_request ''cpu'' m rq lm @ limit_below_request ''memory'' m' rq lm | _ \<Rightarrow> []) = [] \<longleftrightarrow>
      limit_ok r ''cpu'' \<and> limit_ok r ''memory''" for m m'
  proof (cases "rr_Requests r = None \<or> rr_Limits r = None")
    case True
    then show ?thesis
      by (auto simp: limit_ok_def split: option.split)
  next
    case False
    then show ?thesis
      by (auto simp: limit_below_request_iff)
  qed
  have rng: "(case (rb_Resources b, rr_Requests r) of (Some ranges, Some rq) \<Rightarrow> concat (map (out_of_range t rq) ranges) | _ \<Rightarrow> []) = []
      \<longleftrightarrow> requests_in_range (t_Spec t) r" if "ts_ResourceBounds (t_Spec t) = Some b" for b
    using that by (auto simp: requests_in_range_def out_of_range_iff split: option.split)
  show ?thesis
  proof (cases "ts_ResourceBounds (t_Spec t)")
    case None
    then show ?thesis
      using lim by (simp add: validateResourceBounds_def requests_in_range_def)
  next
    case (Some b)
    then show ?thesis
      using rng [OF Some] lim by (simp add: validateResourceBounds_def)
  qed
qed

lemma template_violations_iff: "template_violations w t = [] \<longleftrightarrow> within_checked (t_Spec t) (w_Spec w)"
  unfolding template_violations_def within_checked_def Let_def append_is_Nil_conv
  by (intro conj_cong)
    (auto simp: validateImageAllowed_iff [symmetric] validateResourceBounds_iff [symmetric] validateStorageSize_iff [symmetric]
      validateSecondaryStorages_iff [symmetric] split: option.splits)

lemma ValidateCreateWorkspace_found:
  assumes "ws_TemplateRef (w_Spec w) = Some r" and "fst (run_state (ResolveTemplate k ns (Some r) (w_Namespace w)) h) = Inr t"
  shows "fst (run_state (ValidateCreateWorkspace k ns w) h) = None \<longleftrightarrow> within_checked (t_Spec t) (w_Spec w)"
  using assms template_violations_iff [of w t]
  by (auto simp: ValidateCreateWorkspace_def Let_def split: prod.split)

text \<open>
  The documented override policy for idle shutdown: without permission a workspace may only carry the template's own setting, and
  a time-out lies between the bounds.
\<close>

definition idle_override_allowed :: "workspace_template_spec \<Rightarrow> workspace_spec \<Rightarrow> bool" where
  "idle_override_allowed t s \<longleftrightarrow> (\<forall>pol c. ts_IdleShutdownOverrides t = Some pol \<longrightarrow> ws_IdleShutdown s = Some c \<longrightarrow>
     (io_Allow pol = Some False \<longrightarrow> ts_DefaultIdleShutdown t = Some c) \<and>
     (\<forall>m. io_MinIdleTimeoutInMinutes pol = Some m \<longrightarrow> m \<le> is_IdleTimeoutInMinutes c) \<and>
     (\<forall>m. io_MaxIdleTimeoutInMinutes pol = Some m \<longrightarrow> is_IdleTimeoutInMinutes c \<le> m))"

text \<open>The validator does not look at the idle shutdown of a workspace at all.\<close>

lemma ValidateCreateWorkspace_idle:
  "ValidateCreateWorkspace k ns (w\<lparr>w_Spec := (w_Spec w)\<lparr>ws_IdleShutdown := c\<rparr>\<rparr>) = ValidateCreateWorkspace k ns w"
proof -
  have "template_violations (w\<lparr>w_Spec := (w_Spec w)\<lparr>ws_IdleShutdown := c\<rparr>\<rparr>) = template_violations w"
    by (simp add: fun_eq_iff template_violations_def Let_def)
  then show ?thesis by (cases "ws_TemplateRef (w_Spec w)") (simp_all add: ValidateCreateWorkspace_def cong: sum.case_cong)
qed

text \<open>
  C18. What creation validation checks. For a workspace whose template is found, it accepts iff the image is allowed, limits of cpu
  and memory are not below the requests, every bounded request lies in its range, a set storage size lies between minimum and
  maximum, and secondary volumes are used only where allowed; an unknown template is rejected. These are not all the constraints a
  template documents: the answer is the same whatever idle shutdown the workspace sets, so the template's override policy for idle
  shutdown is not enforced.
\<close>

theorem ValidateCreateWorkspace_iff:
  assumes "ws_TemplateRef (w_Spec w) = Some r"
  shows "(\<forall>t. fst (run_state (ResolveTemplate k ns (Some r) (w_Namespace w)) h) = Inr t \<longrightarrow>
      (fst (run_state (ValidateCreateWorkspace k ns w) h) = None \<longleftrightarrow> within_checked (t_Spec t) (w_Spec w))) \<and>
    (\<forall>e. fst (run_state (ResolveTemplate k ns (Some r) (w_Namespace w)) h) = Inl e \<longrightarrow>
      fst (run_state (ValidateCreateWorkspace k ns w) h) = Some e) \<and>
    (\<forall>c. run_state (ValidateCreateWorkspace k ns (w\<lparr>w_Spec := (w_Spec w)\<lparr>ws_IdleShutdown := c\<rparr>\<rparr>)) h =
      run_state (ValidateCreateWorkspace k ns w) h)"
proof (intro conjI allI impI)
  fix e assume "fst (run_state (ResolveTemplate k ns (Some r) (w_Namespace w)) h) = Inl e"
  then show "fst (run_state (ValidateCreateWorkspace k ns w) h) = Some e"
    using assms by (auto simp: ValidateCreateWorkspace_def split: prod.split)
qed (use ValidateCreateWorkspace_found [OF assms] ValidateCreateWorkspace_idle in simp_all)

theorem ValidateCreateWorkspace_iff_witness:
  "fst (run_state (ValidateCreateWorkspace template_server '''' (templated_workspace\<lparr>w_Spec :=
      (w_Spec templated_workspace)\<lparr>ws_Image := ''other''\<rparr>\<rparr>)) []) \<noteq> None"
proof -
  let ?w = "templated_workspace\<lparr>w_Spec := (w_Spec templated_workspace)\<lparr>ws_Image := ''other''\<rparr>\<rparr>" and ?r = "\<lparr>tr_Name = ''t'', tr_Namespace = ''''\<rparr>"
  have "ws_TemplateRef (w_Spec ?w) = Some ?r"
    "fst (run_state (ResolveTemplate template_server '''' (Some ?r) (w_Namespace ?w)) []) = Inr default_template"
    by (simp_all add: templated_workspace_def template_server_def ResolveTemplate_def)
  moreover have "\<not> within_checked (t_Spec default_template) (w_Spec ?w)"
    by (simp add: within_checked_def image_allowed_def default_template_def empty_template_spec_def)
  ultimately show ?thesis
    using ValidateCreateWorkspace_iff [of ?w ?r template_server "''''" "[]"] by blast
qed

text \<open>
  A template that denies overrides of its idle shutdown, and a workspace that overrides the time-out: the workspace is
  admitted, on creation and on an update that only changes the idle shutdown, although the policy forbids it.
\<close>

definition locked_template :: workspace_template where
  "locked_template = default_template\<lparr>t_Spec := (t_Spec default_template)\<lparr>
     ts_DefaultIdleShutdown := Some sample_idle,
     ts_IdleShutdownOverrides := Some \<lparr>io_Allow = Some False, io_MinIdleTimeoutInMinutes = Some 10, io_MaxIdleTimeoutInMinutes = Some 60\<rparr>\<rparr>\<rparr>"

definition overriding_workspace :: workspace where
  "overriding_workspace = templated_workspace\<lparr>w_Spec := (w_Spec templated_workspace)\<lparr>
     ws_IdleShutdown := Some (sample_idle\<lparr>is_IdleTimeoutInMinutes := 120\<rparr>)\<rparr>\<rparr>"

theorem idle_override_unenforced:
  "\<not> idle_override_allowed (t_Spec locked_template) (w_Spec overriding_workspace) \<and>
   fst (run_state (ValidateCreateWorkspace (template_server\<lparr>k_get_Template := \<lambda>_ _. Inr locked_template\<rparr>) '''' overriding_workspace) []) = None \<and>
   fst (run_state (ValidateUpdateWorkspace (template_server\<lparr>k_get_Template := \<lambda>_ _. Inr locked_template\<rparr>) ''''
     templated_workspace overriding_workspace) []) = None"
proof -
  let ?k = "template_server\<lparr>k_get_Template := \<lambda>_ _. Inr locked_template\<rparr>" and ?r = "\<lparr>tr_Name = ''t'', tr_Namespace = ''''\<rparr>"
  have ref: "ws_TemplateRef (w_Spec overriding_workspace) = Some ?r" "ws_TemplateRef (w_Spec templated_workspace) = Some ?r"
    by (simp_all add: overriding_workspace_def templated_workspace_def)
  have "within_checked (t_Spec locked_template) (w_Spec overriding_workspace)"
    by (simp add: overriding_workspace_def templated_workspace_def within_checked_def empty_spec_def)
  moreover have "fst (run_state (ResolveTemplate ?k '''' (Some ?r) (w_Namespace overriding_workspace)) []) = Inr locked_template"
    by (simp add: ResolveTemplate_def)
  ultimately have create: "fst (run_state (ValidateCreateWorkspace ?k '''' overriding_workspace) []) = None"
    using ValidateCreateWorkspace_found [OF ref(1)] by blast
  then have "fst (run_state (ValidateUpdateWorkspace ?k '''' templated_workspace overriding_workspace) []) = None"
    by (simp add: ValidateUpdateWorkspace_def ref Let_def)
  with create show ?thesis
    by (simp add: idle_override_allowed_def locked_template_def overriding_workspace_def sample_idle_def)
qed

section \<open>Defaults and constraints together\<close>

text \<open>A template whose own defaults respect its constraints.\<close>

definition consistent_template :: "workspace_template_spec \<Rightarrow> bool" where
  "consistent_template t \<longleftrightarrow>
     (ts_DefaultImage t = '''' \<or> image_allowed t (ts_DefaultImage t)) \<and>
     (\<forall>r. ts_DefaultResources t = Some r \<longrightarrow> limit_ok r ''cpu'' \<and> limit_ok r ''memory'' \<and> requests_in_range t r) \<and>
     (\<forall>c. ts_PrimaryStorage t = Some c \<longrightarrow> q_value (sc_DefaultSize c) = 0 \<or> size_ok t (sc_DefaultSize c))"

lemma merged_within:
  assumes "consistent_template t" and "ws_Image s = ''''" and "ws_Resources s = None" and "ws_Storage s = None"
    and "ws_Volumes s = []"
  shows "within_checked t (merged_spec s t)"
  using assms
  by (auto simp: within_checked_def merged_spec_def consistent_template_def or_else_def or_ptr_def merged_storage_def
      split: option.splits if_splits)

text \<open>
  Defaulting and validation fit together. A workspace that leaves image, resources and storage to a
  template whose defaults respect its own constraints, and adds no volumes, is admitted after
  defaulting, whatever else it sets, as long as both webhooks see the same template.
\<close>

theorem defaulted_workspace_admitted:
  assumes ref: "ws_TemplateRef (w_Spec w) = Some r" "tr_Name r \<noteq> ''''"
    and found: "fst (run_state (ResolveTemplate k ns (Some r) (w_Namespace w)) h) = Inr t"
      "fst (run_state (ResolveTemplate k' ns (Some r) (w_Namespace w)) h') = Inr t"
    and cons: "consistent_template (t_Spec t)"
    and open_fields: "ws_Image (w_Spec w) = ''''" "ws_Resources (w_Spec w) = None" "ws_Storage (w_Spec w) = None"
      "ws_Volumes (w_Spec w) = []"
  shows "\<exists>w'. fst (run_state (ApplyTemplateDefaults k ns w) h) = Inr w' \<and>
    fst (run_state (ValidateCreateWorkspace k' ns w') h') = None"
proof -
  let ?w = "apply_applicators defaultApplicators w t"
  have "fst (run_state (ApplyTemplateDefaults k ns w) h) = Inr ?w"
    using ref found(1) by (auto simp: ApplyTemplateDefaults_def split: prod.split)
  moreover have "ws_TemplateRef (w_Spec ?w) = Some r" "w_Namespace ?w = w_Namespace w"
    using ref(1) kept_rest_namespace [OF template_default_step.rest_kept] by (simp_all add: apply_all_spec merged_spec_def)
  moreover have "within_checked (t_Spec t) (w_Spec ?w)"
    using merged_within [OF cons open_fields] by (simp add: apply_all_spec)
  ultimately show ?thesis
    using ValidateCreateWorkspace_found [of ?w r k' ns h' t] found(2) by auto
qed

theorem defaulted_workspace_admitted_witness:
  "\<exists>w'. fst (run_state (ApplyTemplateDefaults template_server '''' templated_workspace) []) = Inr w' \<and>
     fst (run_state (ValidateCreateWorkspace template_server '''' w') []) = None"
  by (rule defaulted_workspace_admitted [of _ "\<lparr>tr_Name = ''t'', tr_Namespace = ''''\<rparr>" _ _ _ default_template])
    (simp_all add: templated_workspace_def template_server_def ResolveTemplate_def default_template_def
      consistent_template_def image_allowed_def empty_template_spec_def empty_spec_def)

text \<open>Updates that are admitted without looking at the template.\<close>

definition update_exempt :: "workspace_spec \<Rightarrow> workspace_spec \<Rightarrow> bool" where
  "update_exempt old new \<longleftrightarrow> ws_TemplateRef new = None \<or>
     (\<exists>r r'. ws_TemplateRef old = Some r \<and> ws_TemplateRef new = Some r' \<and> tr_Name r = tr_Name r' \<and>
       (spec_sem_eq old new \<or>
        (ws_DesiredStatus new = DesiredStateStopped \<and> ws_DesiredStatus old \<noteq> DesiredStateStopped \<and>
         spec_sem_eq (old\<lparr>ws_DesiredStatus := DesiredStateStopped\<rparr>) new)))"

lemma ValidateUpdateWorkspace_eq:
  "ValidateUpdateWorkspace k ns old new =
     (if update_exempt (w_Spec old) (w_Spec new) then State_Monad.return None else ValidateCreateWorkspace k ns new)"
  by (cases "ws_TemplateRef (w_Spec old)"; cases "ws_TemplateRef (w_Spec new)")
    (auto simp: ValidateUpdateWorkspace_def update_exempt_def specChanged_def onlyDesiredStatusChanged_def Let_def)

lemma stop_exempt:
  assumes "ws_DesiredStatus s \<noteq> DesiredStateStopped"
  shows "update_exempt s (s\<lparr>ws_DesiredStatus := DesiredStateStopped\<rparr>)"
  using assms by (cases "ws_TemplateRef s") (auto simp: update_exempt_def)




section \<open>Ownership of volumes and access to service accounts\<close>

definition claim_key :: "workspace \<Rightarrow> volume_spec \<Rightarrow> nsname" where
  "claim_key w v = nn (w_Namespace w) (vs_PersistentVolumeClaimName v)"

text \<open>No claim that could be read belongs to another workspace; the reads happen one after the other.\<close>

fun claims_free :: "client \<Rightarrow> workspace \<Rightarrow> hist \<Rightarrow> volume_spec list \<Rightarrow> bool" where
  "claims_free k w h [] = True"
| "claims_free k w h (v # vs) =
     ((\<forall>p. k_get_PVC k h (claim_key w v) = Inr p \<longrightarrow>
         (\<forall>o' \<in> set (om_OwnerReferences (p_meta p)). \<not> foreign_owner w o')) \<and>
      claims_free k w (h @ [CGetPVC (claim_key w v)]) vs)"

lemma ownership_loop_iff: "fst (run_state (ownership_loop k w vs) h) = None \<longleftrightarrow> claims_free k w h vs"
proof (induction vs arbitrary: h)
  case (Cons v vs)
  show ?case
  proof (cases "k_get_PVC k h (claim_key w v)")
    case (Inl e)
    then show ?thesis
      using Cons by (simp add: Let_def claim_key_def)
  next
    case (Inr p)
    show ?thesis
    proof (cases "find (foreign_owner w) (om_OwnerReferences (p_meta p))")
      case None
      then have "\<forall>o' \<in> set (om_OwnerReferences (p_meta p)). \<not> foreign_owner w o'"
        by (simp add: find_None_iff)
      with None Inr Cons show ?thesis
        by (simp add: Let_def claim_key_def)
    next
      case (Some o')
      then have "\<exists>o' \<in> set (om_OwnerReferences (p_meta p)). foreign_owner w o'"
        by (auto simp: find_Some_iff)
      with Some Inr Cons show ?thesis
        by (auto simp: Let_def claim_key_def)
    qed
  qed
qed simp

text \<open>
  A workspace cannot mount the claim of another. The ownership check passes exactly when none of
  the claims its volumes name, as far as the claim can be read, has an owner reference to a workspace
  with another identity; the check reads claims of the workspace's own namespace only and changes
  nothing.
\<close>

theorem volume_ownership:
  "(fst (run_state (ValidateVolumeOwnership k w) h) = None \<longleftrightarrow> claims_free k w h (ws_Volumes (w_Spec w))) \<and>
   issues_only (\<lambda>c. \<exists>n. c = CGetPVC (nn (w_Namespace w) n)) (ValidateVolumeOwnership k w)"
proof
  show "fst (run_state (ValidateVolumeOwnership k w) h) = None \<longleftrightarrow> claims_free k w h (ws_Volumes (w_Spec w))"
    by (auto simp: ValidateVolumeOwnership_def validateVolumeOwnership_def ownership_loop_iff [symmetric] split: prod.split)
  have "issues_only (\<lambda>c. \<exists>n. c = CGetPVC (nn (w_Namespace w) n)) (ownership_loop k w vs)" for vs
    by (induction vs) (auto simp: Let_def intro!: issues_only_bind issues_only_call split: sum.split option.split)
  then show "issues_only (\<lambda>c. \<exists>n. c = CGetPVC (nn (w_Namespace w) n)) (ValidateVolumeOwnership k w)"
    unfolding ValidateVolumeOwnership_def validateVolumeOwnership_def by (intro issues_only_bind issues_only_return)
qed

text \<open>Who may use a service account: the lists its annotations hold.\<close>

definition may_use :: "client \<Rightarrow> user_info \<Rightarrow> service_account \<Rightarrow> bool" where
  "may_use k u sa \<longleftrightarrow>
     ui_Username u \<in> set (annotation_list k sa AnnotationServiceAccountUsers) \<or>
     (\<exists>p \<in> set (annotation_list k sa AnnotationServiceAccountUserPatterns). matchPattern p (ui_Username u)) \<or>
     set (ui_Groups u) \<inter> set (annotation_list k sa AnnotationServiceAccountGroups) \<noteq> {}"

lemma hasServiceAccountAccess_iff: "hasServiceAccountAccess k u sa \<longleftrightarrow> may_use k u sa"
proof (cases "om_Annotations (sa_meta sa)")
  case None
  then show ?thesis
    by (simp add: hasServiceAccountAccess_def may_use_def annotation_list_def)
next
  case (Some a)
  then show ?thesis
    by (auto simp: hasServiceAccountAccess_def may_use_def checkUsernameAccess_def checkUsernamePatternAccess_def
        checkGroupAccess_def list_ex_iff)
qed

text \<open>
  C20. Access to service accounts. A user may give a workspace a service account exactly when the
  account exists and is the default of the namespace, or its annotations name the user, a pattern the
  user name matches, or a group of the user; a request without user information is refused.
\<close>

theorem service_account_access:
  assumes name: "ws_ServiceAccountName (w_Spec w) = n" "n \<noteq> ''''"
  shows "fst (run_state (ValidateServiceAccountAccess k ctx w) h) = None \<longleftrightarrow>
    (\<exists>req sa. ctx = Inr req \<and> k_get_ServiceAccount k h (nn (w_Namespace w) n) = Inr sa \<and>
       (fst (run_state (GetDefaultServiceAccount k (w_Namespace w)) (h @ [CGetServiceAccount (nn (w_Namespace w) n)])) = Inr n \<or>
        may_use k (rq_UserInfo req) sa))"
proof (cases ctx)
  case (Inl e)
  then show ?thesis
    using name by (simp add: ValidateServiceAccountAccess_def)
next
  case (Inr req)
  show ?thesis
  proof (cases "k_get_ServiceAccount k h (nn (w_Namespace w) n)")
    case get: (Inl e)
    then show ?thesis
      using name Inr by (simp add: ValidateServiceAccountAccess_def Let_def)
  next
    case get: (Inr sa)
    then show ?thesis
      using name Inr by (auto simp: ValidateServiceAccountAccess_def Let_def hasServiceAccountAccess_iff
          split: prod.split sum.split)
  qed
qed

definition account_server :: client where
  "account_server = empty_server\<lparr>
     k_get_ServiceAccount := \<lambda>_ _. Inr \<lparr>sa_meta = empty_meta\<lparr>om_Name := ''builder'',
       om_Annotations := Some [AnnotationServiceAccountUsers \<mapsto> ''alice'']\<rparr>\<rparr>,
     k_yaml_strings := \<lambda>s. Inr [s]\<rparr>"

definition alice_request :: admission_request where
  "alice_request = \<lparr>rq_Operation = ''CREATE'', rq_Name = ''ws'', rq_Namespace = ''team'',
     rq_UserInfo = \<lparr>ui_Username = ''alice'', ui_Groups = []\<rparr>\<rparr>"

theorem service_account_access_witness:
  "fst (run_state (ValidateServiceAccountAccess account_server (Inr alice_request)
     (sample_workspace\<lparr>w_Spec := empty_spec\<lparr>ws_ServiceAccountName := ''builder''\<rparr>\<rparr>)) []) = None"
  using service_account_access [of "sample_workspace\<lparr>w_Spec := empty_spec\<lparr>ws_ServiceAccountName := ''builder''\<rparr>\<rparr>"
      "''builder''" account_server "Inr alice_request" "[]"]
  by (simp add: account_server_def alice_request_def may_use_def annotation_list_def)

end
