(* ===== verification/Webhooks.thy ===== *)
theory Webhooks
  imports WebhookValidation
begin

text \<open>
  The admission webhooks (\<open>internal/webhook/v1alpha1\<close>): the workspace webhook with its defaulter and its
  three validators (\<open>workspace_webhook.go\<close>), the template webhook (\<open>template_webhook.go\<close>) and the pod exec
  webhook (\<open>pod_exec_webhook.go\<close>).

  A handler receives the object the API server decoded; an object of another kind than the expected one
  is refused, which \<open>runtime_object\<close> lets the model say. The environment is the field \<open>k_getenv\<close> of the
  client record.
\<close>

section \<open>Objects and requests\<close>

text \<open>\<open>runtime.Object\<close>: the kinds the webhooks expect, and any other with its type name.\<close>

datatype runtime_object = WorkspaceObj workspace | TemplateObj workspace_template | OtherObj string

fun type_name :: "runtime_object \<Rightarrow> string" where
  "type_name (WorkspaceObj _) = ''*v1alpha1.Workspace''"
| "type_name (TemplateObj _) = ''*v1alpha1.WorkspaceTemplate''"
| "type_name (OtherObj n) = n"

type_synonym warnings = "string list"

abbreviation AnnotationCreatedBy :: string where
  "AnnotationCreatedBy \<equiv> ''workspace.jupyter.org/created-by''"
abbreviation AnnotationLastUpdatedBy :: string where
  "AnnotationLastUpdatedBy \<equiv> ''workspace.jupyter.org/last-updated-by''"
abbreviation ControllerPodNamespaceEnv :: string where
  "ControllerPodNamespaceEnv \<equiv> ''CONTROLLER_POD_NAMESPACE''"
abbreviation ControllerPodServiceAccountEnv :: string where
  "ControllerPodServiceAccountEnv \<equiv> ''CONTROLLER_POD_SERVICE_ACCOUNT''"
abbreviation DefaultAdminGroup :: string where
  "DefaultAdminGroup \<equiv> ''system:masters''"

section \<open>Protection of templates and access strategies\<close>

definition ensureTemplateFinalizer :: "client \<Rightarrow> string \<Rightarrow> string \<Rightarrow> (goerr option) io" where
  "ensureTemplateFinalizer k templateName templateNamespace =
     (if templateName = '''' then State_Monad.return None
      else do {
        l \<leftarrow> ListActiveWorkspacesByTemplate k templateName templateNamespace '''' 1;
        (case l of
           Inl err \<Rightarrow> State_Monad.return (Some (Wrap (''failed to check workspace usage for template '' @ templateNamespace @
                        ''/'' @ templateName) err))
         | Inr (workspaces, _) \<Rightarrow>
             if length workspaces = 0 then State_Monad.return None
             else do {
               let key = nn templateNamespace templateName;
               r \<leftarrow> call (\<lambda>h. k_get_Template k h key) (CGetTemplate key);
               (case r of
                  Inl _ \<Rightarrow> State_Monad.return None
                | Inr template \<Rightarrow>
                    if contains_finalizer (om_Finalizers (t_meta template)) TemplateFinalizerName
                    then State_Monad.return None
                    else do {
                      let t = t_set_finalizers (add_finalizer (om_Finalizers (t_meta template)) TemplateFinalizerName) template;
                      u \<leftarrow> call (\<lambda>h. k_update_Template k h t) (CUpdateTemplate t);
                      State_Monad.return (case u of
                          Inl err \<Rightarrow> Some (Wrap (''failed to add finalizer to template '' @ templateNamespace @ ''/'' @ templateName) err)
                        | Inr _ \<Rightarrow> None)
                    })
             })
      })"

definition ensureAccessStrategyFinalizer :: "client \<Rightarrow> workspace \<Rightarrow> (goerr option) io" where
  "ensureAccessStrategyFinalizer k workspace = (case ws_AccessStrategy (w_Spec workspace) of
     None \<Rightarrow> State_Monad.return None
   | Some ref \<Rightarrow>
       if asr_Name ref = '''' then State_Monad.return None
       else if is_deleting (w_meta workspace) then State_Monad.return None
       else do {
         let ns = (if asr_Namespace ref \<noteq> '''' then asr_Namespace ref else w_Namespace workspace);
         let key = nn ns (asr_Name ref);
         r \<leftarrow> call (\<lambda>h. k_get_AccessStrategy k h key) (CGetAccessStrategy key);
         (case r of
            Inl err \<Rightarrow> State_Monad.return (Some
              (if IsNotFound err
               then Msg (''referenced AccessStrategy '' @ asr_Name ref @ '' not found in namespace '' @ ns)
               else Wrap (''failed to get AccessStrategy '' @ asr_Name ref @ '' in namespace '' @ ns) err))
          | Inr accessStrategy \<Rightarrow>
              if contains_finalizer (as_Finalizers accessStrategy) AccessStrategyFinalizerName
              then State_Monad.return None
              else do {
                e \<leftarrow> SafelyAddFinalizerToAccessStrategy k accessStrategy;
                State_Monad.return (map_option (Wrap (''failed to add finalizer to AccessStrategy '' @
                  om_Namespace (a_meta accessStrategy) @ ''/'' @ om_Name (a_meta accessStrategy))) e)
              })
       })"

section \<open>Users and owners\<close>

definition getEffectiveOwnershipType :: "string \<Rightarrow> string" where
  "getEffectiveOwnershipType ownershipType = (if ownershipType = '''' then OwnershipTypePublic else ownershipType)"

definition isControllerOrAdminUser :: "client \<Rightarrow> admission_ctx \<Rightarrow> bool" where
  "isControllerOrAdminUser k ctx = (case ctx of
     Inl _ \<Rightarrow> False
   | Inr req \<Rightarrow>
       let controllerServiceAccount = k_getenv k ControllerPodServiceAccountEnv;
           controllerNamespace = k_getenv k ControllerPodNamespaceEnv
       in if controllerServiceAccount \<noteq> '''' \<and> controllerNamespace \<noteq> '''' \<and>
             ui_Username (rq_UserInfo req) = ''system:serviceaccount:'' @ controllerNamespace @ '':'' @ controllerServiceAccount
          then True
          else let clusterAdminGroup = k_getenv k ''CLUSTER_ADMIN_GROUP'';
                   adminGroups = DefaultAdminGroup # (if clusterAdminGroup \<noteq> '''' then [clusterAdminGroup] else [])
               in list_ex (\<lambda>g. list_ex (\<lambda>adminGroup. g = adminGroup) adminGroups) (ui_Groups (rq_UserInfo req)))"

definition validateOwnershipPermission :: "admission_ctx \<Rightarrow> workspace \<Rightarrow> goerr option" where
  "validateOwnershipPermission ctx workspace = (case ctx of
     Inl err \<Rightarrow> Some (Wrap ''unable to extract user information from request context'' err)
   | Inr req \<Rightarrow>
       let currentUser = SanitizeUsername (ui_Username (rq_UserInfo req));
           createdBy = map_get (w_Annotations workspace) AnnotationCreatedBy
       in if w_Annotations workspace \<noteq> None \<and> createdBy \<noteq> '''' \<and> createdBy = currentUser then None
          else Some (Msg ''access denied: only workspace owner can modify OwnerOnly workspaces''))"

section \<open>Defaulting\<close>

text \<open>The ownership annotations of the request's user.\<close>

definition stamp_owner :: "admission_ctx \<Rightarrow> workspace \<Rightarrow> workspace" where
  "stamp_owner ctx workspace =
     (let ann0 = (case w_Annotations workspace of None \<Rightarrow> Map.empty | Some m \<Rightarrow> m);
          ann = (case ctx of
              Inl _ \<Rightarrow> ann0
            | Inr req \<Rightarrow>
                let sanitizedUsername = SanitizeUsername (ui_Username (rq_UserInfo req));
                    ann1 = (if rq_Operation req = ''CREATE'' then ann0(AnnotationCreatedBy \<mapsto> sanitizedUsername) else ann0)
                in ann1(AnnotationLastUpdatedBy \<mapsto> sanitizedUsername))
      in workspace\<lparr>w_meta := (w_meta workspace)\<lparr>om_Annotations := Some ann\<rparr>\<rparr>)"

definition Default :: "client \<Rightarrow> string \<Rightarrow> admission_ctx \<Rightarrow> runtime_object \<Rightarrow> (workspace res) io" where
  "Default k defaultTemplateNamespace ctx obj = (case obj of
     WorkspaceObj workspace \<Rightarrow>
       if is_deleting (w_meta workspace) then lift (Inr workspace)
       else on_ok (ApplyTemplateName k (stamp_owner ctx workspace)) (Wrap ''failed to apply template reference'') (\<lambda>w1.
         on_ok (ApplyTemplateDefaults k defaultTemplateNamespace w1) (Wrap ''failed to apply template defaults'') (\<lambda>w2.
         on_ok (ApplyServiceAccountDefaults k w2) (Wrap ''failed to apply service account defaults'') (\<lambda>w3. do {
           let w = setWorkspaceSharingDefaults w3;
           e \<leftarrow> (case ws_TemplateRef (w_Spec w) of
                  None \<Rightarrow> State_Monad.return None
                | Some ref \<Rightarrow> if tr_Name ref \<noteq> '''' then ensureTemplateFinalizer k (tr_Name ref) (GetTemplateRefNamespace w)
                              else State_Monad.return None);
           (case e of
              Some err \<Rightarrow> lift (Inl (Wrap ''failed to add finalizer to template'' err))
            | None \<Rightarrow> do {
                e' \<leftarrow> ensureAccessStrategyFinalizer k w;
                lift (case e' of
                    Some err \<Rightarrow> Inl (Wrap ''failed to add finalizer to AccessStrategy'' err)
                  | None \<Rightarrow> Inr w)
              })
         })))
   | _ \<Rightarrow> lift (Inl (Msg (''expected an Workspace object but got '' @ type_name obj))))"

section \<open>Validation\<close>

text \<open>Sequencing of checks: the first error wins.\<close>

definition and_then :: "(goerr option) io \<Rightarrow> (goerr option) io \<Rightarrow> (goerr option) io" where
  "and_then m n = do { e \<leftarrow> m; (case e of Some err \<Rightarrow> State_Monad.return (Some err) | None \<Rightarrow> n) }"

definition ValidateCreate :: "client \<Rightarrow> string \<Rightarrow> admission_ctx \<Rightarrow> runtime_object \<Rightarrow> (goerr option) io" where
  "ValidateCreate k defaultTemplateNamespace ctx obj = (case obj of
     WorkspaceObj workspace \<Rightarrow>
       and_then (ValidateCreateWorkspace k defaultTemplateNamespace workspace)
         (and_then (ValidateVolumeOwnership k workspace)
           (if isControllerOrAdminUser k ctx then State_Monad.return None
            else ValidateServiceAccountAccess k ctx workspace))
   | _ \<Rightarrow> State_Monad.return (Some (Msg (''expected a Workspace object but got '' @ type_name obj))))"

definition created_by_kept :: "workspace \<Rightarrow> workspace \<Rightarrow> goerr option" where
  "created_by_kept oldWorkspace newWorkspace =
     (let oldCreatedBy = map_get (w_Annotations oldWorkspace) AnnotationCreatedBy in
      if w_Annotations oldWorkspace \<noteq> None \<and> oldCreatedBy \<noteq> ''''
      then if w_Annotations newWorkspace = None then Some (Msg ''created-by annotation cannot be removed'')
           else if map_get (w_Annotations newWorkspace) AnnotationCreatedBy \<noteq> oldCreatedBy
           then Some (Msg ''created-by annotation is immutable'')
           else None
      else None)"

definition update_ownership :: "admission_ctx \<Rightarrow> workspace \<Rightarrow> workspace \<Rightarrow> goerr option" where
  "update_ownership ctx oldWorkspace newWorkspace =
     (let originalOwnershipType = getEffectiveOwnershipType (ws_OwnershipType (w_Spec oldWorkspace));
          newOwnershipType = getEffectiveOwnershipType (ws_OwnershipType (w_Spec newWorkspace))
      in if originalOwnershipType = OwnershipTypeOwnerOnly then validateOwnershipPermission ctx oldWorkspace
         else if newOwnershipType = OwnershipTypeOwnerOnly then validateOwnershipPermission ctx oldWorkspace
         else None)"

definition ValidateUpdate ::
  "client \<Rightarrow> string \<Rightarrow> admission_ctx \<Rightarrow> runtime_object \<Rightarrow> runtime_object \<Rightarrow> (goerr option) io" where
  "ValidateUpdate k defaultTemplateNamespace ctx oldObj newObj = (case oldObj of
     WorkspaceObj oldWorkspace \<Rightarrow> (case newObj of
       WorkspaceObj newWorkspace \<Rightarrow>
         if is_deleting (w_meta newWorkspace) then State_Monad.return None
         else if isControllerOrAdminUser k ctx then State_Monad.return None
         else and_then (ValidateServiceAccountAccess k ctx newWorkspace)
           (and_then (State_Monad.return (created_by_kept oldWorkspace newWorkspace))
             (and_then (State_Monad.return (update_ownership ctx oldWorkspace newWorkspace))
               (and_then (ValidateUpdateWorkspace k defaultTemplateNamespace oldWorkspace newWorkspace)
                 (ValidateVolumeOwnership k newWorkspace))))
     | _ \<Rightarrow> State_Monad.return (Some (Msg (''expected a Workspace object for the newObj but got '' @ type_name newObj))))
   | _ \<Rightarrow> State_Monad.return (Some (Msg (''expected a Workspace object for the oldObj but got '' @ type_name oldObj))))"

definition ValidateDelete :: "client \<Rightarrow> admission_ctx \<Rightarrow> runtime_object \<Rightarrow> goerr option" where
  "ValidateDelete k ctx obj = (case obj of
     WorkspaceObj workspace \<Rightarrow>
       if isControllerOrAdminUser k ctx then None
       else if getEffectiveOwnershipType (ws_OwnershipType (w_Spec workspace)) = OwnershipTypeOwnerOnly
       then validateOwnershipPermission ctx workspace
       else None
   | _ \<Rightarrow> Some (Msg (''expected a Workspace object but got '' @ type_name obj)))"

section \<open>Template webhook\<close>

definition range_sem_eq :: "resource_range \<Rightarrow> resource_range \<Rightarrow> bool" where
  "range_sem_eq a b \<longleftrightarrow> q_eq (rg_Min a) (rg_Min b) \<and> q_eq (rg_Max a) (rg_Max b)"

definition resourceBoundsChanged :: "resource_bounds option \<Rightarrow> resource_bounds option \<Rightarrow> bool" where
  "resourceBoundsChanged oldBounds newBounds = (case (oldBounds, newBounds) of
     (None, None) \<Rightarrow> False
   | (Some o', Some n) \<Rightarrow> \<not> alist_sem_eq range_sem_eq (ApiTypes.slice (rb_Resources o')) (ApiTypes.slice (rb_Resources n))
   | _ \<Rightarrow> True)"

text \<open>The test the remaining comparisons share: one of two pointers nil, or different values.\<close>

definition ptr_changed :: "('a \<Rightarrow> 'a \<Rightarrow> bool) \<Rightarrow> 'a option \<Rightarrow> 'a option \<Rightarrow> bool" where
  "ptr_changed same a b = (case (a, b) of (None, None) \<Rightarrow> False | (Some x, Some y) \<Rightarrow> \<not> same x y | _ \<Rightarrow> True)"

definition maxStorageSizeChanged :: "storage_config option \<Rightarrow> storage_config option \<Rightarrow> bool" where
  "maxStorageSizeChanged oldStorage newStorage = (case (oldStorage, newStorage) of
     (None, None) \<Rightarrow> False
   | (Some o', Some n) \<Rightarrow> ptr_changed q_eq (sc_MaxSize o') (sc_MaxSize n) \<or> ptr_changed q_eq (sc_MinSize o') (sc_MinSize n)
   | _ \<Rightarrow> True)"

definition idleShutdownAllowOverrideChanged ::
  "idle_shutdown_override_policy option \<Rightarrow> idle_shutdown_override_policy option \<Rightarrow> bool" where
  "idleShutdownAllowOverrideChanged oldOverrides newOverrides = (case (oldOverrides, newOverrides) of
     (None, None) \<Rightarrow> False
   | (Some o', Some n) \<Rightarrow> ptr_changed (=) (io_Allow o') (io_Allow n)
   | _ \<Rightarrow> True)"

definition idleShutdownTimeoutBoundsChanged ::
  "idle_shutdown_override_policy option \<Rightarrow> idle_shutdown_override_policy option \<Rightarrow> bool" where
  "idleShutdownTimeoutBoundsChanged oldOverrides newOverrides = (case (oldOverrides, newOverrides) of
     (None, None) \<Rightarrow> False
   | (Some o', Some n) \<Rightarrow>
       ptr_changed (=) (io_MinIdleTimeoutInMinutes o') (io_MinIdleTimeoutInMinutes n) \<or>
       ptr_changed (=) (io_MaxIdleTimeoutInMinutes o') (io_MaxIdleTimeoutInMinutes n)
   | _ \<Rightarrow> True)"

definition constraintsChanged :: "workspace_template \<Rightarrow> workspace_template \<Rightarrow> bool" where
  "constraintsChanged oldTemplate newTemplate =
     (let oldSpec = t_Spec oldTemplate; newSpec = t_Spec newTemplate in
      if ts_AllowedImages oldSpec \<noteq> ts_AllowedImages newSpec then True
      else if resourceBoundsChanged (ts_ResourceBounds oldSpec) (ts_ResourceBounds newSpec) then True
      else if maxStorageSizeChanged (ts_PrimaryStorage oldSpec) (ts_PrimaryStorage newSpec) then True
      else if idleShutdownAllowOverrideChanged (ts_IdleShutdownOverrides oldSpec) (ts_IdleShutdownOverrides newSpec) then True
      else idleShutdownTimeoutBoundsChanged (ts_IdleShutdownOverrides oldSpec) (ts_IdleShutdownOverrides newSpec))"

definition template_ValidateCreate :: "runtime_object \<Rightarrow> warnings \<times> goerr option" where
  "template_ValidateCreate obj = (case obj of
     TemplateObj _ \<Rightarrow> ([], None)
   | _ \<Rightarrow> ([], Some (Msg (''expected a WorkspaceTemplate object but got '' @ type_name obj))))"

definition template_ValidateUpdate :: "runtime_object \<Rightarrow> runtime_object \<Rightarrow> warnings \<times> goerr option" where
  "template_ValidateUpdate oldObj newObj = (case oldObj of
     TemplateObj oldTemplate \<Rightarrow> (case newObj of
       TemplateObj newTemplate \<Rightarrow>
         if constraintsChanged oldTemplate newTemplate
         then ([''Template constraints changed. Affected workspaces will be marked for compliance validation by the controller.''], None)
         else ([], None)
     | _ \<Rightarrow> ([], Some (Msg (''expected a WorkspaceTemplate object for the newObj but got '' @ type_name newObj))))
   | _ \<Rightarrow> ([], Some (Msg (''expected a WorkspaceTemplate object for the oldObj but got '' @ type_name oldObj))))"

definition template_ValidateDelete :: "runtime_object \<Rightarrow> warnings \<times> goerr option" where
  "template_ValidateDelete obj = (case obj of
     TemplateObj _ \<Rightarrow> ([], None)
   | _ \<Rightarrow> ([], Some (Msg (''expected a WorkspaceTemplate object but got '' @ type_name obj))))"

section \<open>Pod exec webhook\<close>

datatype admission_response = Allowed string | Denied string | Errored int goerr

definition exec_Handle :: "client \<Rightarrow> admission_request \<Rightarrow> admission_response io" where
  "exec_Handle k req =
     (let expectedUser = ''system:serviceaccount:'' @ k_getenv k ControllerPodNamespaceEnv @ '':'' @
            k_getenv k ControllerPodServiceAccountEnv
      in if ui_Username (rq_UserInfo req) \<noteq> expectedUser then State_Monad.return (Allowed ''exec request allowed'')
         else do {
           let key = nn (rq_Namespace req) (rq_Name req);
           r \<leftarrow> call (\<lambda>h. k_get_Pod k h key) (CGetPod key);
           State_Monad.return (case r of
               Inl err \<Rightarrow> Errored 500 (Wrap ''failed to get pod'' err)
             | Inr p \<Rightarrow>
                 if \<not> map_has (om_Labels (pod_meta p)) LabelWorkspaceName
                 then Denied ''controller service account can only exec into workspace pods''
                 else Allowed ''exec request allowed'')
         })"

text \<open>Registration refuses to start without the two environment variables.\<close>

definition SetupPodExecWebhookWithManager :: "client \<Rightarrow> goerr option" where
  "SetupPodExecWebhookWithManager k =
     (if k_getenv k ControllerPodNamespaceEnv = ''''
      then Some (Msg (''required environment variable '' @ ControllerPodNamespaceEnv @ '' not set''))
      else if k_getenv k ControllerPodServiceAccountEnv = ''''
      then Some (Msg (''required environment variable '' @ ControllerPodServiceAccountEnv @ '' not set''))
      else None)"

section \<open>What defaulting keeps\<close>

text \<open>Every value the user set survives the whole defaulting; a named template and service account too.\<close>

definition kept_default :: "workspace_spec \<Rightarrow> workspace_spec \<Rightarrow> bool" where
  "kept_default s s' \<longleftrightarrow>
     kept_spec s (s'\<lparr>ws_TemplateRef := ws_TemplateRef s, ws_ServiceAccountName := ws_ServiceAccountName s\<rparr>) \<and>
     (\<forall>r. ws_TemplateRef s = Some r \<longrightarrow> tr_Name r \<noteq> '''' \<longrightarrow> ws_TemplateRef s' = Some r) \<and>
     kept (ws_ServiceAccountName s) (ws_ServiceAccountName s')"

lemma kept_default_of_spec:
  assumes "kept_spec s s'"
  shows "kept_default s s'"
  using assms by (simp add: kept_default_def kept_spec_def)

lemma kept_default_trans:
  assumes "kept_default s t" and "kept_default t u"
  shows "kept_default s u"
proof -
  have "kept_spec s (u\<lparr>ws_TemplateRef := ws_TemplateRef s, ws_ServiceAccountName := ws_ServiceAccountName s\<rparr>)"
    using assms unfolding kept_default_def kept_spec_def
    by (elim conjE, intro conjI) (simp, (simp | blast intro: kept_trans)+)
  then show ?thesis
    using assms unfolding kept_default_def by (auto intro: kept_trans)
qed

lemma ApplyTemplateName_keeps:
  assumes "fst (run_state (ApplyTemplateName k w) h) = Inr w'"
  shows "w_meta w' = w_meta w \<and> w_Status w' = w_Status w \<and> kept_default (w_Spec w) (w_Spec w')"
  using assms
  by (auto simp: ApplyTemplateName_def Let_def kept_default_def kept_spec_def split: if_splits option.splits list.splits sum.splits)

lemma ApplyTemplateDefaults_keeps:
  assumes "fst (run_state (ApplyTemplateDefaults k ns w) h) = Inr w'"
  shows "w_meta w' = (w_meta w)\<lparr>om_Labels := w_Labels w'\<rparr> \<and> w_Status w' = w_Status w \<and> kept_default (w_Spec w) (w_Spec w')"
proof -
  consider "w' = w" | t where "w' = apply_applicators defaultApplicators w t"
    using assms by (auto simp: ApplyTemplateDefaults_def split: if_splits option.splits sum.splits prod.splits)
  then show ?thesis
  proof cases
    case 1
    then show ?thesis
      by (simp add: kept_default_of_spec)
  next
    case (2 t)
    then show ?thesis
      using template_default_step.spec_kept [of w t] template_default_step.rest_kept [of w t]
      by (simp add: kept_default_of_spec kept_rest_def)
  qed
qed

lemma ApplyServiceAccountDefaults_keeps:
  assumes "fst (run_state (ApplyServiceAccountDefaults k w) h) = Inr w'"
  shows "w_meta w' = w_meta w \<and> w_Status w' = w_Status w \<and> kept_default (w_Spec w) (w_Spec w')"
  using assms
  by (auto simp: ApplyServiceAccountDefaults_def kept_default_def kept_spec_def kept_def
      split: if_splits sum.splits prod.splits)

lemma sharing_keeps:
  "w_meta (setWorkspaceSharingDefaults w) = w_meta w \<and> w_Status (setWorkspaceSharingDefaults w) = w_Status w \<and>
   kept_default (w_Spec w) (w_Spec (setWorkspaceSharingDefaults w))"
  by (auto simp: setWorkspaceSharingDefaults_def Let_def kept_def kept_spec_def intro!: kept_default_of_spec)

lemma stamp_owner_simps [simp]:
  "w_Spec (stamp_owner ctx w) = w_Spec w" "w_Status (stamp_owner ctx w) = w_Status w"
  by (simp_all add: stamp_owner_def Let_def)

lemma relabel_annotations: "m = m'\<lparr>om_Labels := l\<rparr> \<Longrightarrow> om_Annotations m = om_Annotations m'"
  by simp

lemma relabel_namespace: "m = m'\<lparr>om_Labels := l\<rparr> \<Longrightarrow> om_Namespace m = om_Namespace m'"
  by simp

lemma Default_chain:
  assumes "fst (run_state (Default k ns ctx (WorkspaceObj w)) h) = Inr w'" and "\<not> is_deleting (w_meta w)"
  obtains h1 h2 h3 w1 w2 w3 where
    "fst (run_state (ApplyTemplateName k (stamp_owner ctx w)) h) = Inr w1"
    "fst (run_state (ApplyTemplateDefaults k ns w1) h1) = Inr w2"
    "fst (run_state (ApplyServiceAccountDefaults k w2) h2) = Inr w3"
    "w' = setWorkspaceSharingDefaults w3" "fst (run_state (ensureAccessStrategyFinalizer k w') h3) = None"
proof -
  obtain w1 h1 where 1: "run_state (ApplyTemplateName k (stamp_owner ctx w)) h = (Inr w1, h1)"
    using assms by (cases "run_state (ApplyTemplateName k (stamp_owner ctx w)) h") (auto simp: Default_def split: sum.splits)
  obtain w2 h2 where 2: "run_state (ApplyTemplateDefaults k ns w1) h1 = (Inr w2, h2)"
    using assms 1 by (cases "run_state (ApplyTemplateDefaults k ns w1) h1") (auto simp: Default_def split: sum.splits)
  obtain w3 h3 where 3: "run_state (ApplyServiceAccountDefaults k w2) h2 = (Inr w3, h3)"
    using assms 1 2 by (cases "run_state (ApplyServiceAccountDefaults k w2) h2") (auto simp: Default_def split: sum.splits)
  obtain h4 where "w' = setWorkspaceSharingDefaults w3" "fst (run_state (ensureAccessStrategyFinalizer k w') h4) = None"
    using assms 1 2 3 by (auto simp: Default_def Let_def split: option.splits prod.splits if_splits) (metis fst_conv)+
  with 1 2 3 show ?thesis
    using that by (metis fst_conv)
qed

text \<open>What the template of a workspace says about sharing; nothing without a template.\<close>

definition template_sharing :: "client \<Rightarrow> string \<Rightarrow> workspace \<Rightarrow> string \<Rightarrow> string \<Rightarrow> bool" where
  "template_sharing k ns w ownership access \<longleftrightarrow> (if (\<exists>r. ws_TemplateRef (w_Spec w) = Some r \<and> tr_Name r \<noteq> '''')
     then \<exists>h t. fst (run_state (ResolveTemplate k ns (ws_TemplateRef (w_Spec w)) (w_Namespace w)) h) = Inr t \<and>
       ownership = ts_DefaultOwnershipType (t_Spec t) \<and> access = ts_DefaultAccessType (t_Spec t)
     else ownership = '''' \<and> access = '''')"

definition annotation :: "workspace \<Rightarrow> string \<Rightarrow> string option" where
  "annotation w key = (case w_Annotations w of None \<Rightarrow> None | Some m \<Rightarrow> m key)"

lemma ApplyTemplateName_sharing:
  assumes "fst (run_state (ApplyTemplateName k w) h) = Inr w'"
  shows "ws_OwnershipType (w_Spec w') = ws_OwnershipType (w_Spec w)" "ws_AccessType (w_Spec w') = ws_AccessType (w_Spec w)"
  using assms by (auto simp: ApplyTemplateName_def Let_def split: if_splits option.splits list.splits sum.splits)

lemma ApplyServiceAccountDefaults_sharing:
  assumes "fst (run_state (ApplyServiceAccountDefaults k w) h) = Inr w'"
  shows "ws_OwnershipType (w_Spec w') = ws_OwnershipType (w_Spec w)" "ws_AccessType (w_Spec w') = ws_AccessType (w_Spec w)"
    "ws_TemplateRef (w_Spec w') = ws_TemplateRef (w_Spec w)"
  using assms by (auto simp: ApplyServiceAccountDefaults_def split: if_splits sum.splits prod.splits)

lemma ApplyTemplateDefaults_sharing:
  assumes "fst (run_state (ApplyTemplateDefaults k ns w) h) = Inr w'"
  obtains ownership access where "template_sharing k ns w ownership access" "ws_TemplateRef (w_Spec w') = ws_TemplateRef (w_Spec w)"
    "ws_OwnershipType (w_Spec w') = or_else (ws_OwnershipType (w_Spec w)) ownership"
    "ws_AccessType (w_Spec w') = or_else (ws_AccessType (w_Spec w)) access"
proof (cases "\<exists>r. ws_TemplateRef (w_Spec w) = Some r \<and> tr_Name r \<noteq> ''''")
  case True
  then obtain r where r: "ws_TemplateRef (w_Spec w) = Some r" "tr_Name r \<noteq> ''''" by blast
  with assms obtain t where t: "fst (run_state (ResolveTemplate k ns (Some r) (w_Namespace w)) h) = Inr t"
    "w' = apply_applicators defaultApplicators w t"
    by (auto simp: ApplyTemplateDefaults_def split: sum.splits prod.splits)
  then have "w_Spec w' = merged_spec (w_Spec w) (t_Spec t)" by (simp add: apply_all_spec)
  moreover have "template_sharing k ns w (ts_DefaultOwnershipType (t_Spec t)) (ts_DefaultAccessType (t_Spec t))"
    using True r t(1) unfolding template_sharing_def by auto
  ultimately show ?thesis using that by (simp add: merged_spec_def)
next
  case False
  then have "w' = w" using assms by (auto simp: ApplyTemplateDefaults_def split: option.splits if_splits)
  moreover have "template_sharing k ns w '''' ''''" using False by (auto simp: template_sharing_def)
  ultimately show ?thesis using that by (simp add: or_else_def)
qed

text \<open>
  C23. The defaulting webhook respects the user. When it admits a workspace that is not being deleted, every
  value the user set in the spec is still there and the status is untouched. The ownership type is the user's, otherwise the default of the
  template the workspace refers to, otherwise Public; the access type is the user's, otherwise the template's default, otherwise the
  ownership type. The annotation of the last editor is the escaped name of the user of the request, that of the creator is this
  name on creation and what it was otherwise; every other annotation is what it was, and of the metadata nothing but annotations
  and labels changes. Without a request no annotation changes.
\<close>

theorem Default_respects_user:
  assumes "fst (run_state (Default k ns ctx (WorkspaceObj w)) h) = Inr w'" and "\<not> is_deleting (w_meta w)"
  shows "kept_default (w_Spec w) (w_Spec w') \<and> w_Status w' = w_Status w \<and>
    (\<exists>ownership access. template_sharing k ns w' ownership access \<and>
       ws_OwnershipType (w_Spec w') = or_else (ws_OwnershipType (w_Spec w)) (or_else ownership ''Public'') \<and>
       ws_AccessType (w_Spec w') = or_else (ws_AccessType (w_Spec w)) (or_else access (ws_OwnershipType (w_Spec w')))) \<and>
    (\<forall>key. annotation w' key = (case ctx of Inl _ \<Rightarrow> annotation w key
       | Inr req \<Rightarrow> if key = AnnotationLastUpdatedBy \<or> key = AnnotationCreatedBy \<and> rq_Operation req = ''CREATE''
           then Some (SanitizeUsername (ui_Username (rq_UserInfo req))) else annotation w key)) \<and>
    w_meta w' = (w_meta w)\<lparr>om_Labels := w_Labels w', om_Annotations := w_Annotations w'\<rparr>"
proof -
  obtain h1 h2 h3 w1 w2 w3 where c:
    "fst (run_state (ApplyTemplateName k (stamp_owner ctx w)) h) = Inr w1"
    "fst (run_state (ApplyTemplateDefaults k ns w1) h1) = Inr w2"
    "fst (run_state (ApplyServiceAccountDefaults k w2) h2) = Inr w3"
    "w' = setWorkspaceSharingDefaults w3" "fst (run_state (ensureAccessStrategyFinalizer k w') h3) = None"
    by (rule Default_chain [OF assms])
  note steps = ApplyTemplateName_keeps [OF c(1)] ApplyTemplateDefaults_keeps [OF c(2)]
    ApplyServiceAccountDefaults_keeps [OF c(3)] sharing_keeps [of w3]
  have kept: "kept_default (w_Spec w) (w_Spec w')"
    using steps c(4) kept_default_trans by (metis stamp_owner_simps(1))
  have meta: "w_meta w' = (w_meta (stamp_owner ctx w))\<lparr>om_Labels := w_Labels w'\<rparr>"
    using steps c(4) by simp
  then have "w_meta w' = (w_meta w)\<lparr>om_Labels := w_Labels w', om_Annotations := w_Annotations w'\<rparr>"
    by (cases "w_meta w'") (simp add: stamp_owner_def Let_def)
  moreover have "annotation w' key = annotation (stamp_owner ctx w) key" for key
    using relabel_annotations [OF meta] by (simp add: annotation_def)
  then have "annotation w' key = (case ctx of Inl _ \<Rightarrow> annotation w key
       | Inr req \<Rightarrow> if key = AnnotationLastUpdatedBy \<or> key = AnnotationCreatedBy \<and> rq_Operation req = ''CREATE''
           then Some (SanitizeUsername (ui_Username (rq_UserInfo req))) else annotation w key)" for key
    by (simp add: annotation_def stamp_owner_def Let_def split: sum.split option.split)
  moreover obtain ownership access where d: "template_sharing k ns w1 ownership access" "ws_TemplateRef (w_Spec w2) = ws_TemplateRef (w_Spec w1)"
    "ws_OwnershipType (w_Spec w2) = or_else (ws_OwnershipType (w_Spec w1)) ownership"
    "ws_AccessType (w_Spec w2) = or_else (ws_AccessType (w_Spec w1)) access"
    by (rule ApplyTemplateDefaults_sharing [OF c(2)])
  have "w_Namespace w2 = w_Namespace w1" using steps(2) by (intro relabel_namespace) blast
  then have "w_Namespace w' = w_Namespace w1" using steps(3,4) c(4) by simp
  then have "template_sharing k ns w' ownership access"
    using d(1,2) ApplyServiceAccountDefaults_sharing(3) [OF c(3)] c(4)
    by (simp add: template_sharing_def setWorkspaceSharingDefaults_def Let_def)
  moreover have "ws_OwnershipType (w_Spec w') = or_else (ws_OwnershipType (w_Spec w)) (or_else ownership ''Public'')"
    "ws_AccessType (w_Spec w') = or_else (ws_AccessType (w_Spec w)) (or_else access (ws_OwnershipType (w_Spec w')))"
    using sharing_defaults [of w3] d(3,4) ApplyTemplateName_sharing [OF c(1)] ApplyServiceAccountDefaults_sharing [OF c(3)] c(4)
    by (simp_all add: Let_def or_else_def)
  ultimately show ?thesis
    using kept steps c(4) by auto
qed

theorem Default_respects_user_witness:
  "\<exists>w'. fst (run_state (Default empty_server '''' (Inr alice_request) (WorkspaceObj sample_workspace)) []) = Inr w' \<and>
     map_get (w_Annotations w') AnnotationCreatedBy = ''alice''"
proof -
  have d: "\<not> is_deleting (w_meta sample_workspace)"
    by (simp add: is_deleting_def sample_workspace_def empty_meta_def)
  have e: "w_Spec sample_workspace = empty_spec" "k_list_Templates empty_server = (\<lambda>_ _. Inr [])"
    "k_list_ServiceAccounts empty_server = (\<lambda>_ _ _. Inr [])"
    "ws_TemplateRef empty_spec = None" "ws_ServiceAccountName empty_spec = []" "ws_AccessStrategy empty_spec = None"
    by (simp_all add: sample_workspace_def empty_server_def empty_spec_def)
  obtain w' where w': "fst (run_state (Default empty_server '''' (Inr alice_request) (WorkspaceObj sample_workspace)) []) = Inr w'"
    by (simp add: Default_def d e ApplyTemplateName_def ApplyTemplateDefaults_def ApplyServiceAccountDefaults_def
        GetDefaultServiceAccount_def ensureAccessStrategyFinalizer_def setWorkspaceSharingDefaults_def Let_def)
  have "SanitizeUsername ''alice'' = ''alice''"
    by (simp add: SanitizeUsername_eq ascii_runes json_rune_def)
  then have "annotation w' AnnotationCreatedBy = Some ''alice''"
    using Default_respects_user [OF w' d] by (simp add: alice_request_def)
  then have "map_get (w_Annotations w') AnnotationCreatedBy = ''alice''"
    by (simp add: annotation_def split: option.splits)
  then show ?thesis
    using w' by (metis (no_types))
qed

section \<open>Owners\<close>

lemma Default_annotations:
  assumes "fst (run_state (Default k ns ctx (WorkspaceObj w)) h) = Inr w'" and "\<not> is_deleting (w_meta w)"
  shows "w_Annotations w' = w_Annotations (stamp_owner ctx w)"
proof -
  obtain h1 h2 h3 w1 w2 w3 where c:
    "fst (run_state (ApplyTemplateName k (stamp_owner ctx w)) h) = Inr w1"
    "fst (run_state (ApplyTemplateDefaults k ns w1) h1) = Inr w2"
    "fst (run_state (ApplyServiceAccountDefaults k w2) h2) = Inr w3"
    "w' = setWorkspaceSharingDefaults w3" "fst (run_state (ensureAccessStrategyFinalizer k w') h3) = None"
    by (rule Default_chain [OF assms])
  have "w_Annotations w2 = w_Annotations w1"
    using ApplyTemplateDefaults_keeps [OF c(2)] by (intro relabel_annotations) blast
  then show ?thesis
    using ApplyTemplateName_keeps [OF c(1)] ApplyServiceAccountDefaults_keeps [OF c(3)] sharing_keeps [of w3] c(4) by simp
qed

lemma ownership_granted:
  assumes "validateOwnershipPermission (Inr req) w = None"
  shows "map_get (w_Annotations w) AnnotationCreatedBy = SanitizeUsername (ui_Username (rq_UserInfo req))"
  using assms by (simp add: validateOwnershipPermission_def Let_def del: map_get_simps split: if_split_asm)

lemma fst_and_then: "fst (run_state (and_then m n) h) = None \<longleftrightarrow>
    fst (run_state m h) = None \<and> fst (run_state n (snd (run_state m h))) = None"
  by (auto simp: and_then_def split: prod.split option.split)

lemma ValidateUpdate_accepted:
  assumes "fst (run_state (ValidateUpdate k ns ctx (WorkspaceObj old) (WorkspaceObj new)) h) = None"
    and "\<not> isControllerOrAdminUser k ctx" and "\<not> is_deleting (w_meta new)"
  shows "created_by_kept old new = None \<and> update_ownership ctx old new = None"
  using assms by (simp add: ValidateUpdate_def fst_and_then)

text \<open>
  C24. Owner-only workspaces belong to their creator. Let a workspace be admitted for creation by some
  user, and be owner-only. Whenever another request of an ordinary user (neither the controller nor an
  administrator) to update it, unless it is being deleted, or to delete it is admitted, that user is the
  creator; and an admitted update keeps the recorded creator. User names are assumed to be valid UTF-8.
\<close>

theorem owner_only_access:
  assumes created: "fst (run_state (Default k ns (Inr creation) (WorkspaceObj w0)) h) = Inr w"
      "rq_Operation creation = ''CREATE''" "\<not> is_deleting (w_meta w0)"
    and owner_only: "ws_OwnershipType (w_Spec w) = OwnershipTypeOwnerOnly"
    and ordinary: "\<not> isControllerOrAdminUser k (Inr req)"
    and names: "valid_utf8 (ui_Username (rq_UserInfo creation))" "valid_utf8 (ui_Username (rq_UserInfo req))"
      "ui_Username (rq_UserInfo creation) \<noteq> ''''"
  shows "(\<forall>new h'. fst (run_state (ValidateUpdate k ns (Inr req) (WorkspaceObj w) (WorkspaceObj new)) h') = None \<longrightarrow>
      \<not> is_deleting (w_meta new) \<longrightarrow>
      ui_Username (rq_UserInfo req) = ui_Username (rq_UserInfo creation) \<and>
      map_get (w_Annotations new) AnnotationCreatedBy = map_get (w_Annotations w) AnnotationCreatedBy) \<and>
    (ValidateDelete k (Inr req) (WorkspaceObj w) = None \<longrightarrow>
      ui_Username (rq_UserInfo req) = ui_Username (rq_UserInfo creation))"
proof -
  let ?u = "ui_Username (rq_UserInfo creation)" and ?v = "ui_Username (rq_UserInfo req)"
  have ann: "w_Annotations w = w_Annotations (stamp_owner (Inr creation) w0)"
    by (rule Default_annotations [OF created(1,3)])
  then have stamped: "map_get (w_Annotations w) AnnotationCreatedBy = SanitizeUsername ?u" "w_Annotations w \<noteq> None"
    using created(2) by (simp_all add: stamp_owner_def Let_def)
  have nonempty: "SanitizeUsername ?u \<noteq> ''''"
    using SanitizeUsername_read [OF names(1)] names(3) by fastforce
  have same: "?v = ?u" if "validateOwnershipPermission (Inr req) w = None"
    using ownership_granted [OF that] stamped(1) SanitizeUsername_read [OF names(1)] SanitizeUsername_read [OF names(2)]
    by metis
  have eff: "getEffectiveOwnershipType (ws_OwnershipType (w_Spec w)) = OwnershipTypeOwnerOnly"
    using owner_only by (simp add: getEffectiveOwnershipType_def)
  have upd: "?v = ?u \<and> map_get (w_Annotations new) AnnotationCreatedBy = map_get (w_Annotations w) AnnotationCreatedBy"
    if "fst (run_state (ValidateUpdate k ns (Inr req) (WorkspaceObj w) (WorkspaceObj new)) h') = None"
      "\<not> is_deleting (w_meta new)" for new h'
    using ValidateUpdate_accepted [OF that(1) ordinary that(2)] same eff stamped nonempty
    by (simp add: update_ownership_def created_by_kept_def Let_def del: map_get_simps split: if_split_asm)
  moreover have "?v = ?u" if "ValidateDelete k (Inr req) (WorkspaceObj w) = None"
    using that ordinary same eff by (simp add: ValidateDelete_def)
  ultimately show ?thesis
    by blast
qed

definition owned_workspace :: workspace where
  "owned_workspace = sample_workspace\<lparr>w_Spec := empty_spec\<lparr>ws_OwnershipType := OwnershipTypeOwnerOnly\<rparr>\<rparr>"

definition bob_request :: admission_request where
  "bob_request = alice_request\<lparr>rq_Operation := ''DELETE'', rq_UserInfo := \<lparr>ui_Username = ''bob'', ui_Groups = []\<rparr>\<rparr>"

theorem owner_only_access_witness:
  "\<exists>w. fst (run_state (Default empty_server '''' (Inr alice_request) (WorkspaceObj owned_workspace)) []) = Inr w \<and>
     ValidateDelete empty_server (Inr bob_request) (WorkspaceObj w) \<noteq> None"
proof -
  have d: "\<not> is_deleting (w_meta owned_workspace)"
    by (simp add: is_deleting_def owned_workspace_def sample_workspace_def empty_meta_def)
  have e: "w_Spec owned_workspace = empty_spec\<lparr>ws_OwnershipType := OwnershipTypeOwnerOnly\<rparr>"
    "k_list_Templates empty_server = (\<lambda>_ _. Inr [])" "k_list_ServiceAccounts empty_server = (\<lambda>_ _ _. Inr [])"
    "ws_TemplateRef empty_spec = None" "ws_ServiceAccountName empty_spec = []" "ws_AccessStrategy empty_spec = None"
    by (simp_all add: owned_workspace_def empty_server_def empty_spec_def)
  obtain w where w: "fst (run_state (Default empty_server '''' (Inr alice_request) (WorkspaceObj owned_workspace)) []) = Inr w"
    and o: "ws_OwnershipType (w_Spec w) = OwnershipTypeOwnerOnly"
    by (simp add: Default_def d e ApplyTemplateName_def ApplyTemplateDefaults_def ApplyServiceAccountDefaults_def
        GetDefaultServiceAccount_def ensureAccessStrategyFinalizer_def setWorkspaceSharingDefaults_def Let_def)
  have "valid_utf8 ''alice''" "valid_utf8 ''bob''"
    by (simp_all add: valid_utf8_def invalid_rune_def ascii_runes)
  moreover have "\<not> isControllerOrAdminUser empty_server (Inr bob_request)"
    by (simp add: isControllerOrAdminUser_def bob_request_def empty_server_def)
  ultimately show ?thesis
    using owner_only_access [OF w _ d o, of bob_request] w by (auto simp: alice_request_def bob_request_def)
qed


text \<open>
  Administrators and the controller are exempt from every check of an update, the ownership of volumes
  included, although the source comments that check as applying to all users; on creation it does.
\<close>

lemma admin_update_unchecked:
  assumes "isControllerOrAdminUser k ctx"
  shows "run_state (ValidateUpdate k ns ctx (WorkspaceObj old) (WorkspaceObj new)) h = (None, h)"
    and "fst (run_state (ValidateCreate k ns ctx (WorkspaceObj new)) h) = None \<Longrightarrow>
      \<exists>h'. claims_free k new h' (ws_Volumes (w_Spec new))"
proof -
  show "run_state (ValidateUpdate k ns ctx (WorkspaceObj old) (WorkspaceObj new)) h = (None, h)"
    using assms by (simp add: ValidateUpdate_def)
  assume "fst (run_state (ValidateCreate k ns ctx (WorkspaceObj new)) h) = None"
  then obtain h' where "fst (run_state (ValidateVolumeOwnership k new) h') = None"
    by (auto simp: ValidateCreate_def fst_and_then)
  then have "claims_free k new h' (ws_Volumes (w_Spec new))"
    by (simp add: ValidateVolumeOwnership_def validateVolumeOwnership_def ownership_loop_iff split: prod.splits)
      (metis fst_conv ownership_loop_iff)
  then show "\<exists>h'. claims_free k new h' (ws_Volumes (w_Spec new))" ..
qed

text \<open>
  The usage check of the webhook asks for a page of one workspace and filters the page afterwards: when
  the one workspace returned is being deleted, the template stays unprotected whoever else uses it.
\<close>

lemma template_finalizer_page_of_one:
  fixes n ns :: string
  defines "sel \<equiv> [(LabelWorkspaceTemplate, n), (LabelWorkspaceTemplateNamespace, ns)]"
  assumes "n \<noteq> ''''" and "k_list_Workspaces k h sel '''' 1 = Inr ([w], tok)" and "is_deleting (w_meta w)"
  shows "run_state (ensureTemplateFinalizer k n ns) h = (None, h @ [CListWorkspaces sel '''' 1])"
  using assms by (simp add: ensureTemplateFinalizer_def ListActiveWorkspacesByTemplate_def uses_template_def Let_def)

section \<open>Exec into pods\<close>

text \<open>
  The controller can open a shell only in workspace pods. An exec request of the controller's service
  account is allowed exactly when the target pod can be read and carries the workspace label; requests
  of anyone else are not this webhook's business and are allowed without reading anything.
\<close>

theorem controller_exec_restricted:
  "let account = ''system:serviceaccount:'' @ k_getenv k ControllerPodNamespaceEnv @ '':'' @ k_getenv k ControllerPodServiceAccountEnv;
       key = nn (rq_Namespace req) (rq_Name req)
   in (ui_Username (rq_UserInfo req) = account \<longrightarrow>
        ((\<exists>m. fst (run_state (exec_Handle k req) h) = Allowed m) \<longleftrightarrow>
         (\<exists>p. k_get_Pod k h key = Inr p \<and> map_has (om_Labels (pod_meta p)) LabelWorkspaceName))) \<and>
      (ui_Username (rq_UserInfo req) \<noteq> account \<longrightarrow> run_state (exec_Handle k req) h = (Allowed ''exec request allowed'', h))"
  by (auto simp: exec_Handle_def Let_def split: sum.split)

theorem controller_exec_restricted_witness:
  "\<not> (\<exists>m. fst (run_state (exec_Handle empty_server (alice_request\<lparr>rq_UserInfo :=
        \<lparr>ui_Username = ''system:serviceaccount::'', ui_Groups = []\<rparr>\<rparr>)) []) = Allowed m)"
  using controller_exec_restricted [of empty_server "alice_request\<lparr>rq_UserInfo :=
        \<lparr>ui_Username = ''system:serviceaccount::'', ui_Groups = []\<rparr>\<rparr>" "[]"]
  by (simp add: empty_server_def Let_def)

section \<open>Template updates\<close>

lemma ptr_same: "\<not> ptr_changed q_eq a b \<longleftrightarrow> map_option q_value a = map_option q_value b"
  by (auto simp: ptr_changed_def split: option.split)

lemma size_ok_same:
  assumes "\<not> maxStorageSizeChanged (ts_PrimaryStorage t) (ts_PrimaryStorage t')"
  shows "size_ok t q \<longleftrightarrow> size_ok t' q"
proof (cases "ts_PrimaryStorage t")
  case None
  then show ?thesis
    using assms by (simp add: maxStorageSizeChanged_def size_ok_def split: option.splits)
next
  case (Some c)
  then obtain c' where c': "ts_PrimaryStorage t' = Some c'"
    "map_option q_value (sc_MaxSize c) = map_option q_value (sc_MaxSize c')"
    "map_option q_value (sc_MinSize c) = map_option q_value (sc_MinSize c')"
    using assms by (auto simp: maxStorageSizeChanged_def ptr_same split: option.splits)
  have bound: "(\<forall>m. x = Some m \<longrightarrow> P (q_value m)) \<longleftrightarrow> (\<forall>m. y = Some m \<longrightarrow> P (q_value m))"
    if "map_option q_value x = map_option q_value y" for x y and P :: "int \<Rightarrow> bool"
    using that by (cases x; cases y) auto
  show ?thesis
    unfolding size_ok_def Some c'(1)
    using bound [OF c'(2), of "\<lambda>m. q_value q \<le> m"] bound [OF c'(3), of "\<lambda>m. m \<le> q_value q"] by simp
qed

lemma alist_sem_eq_iff: "alist_sem_eq eq xs ys \<longleftrightarrow> (\<forall>n. opt_eq eq (map_of xs n) (map_of ys n))"
proof -
  have out: "opt_eq eq (map_of xs n) (map_of ys n)" if "n \<notin> fst ` set xs \<union> fst ` set ys" for n
    using that by (simp flip: map_of_eq_None_iff)
  have "(case (x, y) of (Some x, Some y) \<Rightarrow> eq x y | (None, None) \<Rightarrow> True | _ \<Rightarrow> False) = opt_eq eq x y" for x y
    by (cases x; cases y) auto
  then have "alist_sem_eq eq xs ys \<longleftrightarrow> (\<forall>n \<in> fst ` set xs \<union> fst ` set ys. opt_eq eq (map_of xs n) (map_of ys n))"
    unfolding alist_sem_eq_def list_all_iff set_append set_map by simp
  then show ?thesis
    using out by blast
qed

text \<open>Maps of ranges that are equal by content, one entry per resource, bound the same requests.\<close>

lemma requests_in_range_same:
  assumes same: "\<not> resourceBoundsChanged (ts_ResourceBounds t) (ts_ResourceBounds t')"
    and keys: "\<forall>b. ts_ResourceBounds t = Some b \<longrightarrow> distinct (map fst (ApiTypes.slice (rb_Resources b)))"
      "\<forall>b. ts_ResourceBounds t' = Some b \<longrightarrow> distinct (map fst (ApiTypes.slice (rb_Resources b)))"
  shows "requests_in_range t r \<longleftrightarrow> requests_in_range t' r"
proof (cases "ts_ResourceBounds t")
  case None
  then show ?thesis
    using same by (simp add: resourceBoundsChanged_def requests_in_range_def split: option.splits)
next
  case (Some b)
  then obtain b' where b': "ts_ResourceBounds t' = Some b'"
    and eq: "alist_sem_eq range_sem_eq (ApiTypes.slice (rb_Resources b)) (ApiTypes.slice (rb_Resources b'))"
    using same by (auto simp: resourceBoundsChanged_def split: option.splits)
  define ok where "ok n rg \<longleftrightarrow> (\<forall>q. map_of (ApiTypes.slice (rr_Requests r)) n = Some q \<longrightarrow>
    q_value (rg_Min rg) \<le> q_value q \<and> q_value q \<le> q_value (rg_Max rg))" for n and rg :: resource_range
  have ranges: "requests_in_range u r \<longleftrightarrow> (\<forall>n rg. map_of (ApiTypes.slice (rb_Resources c)) n = Some rg \<longrightarrow> ok n rg)"
    if "ts_ResourceBounds u = Some c" "distinct (map fst (ApiTypes.slice (rb_Resources c)))" for u c
    using that unfolding requests_in_range_def ok_def
    by (cases "rb_Resources c") (auto simp: map_of_eq_Some_iff)
  have "opt_eq range_sem_eq (map_of (ApiTypes.slice (rb_Resources b)) n) (map_of (ApiTypes.slice (rb_Resources b')) n)" for n
    using eq by (simp add: alist_sem_eq_iff)
  moreover have "ok n x \<longleftrightarrow> ok n y" if "range_sem_eq x y" for n x y
    using that by (simp add: ok_def range_sem_eq_def)
  ultimately have "(\<forall>rg. map_of (ApiTypes.slice (rb_Resources b)) n = Some rg \<longrightarrow> ok n rg) \<longleftrightarrow>
      (\<forall>rg. map_of (ApiTypes.slice (rb_Resources b')) n = Some rg \<longrightarrow> ok n rg)" for n
    by (cases "map_of (ApiTypes.slice (rb_Resources b)) n"; cases "map_of (ApiTypes.slice (rb_Resources b')) n")
      (metis option.simps(3) opt_eq.simps, metis option.simps(3) opt_eq.simps, metis option.simps(3) opt_eq.simps,
       metis option.inject opt_eq.simps(2))
  then show ?thesis
    unfolding ranges [OF Some keys(1) [rule_format, OF Some]] ranges [OF b' keys(2) [rule_format, OF b']] by blast
qed

text \<open>
  A template update without a warning admits the same workspaces. If the template webhook finds no
  changed constraint, and the three settings it does not look at (custom images, the default image, secondary
  storage) are unchanged, then the old and the new template accept exactly the same specs; the maps of
  bounds have one entry per resource, as maps do.
\<close>

theorem constraintsChanged_sound:
  assumes "template_ValidateUpdate (TemplateObj old) (TemplateObj new) = ([], None)"
    and "ts_AllowCustomImages (t_Spec old) = ts_AllowCustomImages (t_Spec new)"
    and "ts_DefaultImage (t_Spec old) = ts_DefaultImage (t_Spec new)"
    and "ts_AllowSecondaryStorages (t_Spec old) = ts_AllowSecondaryStorages (t_Spec new)"
    and keys: "\<forall>b. ts_ResourceBounds (t_Spec old) = Some b \<longrightarrow> distinct (map fst (ApiTypes.slice (rb_Resources b)))"
      "\<forall>b. ts_ResourceBounds (t_Spec new) = Some b \<longrightarrow> distinct (map fst (ApiTypes.slice (rb_Resources b)))"
  shows "within_checked (t_Spec old) s \<longleftrightarrow> within_checked (t_Spec new) s"
proof -
  have c: "ts_AllowedImages (t_Spec old) = ts_AllowedImages (t_Spec new)"
    "\<not> resourceBoundsChanged (ts_ResourceBounds (t_Spec old)) (ts_ResourceBounds (t_Spec new))"
    "\<not> maxStorageSizeChanged (ts_PrimaryStorage (t_Spec old)) (ts_PrimaryStorage (t_Spec new))"
    using assms(1) by (auto simp: template_ValidateUpdate_def constraintsChanged_def Let_def split: if_splits)
  have "image_allowed (t_Spec old) i \<longleftrightarrow> image_allowed (t_Spec new) i" for i
    using assms(2,3) c(1) by (simp add: image_allowed_def)
  then show ?thesis
    unfolding within_checked_def
    using assms(4) size_ok_same [OF c(3)] requests_in_range_same [OF c(2) keys] by simp
qed

theorem constraintsChanged_sound_witness:
  "within_checked (t_Spec default_template) empty_spec \<longleftrightarrow>
   within_checked (t_Spec (default_template\<lparr>t_Spec := (t_Spec default_template)\<lparr>ts_DisplayName := ''new''\<rparr>\<rparr>)) empty_spec"
  by (rule constraintsChanged_sound)
    (simp_all add: template_ValidateUpdate_def constraintsChanged_def resourceBoundsChanged_def maxStorageSizeChanged_def
      idleShutdownAllowOverrideChanged_def idleShutdownTimeoutBoundsChanged_def default_template_def empty_template_spec_def)

text \<open>
  The warning is not complete: dropping the permission for custom images changes which workspaces are
  admitted and raises no warning.
\<close>

lemma custom_images_unnoticed:
  fixes t :: workspace_template
  defines "open_template \<equiv> t\<lparr>t_Spec := empty_template_spec\<lparr>ts_AllowCustomImages := Some True\<rparr>\<rparr>"
    and "closed_template \<equiv> t\<lparr>t_Spec := empty_template_spec\<rparr>"
    and "s \<equiv> empty_spec\<lparr>ws_Image := ''custom''\<rparr>"
  shows "template_ValidateUpdate (TemplateObj open_template) (TemplateObj closed_template) = ([], None)"
    and "within_checked (t_Spec open_template) s" and "\<not> within_checked (t_Spec closed_template) s"
  by (simp_all add: open_template_def closed_template_def s_def template_ValidateUpdate_def constraintsChanged_def
      resourceBoundsChanged_def maxStorageSizeChanged_def idleShutdownAllowOverrideChanged_def
      idleShutdownTimeoutBoundsChanged_def within_checked_def image_allowed_def empty_template_spec_def empty_spec_def)

end
