(* ===== verification/AuthWorld.thy ===== *)
theory AuthWorld
  imports Idle "HOL-Library.AList"
begin

text \<open>
  The outside world of the token signers and of the authentication middleware, as a parameter of the model.

  Apart from the types the components share (the claims of a token, the access review, the claims of the
  identity provider), nothing here models code of the repository. The clock, the order in which Go visits a map, the JSON
  web token package (\<open>golang-jwt\<close>), the key management service, the OIDC verifier, the extension API that
  answers access reviews, regular expressions, URL parsing and the environment are the fields of the
  record \<open>auth_env\<close>; every definition that uses them takes a value of this record as an argument.

  The state the model threads has the number of clock readings and the requests issued so far, and the
  key cache of the KMS signer, which is the one piece of state these components keep between
  requests. The \<open>n\<close>th reading of the clock gives \<open>e_now e n\<close>, and the service's answers may depend on all
  earlier requests.
\<close>

section \<open>Tokens\<close>

text \<open>\<open>Claims\<close> of \<open>internal/jwt/types.go\<close>, with the embedded registered claims. Times are nanoseconds.\<close>

record claims =
  c_ExpiresAt :: "int option"
  c_IssuedAt :: "int option"
  c_NotBefore :: "int option"
  c_Issuer :: string
  c_Audience :: "string list"
  c_Subject :: string
  c_User :: string
  c_Groups :: "string list"
  c_UID :: string
  c_Extra :: "string \<rightharpoonup> string list"
  c_Path :: string
  c_Domain :: string
  c_TokenType :: string
  c_SkipRefresh :: bool

abbreviation TokenTypeBootstrap :: string where "TokenTypeBootstrap \<equiv> ''bootstrap''"
abbreviation TokenTypeSession :: string where "TokenTypeSession \<equiv> ''session''"

datatype jwt_alg = HS256 | HS384 | HS512 | OtherAlg string

fun is_hmac :: "jwt_alg \<Rightarrow> bool" where
  "is_hmac (OtherAlg _) = False"
| "is_hmac _ = True"

fun alg_name :: "jwt_alg \<Rightarrow> string" where
  "alg_name HS256 = ''HS256''"
| "alg_name HS384 = ''HS384''"
| "alg_name HS512 = ''HS512''"
| "alg_name (OtherAlg n) = n"

text \<open>The header fields the signers use: the algorithm and, when it is a string, the encrypted data key.\<close>

record jwt_header =
  hd_alg :: jwt_alg
  hd_edk :: "string option"

text \<open>The options given to \<open>ParseWithClaims\<close>, and what \<open>errors.Is\<close> finds in its error.\<close>

record jwt_opts =
  op_issuer :: "string option"
  op_audience :: "string option"
  op_methods :: "string list option"
  op_leeway :: int

record jwt_err =
  je_expired :: bool
  je_signature :: bool
  je_err :: goerr

text \<open>
  \<open>ParseWithClaims\<close> calls its key function at most once, with the parsed and not yet verified token. The
  parameter \<open>j_parse\<close> is this interaction: it fails before the call, or it hands over the header and
  resumes with the key function's answer and the time of validation. A success has the flag
  \<open>Valid\<close> of the token and its claims.
\<close>

record jwt_lib =
  j_date :: "int \<Rightarrow> int"
  j_sign :: "jwt_header \<Rightarrow> claims \<Rightarrow> string \<Rightarrow> string res"
  j_parse :: "jwt_opts \<Rightarrow> string \<Rightarrow> jwt_err + (jwt_header \<times> (string res \<Rightarrow> int \<Rightarrow> jwt_err + (bool \<times> claims)))"

section \<open>Services\<close>

text \<open>An access review as it is sent to the extension API, and the status it answers.\<close>

record review_spec =
  rv_WorkspaceName :: string
  rv_User :: string
  rv_Groups :: "string list"
  rv_UID :: string
  rv_Extra :: "string \<rightharpoonup> string list"

record review_status =
  rv_Allowed :: bool
  rv_NotFound :: bool
  rv_Reason :: string

text \<open>\<open>OIDCClaims\<close> of \<open>oidc_verifier.go\<close>, without the field the JSON decoder never fills.\<close>

record oidc_claims =
  oc_Username :: string
  oc_Email :: string
  oc_Groups :: "string list"
  oc_Subject :: string

text \<open>
  The verdict of the identity provider's verifier on a token: an error, with what the code tests of it
  (a failed discovery, a deadline or a cancellation), claims that do not decode, or claims.
\<close>

datatype oidc_answer =
    OVerifyError bool goerr
  | OClaimsError goerr
  | OClaims oidc_claims

type_synonym enc_ctx = "(string \<times> string) list"

datatype auth_call =
    CGenerateDataKey string enc_ctx
  | CDecrypt string enc_ctx
  | CReview string review_spec
  | COIDCVerify string
  | COIDCProvider string

record auth_state =
  at_ticks :: nat
  at_calls :: "auth_call list"
  at_keyCache :: "(string \<times> string) list"
  at_cacheExpiry :: "(string \<times> int) list"
  at_lastCleanup :: int

type_synonym 'a auth_io = "(auth_state, 'a) state"

record auth_env =
  e_now :: "nat \<Rightarrow> int"
  e_order :: "nat \<Rightarrow> (string \<times> int) list \<Rightarrow> (string \<times> int) list"
  e_jwt :: jwt_lib
  e_kms_generate :: "auth_call list \<Rightarrow> string \<Rightarrow> enc_ctx \<Rightarrow> (string \<times> string) res"
  e_kms_decrypt :: "auth_call list \<Rightarrow> string \<Rightarrow> enc_ctx \<Rightarrow> string res"
  e_sha256 :: "string \<Rightarrow> string"
  e_review :: "auth_call list \<Rightarrow> string \<Rightarrow> review_spec \<Rightarrow> review_status res"
  e_oidc_verify :: "auth_call list \<Rightarrow> string \<Rightarrow> oidc_answer"
  e_oidc_provider :: "auth_call list \<Rightarrow> string \<Rightarrow> goerr option"
  e_regex :: "string \<Rightarrow> string \<Rightarrow> string list res"
  e_query :: "string \<Rightarrow> string \<Rightarrow> string res"
  e_duration :: "string \<Rightarrow> int res"
  e_duration_text :: "int \<Rightarrow> string"
  e_json_map :: "string \<Rightarrow> enc_ctx res"
  e_kms_client :: "goerr option"
  e_getenv :: "string \<Rightarrow> string"

section \<open>Primitive steps\<close>

definition now :: "auth_env \<Rightarrow> int auth_io" where
  "now e = State (\<lambda>s. (e_now e (at_ticks s), s\<lparr>at_ticks := Suc (at_ticks s)\<rparr>))"

definition request :: "(auth_call list \<Rightarrow> 'a) \<Rightarrow> auth_call \<Rightarrow> 'a auth_io" where
  "request f c = State (\<lambda>s. (f (at_calls s), s\<lparr>at_calls := at_calls s @ [c]\<rparr>))"

lemma run_now [simp]: "run_state (now e) s = (e_now e (at_ticks s), s\<lparr>at_ticks := Suc (at_ticks s)\<rparr>)"
  by (simp add: now_def)

lemma run_request [simp]: "run_state (request f c) s = (f (at_calls s), s\<lparr>at_calls := at_calls s @ [c]\<rparr>)"
  by (simp add: request_def)

text \<open>Continuing after a \<open>(value, error)\<close> result: an error ends the function with the error wrapped.\<close>

definition bind_ok :: "(('e + 'a) auth_io) \<Rightarrow> ('e \<Rightarrow> 'd) \<Rightarrow> ('a \<Rightarrow> ('d + 'b) auth_io) \<Rightarrow> ('d + 'b) auth_io" where
  "bind_ok m w f = do { r \<leftarrow> m; (case r of Inl e \<Rightarrow> State_Monad.return (Inl (w e)) | Inr x \<Rightarrow> f x) }"

lemma run_bind_ok [simp]:
  "run_state (bind_ok m w f) s = (case run_state m s of (Inl e, s') \<Rightarrow> (Inl (w e), s') | (Inr x, s') \<Rightarrow> run_state (f x) s')"
  by (auto simp: bind_ok_def split: prod.splits sum.splits)

lemma state_io_rel_bind_ok:
  assumes "transp R" "reflp R" "state_io_rel R m" "\<And>x. state_io_rel R (f x)"
  shows "state_io_rel R (bind_ok m w f)"
  unfolding bind_ok_def using assms
  by (intro state_io_rel_bind) (auto intro: state_io_rel_return split: sum.splits)

end
