(* ===== verification/AuthText.thy ===== *)
theory AuthText
  imports AuthWorld GoText
begin

text \<open>
  Text handling of the authentication middleware (\<open>internal/authmiddleware\<close>): group lists in headers and the
  list helpers of \<open>utils.go\<close>, the request headers of \<open>headers.go\<close> and the prefixes of \<open>oidc_utils.go\<close>.

  \<open>splitGroups\<close> reads bytes and appends them as runes, so a byte of at least 128 comes out as the two
  bytes of the code point with that number; \<open>rune_of_byte\<close> says so.
\<close>

section \<open>Groups\<close>

definition rune_of_byte :: "char \<Rightarrow> string" where
  "rune_of_byte c = (if byte c < 128 then [c] else [char_of (192 + byte c div 64), char_of (128 + byte c mod 64)])"

definition runes_text :: "string \<Rightarrow> string" where
  "runes_text cs = concat (map rune_of_byte cs)"

text \<open>
  The loop of \<open>splitGroups\<close>: the byte before the current one, the token being read, and what is left. A
  quote opens a quoted section at the beginning or after a separator, if another quote follows.
\<close>

function split_groups :: "char option \<Rightarrow> string \<Rightarrow> string \<Rightarrow> string list" where
  "split_groups prev current [] = (if current = [] then [] else [runes_text current])"
| "split_groups prev current (c # s) =
     (if c = CHR 0x22 \<and> (prev = None \<or> prev = Some CHR '','' \<or> prev = Some CHR '' '') \<and> CHR 0x22 \<in> set s
      then takeWhile (\<lambda>x. x \<noteq> CHR 0x22) s # split_groups (Some CHR 0x22) current (tl (dropWhile (\<lambda>x. x \<noteq> CHR 0x22) s))
      else if c = CHR '','' \<or> c = CHR '' ''
      then (if current \<noteq> [] then [runes_text current] else []) @ split_groups (Some c) [] s
      else split_groups (Some c) (current @ [c]) s)"
  by pat_completeness auto
termination
proof (relation "measure (\<lambda>(_, _, s). length s)")
  have "length (tl (dropWhile P s)) < Suc (length s)" for P and s :: string
    using length_dropWhile_le [of P s] by simp
  then show "((Some CHR 0x22, current, tl (dropWhile (\<lambda>x. x \<noteq> CHR 0x22) s)), prev, current, c # s)
      \<in> measure (\<lambda>(_, _, s). length s)" for prev current c s
    by simp
qed simp_all

declare split_groups.simps(2) [simp del]

definition splitGroups :: "string \<Rightarrow> string list" where
  "splitGroups groups = (if groups = '''' then [] else split_groups None [] groups)"

definition containsSpecialChars :: "string \<Rightarrow> bool" where
  "containsSpecialChars s = list_ex (\<lambda>p. fst p = 44 \<or> fst p = 32) (runes s)"

definition quote_group :: "string \<Rightarrow> string" where
  "quote_group g = (if containsSpecialChars g then [CHR 0x22] @ g @ [CHR 0x22] else g)"

fun join_groups :: "nat \<Rightarrow> string list \<Rightarrow> string \<Rightarrow> string" where
  "join_groups i [] result = result"
| "join_groups i (g # gs) result = join_groups (Suc i) gs (result @ (if i > 0 then '','' else '''') @ quote_group g)"

definition JoinGroups :: "string list \<Rightarrow> string" where
  "JoinGroups groups = join_groups 0 groups ''''"

section \<open>Lists\<close>

text \<open>The bytes of a slice of runes: invalid bytes have become the replacement character.\<close>

definition rune_text :: "nat \<times> string \<Rightarrow> string" where
  "rune_text p = (if invalid_rune p then [char_of (239::nat), char_of (191::nat), char_of (189::nat)] else snd p)"

fun split_runes :: "nat \<Rightarrow> string \<Rightarrow> (nat \<times> string) list \<Rightarrow> string list" where
  "split_runes sep piece [] = [piece]"
| "split_runes sep piece (p # ps) =
     (if fst p = sep then piece # split_runes sep '''' ps else split_runes sep (piece @ rune_text p) ps)"

text \<open>The separator's first byte is taken as a rune; an empty separator panics.\<close>

definition splitString :: "string \<Rightarrow> string \<Rightarrow> string list res" where
  "splitString s sep = (case sep of
     [] \<Rightarrow> if s = '''' then Inr [''''] else Inl (Panic ''index out of range'')
   | c # _ \<Rightarrow> Inr (split_runes (byte c) '''' (runes s)))"

definition splitAndTrim :: "string \<Rightarrow> string \<Rightarrow> string list res" where
  "splitAndTrim s sep = map_sum id (filter (\<lambda>p. p \<noteq> '''')) (splitString s sep)"

definition EnsureSubsetOf :: "string list \<Rightarrow> string list \<Rightarrow> bool \<times> string list" where
  "EnsureSubsetOf smallArray largeArray =
     (if length largeArray = 0 \<and> length smallArray > 0 then (False, smallArray)
      else if length smallArray = 0 then (True, [])
      else let missingEntries = filter (\<lambda>v. v \<notin> set largeArray) smallArray
           in (length missingEntries = 0, missingEntries))"

section \<open>Requests\<close>

record http_request =
  hr_Method :: string
  hr_Header :: "string \<Rightarrow> string"
  hr_Cookies :: "(string \<times> string) list"

abbreviation HeaderAuthRequestUser :: string where "HeaderAuthRequestUser \<equiv> ''X-Auth-Request-User''"
abbreviation HeaderAuthRequestGroups :: string where "HeaderAuthRequestGroups \<equiv> ''X-Auth-Request-Groups''"
abbreviation HeaderAuthRequestPreferredUsername :: string where
  "HeaderAuthRequestPreferredUsername \<equiv> ''X-Auth-Request-Preferred-Username''"
abbreviation HeaderAuthorization :: string where "HeaderAuthorization \<equiv> ''Authorization''"
abbreviation HeaderForwardedURI :: string where "HeaderForwardedURI \<equiv> ''X-Forwarded-Uri''"
abbreviation HeaderForwardedHost :: string where "HeaderForwardedHost \<equiv> ''X-Forwarded-Host''"
abbreviation OIDCAuthHeaderPrefix :: string where "OIDCAuthHeaderPrefix \<equiv> ''Bearer ''"
abbreviation SystemAuthenticatedGroup :: string where "SystemAuthenticatedGroup \<equiv> ''system:authenticated''"

definition GetForwardedHost :: "http_request \<Rightarrow> string res" where
  "GetForwardedHost r = (let host = hr_Header r HeaderForwardedHost in
     if host = '''' then Inl (Msg (''missing '' @ HeaderForwardedHost @ '' header'')) else Inr host)"

definition GetForwardedURI :: "http_request \<Rightarrow> string res" where
  "GetForwardedURI r = (let uri = hr_Header r HeaderForwardedURI in
     if uri = '''' then Inl (Msg (''missing '' @ HeaderForwardedURI @ '' header'')) else Inr uri)"

definition ExtractSubdomain :: "string \<Rightarrow> string" where
  "ExtractSubdomain host = (let parts = split_char CHR ''.'' host in if length parts > 0 then parts ! 0 else host)"

definition ExtractBearerToken :: "string \<Rightarrow> string res" where
  "ExtractBearerToken authHeader =
     (if authHeader = '''' then Inl (Msg ''authorization header is empty'')
      else if \<not> has_prefix authHeader OIDCAuthHeaderPrefix then Inl (Msg ''authorization header is not a bearer token'')
      else let token = trim_prefix authHeader OIDCAuthHeaderPrefix in
        if token = '''' then Inl (Msg ''bearer token is empty'') else Inr token)"

definition GetOidcUsername :: "string \<Rightarrow> string \<Rightarrow> string" where
  "GetOidcUsername oidcPrefix preferredUsername = (if preferredUsername \<noteq> '''' then oidcPrefix @ preferredUsername else '''')"

definition GetOidcGroups :: "string \<Rightarrow> string list \<Rightarrow> string list" where
  "GetOidcGroups oidcPrefix groups = (if length groups = 0 then []
     else map (\<lambda>g. if g = SystemAuthenticatedGroup then g else oidcPrefix @ g) groups)"

section \<open>Group lists\<close>

lemma rune_of_set:
  assumes "c \<in> set s"
  obtains r bs where "(r, bs) \<in> set (runes s)" "c \<in> set bs"
proof -
  have "c \<in> \<Union> (set ` snd ` set (runes s))"
    using assms concat_runes [of s] by (metis list.set_map set_concat)
  then show ?thesis
    using that by fastforce
qed

lemma containsSpecialChars_iff:
  assumes "valid_utf8 s"
  shows "containsSpecialChars s \<longleftrightarrow> (\<exists>c \<in> set s. byte c = 44 \<or> byte c = 32)"
proof
  assume "containsSpecialChars s"
  then obtain r bs where r: "(r, bs) \<in> set (runes s)" "r = 44 \<or> r = 32"
    by (auto simp: containsSpecialChars_def list_ex_iff)
  then obtain c where "bs = [c]" "byte c = r"
    using valid_runes [OF assms r(1)] by (auto simp: rune_bytes_def)
  moreover have "set bs \<subseteq> set s"
    using r(1) concat_runes [of s] by (metis (no_types, lifting) UN_upper image_eqI list.set_map set_concat snd_conv)
  ultimately show "\<exists>c \<in> set s. byte c = 44 \<or> byte c = 32"
    using r(2) by auto
next
  assume "\<exists>c \<in> set s. byte c = 44 \<or> byte c = 32"
  then obtain c where c: "c \<in> set s" "byte c = 44 \<or> byte c = 32"
    by blast
  then obtain r bs where r: "(r, bs) \<in> set (runes s)" "c \<in> set bs"
    using rune_of_set by blast
  then have "rune_bytes r bs"
    using valid_runes [OF assms] by blast
  then have "r = byte c"
    using r(2) c(2) by (fastforce simp: rune_bytes_def split: if_split_asm)
  then show "containsSpecialChars s"
    using r(1) c(2) by (force simp: containsSpecialChars_def list_ex_iff)
qed

lemma separator_byte: "byte c = 44 \<longleftrightarrow> c = CHR '',''" "byte c = 32 \<longleftrightarrow> c = CHR '' ''"
  using of_char_eq_iff [where 'a = nat, of c "CHR '',''"] of_char_eq_iff [where 'a = nat, of c "CHR '' ''"] by simp_all

text \<open>Tokens without separators and quotes, up to a comma or the end.\<close>

definition plain :: "string \<Rightarrow> bool" where
  "plain t \<longleftrightarrow> (\<forall>c \<in> set t. c \<noteq> CHR '','' \<and> c \<noteq> CHR '' '' \<and> c \<noteq> CHR 0x22)"

lemma plain_simps [simp]: "plain []" "plain (c # t) \<longleftrightarrow> c \<noteq> CHR '','' \<and> c \<noteq> CHR '' '' \<and> c \<noteq> CHR 0x22 \<and> plain t"
  by (auto simp: plain_def)

lemma split_groups_plain:
  assumes "plain t" and "current @ t \<noteq> []"
  shows "split_groups prev current t = [runes_text (current @ t)]"
    and "split_groups prev current (t @ CHR '','' # s) = runes_text (current @ t) # split_groups (Some CHR '','') [] s"
  using assms
proof (induction t arbitrary: prev current)
  case Nil
  {
    case 1
    then show ?case by simp
  next
    case 2
    then show ?case by (simp add: split_groups.simps)
  }
next
  case (Cons c t)
  {
    case 1
    then show ?case using Cons.IH(1) [of "current @ [c]" "Some c"] by (simp add: split_groups.simps)
  next
    case 2
    then show ?case using Cons.IH(2) [of "current @ [c]" "Some c"] by (simp add: split_groups.simps)
  }
qed

lemma split_groups_quoted:
  assumes "CHR 0x22 \<notin> set g" and "prev = None \<or> prev = Some CHR '',''"
  shows "split_groups prev [] ([CHR 0x22] @ g @ [CHR 0x22]) = [g]"
    and "split_groups prev [] ([CHR 0x22] @ g @ [CHR 0x22] @ CHR '','' # s) = g # split_groups (Some CHR '','') [] s"
proof -
  have "takeWhile (\<lambda>x. x \<noteq> CHR 0x22) (g @ CHR 0x22 # u) = g" "dropWhile (\<lambda>x. x \<noteq> CHR 0x22) (g @ CHR 0x22 # u) = CHR 0x22 # u" for u
    using assms(1) by (induction g) auto
  then show "split_groups prev [] ([CHR 0x22] @ g @ [CHR 0x22]) = [g]"
    "split_groups prev [] ([CHR 0x22] @ g @ [CHR 0x22] @ CHR '','' # s) = g # split_groups (Some CHR '','') [] s"
    using assms(2) by (auto simp: split_groups.simps)
qed

text \<open>Groups that can be listed: not empty, valid text without quotes, and ASCII unless they get quoted.\<close>

definition listable :: "string \<Rightarrow> bool" where
  "listable g \<longleftrightarrow> g \<noteq> '''' \<and> CHR 0x22 \<notin> set g \<and> valid_utf8 g \<and> (containsSpecialChars g \<or> list_all (\<lambda>c. byte c < 128) g)"

lemma split_groups_listable:
  assumes "listable g" and "prev = None \<or> prev = Some CHR '',''"
  shows "split_groups prev [] (quote_group g) = [g]"
    and "split_groups prev [] (quote_group g @ CHR '','' # s) = g # split_groups (Some CHR '','') [] s"
proof -
  have g: "g \<noteq> ''''" "CHR 0x22 \<notin> set g" "valid_utf8 g"
    using assms(1) by (simp_all add: listable_def)
  have p: "plain g" "runes_text g = g" if "\<not> containsSpecialChars g"
  proof -
    show "plain g"
      using that g(2) by (auto simp: containsSpecialChars_iff [OF g(3)] separator_byte plain_def)
    have "list_all (\<lambda>c. byte c < 128) g"
      using that assms(1) by (simp add: listable_def)
    then show "runes_text g = g"
      unfolding runes_text_def by (induction g) (auto simp: rune_of_byte_def)
  qed
  show "split_groups prev [] (quote_group g) = [g]"
    using p g split_groups_quoted(1) [OF g(2) assms(2)] split_groups_plain(1) [of g "[]" prev]
    by (cases "containsSpecialChars g") (simp_all add: quote_group_def)
  show "split_groups prev [] (quote_group g @ CHR '','' # s) = g # split_groups (Some CHR '','') [] s"
    using p g split_groups_quoted(2) [OF g(2) assms(2)] split_groups_plain(2) [of g "[]" prev]
    by (cases "containsSpecialChars g") (simp_all add: quote_group_def)
qed

lemma join_groups_tail: "join_groups (Suc i) gs r = r @ concat (map (\<lambda>g. '','' @ quote_group g) gs)"
  by (induction gs arbitrary: i r) auto

lemma split_joined:
  assumes "\<forall>h \<in> set (g # gs). listable h" and "prev = None \<or> prev = Some CHR '',''"
  shows "split_groups prev [] (quote_group g @ concat (map (\<lambda>g. '','' @ quote_group g) gs)) = g # gs"
  using assms
  by (induction gs arbitrary: g prev) (simp_all add: split_groups_listable)

text \<open>
  Group lists survive a header. Splitting the joined list of groups gives the groups back, for groups
  that are not empty, have no quotes and are ASCII, or contain a comma or a space.
\<close>

theorem groups_roundtrip:
  assumes "\<forall>g \<in> set gs. listable g"
  shows "splitGroups (JoinGroups gs) = gs"
proof (cases gs)
  case (Cons g rest)
  have "quote_group g \<noteq> ''''"
    using assms Cons by (simp add: quote_group_def listable_def)
  then show ?thesis
    using split_joined [of g rest None] assms Cons by (simp add: splitGroups_def JoinGroups_def join_groups_tail)
qed (simp add: splitGroups_def JoinGroups_def)

theorem groups_roundtrip_witness:
  "splitGroups (JoinGroups [''dev'', ''data science'']) = [''dev'', ''data science'']"
  by (rule groups_roundtrip) (simp add: listable_def containsSpecialChars_def valid_utf8_def invalid_rune_def ascii_runes)

text \<open>Outside ASCII an unquoted group is mangled: its bytes come back as one rune each.\<close>

lemma groups_mangled:
  "splitGroups (JoinGroups [[char_of (195::nat), char_of (169::nat)]]) \<noteq> [[char_of (195::nat), char_of (169::nat)]]"
proof -
  have "runes [char_of (195::nat), char_of (169::nat)] = [(233, [char_of (195::nat), char_of (169::nat)])]"
    by (simp add: runes.simps decode_rune_def within_def)
  then show ?thesis
    by (simp add: splitGroups_def JoinGroups_def quote_group_def containsSpecialChars_def split_groups.simps
        runes_text_def rune_of_byte_def char_of_is)
qed

section \<open>Subsets\<close>

text \<open>The subset test is exact, and it names what is missing.\<close>

lemma EnsureSubsetOf_iff:
  "fst (EnsureSubsetOf small large) \<longleftrightarrow> set small \<subseteq> set large"
  "set (snd (EnsureSubsetOf small large)) = set small - set large"
  by (auto simp: EnsureSubsetOf_def Let_def filter_empty_conv)

end
