(* ===== verification/Encoding.thy ===== *)
theory Encoding
  imports GoText
begin

text \<open>
  Namespaces in host names (\<open>internal/workspace/encoding.go\<close>): base32 of RFC 4648 without padding, in
  lower case. The coding of \<open>encoding/base32\<close> is modelled on bytes as numbers below 256: groups of five
  bytes become eight symbols, and a shorter last group becomes two, four, five or seven.
\<close>

section \<open>Symbols\<close>

abbreviation b32_alphabet :: string where
  "b32_alphabet \<equiv> ''ABCDEFGHIJKLMNOPQRSTUVWXYZ234567''"

definition b32_symbol :: "nat \<Rightarrow> char" where
  "b32_symbol v = (if v < 26 then char_of (v + 65) else char_of (v + 24))"

text \<open>The reverse table: no value for a byte outside the alphabet.\<close>

definition b32_value :: "char \<Rightarrow> nat option" where
  "b32_value c = (if 65 \<le> byte c \<and> byte c \<le> 90 then Some (byte c - 65)
     else if 50 \<le> byte c \<and> byte c \<le> 55 then Some (byte c - 24) else None)"

section \<open>Groups\<close>

fun encode_group :: "nat list \<Rightarrow> nat list" where
  "encode_group [a] = [a div 8, (a mod 8) * 4]"
| "encode_group [a, b] = [a div 8, (a mod 8) * 4 + b div 64, b div 2 mod 32, (b mod 2) * 16]"
| "encode_group [a, b, c] = [a div 8, (a mod 8) * 4 + b div 64, b div 2 mod 32, (b mod 2) * 16 + c div 16, (c mod 16) * 2]"
| "encode_group [a, b, c, d] = [a div 8, (a mod 8) * 4 + b div 64, b div 2 mod 32, (b mod 2) * 16 + c div 16,
     (c mod 16) * 2 + d div 128, d div 4 mod 32, (d mod 4) * 8]"
| "encode_group [a, b, c, d, e] = [a div 8, (a mod 8) * 4 + b div 64, b div 2 mod 32, (b mod 2) * 16 + c div 16,
     (c mod 16) * 2 + d div 128, d div 4 mod 32, (d mod 4) * 8 + e div 32, e mod 32]"
| "encode_group _ = []"

text \<open>
  Decoding a group packs the bytes its symbols determine; a packed byte is the low eight bits of the
  shifted values. A last group of one, three or six symbols, which no encoding produces, falls in no
  case of the package's switch and yields no byte.
\<close>

definition pack0 :: "nat \<Rightarrow> nat \<Rightarrow> nat" where "pack0 u v = (u * 8 + v div 4) mod 256"
definition pack1 :: "nat \<Rightarrow> nat \<Rightarrow> nat \<Rightarrow> nat" where "pack1 u v w = (u * 64 + v * 2 + w div 16) mod 256"
definition pack2 :: "nat \<Rightarrow> nat \<Rightarrow> nat" where "pack2 u v = (u * 16 + v div 2) mod 256"
definition pack3 :: "nat \<Rightarrow> nat \<Rightarrow> nat \<Rightarrow> nat" where "pack3 u v w = (u * 128 + v * 4 + w div 8) mod 256"
definition pack4 :: "nat \<Rightarrow> nat \<Rightarrow> nat" where "pack4 u v = (u * 32 + v) mod 256"

fun decode_group :: "nat list \<Rightarrow> nat list" where
  "decode_group [v0, v1] = [pack0 v0 v1]"
| "decode_group [v0, v1, v2, v3] = [pack0 v0 v1, pack1 v1 v2 v3]"
| "decode_group [v0, v1, v2, v3, v4] = [pack0 v0 v1, pack1 v1 v2 v3, pack2 v3 v4]"
| "decode_group [v0, v1, v2, v3, v4, v5, v6] = [pack0 v0 v1, pack1 v1 v2 v3, pack2 v3 v4, pack3 v4 v5 v6]"
| "decode_group [v0, v1, v2, v3, v4, v5, v6, v7] =
     [pack0 v0 v1, pack1 v1 v2 v3, pack2 v3 v4, pack3 v4 v5 v6, pack4 v6 v7]"
| "decode_group _ = []"

section \<open>Strings\<close>

function encode_bytes :: "nat list \<Rightarrow> nat list" where
  "encode_bytes bs = (if length bs \<le> 5 then encode_group bs
     else encode_group (take 5 bs) @ encode_bytes (drop 5 bs))"
  by auto
termination by (relation "measure length") auto

function decode_values :: "nat list \<Rightarrow> nat list" where
  "decode_values vs = (if length vs \<le> 8 then decode_group vs
     else decode_group (take 8 vs) @ decode_values (drop 8 vs))"
  by auto
termination by (relation "measure length") auto

declare encode_bytes.simps [simp del] decode_values.simps [simp del]

definition b32_encode :: "string \<Rightarrow> string" where
  "b32_encode s = map b32_symbol (encode_bytes (map byte s))"

text \<open>The first byte outside the alphabet is reported with its position.\<close>

fun b32_values :: "nat \<Rightarrow> string \<Rightarrow> nat list res" where
  "b32_values i [] = Inr []"
| "b32_values i (c # s) = (case b32_value c of
     None \<Rightarrow> Inl (Msg (''illegal base32 data at input byte '' @ int_text (int i)))
   | Some v \<Rightarrow> (case b32_values (Suc i) s of Inl e \<Rightarrow> Inl e | Inr vs \<Rightarrow> Inr (v # vs)))"

text \<open>Line breaks are skipped before decoding.\<close>

definition b32_decode :: "string \<Rightarrow> string res" where
  "b32_decode s = (case b32_values 0 (filter (\<lambda>c. byte c \<noteq> 13 \<and> byte c \<noteq> 10) s) of
     Inl e \<Rightarrow> Inl e | Inr vs \<Rightarrow> Inr (map char_of (decode_values vs)))"

definition EncodeNamespaceB32 :: "string \<Rightarrow> string" where
  "EncodeNamespaceB32 ns = to_lower (b32_encode ns)"

definition DecodeNamespaceB32 :: "string \<Rightarrow> string res" where
  "DecodeNamespaceB32 encoded = b32_decode (ToUpper encoded)"

section \<open>Round trip\<close>

lemma group_cases:
  assumes "bs \<noteq> []" and "length bs \<le> 5"
  obtains a where "bs = [a]" | a b where "bs = [a, b]" | a b c where "bs = [a, b, c]"
    | a b c d where "bs = [a, b, c, d]" | a b c d e where "bs = [a, b, c, d, e]"
proof -
  have "\<exists>a xs. bs = a # xs \<and> length xs \<le> 4"
    using assms by (cases bs) auto
  then show thesis
    using that by (auto simp: le_Suc_eq numeral_eq_Suc length_Suc_conv)
qed

text \<open>Each byte is recovered from the symbols that share its bits.\<close>

lemma pack_div: "y < k \<Longrightarrow> (x * k + y) div k = (x :: nat)"
  by simp

lemma drop_high: "y < 256 \<Longrightarrow> (x * 256 + y) mod 256 = (y :: nat)"
  by (metis mod_less mod_mult_self3)

lemma unpack0:
  assumes "a < 256" and "y < 4"
  shows "pack0 (a div 8) (a mod 8 * 4 + y) = a"
proof -
  have "(a mod 8 * 4 + y) div 4 = a mod 8"
    using assms(2) by (rule pack_div)
  then show ?thesis
    using assms(1) by (simp add: pack0_def)
qed

lemma unpack1:
  assumes "b < 256" and "y < 16"
  shows "pack1 (x * 4 + b div 64) (b div 2 mod 32) (b mod 2 * 16 + y) = b"
proof -
  have "(b mod 2 * 16 + y) div 16 = b mod 2"
    using assms(2) by (rule pack_div)
  moreover have "b div 64 * 64 + (b div 2 mod 32 * 2 + b mod 2) = b"
    using mod_mult2_eq [of b 2 32] div_mult_mod_eq [of b 64] by simp
  then have "(x * 4 + b div 64) * 64 + b div 2 mod 32 * 2 + b mod 2 = x * 256 + b"
    by (simp add: distrib_right)
  ultimately show ?thesis
    unfolding pack1_def using drop_high [OF assms(1)] by metis
qed

lemma unpack2:
  assumes "c < 256" and "y < 2"
  shows "pack2 (x * 16 + c div 16) (c mod 16 * 2 + y) = c"
proof -
  have "(c mod 16 * 2 + y) div 2 = c mod 16"
    using assms(2) by (rule pack_div)
  moreover have "(x * 16 + c div 16) * 16 + c mod 16 = x * 256 + c"
    using div_mult_mod_eq [of c 16] by (simp add: distrib_right)
  ultimately show ?thesis
    unfolding pack2_def using drop_high [OF assms(1)] by metis
qed

lemma unpack3:
  assumes "d < 256" and "y < 8"
  shows "pack3 (x * 2 + d div 128) (d div 4 mod 32) (d mod 4 * 8 + y) = d"
proof -
  have "(d mod 4 * 8 + y) div 8 = d mod 4"
    using assms(2) by (rule pack_div)
  moreover have "d div 128 * 128 + (d div 4 mod 32 * 4 + d mod 4) = d"
    using mod_mult2_eq [of d 4 32] div_mult_mod_eq [of d 128] by simp
  then have "(x * 2 + d div 128) * 128 + d div 4 mod 32 * 4 + d mod 4 = x * 256 + d"
    by (simp add: distrib_right)
  ultimately show ?thesis
    unfolding pack3_def using drop_high [OF assms(1)] by metis
qed

lemma unpack4:
  assumes "e < 256"
  shows "pack4 (x * 8 + e div 32) (e mod 32) = e"
proof -
  have "(x * 8 + e div 32) * 32 + e mod 32 = x * 256 + e"
    using div_mult_mod_eq [of e 32] by (simp add: distrib_right)
  then show ?thesis
    unfolding pack4_def using drop_high [OF assms] by metis
qed

lemmas unpack = unpack0 unpack1 unpack2 unpack3 unpack4
  unpack0 [where y = 0, simplified add_0_right] unpack1 [where y = 0, simplified add_0_right]
  unpack2 [where y = 0, simplified add_0_right] unpack3 [where y = 0, simplified add_0_right]

lemma top_bits: "b < 256 \<Longrightarrow> b div 64 < (4::nat)" "b < 256 \<Longrightarrow> b div 16 < (16::nat)"
    "b < 256 \<Longrightarrow> b div 128 < (2::nat)" "b < 256 \<Longrightarrow> b div 32 < (8::nat)"
  by auto

lemma group_roundtrip:
  assumes "length bs \<le> 5" and "\<forall>b \<in> set bs. b < 256"
  shows "decode_group (encode_group bs) = bs"
proof (cases "bs = []")
  case False
  then show ?thesis
    using assms(1) by (rule group_cases) (use assms(2) in \<open>simp_all add: unpack top_bits\<close>)
qed simp

lemma group_values:
  assumes "length bs \<le> 5" and "\<forall>b \<in> set bs. b < 256"
  shows "\<forall>v \<in> set (encode_group bs). v < 32"
proof (cases "bs = []")
  case False
  then show ?thesis
    using assms(1) by (rule group_cases) (use assms(2) in \<open>auto\<close>)
qed simp

lemma full_group: "length bs = 5 \<Longrightarrow> length (encode_group bs) = 8"
  by (cases bs rule: encode_group.cases) auto

lemma short_group: "length bs \<le> 5 \<Longrightarrow> length (encode_group bs) \<le> 8"
  by (cases bs rule: encode_group.cases) auto

lemma values_bounded: "\<forall>b \<in> set bs. b < 256 \<Longrightarrow> \<forall>v \<in> set (encode_bytes bs). v < 32"
proof (induction bs rule: encode_bytes.induct)
  case (1 bs)
  show ?case
  proof (cases "length bs \<le> 5")
    case True
    then show ?thesis
      using group_values 1(2) by (simp add: encode_bytes.simps [of bs])
  next
    case False
    have "\<forall>b \<in> set (take 5 bs). b < 256" "\<forall>b \<in> set (drop 5 bs). b < 256"
      using 1(2) by (auto dest: in_set_takeD in_set_dropD)
    then show ?thesis
      using False 1(1) group_values [of "take 5 bs"] by (auto simp: encode_bytes.simps [of bs])
  qed
qed

lemma decode_encode_bytes: "\<forall>b \<in> set bs. b < 256 \<Longrightarrow> decode_values (encode_bytes bs) = bs"
proof (induction bs rule: encode_bytes.induct)
  case (1 bs)
  show ?case
  proof (cases "length bs \<le> 5")
    case True
    then show ?thesis
      using group_roundtrip short_group 1(2) by (simp add: encode_bytes.simps [of bs] decode_values.simps)
  next
    case False
    have b: "\<forall>b \<in> set (take 5 bs). b < 256" "\<forall>b \<in> set (drop 5 bs). b < 256"
      using 1(2) by (auto dest: in_set_takeD in_set_dropD)
    have "encode_bytes (drop 5 bs) \<noteq> []"
    proof
      assume "encode_bytes (drop 5 bs) = []"
      then have "drop 5 bs = []"
        using 1(1) [OF False b(2)] by (simp add: decode_values.simps)
      then show False
        using False by simp
    qed
    then show ?thesis
      using False 1(1) [OF False b(2)] group_roundtrip [OF _ b(1)] full_group [of "take 5 bs"]
      by (simp add: encode_bytes.simps [of bs] decode_values.simps [of "encode_group _ @ _"])
  qed
qed

lemma symbol_byte: "v < 32 \<Longrightarrow> byte (b32_symbol v) = (if v < 26 then v + 65 else v + 24)"
  by (simp add: b32_symbol_def)

lemma lower_symbol: "v < 32 \<Longrightarrow> byte (lower_char (b32_symbol v)) = (if v < 26 then v + 97 else v + 24)"
  by (simp add: lower_char_def Let_def symbol_byte)

lemma upper_lower_symbol: "v < 32 \<Longrightarrow> upper_char (lower_char (b32_symbol v)) = b32_symbol v"
  by (auto simp: upper_char_def Let_def lower_symbol) (simp_all add: b32_symbol_def lower_char_def Let_def)

lemma b32_values_symbols: "\<forall>v \<in> set vs. v < 32 \<Longrightarrow> b32_values i (map b32_symbol vs) = Inr vs"
  by (induction vs arbitrary: i) (auto simp: b32_value_def symbol_byte)

section \<open>Properties\<close>

text \<open>
  C25. A namespace survives its trip through a host name. Decoding the encoding of any namespace gives it
  back; the encoding consists of lower-case letters and the digits two to seven only, so that its
  characters are valid in a host name (its length is not bounded by the code) and it never contains the dash that separates it from the workspace name; hence
  different namespaces have different encodings.
\<close>

theorem namespace_roundtrip:
  "DecodeNamespaceB32 (EncodeNamespaceB32 ns) = Inr ns \<and>
   list_all (\<lambda>c. (97 \<le> byte c \<and> byte c \<le> 122) \<or> (50 \<le> byte c \<and> byte c \<le> 55)) (EncodeNamespaceB32 ns) \<and>
   inj EncodeNamespaceB32"
proof -
  have trip: "DecodeNamespaceB32 (EncodeNamespaceB32 s) = Inr s \<and>
    (\<forall>c \<in> set (EncodeNamespaceB32 s). (97 \<le> byte c \<and> byte c \<le> 122) \<or> (50 \<le> byte c \<and> byte c \<le> 55))" for s
  proof -
    define vs where "vs = encode_bytes (map byte s)"
    have v: "\<forall>v \<in> set vs. v < 32" "decode_values vs = map byte s"
      unfolding vs_def using values_bounded [of "map byte s"] decode_encode_bytes [of "map byte s"] by simp_all
    have enc: "EncodeNamespaceB32 s = map (\<lambda>v. lower_char (b32_symbol v)) vs"
      by (simp add: EncodeNamespaceB32_def b32_encode_def to_lower_def vs_def)
    have sym: "\<forall>c \<in> set (EncodeNamespaceB32 s). (97 \<le> byte c \<and> byte c \<le> 122) \<or> (50 \<le> byte c \<and> byte c \<le> 55)"
      using v(1) by (auto simp: enc lower_symbol)
    then have "\<forall>c \<in> set (EncodeNamespaceB32 s). byte c < 128"
      by fastforce
    then have "ToUpper (EncodeNamespaceB32 s) = map b32_symbol vs"
      using v(1) by (simp add: ToUpper_ascii enc upper_lower_symbol)
    moreover have "filter (\<lambda>c. byte c \<noteq> 13 \<and> byte c \<noteq> 10) (map b32_symbol vs) = map b32_symbol vs"
      using v(1) by (auto simp: filter_id_conv symbol_byte)
    ultimately have "DecodeNamespaceB32 (EncodeNamespaceB32 s) = Inr (map char_of (map byte s))"
      using v by (simp add: DecodeNamespaceB32_def b32_decode_def b32_values_symbols del: map_map)
    then show ?thesis
      using sym by (simp add: map_idI)
  qed
  then have "inj EncodeNamespaceB32"
    by (intro injI) (metis sum.inject(2))
  then show ?thesis
    using trip by (simp add: list_all_iff)
qed

end
