(* ===== verification/Jwt.thy ===== *)
theory Jwt
  imports AuthWorld GoText
begin

text \<open>
  Session tokens (\<open>internal/jwt\<close>): the interface \<open>Signer\<close> (\<open>signer.go\<close>), the signer with a shared secret
  (\<open>standard_signer.go\<close>) and the manager that decides about refreshing (\<open>handler.go\<close>).

  The locale \<open>token_signer\<close> is the contract of the interface \<open>Signer\<close> on which the manager relies: a token is
  issued for claims that carry the arguments of the call. The standard signer is interpreted here, the KMS
  signer in the theory that models it. What the code relies on of the token package is stated by
  \<open>date_law\<close>, \<open>parse_signed\<close> and \<open>parse_sound\<close>, the hypotheses of the properties.
\<close>

section \<open>Signers\<close>

text \<open>The seven arguments of \<open>GenerateToken\<close>.\<close>

record token_args =
  ta_user :: string
  ta_groups :: "string list"
  ta_uid :: string
  ta_extra :: "string \<rightharpoonup> string list"
  ta_path :: string
  ta_domain :: string
  ta_tokenType :: string

record signer =
  sn_GenerateToken :: "token_args \<Rightarrow> (string res) auth_io"
  sn_ValidateToken :: "string \<Rightarrow> (claims res) auth_io"

abbreviation ErrInvalidToken :: goerr where "ErrInvalidToken \<equiv> Msg ''invalid token''"
abbreviation ErrTokenExpired :: goerr where "ErrTokenExpired \<equiv> Msg ''token expired''"
abbreviation ErrInvalidSignature :: goerr where "ErrInvalidSignature \<equiv> Msg ''invalid token signature''"

text \<open>The claims both signers build from the arguments, at an instant.\<close>

definition make_claims :: "jwt_lib \<Rightarrow> string \<Rightarrow> string \<Rightarrow> int \<Rightarrow> int \<Rightarrow> token_args \<Rightarrow> claims" where
  "make_claims j issuer audience expiration t a = \<lparr>
     c_ExpiresAt = Some (j_date j (t + expiration)), c_IssuedAt = Some (j_date j t), c_NotBefore = Some (j_date j t),
     c_Issuer = issuer, c_Audience = [audience], c_Subject = ta_user a,
     c_User = ta_user a, c_Groups = ta_groups a, c_UID = ta_uid a, c_Extra = ta_extra a,
     c_Path = ta_path a, c_Domain = ta_domain a, c_TokenType = ta_tokenType a, c_SkipRefresh = False\<rparr>"

section \<open>The standard signer\<close>

record standard_signer =
  sg_signingKey :: string
  sg_issuer :: string
  sg_audience :: string
  sg_expiration :: int

definition NewStandardSigner :: "string \<Rightarrow> string \<Rightarrow> string \<Rightarrow> int \<Rightarrow> standard_signer" where
  "NewStandardSigner signingKey issuer audience expiration =
     \<lparr>sg_signingKey = signingKey, sg_issuer = issuer, sg_audience = audience, sg_expiration = expiration\<rparr>"

definition std_GenerateToken :: "auth_env \<Rightarrow> standard_signer \<Rightarrow> token_args \<Rightarrow> (string res) auth_io" where
  "std_GenerateToken e s a = do {
     t \<leftarrow> now e;
     State_Monad.return (j_sign (e_jwt e) \<lparr>hd_alg = HS256, hd_edk = None\<rparr>
       (make_claims (e_jwt e) (sg_issuer s) (sg_audience s) (sg_expiration s) t a) (sg_signingKey s))
   }"

definition std_opts :: "standard_signer \<Rightarrow> jwt_opts" where
  "std_opts s = \<lparr>op_issuer = Some (sg_issuer s), op_audience = Some (sg_audience s), op_methods = Some [''HS256''],
     op_leeway = 5000000000\<rparr>"

definition std_key :: "standard_signer \<Rightarrow> jwt_header \<Rightarrow> string res" where
  "std_key s h = (if \<not> is_hmac (hd_alg h) then Inl (Msg (''unexpected signing method: '' @ alg_name (hd_alg h)))
     else Inr (sg_signingKey s))"

definition std_error :: "jwt_err \<Rightarrow> goerr" where
  "std_error err = (if je_expired err then ErrTokenExpired
     else if je_signature err then ErrInvalidSignature
     else Wrap ''invalid token'' (je_err err))"

text \<open>The claims object handed to the parser has the type \<open>*Claims\<close>, so the last type assertion succeeds.\<close>

definition std_ValidateToken :: "auth_env \<Rightarrow> standard_signer \<Rightarrow> string \<Rightarrow> (claims res) auth_io" where
  "std_ValidateToken e s tokenString = (case j_parse (e_jwt e) (std_opts s) tokenString of
     Inl err \<Rightarrow> State_Monad.return (Inl (std_error err))
   | Inr (h, resume) \<Rightarrow> do {
       t \<leftarrow> now e;
       State_Monad.return (case resume (std_key s h) t of
           Inl err \<Rightarrow> Inl (std_error err)
         | Inr (valid, claims) \<Rightarrow> if \<not> valid then Inl ErrInvalidToken else Inr claims)
     })"

definition StandardSigner :: "auth_env \<Rightarrow> standard_signer \<Rightarrow> signer" where
  "StandardSigner e s = \<lparr>sn_GenerateToken = std_GenerateToken e s, sn_ValidateToken = std_ValidateToken e s\<rparr>"

section \<open>The manager\<close>

record manager =
  mg_signer :: signer
  mg_enableRefresh :: bool
  mg_refreshWindow :: int
  mg_refreshHorizon :: int

definition NewManager :: "signer \<Rightarrow> bool \<Rightarrow> int \<Rightarrow> int \<Rightarrow> manager" where
  "NewManager signer enableRefresh refreshWindow refreshHorizon = \<lparr>mg_signer = signer,
     mg_enableRefresh = enableRefresh, mg_refreshWindow = refreshWindow, mg_refreshHorizon = refreshHorizon\<rparr>"

definition GenerateToken :: "manager \<Rightarrow> token_args \<Rightarrow> (string res) auth_io" where
  "GenerateToken m a = sn_GenerateToken (mg_signer m) a"

definition ValidateToken :: "manager \<Rightarrow> string \<Rightarrow> (claims res) auth_io" where
  "ValidateToken m tokenString = sn_ValidateToken (mg_signer m) tokenString"

text \<open>The arguments that issue a token with the claims of another.\<close>

definition args_of :: "claims \<Rightarrow> token_args" where
  "args_of c = \<lparr>ta_user = c_User c, ta_groups = c_Groups c, ta_uid = c_UID c, ta_extra = c_Extra c,
     ta_path = c_Path c, ta_domain = c_Domain c, ta_tokenType = c_TokenType c\<rparr>"

definition RefreshToken :: "manager \<Rightarrow> claims option \<Rightarrow> (string res) auth_io" where
  "RefreshToken m claims = (case claims of
     None \<Rightarrow> State_Monad.return (Inl (Msg ''claims cannot be nil''))
   | Some c \<Rightarrow> sn_GenerateToken (mg_signer m) (args_of c))"

text \<open>The claims are updated in place, so they are part of the result.\<close>

definition UpdateSkipRefreshToken :: "manager \<Rightarrow> claims option \<Rightarrow> (string res \<times> claims option) auth_io" where
  "UpdateSkipRefreshToken m claims = (case claims of
     None \<Rightarrow> State_Monad.return (Inl (Msg ''claims cannot be nil''), None)
   | Some c0 \<Rightarrow> do {
       let c = c0\<lparr>c_SkipRefresh := True\<rparr>;
       r \<leftarrow> sn_GenerateToken (mg_signer m) (args_of c);
       State_Monad.return (r, Some c)
     })"

definition ShouldRefreshToken :: "auth_env \<Rightarrow> manager \<Rightarrow> claims option \<Rightarrow> bool auth_io" where
  "ShouldRefreshToken e m claims =
     (if \<not> mg_enableRefresh m then State_Monad.return False
      else case claims of
        None \<Rightarrow> State_Monad.return False
      | Some c \<Rightarrow> (case (c_ExpiresAt c, c_IssuedAt c) of
          (Some expiryTime, Some originalIssueTime) \<Rightarrow>
            if c_SkipRefresh c then State_Monad.return False
            else do {
              t \<leftarrow> now e;
              let remainingTime = since expiryTime t;
              State_Monad.return (
                if remainingTime \<le> 0 then False
                else if remainingTime > mg_refreshWindow m then False
                else since t originalIssueTime < mg_refreshHorizon m)
            }
        | _ \<Rightarrow> State_Monad.return False))"

section \<open>The token package\<close>

text \<open>Dates are truncated to seconds.\<close>

definition date_law :: "jwt_lib \<Rightarrow> bool" where
  "date_law j \<longleftrightarrow> (\<forall>t. j_date j t = t - t mod 1000000000)"

text \<open>What validation checks of the claims at an instant, by the options.\<close>

definition time_ok :: "jwt_opts \<Rightarrow> int \<Rightarrow> claims \<Rightarrow> bool" where
  "time_ok opts t c \<longleftrightarrow>
     (case c_ExpiresAt c of None \<Rightarrow> True | Some x \<Rightarrow> t < x + op_leeway opts) \<and>
     (case c_NotBefore c of None \<Rightarrow> True | Some x \<Rightarrow> x - op_leeway opts \<le> t)"

definition claims_ok :: "jwt_opts \<Rightarrow> int \<Rightarrow> claims \<Rightarrow> bool" where
  "claims_ok opts t c \<longleftrightarrow> time_ok opts t c \<and>
     (case op_issuer opts of None \<Rightarrow> True | Some i \<Rightarrow> c_Issuer c = i) \<and>
     (case op_audience opts of None \<Rightarrow> True | Some a \<Rightarrow> a \<in> set (c_Audience c))"

definition method_ok :: "jwt_opts \<Rightarrow> jwt_header \<Rightarrow> bool" where
  "method_ok opts h \<longleftrightarrow> (case op_methods opts of None \<Rightarrow> True | Some ms \<Rightarrow> alg_name (hd_alg h) \<in> set ms)"

text \<open>JSON keeps strings that are valid UTF-8.\<close>

definition claims_text :: "claims \<Rightarrow> bool" where
  "claims_text c \<longleftrightarrow> list_all valid_utf8
     (c_Issuer c # c_Subject c # c_User c # c_UID c # c_Path c # c_Domain c # c_TokenType c # c_Audience c @ c_Groups c) \<and>
     (\<forall>k v. c_Extra c k = Some v \<longrightarrow> valid_utf8 k \<and> list_all valid_utf8 v)"

text \<open>A signed token parses to its header and, with the signing key, to its claims, if they pass the checks.\<close>

definition parse_signed :: "jwt_lib \<Rightarrow> bool" where
  "parse_signed j \<longleftrightarrow> (\<forall>h c key tok opts. j_sign j h c key = Inr tok \<longrightarrow> claims_text c \<longrightarrow> method_ok opts h \<longrightarrow>
     (\<exists>resume. j_parse j opts tok = Inr (h, resume) \<and>
        (\<forall>t. claims_ok opts t c \<longrightarrow> resume (Inr key) t = Inr (True, c))))"

text \<open>What is accepted passed the checks and has a key.\<close>

definition parse_sound :: "jwt_lib \<Rightarrow> bool" where
  "parse_sound j \<longleftrightarrow> (\<forall>opts tok h resume a t v c. j_parse j opts tok = Inr (h, resume) \<longrightarrow> resume a t = Inr (v, c) \<longrightarrow>
     v \<and> method_ok opts h \<and> claims_ok opts t c \<and> (\<exists>key. a = Inr key))"

section \<open>The contract of signers\<close>

text \<open>The claims carry the arguments, and the signers never ask to skip a refresh.\<close>

lemma make_claims_args [simp]:
  "args_of (make_claims j i au x t a) = a" "\<not> c_SkipRefresh (make_claims j i au x t a)"
  "c_IssuedAt (make_claims j i au x t a) = Some (j_date j t)"
  "c_ExpiresAt (make_claims j i au x t a) = Some (j_date j (t + x))"
  "c_NotBefore (make_claims j i au x t a) = Some (j_date j t)"
  "c_Issuer (make_claims j i au x t a) = i" "c_Audience (make_claims j i au x t a) = [au]"
  "c_Subject (make_claims j i au x t a) = ta_user a"
  by (simp_all add: make_claims_def args_of_def)

lemma args_of_skip [simp]: "args_of (c\<lparr>c_SkipRefresh := b\<rparr>) = args_of c"
  by (simp add: args_of_def)

text \<open>The claims behind a token: some header and key sign them to it.\<close>

definition token_of :: "jwt_lib \<Rightarrow> claims \<Rightarrow> string \<Rightarrow> bool" where
  "token_of j c tok \<longleftrightarrow> (\<exists>h key. j_sign j h c key = Inr tok)"

locale token_signer =
  fixes e :: auth_env and sg :: signer and issuer :: string and audience :: string and expiration :: int
  assumes issues: "run_state (sn_GenerateToken sg a) s = (Inr tok, s') \<Longrightarrow>
      token_of (e_jwt e) (make_claims (e_jwt e) issuer audience expiration (e_now e (at_ticks s)) a) tok"
begin

lemma RefreshToken_issues:
  assumes "run_state (RefreshToken (NewManager sg b w z) (Some c)) s = (Inr tok, s')"
  shows "token_of (e_jwt e) (make_claims (e_jwt e) issuer audience expiration (e_now e (at_ticks s)) (args_of c)) tok"
  using assms issues by (simp add: RefreshToken_def NewManager_def)

text \<open>The token that should say to skip refreshing is an ordinary refreshed token.\<close>

lemma UpdateSkipRefreshToken_issues:
  assumes "run_state (UpdateSkipRefreshToken (NewManager sg b w z) (Some c)) s = ((Inr tok, c'), s')"
  shows "token_of (e_jwt e) (make_claims (e_jwt e) issuer audience expiration (e_now e (at_ticks s)) (args_of c)) tok"
  using assms issues by (auto simp: UpdateSkipRefreshToken_def NewManager_def split: prod.splits)

end

interpretation standard: token_signer e "StandardSigner e s" "sg_issuer s" "sg_audience s" "sg_expiration s"
  for e :: auth_env and s :: standard_signer
  by unfold_locales (auto simp: StandardSigner_def std_GenerateToken_def token_of_def)

section \<open>Tokens of the standard signer\<close>

lemma std_claims_ok:
  "claims_ok (std_opts s) t c \<longleftrightarrow> c_Issuer c = sg_issuer s \<and> sg_audience s \<in> set (c_Audience c) \<and>
     (\<forall>x. c_ExpiresAt c = Some x \<longrightarrow> t < x + 5000000000) \<and> (\<forall>x. c_NotBefore c = Some x \<longrightarrow> x - 5000000000 \<le> t)"
  by (auto simp: claims_ok_def time_ok_def std_opts_def split: option.splits)

lemma std_accepts:
  assumes "parse_signed (e_jwt e)" and "j_sign (e_jwt e) \<lparr>hd_alg = HS256, hd_edk = None\<rparr> c (sg_signingKey s) = Inr tok"
    and "claims_text c" and "claims_ok (std_opts s) (e_now e (at_ticks st)) c"
  shows "fst (run_state (std_ValidateToken e s tok) st) = Inr c"
proof -
  have "method_ok (std_opts s) \<lparr>hd_alg = HS256, hd_edk = None\<rparr>"
    by (simp add: method_ok_def std_opts_def)
  then obtain resume where "j_parse (e_jwt e) (std_opts s) tok = Inr (\<lparr>hd_alg = HS256, hd_edk = None\<rparr>, resume)"
    "\<forall>t. claims_ok (std_opts s) t c \<longrightarrow> resume (Inr (sg_signingKey s)) t = Inr (True, c)"
    using assms(1-3) unfolding parse_signed_def by metis
  then show ?thesis
    using assms(4) by (simp add: std_ValidateToken_def std_key_def)
qed

lemma std_accepted:
  assumes "parse_sound (e_jwt e)" and "fst (run_state (std_ValidateToken e s tok) st) = Inr c"
  shows "claims_ok (std_opts s) (e_now e (at_ticks st)) c"
proof -
  obtain h resume where p: "j_parse (e_jwt e) (std_opts s) tok = Inr (h, resume)"
    "resume (std_key s h) (e_now e (at_ticks st)) = Inr (True, c)"
    using assms(2) by (auto simp: std_ValidateToken_def split: sum.splits prod.splits if_split_asm)
  then show ?thesis
    using assms(1) unfolding parse_sound_def by blast
qed

text \<open>
  C30. Tokens of the standard signer. A token it issues is accepted by every signer with the same key,
  issuer and audience from five seconds before its issue until four seconds after its lifetime, with
  exactly the claims it was issued for; and whatever a signer accepts names its issuer and audience and
  has not been expired for five seconds (expiry dates are cut to seconds).
\<close>

theorem standard_token_validity:
  assumes lib: "date_law (e_jwt e)" "parse_signed (e_jwt e)" "parse_sound (e_jwt e)"
    and issued: "fst (run_state (std_GenerateToken e s a) st) = Inr tok"
    and strings: "list_all valid_utf8 (sg_issuer s # sg_audience s # ta_user a # ta_uid a # ta_path a # ta_domain a #
        ta_tokenType a # ta_groups a)" "\<forall>k v. ta_extra a k = Some v \<longrightarrow> valid_utf8 k \<and> list_all valid_utf8 v"
  defines "t \<equiv> e_now e (at_ticks st)"
  shows "(t - 5000000000 \<le> e_now e (at_ticks st') \<and> e_now e (at_ticks st') < t + sg_expiration s + 4000000000 \<longrightarrow>
      fst (run_state (std_ValidateToken e s tok) st') =
        Inr (make_claims (e_jwt e) (sg_issuer s) (sg_audience s) (sg_expiration s) t a)) \<and>
    (\<forall>tok' c. fst (run_state (std_ValidateToken e s tok') st') = Inr c \<longrightarrow>
      c_Issuer c = sg_issuer s \<and> sg_audience s \<in> set (c_Audience c) \<and>
      (\<forall>x. c_ExpiresAt c = Some x \<longrightarrow> e_now e (at_ticks st') < x + 5000000000))"
proof -
  define c where "c = make_claims (e_jwt e) (sg_issuer s) (sg_audience s) (sg_expiration s) t a"
  have sig: "j_sign (e_jwt e) \<lparr>hd_alg = HS256, hd_edk = None\<rparr> c (sg_signingKey s) = Inr tok"
    using issued by (simp add: std_GenerateToken_def c_def t_def)
  have utf8: "claims_text c"
    using strings by (simp add: claims_text_def c_def make_claims_def)
  have ok: "claims_ok (std_opts s) t' c" if "t - 5000000000 \<le> t'" "t' < t + sg_expiration s + 4000000000" for t'
  proof -
    have d: "j_date (e_jwt e) u \<le> u" "u - 1000000000 < j_date (e_jwt e) u" for u
      using lib(1) pos_mod_bound [of 1000000000 u] by (simp_all add: date_law_def)
    show ?thesis
      using that d(1) [of t] d(2) [of "t + sg_expiration s"] by (simp add: std_claims_ok c_def)
  qed
  show ?thesis
    using std_accepts [OF lib(2) sig utf8 ok] std_accepted [OF lib(3)] by (auto simp: c_def std_claims_ok)
qed

text \<open>
  A token package for the witnesses: it signs the entries of a table and recognises the tokens of the
  table, and satisfies the hypotheses on the package.
\<close>

type_synonym token_table = "(string \<times> jwt_header \<times> claims \<times> string) list"

definition refused :: "bool \<Rightarrow> bool \<Rightarrow> jwt_err" where
  "refused x g = \<lparr>je_expired = x, je_signature = g, je_err = Msg ''token refused''\<rparr>"

definition table_jwt :: "token_table \<Rightarrow> jwt_lib" where
  "table_jwt tab = \<lparr>j_date = \<lambda>t. t - t mod 1000000000,
     j_sign = \<lambda>h c key. (case find (\<lambda>p. snd p = (h, c, key)) tab of Some (tok, _) \<Rightarrow> Inr tok | None \<Rightarrow> Inl (Msg ''sign'')),
     j_parse = \<lambda>opts tok. (case map_of tab tok of
         None \<Rightarrow> Inl (refused False False)
       | Some (h, c, key) \<Rightarrow>
           if \<not> method_ok opts h then Inl (refused False True)
           else Inr (h, \<lambda>a t. if a \<noteq> Inr key then Inl (refused False True)
                              else if \<not> claims_ok opts t c then Inl (refused (\<not> time_ok opts t c) False)
                              else Inr (True, c)))\<rparr>"

lemma table_jwt_laws:
  assumes "distinct (map fst tab)"
  shows "date_law (table_jwt tab)" "parse_signed (table_jwt tab)" "parse_sound (table_jwt tab)"
proof -
  show "date_law (table_jwt tab)"
    by (simp add: date_law_def table_jwt_def)
  have "map_of tab tok = Some (h, c, key)" if "find (\<lambda>p. snd p = (h, c, key)) tab = Some (tok, x)" for tok h c key x
    using that assms by (auto simp: find_Some_iff map_of_eq_Some_iff) (metis nth_mem prod.collapse fst_conv snd_conv)
  then show "parse_signed (table_jwt tab)"
    by (fastforce simp: parse_signed_def table_jwt_def split: option.splits)
  show "parse_sound (table_jwt tab)"
    by (auto simp: parse_sound_def table_jwt_def split: option.splits if_split_asm)
qed

definition idle_auth :: auth_state where
  "idle_auth = \<lparr>at_ticks = 0, at_calls = [], at_keyCache = [], at_cacheExpiry = [], at_lastCleanup = 0\<rparr>"

text \<open>An environment whose clock ticks seconds and whose services refuse everything.\<close>

definition quiet_env :: auth_env where
  "quiet_env = \<lparr>e_now = \<lambda>n. 1000000000 * int n, e_order = \<lambda>_ xs. xs, e_jwt = table_jwt [],
     e_kms_generate = \<lambda>_ _ _. Inl (Msg ''kms''), e_kms_decrypt = \<lambda>_ _ _. Inl (Msg ''kms''), e_sha256 = \<lambda>s. s,
     e_review = \<lambda>_ _ _. Inl (Msg ''review''), e_oidc_verify = \<lambda>_ _. OVerifyError False (Msg ''oidc''),
     e_oidc_provider = \<lambda>_ _. None, e_regex = \<lambda>_ _. Inr [], e_query = \<lambda>_ _. Inr '''', e_duration = \<lambda>_. Inr 0, e_duration_text = \<lambda>_. '''',
     e_json_map = \<lambda>_. Inr [], e_kms_client = None, e_getenv = \<lambda>_. ''''\<rparr>"

definition hour_signer :: standard_signer where
  "hour_signer = NewStandardSigner ''k'' ''i'' ''a'' 3600000000000"

definition alice_args :: token_args where
  "alice_args = \<lparr>ta_user = ''alice'', ta_groups = [], ta_uid = '''', ta_extra = Map.empty, ta_path = ''/w'',
     ta_domain = ''d'', ta_tokenType = TokenTypeSession\<rparr>"

definition alice_env :: auth_env where
  "alice_env = quiet_env\<lparr>e_jwt := table_jwt [(''tok'', \<lparr>hd_alg = HS256, hd_edk = None\<rparr>,
     make_claims (table_jwt []) ''i'' ''a'' 3600000000000 0 alice_args, ''k'')]\<rparr>"

lemma make_claims_table [simp]: "make_claims (table_jwt tab) i au x t a = make_claims (table_jwt []) i au x t a" if "tab \<noteq> []"
  by (simp add: make_claims_def table_jwt_def)

theorem standard_token_validity_witness:
  "fst (run_state (std_ValidateToken alice_env hour_signer ''tok'') (idle_auth\<lparr>at_ticks := 3603\<rparr>)) =
     Inr (make_claims (e_jwt alice_env) ''i'' ''a'' 3600000000000 0 alice_args)"
proof -
  have laws: "date_law (e_jwt alice_env)" "parse_signed (e_jwt alice_env)" "parse_sound (e_jwt alice_env)"
    by (simp_all add: alice_env_def table_jwt_laws)
  have "fst (run_state (std_GenerateToken alice_env hour_signer alice_args) idle_auth) = Inr ''tok''"
    by (simp add: std_GenerateToken_def alice_env_def quiet_env_def hour_signer_def NewStandardSigner_def idle_auth_def)
      (simp add: table_jwt_def)
  from standard_token_validity [OF laws this, of "idle_auth\<lparr>at_ticks := 3603\<rparr>"] show ?thesis
    by (simp add: hour_signer_def NewStandardSigner_def alice_args_def valid_utf8_def invalid_rune_def ascii_runes
        alice_env_def quiet_env_def idle_auth_def)
qed

section \<open>Refreshing\<close>

lemma since_bounds: "since a b \<le> 0 \<longleftrightarrow> a \<le> b" "x < 2 ^ 63 \<Longrightarrow> 0 < x \<Longrightarrow> since a b < x \<longleftrightarrow> a - b < x"
  "x < 2 ^ 63 - 1 \<Longrightarrow> 0 < x \<Longrightarrow> x < since a b \<longleftrightarrow> x < a - b"
  by (auto simp: since_def)

text \<open>
  C29. When a session is refreshed. For a token of the signer, under the ordering of the durations that the
  configuration enforces (window at most lifetime, lifetime at most horizon, whole seconds), refreshing is due exactly
  in the last window before expiry: the horizon never plays a role, since a refreshed token starts with a
  new issue date, and neither does the request to skip refreshing, which the new token does not carry.
\<close>

theorem refresh_policy:
  assumes lib: "date_law (e_jwt e)"
    and durations: "0 < w" "w \<le> sg_expiration s" "sg_expiration s \<le> z" "z < 2 ^ 63 - 1" "1000000000 dvd sg_expiration s"
  defines "j \<equiv> e_jwt e" and "m \<equiv> NewManager (StandardSigner e s) True w z"
    and "issue \<equiv> make_claims (e_jwt e) (sg_issuer s) (sg_audience s) (sg_expiration s)"
  shows "(fst (run_state (ShouldRefreshToken e m (Some (issue t a))) st) \<longleftrightarrow>
      (let left = j_date j (t + sg_expiration s) - e_now e (at_ticks st) in 0 < left \<and> left \<le> w)) \<and>
    (\<forall>c tok c' st'. run_state (UpdateSkipRefreshToken m (Some c)) st = ((Inr tok, c'), st') \<longrightarrow>
      token_of j (issue (e_now e (at_ticks st)) (args_of c)) tok)"
proof -
  let ?n = "e_now e (at_ticks st)" and ?x = "sg_expiration s"
  have life: "j_date j (t + ?x) - j_date j t = ?x"
    using lib durations(5) by (auto simp: date_law_def j_def elim!: dvdE)
  have "since ?n (j_date j t) < z" if "0 < j_date j (t + ?x) - ?n"
    using that life durations by (simp add: since_bounds)
  moreover have "(since (j_date j (t + ?x)) ?n \<le> 0) = (j_date j (t + ?x) - ?n \<le> 0)"
    "(w < since (j_date j (t + ?x)) ?n) = (w < j_date j (t + ?x) - ?n)"
    using durations by (simp_all add: since_bounds)
  ultimately have "fst (run_state (ShouldRefreshToken e m (Some (issue t a))) st) \<longleftrightarrow>
      0 < j_date j (t + ?x) - ?n \<and> j_date j (t + ?x) - ?n \<le> w"
    by (auto simp: ShouldRefreshToken_def m_def NewManager_def issue_def j_def [symmetric] Let_def)
  then show ?thesis
    using standard.UpdateSkipRefreshToken_issues [of e s True w z] by (auto simp: Let_def m_def j_def issue_def)
qed

theorem refresh_policy_witness:
  "fst (run_state (ShouldRefreshToken alice_env (NewManager (StandardSigner alice_env hour_signer) True 900000000000 43200000000000)
     (Some (make_claims (e_jwt alice_env) ''i'' ''a'' 3600000000000 0 alice_args))) (idle_auth\<lparr>at_ticks := 3000\<rparr>))"
proof -
  have "date_law (e_jwt alice_env)"
    by (simp add: alice_env_def table_jwt_laws)
  from refresh_policy [OF this, of 900000000000 hour_signer 43200000000000 0 alice_args "idle_auth\<lparr>at_ticks := 3000\<rparr>"]
  show ?thesis
    by (simp add: hour_signer_def NewStandardSigner_def alice_env_def quiet_env_def idle_auth_def Let_def)
      (simp add: table_jwt_def)
qed

end
