(* ===== verification/AuthConfig.thy ===== *)
theory AuthConfig
  imports AuthText Encoding Jwt
begin

text \<open>
  Configuration of the authentication middleware from environment variables (\<open>config.go\<close> and the path part
  in \<open>config_utils.go\<close> of \<open>internal/authmiddleware\<close>). A variable that is set and not empty overrides the
  default; integers and booleans are read as \<open>strconv\<close> does, durations and regular expressions by
  parameters of the environment. Durations are nanoseconds.
\<close>

section \<open>Numbers and booleans\<close>

definition quoted :: "string \<Rightarrow> string" where
  "quoted s = [CHR 0x22] @ s @ [CHR 0x22]"

definition ParseBool :: "string \<Rightarrow> bool res" where
  "ParseBool s = (if s \<in> set [''1'', ''t'', ''T'', ''true'', ''TRUE'', ''True''] then Inr True
     else if s \<in> set [''0'', ''f'', ''F'', ''false'', ''FALSE'', ''False''] then Inr False
     else Inl (Msg (''strconv.ParseBool: parsing '' @ quoted s @ '': invalid syntax'')))"

definition digits_value :: "string \<Rightarrow> int" where
  "digits_value s = fold (\<lambda>c v. 10 * v + (int (byte c) - 48)) s 0"

definition Atoi :: "string \<Rightarrow> int res" where
  "Atoi s = (let neg = has_prefix s ''-''; ds = (if neg \<or> has_prefix s ''+'' then tl s else s);
       v = (if neg then - digits_value ds else digits_value ds)
     in if ds = '''' \<or> \<not> list_all (\<lambda>c. 48 \<le> byte c \<and> byte c \<le> 57) ds
        then Inl (Msg (''strconv.Atoi: parsing '' @ quoted s @ '': invalid syntax''))
        else if v < - (2 ^ 63) \<or> 2 ^ 63 \<le> v
        then Inl (Msg (''strconv.Atoi: parsing '' @ quoted s @ '': value out of range''))
        else Inr v)"

section \<open>The configuration\<close>

record config =
  cf_Port :: int
  cf_ReadTimeout :: int
  cf_WriteTimeout :: int
  cf_ShutdownTimeout :: int
  cf_TrustedProxies :: "string list"
  cf_JWTSigningKey :: string
  cf_JWTSigningType :: string
  cf_JWTIssuer :: string
  cf_JWTAudience :: string
  cf_JWTExpiration :: int
  cf_JWTRefreshEnable :: bool
  cf_JWTRefreshWindow :: int
  cf_JWTRefreshHorizon :: int
  cf_EnableOAuth :: bool
  cf_EnableBearerAuth :: bool
  cf_KMSKeyId :: string
  cf_KMSEncryptionContext :: string
  cf_CookieName :: string
  cf_CookieSecure :: bool
  cf_CookieDomain :: string
  cf_CookiePath :: string
  cf_CookieMaxAge :: int
  cf_CookieHTTPOnly :: bool
  cf_CookieSameSite :: string
  cf_PathRegexPattern :: string
  cf_WorkspaceNamespacePathRegex :: string
  cf_WorkspaceNamePathRegex :: string
  cf_RoutingMode :: string
  cf_WorkspaceNamespaceSubdomainRegex :: string
  cf_WorkspaceNameSubdomainRegex :: string
  cf_OidcUsernamePrefix :: string
  cf_OidcGroupsPrefix :: string
  cf_OIDCIssuerURL :: string
  cf_OIDCClientID :: string
  cf_OIDCInitTimeoutSecs :: int

abbreviation second :: int where "second \<equiv> 1000000000"
abbreviation JWTSigningTypeStandard :: string where "JWTSigningTypeStandard \<equiv> ''standard''"
abbreviation JWTSigningTypeKMS :: string where "JWTSigningTypeKMS \<equiv> ''kms''"
abbreviation RoutingModePath :: string where "RoutingModePath \<equiv> ''path''"
abbreviation RoutingModeSubdomain :: string where "RoutingModeSubdomain \<equiv> ''subdomain''"
abbreviation DefaultPathRegexPattern :: string where
  "DefaultPathRegexPattern \<equiv> ''^(/workspaces/[^/]+/[^/]+)(?:/.*)?$''"
abbreviation DefaultWorkspaceNamespacePathRegex :: string where
  "DefaultWorkspaceNamespacePathRegex \<equiv> ''^/workspaces/([^/]+)/[^/]+''"
abbreviation DefaultWorkspaceNamePathRegex :: string where
  "DefaultWorkspaceNamePathRegex \<equiv> ''^/workspaces/[^/]+/([^/]+)''"

definition createDefaultConfig :: config where
  "createDefaultConfig = \<lparr>
     cf_Port = 8080, cf_ReadTimeout = 10 * second, cf_WriteTimeout = 10 * second, cf_ShutdownTimeout = 30 * second,
     cf_TrustedProxies = [''127.0.0.1'', ''::1''],
     cf_JWTSigningKey = '''', cf_JWTSigningType = JWTSigningTypeStandard, cf_JWTIssuer = ''workspaces-auth'',
     cf_JWTAudience = ''workspace-users'', cf_JWTExpiration = 3600 * second, cf_JWTRefreshEnable = True,
     cf_JWTRefreshWindow = 900 * second, cf_JWTRefreshHorizon = 43200 * second, cf_EnableOAuth = True,
     cf_EnableBearerAuth = False, cf_KMSKeyId = '''', cf_KMSEncryptionContext = '''',
     cf_CookieName = ''workspace_auth'', cf_CookieSecure = True, cf_CookieDomain = '''', cf_CookiePath = ''/'',
     cf_CookieMaxAge = 86400 * second, cf_CookieHTTPOnly = True, cf_CookieSameSite = ''lax'',
     cf_PathRegexPattern = DefaultPathRegexPattern,
     cf_WorkspaceNamespacePathRegex = DefaultWorkspaceNamespacePathRegex,
     cf_WorkspaceNamePathRegex = DefaultWorkspaceNamePathRegex,
     cf_RoutingMode = RoutingModePath,
     cf_WorkspaceNamespaceSubdomainRegex = ''^([^-]+)-.*'', cf_WorkspaceNameSubdomainRegex = ''^[^-]+-(.*)$'',
     cf_OidcUsernamePrefix = ''github:'', cf_OidcGroupsPrefix = ''github:'', cf_OIDCIssuerURL = '''',
     cf_OIDCClientID = '''', cf_OIDCInitTimeoutSecs = 30\<rparr>"

section \<open>Overrides\<close>

text \<open>One variable: nothing happens when it is empty; otherwise its value is parsed and stored.\<close>

type_synonym override = "auth_env \<Rightarrow> config \<Rightarrow> config res"

definition env_parsed :: "string \<Rightarrow> (string \<Rightarrow> string) \<Rightarrow> (auth_env \<Rightarrow> string \<Rightarrow> 'a res) \<Rightarrow> ('a \<Rightarrow> config \<Rightarrow> config) \<Rightarrow> override" where
  "env_parsed name shown parse upd e c = (let v = e_getenv e name in
     if v = '''' then Inr c
     else case parse e v of Inl err \<Rightarrow> Inl (Wrap (''invalid '' @ shown v) err) | Inr x \<Rightarrow> Inr (upd x c))"

definition env_text :: "string \<Rightarrow> (string \<Rightarrow> config \<Rightarrow> config) \<Rightarrow> override" where
  "env_text name upd e c = (let v = e_getenv e name in if v = '''' then Inr c else Inr (upd v c))"

definition env_duration :: "string \<Rightarrow> (int \<Rightarrow> config \<Rightarrow> config) \<Rightarrow> override" where
  "env_duration name = env_parsed name (\<lambda>_. name) e_duration"

definition env_bool :: "string \<Rightarrow> (bool \<Rightarrow> config \<Rightarrow> config) \<Rightarrow> override" where
  "env_bool name = env_parsed name (\<lambda>_. name) (\<lambda>_. ParseBool)"

definition check :: "(config \<Rightarrow> bool) \<Rightarrow> (auth_env \<Rightarrow> config \<Rightarrow> goerr) \<Rightarrow> override" where
  "check ok err e c = (if ok c then Inr c else Inl (err e c))"

fun apply_overrides :: "override list \<Rightarrow> override" where
  "apply_overrides [] e c = Inr c"
| "apply_overrides (f # fs) e c = (case f e c of Inl err \<Rightarrow> Inl err | Inr c' \<Rightarrow> apply_overrides fs e c')"

definition applyServerConfig :: override where
  "applyServerConfig = apply_overrides [
     env_parsed ''PORT'' (\<lambda>_. ''PORT'') (\<lambda>_. Atoi) (\<lambda>p. cf_Port_update (\<lambda>_. p)),
     env_duration ''READ_TIMEOUT'' (\<lambda>d. cf_ReadTimeout_update (\<lambda>_. d)),
     env_duration ''WRITE_TIMEOUT'' (\<lambda>d. cf_WriteTimeout_update (\<lambda>_. d)),
     env_duration ''SHUTDOWN_TIMEOUT'' (\<lambda>d. cf_ShutdownTimeout_update (\<lambda>_. d)),
     (\<lambda>e c. let v = e_getenv e ''TRUSTED_PROXIES'' in
        if v = '''' then Inr c else map_sum id (\<lambda>ps. c\<lparr>cf_TrustedProxies := ps\<rparr>) (splitAndTrim v '',''))]"

definition signing_key :: override where
  "signing_key e c = (let key = e_getenv e ''JWT_SIGNING_KEY'' in
     if key \<noteq> '''' then Inr (c\<lparr>cf_JWTSigningKey := key\<rparr>)
     else if cf_JWTSigningType c = JWTSigningTypeStandard
     then Inl (Msg ''JWT_SIGNING_KEY environment variable must be set for standard JWT signing'')
     else Inr c)"

text \<open>The error of a bad \<open>JWT_REFRESH_ENABLE\<close> names the value instead of the variable, as in the source.\<close>

definition jwt_settings :: "override list" where
  "jwt_settings = [
     env_text ''JWT_ISSUER'' (\<lambda>v. cf_JWTIssuer_update (\<lambda>_. v)),
     env_text ''JWT_AUDIENCE'' (\<lambda>v. cf_JWTAudience_update (\<lambda>_. v)),
     env_duration ''JWT_EXPIRATION'' (\<lambda>d. cf_JWTExpiration_update (\<lambda>_. d)),
     env_parsed ''JWT_REFRESH_ENABLE'' (\<lambda>v. v) (\<lambda>_. ParseBool) (\<lambda>b. cf_JWTRefreshEnable_update (\<lambda>_. b)),
     env_duration ''JWT_REFRESH_WINDOW'' (\<lambda>d. cf_JWTRefreshWindow_update (\<lambda>_. d)),
     env_duration ''JWT_REFRESH_HORIZON'' (\<lambda>d. cf_JWTRefreshHorizon_update (\<lambda>_. d)),
     env_bool ''ENABLE_OAUTH'' (\<lambda>b. cf_EnableOAuth_update (\<lambda>_. b)),
     env_bool ''ENABLE_BEARER_URL_AUTH'' (\<lambda>b. cf_EnableBearerAuth_update (\<lambda>_. b)),
     env_text ''ROUTING_MODE'' (\<lambda>v. cf_RoutingMode_update (\<lambda>_. v)),
     env_text ''WORKSPACE_NAMESPACE_SUBDOMAIN_REGEX'' (\<lambda>v. cf_WorkspaceNamespaceSubdomainRegex_update (\<lambda>_. v)),
     env_text ''WORKSPACE_NAME_SUBDOMAIN_REGEX'' (\<lambda>v. cf_WorkspaceNameSubdomainRegex_update (\<lambda>_. v)),
     env_text ''KMS_KEY_ID'' (\<lambda>v. cf_KMSKeyId_update (\<lambda>_. v)),
     env_text ''KMS_ENCRYPTION_CONTEXT'' (\<lambda>v. cf_KMSEncryptionContext_update (\<lambda>_. v))]"

text \<open>The last message prints the window where it means the horizon, as in the source.\<close>

definition applyJWTConfig :: override where
  "applyJWTConfig = apply_overrides
    ([env_text ''JWT_SIGNING_TYPE'' (\<lambda>v. cf_JWTSigningType_update (\<lambda>_. v)), signing_key] @ jwt_settings @
    [check (\<lambda>c. cf_JWTRefreshWindow c \<le> cf_JWTExpiration c)
       (\<lambda>e c. Msg (''JWT refresh window ('' @ e_duration_text e (cf_JWTRefreshWindow c) @
          '') must be less than or equal to JWT expiration ('' @ e_duration_text e (cf_JWTExpiration c) @ '')'')),
     check (\<lambda>c. cf_JWTExpiration c \<le> cf_JWTRefreshHorizon c)
       (\<lambda>e c. Msg (''JWT refresh horizon ('' @ e_duration_text e (cf_JWTRefreshWindow c) @
          '') must be greater or equal to JWT expiration ('' @ e_duration_text e (cf_JWTExpiration c) @ '')''))])"

definition applyCookieConfig :: override where
  "applyCookieConfig = apply_overrides [
     env_text ''COOKIE_NAME'' (\<lambda>v. cf_CookieName_update (\<lambda>_. v)),
     env_bool ''COOKIE_SECURE'' (\<lambda>b. cf_CookieSecure_update (\<lambda>_. b)),
     env_text ''COOKIE_DOMAIN'' (\<lambda>v. cf_CookieDomain_update (\<lambda>_. v)),
     env_text ''COOKIE_PATH'' (\<lambda>v. cf_CookiePath_update (\<lambda>_. v)),
     env_duration ''COOKIE_MAX_AGE'' (\<lambda>d. cf_CookieMaxAge_update (\<lambda>_. d)),
     env_bool ''COOKIE_HTTP_ONLY'' (\<lambda>b. cf_CookieHTTPOnly_update (\<lambda>_. b)),
     env_text ''COOKIE_SAME_SITE'' (\<lambda>v. cf_CookieSameSite_update (\<lambda>_. v))]"

text \<open>\<open>regexp.Compile\<close>, through the same parameter that finds matches.\<close>

definition compile :: "auth_env \<Rightarrow> string \<Rightarrow> string res" where
  "compile e pattern = (case e_regex e pattern '''' of Inl err \<Rightarrow> Inl err | Inr _ \<Rightarrow> Inr pattern)"

definition set_if_unset :: "string \<Rightarrow> string \<Rightarrow> string" where
  "set_if_unset v d = (if v = '''' then d else v)"

definition applyPathConfig :: override where
  "applyPathConfig e c0 = (let c = c0\<lparr>
       cf_PathRegexPattern := set_if_unset (cf_PathRegexPattern c0) DefaultPathRegexPattern,
       cf_WorkspaceNamespacePathRegex := set_if_unset (cf_WorkspaceNamespacePathRegex c0) DefaultWorkspaceNamespacePathRegex,
       cf_WorkspaceNamePathRegex := set_if_unset (cf_WorkspaceNamePathRegex c0) DefaultWorkspaceNamePathRegex\<rparr>
     in apply_overrides [
       env_parsed ''PATH_REGEX_PATTERN'' (\<lambda>_. ''PATH_REGEX_PATTERN'') compile (\<lambda>v. cf_PathRegexPattern_update (\<lambda>_. v)),
       env_parsed ''WORKSPACE_NAMESPACE_PATH_REGEX'' (\<lambda>_. ''WORKSPACE_NAMESPACE_PATH_REGEX'') compile
         (\<lambda>v. cf_WorkspaceNamespacePathRegex_update (\<lambda>_. v)),
       env_parsed ''WORKSPACE_NAME_PATH_REGEX'' (\<lambda>_. ''WORKSPACE_NAME_PATH_REGEX'') compile
         (\<lambda>v. cf_WorkspaceNamePathRegex_update (\<lambda>_. v))] e c)"

definition oidc_timeout :: override where
  "oidc_timeout e c = (let v = e_getenv e ''OIDC_INIT_TIMEOUT_SECONDS'' in
     if v = '''' then Inr c
     else case Atoi v of
       Inl err \<Rightarrow> Inl (Wrap ''invalid OIDC_INIT_TIMEOUT_SECONDS'' err)
     | Inr timeoutSecs \<Rightarrow>
         if timeoutSecs \<le> 0
         then Inl (Msg (''OIDC_INIT_TIMEOUT_SECONDS must be a positive integer, got '' @ int_text timeoutSecs))
         else Inr (c\<lparr>cf_OIDCInitTimeoutSecs := timeoutSecs\<rparr>))"

definition applyOidcConfig :: override where
  "applyOidcConfig = apply_overrides [
     env_text ''OIDC_USERNAME_PREFIX'' (\<lambda>v. cf_OidcUsernamePrefix_update (\<lambda>_. v)),
     env_text ''OIDC_GROUPS_PREFIX'' (\<lambda>v. cf_OidcGroupsPrefix_update (\<lambda>_. v)),
     env_text ''OIDC_ISSUER_URL'' (\<lambda>v. cf_OIDCIssuerURL_update (\<lambda>_. v)),
     env_text ''OIDC_CLIENT_ID'' (\<lambda>v. cf_OIDCClientID_update (\<lambda>_. v)),
     oidc_timeout,
     (\<lambda>e c. Inr (if cf_OIDCInitTimeoutSecs c \<le> 0 then c\<lparr>cf_OIDCInitTimeoutSecs := 30\<rparr> else c))]"

definition NewConfig :: "auth_env \<Rightarrow> config res" where
  "NewConfig e = apply_overrides
     [applyServerConfig, applyJWTConfig, applyCookieConfig, applyPathConfig, applyOidcConfig] e createDefaultConfig"

section \<open>What a configuration guarantees\<close>

text \<open>An override keeps a predicate when every configuration it produces from one that has it has it too.\<close>

definition keeps_config :: "auth_env \<Rightarrow> (config \<Rightarrow> bool) \<Rightarrow> override \<Rightarrow> bool" where
  "keeps_config e P f \<longleftrightarrow> (\<forall>c c'. f e c = Inr c' \<longrightarrow> P c \<longrightarrow> P c')"

lemma keeps_env_text:
  "(\<And>v c. v \<noteq> '''' \<Longrightarrow> P c \<Longrightarrow> P (upd v c)) \<Longrightarrow> keeps_config e P (env_text name upd)"
  by (auto simp: keeps_config_def env_text_def Let_def)

lemma keeps_env_parsed:
  "(\<And>x v c. v \<noteq> '''' \<Longrightarrow> parse e v = Inr x \<Longrightarrow> P c \<Longrightarrow> P (upd x c)) \<Longrightarrow> keeps_config e P (env_parsed name shown parse upd)"
  by (auto simp: keeps_config_def env_parsed_def Let_def split: if_split_asm sum.splits)

lemma keeps_check: "keeps_config e P (check ok err)"
  by (auto simp: keeps_config_def check_def split: if_split_asm)

lemma keeps_signing_key: "(\<And>v c. P c \<Longrightarrow> P (c\<lparr>cf_JWTSigningKey := v\<rparr>)) \<Longrightarrow> keeps_config e P signing_key"
  by (auto simp: keeps_config_def signing_key_def Let_def split: if_split_asm)

lemma keeps_oidc_timeout: "(\<And>v c. P c \<Longrightarrow> P (c\<lparr>cf_OIDCInitTimeoutSecs := v\<rparr>)) \<Longrightarrow> keeps_config e P oidc_timeout"
  by (auto simp: keeps_config_def oidc_timeout_def Let_def split: if_split_asm sum.splits)

lemma keeps_overrides: "list_all (keeps_config e P) fs \<Longrightarrow> keeps_config e P (apply_overrides fs)"
proof (induction fs)
  case (Cons f fs)
  then show ?case
    unfolding keeps_config_def by (auto split: sum.splits)
qed (simp add: keeps_config_def)

lemmas keeps_override = keeps_overrides keeps_env_text keeps_env_parsed keeps_check keeps_signing_key keeps_oidc_timeout

lemma apply_overrides_append:
  "apply_overrides (fs @ gs) e c = (case apply_overrides fs e c of Inl err \<Rightarrow> Inl err | Inr c' \<Rightarrow> apply_overrides gs e c')"
  by (induction fs arbitrary: c) (auto split: sum.splits)

text \<open>What a step establishes and the later steps keep holds at the end.\<close>

lemma established:
  assumes "apply_overrides (fs @ f # gs) e c = Inr c'" and "\<And>c1 c2. f e c1 = Inr c2 \<Longrightarrow> P c2"
    and "list_all (keeps_config e P) gs"
  shows "P c'"
proof -
  obtain c1 c2 where "f e c1 = Inr c2" "apply_overrides gs e c2 = Inr c'"
    using assms(1) by (auto simp: apply_overrides_append split: sum.splits)
  then show ?thesis
    using assms(2) keeps_overrides [OF assms(3)] unfolding keeps_config_def by blast
qed

lemma keeps_cookie_path_oidc:
  assumes "\<And>c f. P (cf_CookieName_update f c) = P c" "\<And>c f. P (cf_CookieSecure_update f c) = P c"
    "\<And>c f. P (cf_CookieDomain_update f c) = P c" "\<And>c f. P (cf_CookiePath_update f c) = P c"
    "\<And>c f. P (cf_CookieMaxAge_update f c) = P c" "\<And>c f. P (cf_CookieHTTPOnly_update f c) = P c"
    "\<And>c f. P (cf_CookieSameSite_update f c) = P c" "\<And>c f. P (cf_PathRegexPattern_update f c) = P c"
    "\<And>c f. P (cf_WorkspaceNamespacePathRegex_update f c) = P c" "\<And>c f. P (cf_WorkspaceNamePathRegex_update f c) = P c"
    "\<And>c f. P (cf_OidcUsernamePrefix_update f c) = P c" "\<And>c f. P (cf_OidcGroupsPrefix_update f c) = P c"
    "\<And>c f. P (cf_OIDCIssuerURL_update f c) = P c" "\<And>c f. P (cf_OIDCClientID_update f c) = P c"
    "\<And>c f. P (cf_OIDCInitTimeoutSecs_update f c) = P c"
  shows "list_all (keeps_config e P) [applyCookieConfig, applyPathConfig, applyOidcConfig]"
proof -
  have "keeps_config e P applyCookieConfig"
    unfolding applyCookieConfig_def env_bool_def env_duration_def
    by (rule keeps_overrides) (auto simp: assms intro!: keeps_override)
  moreover have "keeps_config e P (apply_overrides [
       env_parsed ''PATH_REGEX_PATTERN'' (\<lambda>_. ''PATH_REGEX_PATTERN'') compile (\<lambda>v. cf_PathRegexPattern_update (\<lambda>_. v)),
       env_parsed ''WORKSPACE_NAMESPACE_PATH_REGEX'' (\<lambda>_. ''WORKSPACE_NAMESPACE_PATH_REGEX'') compile
         (\<lambda>v. cf_WorkspaceNamespacePathRegex_update (\<lambda>_. v)),
       env_parsed ''WORKSPACE_NAME_PATH_REGEX'' (\<lambda>_. ''WORKSPACE_NAME_PATH_REGEX'') compile
         (\<lambda>v. cf_WorkspaceNamePathRegex_update (\<lambda>_. v))])"
    by (rule keeps_overrides) (auto simp: assms intro!: keeps_override)
  then have "keeps_config e P applyPathConfig"
    unfolding keeps_config_def applyPathConfig_def by (auto simp: assms Let_def)
  moreover have "keeps_config e P applyOidcConfig"
    unfolding applyOidcConfig_def
    by (rule keeps_overrides) (auto simp: assms keeps_config_def intro!: keeps_override [unfolded keeps_config_def])
  ultimately show ?thesis
    by simp
qed

lemma last_checks:
  assumes "apply_overrides (fs @ [check ok1 r1, check ok2 r2]) e c = Inr c'"
  shows "ok1 c' \<and> ok2 c'"
  using assms by (auto simp: apply_overrides_append check_def split: sum.splits if_split_asm)

definition durations_ordered :: "config \<Rightarrow> bool" where
  "durations_ordered c \<longleftrightarrow> cf_JWTRefreshWindow c \<le> cf_JWTExpiration c \<and> cf_JWTExpiration c \<le> cf_JWTRefreshHorizon c"

definition key_present :: "config \<Rightarrow> bool" where
  "key_present c \<longleftrightarrow> (cf_JWTSigningType c = JWTSigningTypeStandard \<longrightarrow> cf_JWTSigningKey c \<noteq> '''')"

lemma applyJWTConfig_established:
  assumes "applyJWTConfig e c = Inr c'"
  shows "durations_ordered c'" and "key_present c'"
proof -
  show "durations_ordered c'"
    using assms unfolding applyJWTConfig_def append_assoc [symmetric] durations_ordered_def by (rule last_checks)
  have key: "key_present c2" if "signing_key e c1 = Inr c2" for c1 c2
    using that by (auto simp: signing_key_def key_present_def Let_def split: if_split_asm)
  have "list_all (keeps_config e key_present) jwt_settings"
    unfolding jwt_settings_def env_bool_def env_duration_def
    by (auto simp: key_present_def intro!: keeps_override)
  then have "list_all (keeps_config e key_present) (jwt_settings @ [check ok1 r1, check ok2 r2])" for ok1 r1 ok2 r2
    by (simp add: keeps_check)
  from established [OF _ key this, where fs = "[env_text ''JWT_SIGNING_TYPE'' (\<lambda>v. cf_JWTSigningType_update (\<lambda>_. v))]"
      and c = c and c' = c']
  show "key_present c'"
    using assms unfolding applyJWTConfig_def by simp
qed

lemma NewConfig_established:
  assumes "NewConfig e = Inr c" and "\<And>c1 c2. applyJWTConfig e c1 = Inr c2 \<Longrightarrow> P c2"
    and "list_all (keeps_config e P) [applyCookieConfig, applyPathConfig, applyOidcConfig]"
  shows "P c"
  using established [of "[applyServerConfig]" applyJWTConfig _ e createDefaultConfig c P] assms by (simp add: NewConfig_def)

lemma NewConfig_last:
  assumes "NewConfig e = Inr c" and "\<And>c1 c2. applyOidcConfig e c1 = Inr c2 \<Longrightarrow> P c2"
  shows "P c"
  using established [of "[applyServerConfig, applyJWTConfig, applyCookieConfig, applyPathConfig]" applyOidcConfig "[]" e
      createDefaultConfig c P] assms by (simp add: NewConfig_def)

lemma oidc_timeout_positive: "applyOidcConfig e c1 = Inr c2 \<Longrightarrow> 0 < cf_OIDCInitTimeoutSecs c2"
  by (auto simp: applyOidcConfig_def split: sum.splits)

text \<open>A pattern for paths is the default or was compiled.\<close>

definition patterns_compile :: "auth_env \<Rightarrow> config \<Rightarrow> bool" where
  "patterns_compile e c \<longleftrightarrow>
     (cf_PathRegexPattern c = DefaultPathRegexPattern \<or> (\<exists>ms. e_regex e (cf_PathRegexPattern c) '''' = Inr ms)) \<and>
     (cf_WorkspaceNamespacePathRegex c = DefaultWorkspaceNamespacePathRegex \<or>
       (\<exists>ms. e_regex e (cf_WorkspaceNamespacePathRegex c) '''' = Inr ms)) \<and>
     (cf_WorkspaceNamePathRegex c = DefaultWorkspaceNamePathRegex \<or> (\<exists>ms. e_regex e (cf_WorkspaceNamePathRegex c) '''' = Inr ms))"

lemma patterns_kept: "list_all (keeps_config e (patterns_compile e))
    [applyServerConfig, applyJWTConfig, applyCookieConfig, applyPathConfig, applyOidcConfig]"
proof -
  have "list_all (keeps_config e (patterns_compile e)) jwt_settings"
    unfolding jwt_settings_def env_bool_def env_duration_def
    by (auto simp: patterns_compile_def intro!: keeps_override)
  then have "keeps_config e (patterns_compile e) applyJWTConfig"
    unfolding applyJWTConfig_def by (auto simp: patterns_compile_def intro!: keeps_override)
  moreover have "keeps_config e (patterns_compile e) applyServerConfig"
    unfolding applyServerConfig_def env_duration_def
    by (rule keeps_overrides) (auto simp: patterns_compile_def intro!: keeps_override,
      auto simp: keeps_config_def Let_def splitAndTrim_def splitString_def patterns_compile_def split: if_split_asm)
  moreover have "keeps_config e (patterns_compile e) applyCookieConfig"
    unfolding applyCookieConfig_def env_bool_def env_duration_def
    by (rule keeps_overrides) (auto simp: patterns_compile_def intro!: keeps_override)
  moreover have "keeps_config e (patterns_compile e) applyOidcConfig"
    unfolding applyOidcConfig_def
    by (rule keeps_overrides) (auto simp: patterns_compile_def intro!: keeps_override,
      auto simp: keeps_config_def patterns_compile_def)
  moreover have "keeps_config e (patterns_compile e) (apply_overrides [
       env_parsed ''PATH_REGEX_PATTERN'' (\<lambda>_. ''PATH_REGEX_PATTERN'') compile (\<lambda>v. cf_PathRegexPattern_update (\<lambda>_. v)),
       env_parsed ''WORKSPACE_NAMESPACE_PATH_REGEX'' (\<lambda>_. ''WORKSPACE_NAMESPACE_PATH_REGEX'') compile
         (\<lambda>v. cf_WorkspaceNamespacePathRegex_update (\<lambda>_. v)),
       env_parsed ''WORKSPACE_NAME_PATH_REGEX'' (\<lambda>_. ''WORKSPACE_NAME_PATH_REGEX'') compile
         (\<lambda>v. cf_WorkspaceNamePathRegex_update (\<lambda>_. v))])"
    by (rule keeps_overrides) (auto simp: patterns_compile_def compile_def intro!: keeps_override split: sum.splits)
  then have "keeps_config e (patterns_compile e) applyPathConfig"
    unfolding keeps_config_def applyPathConfig_def
    by (auto simp: Let_def patterns_compile_def set_if_unset_def)
  ultimately show ?thesis
    by simp
qed

text \<open>
  C33. A configuration that loads is well formed. Whatever the environment, the refresh window is at most
  the token lifetime and the lifetime at most the horizon, the timeout for the identity provider is
  positive, standard signing has a key, and each of the two patterns for paths is one that compiles or the built-in default. (The
  configured patterns for host names are taken as they are and not compiled.)
\<close>

theorem NewConfig_valid:
  assumes "NewConfig e = Inr c"
  shows "cf_JWTRefreshWindow c \<le> cf_JWTExpiration c \<and> cf_JWTExpiration c \<le> cf_JWTRefreshHorizon c \<and>
    0 < cf_OIDCInitTimeoutSecs c \<and> (cf_JWTSigningType c = JWTSigningTypeStandard \<longrightarrow> cf_JWTSigningKey c \<noteq> '''') \<and>
    patterns_compile e c"
proof -
  have "list_all (keeps_config e durations_ordered) [applyCookieConfig, applyPathConfig, applyOidcConfig]"
    by (rule keeps_cookie_path_oidc) (simp_all add: durations_ordered_def)
  with assms applyJWTConfig_established(1) have "durations_ordered c"
    by (rule NewConfig_established)
  moreover have "list_all (keeps_config e key_present) [applyCookieConfig, applyPathConfig, applyOidcConfig]"
    by (rule keeps_cookie_path_oidc) (simp_all add: key_present_def)
  with assms applyJWTConfig_established(2) have "key_present c"
    by (rule NewConfig_established)
  moreover have "0 < cf_OIDCInitTimeoutSecs c"
    using assms oidc_timeout_positive by (rule NewConfig_last)
  moreover have "patterns_compile e createDefaultConfig"
    by (simp add: patterns_compile_def createDefaultConfig_def)
  then have "patterns_compile e c"
    using assms keeps_overrides [OF patterns_kept [of e]] unfolding NewConfig_def keeps_config_def by blast
  ultimately show ?thesis
    by (simp add: durations_ordered_def key_present_def)
qed

theorem NewConfig_valid_witness:
  "\<exists>c. NewConfig (quiet_env\<lparr>e_getenv := \<lambda>v. if v = ''JWT_SIGNING_KEY'' then ''k'' else ''''\<rparr>) = Inr c \<and> 0 < cf_OIDCInitTimeoutSecs c"
proof -
  let ?e = "quiet_env\<lparr>e_getenv := \<lambda>v. if v = ''JWT_SIGNING_KEY'' then ''k'' else ''''\<rparr>"
  have unset: "env_text v u ?e c = Inr c" "env_parsed v s p u' ?e c = Inr c" if "v \<noteq> ''JWT_SIGNING_KEY''" for v u s p u' c
    using that by (simp_all add: env_text_def env_parsed_def Let_def)
  have "NewConfig ?e = Inr (createDefaultConfig\<lparr>cf_JWTSigningKey := ''k''\<rparr>)"
    by (simp add: NewConfig_def applyServerConfig_def applyJWTConfig_def jwt_settings_def applyCookieConfig_def applyPathConfig_def
        applyOidcConfig_def env_bool_def env_duration_def unset signing_key_def oidc_timeout_def check_def Let_def
        createDefaultConfig_def set_if_unset_def)
  then show ?thesis
    using NewConfig_valid by blast
qed

end
