(* ===== verification/KmsSigner.thy ===== *)
theory KmsSigner
  imports Jwt "HOL-Library.Multiset"
begin

text \<open>
  The signer with envelope encryption (\<open>internal/aws/jwt_kms.go\<close>), the client of the key management service it
  uses (\<open>internal/aws/kms_client.go\<close>) and the factory that configures it from an access strategy
  (\<open>internal/aws/signer_factory.go\<close>).

  Every token is signed with a data key of its own; the token's header has the key encrypted by the
  service. Decrypted keys are cached: the two maps of the source are the association lists
  \<open>at_keyCache\<close> and \<open>at_cacheExpiry\<close> of the state, and the order in which Go visits a map is the parameter \<open>e_order\<close>. The
  locks of the source make each cache operation one step; here the operations run one after the other.
  Base64 in the URL alphabet (\<open>encoding/base64\<close>) is written out.
\<close>

section \<open>Base64\<close>

definition b64_symbol :: "nat \<Rightarrow> char" where
  "b64_symbol v = (if v < 26 then char_of (v + 65) else if v < 52 then char_of (v + 71)
     else if v < 62 then char_of (v - 4) else if v = 62 then CHR ''-'' else CHR ''_'')"

definition b64_value :: "char \<Rightarrow> nat option" where
  "b64_value c = (if 65 \<le> byte c \<and> byte c \<le> 90 then Some (byte c - 65)
     else if 97 \<le> byte c \<and> byte c \<le> 122 then Some (byte c - 71)
     else if 48 \<le> byte c \<and> byte c \<le> 57 then Some (byte c + 4)
     else if c = CHR ''-'' then Some 62 else if c = CHR ''_'' then Some 63 else None)"

fun b64_groups :: "nat list \<Rightarrow> string" where
  "b64_groups [] = []"
| "b64_groups [a] = [b64_symbol (a div 4), b64_symbol (a mod 4 * 16), CHR ''='', CHR ''='']"
| "b64_groups [a, b] = [b64_symbol (a div 4), b64_symbol (a mod 4 * 16 + b div 16), b64_symbol (b mod 16 * 4), CHR ''='']"
| "b64_groups (a # b # c # bs) = [b64_symbol (a div 4), b64_symbol (a mod 4 * 16 + b div 16),
     b64_symbol (b mod 16 * 4 + c div 64), b64_symbol (c mod 64)] @ b64_groups bs"

definition b64_encode :: "string \<Rightarrow> string" where
  "b64_encode s = b64_groups (map byte s)"

text \<open>Groups of four symbols; padding ends the input. Line breaks are skipped.\<close>

fun b64_quads :: "string \<Rightarrow> nat list option" where
  "b64_quads [] = Some []"
| "b64_quads (p # q # r # s # rest) = (case (b64_value p, b64_value q) of
     (Some a, Some b) \<Rightarrow>
       if r = CHR ''='' then if s = CHR ''='' \<and> rest = [] then Some [a * 4 + b div 16] else None
       else (case b64_value r of
         None \<Rightarrow> None
       | Some c \<Rightarrow>
           if s = CHR ''='' then if rest = [] then Some [a * 4 + b div 16, b mod 16 * 16 + c div 4] else None
           else (case (b64_value s, b64_quads rest) of
             (Some d, Some bs) \<Rightarrow> Some ([a * 4 + b div 16, b mod 16 * 16 + c div 4, c mod 4 * 64 + d] @ bs)
           | _ \<Rightarrow> None))
   | _ \<Rightarrow> None)"
| "b64_quads _ = None"

definition b64_decode :: "string \<Rightarrow> string res" where
  "b64_decode s = (case b64_quads (filter (\<lambda>c. byte c \<noteq> 13 \<and> byte c \<noteq> 10) s) of
     None \<Rightarrow> Inl (Msg ''illegal base64 data'') | Some bs \<Rightarrow> Inr (map char_of bs))"

section \<open>The service client\<close>

definition GenerateDataKey :: "auth_env \<Rightarrow> string \<Rightarrow> enc_ctx \<Rightarrow> ((string \<times> string) res) auth_io" where
  "GenerateDataKey e keyId encryptionContext =
     bind_ok (request (\<lambda>h. e_kms_generate e h keyId encryptionContext) (CGenerateDataKey keyId encryptionContext))
       (Wrap ''failed to generate data key'') (\<lambda>r. State_Monad.return (Inr r))"

definition Decrypt :: "auth_env \<Rightarrow> string \<Rightarrow> enc_ctx \<Rightarrow> (string res) auth_io" where
  "Decrypt e ciphertextBlob encryptionContext =
     bind_ok (request (\<lambda>h. e_kms_decrypt e h ciphertextBlob encryptionContext) (CDecrypt ciphertextBlob encryptionContext))
       (Wrap ''failed to decrypt data'') (\<lambda>r. State_Monad.return (Inr r))"

section \<open>The manager and its cache\<close>

record kms_manager =
  km_keyId :: string
  km_issuer :: string
  km_audience :: string
  km_expiration :: int
  km_encryptionContext :: enc_ctx
  km_maxCacheSize :: int
  km_evictBatchSize :: int

abbreviation defaultEvictBatchSize :: int where "defaultEvictBatchSize \<equiv> 1000"
abbreviation defaultMaxCacheSize :: int where "defaultMaxCacheSize \<equiv> 10000"
abbreviation minute :: int where "minute \<equiv> 60000000000"

text \<open>The configuration has the fields of the manager; the manager starts with empty maps.\<close>

definition NewKMSJWTManager :: "auth_env \<Rightarrow> kms_manager \<Rightarrow> kms_manager auth_io" where
  "NewKMSJWTManager e config = do {
     let maxSize = (if km_maxCacheSize config \<le> 0 then defaultMaxCacheSize else km_maxCacheSize config);
     let evictSize = (if km_evictBatchSize config \<le> 0 then defaultEvictBatchSize else km_evictBatchSize config);
     t \<leftarrow> now e;
     State_Monad.update (\<lambda>s. s\<lparr>at_keyCache := [], at_cacheExpiry := [], at_lastCleanup := t\<rparr>);
     State_Monad.return (config\<lparr>km_maxCacheSize := maxSize, km_evictBatchSize := evictSize\<rparr>)
   }"

definition hashKey :: "auth_env \<Rightarrow> string \<Rightarrow> string" where
  "hashKey e encryptedKey = b64_encode (e_sha256 e encryptedKey)"

text \<open>Deleting keys from both maps.\<close>

definition drop_keys :: "string list \<Rightarrow> auth_state \<Rightarrow> auth_state" where
  "drop_keys hs s = s\<lparr>at_keyCache := fold AList.delete hs (at_keyCache s),
     at_cacheExpiry := fold AList.delete hs (at_cacheExpiry s)\<rparr>"

definition evictIfNeeded :: "auth_env \<Rightarrow> kms_manager \<Rightarrow> auth_state \<Rightarrow> auth_state" where
  "evictIfNeeded e m s =
     (if int (length (at_keyCache s)) < km_maxCacheSize m then s
      else let entries = sort_key snd (e_order e (at_ticks s) (at_cacheExpiry s));
               evictCount = (if km_evictBatchSize m > int (length entries) then int (length entries) else km_evictBatchSize m)
           in drop_keys (map fst (take (nat evictCount) entries)) s)"

definition setCachedKey :: "auth_env \<Rightarrow> kms_manager \<Rightarrow> string \<Rightarrow> string \<Rightarrow> unit auth_io" where
  "setCachedKey e m keyHash plaintextKey = do {
     State_Monad.update (evictIfNeeded e m);
     t \<leftarrow> now e;
     State_Monad.update (\<lambda>s. s\<lparr>at_keyCache := AList.update keyHash plaintextKey (at_keyCache s),
       at_cacheExpiry := AList.update keyHash (t + (km_expiration m + 15 * minute)) (at_cacheExpiry s)\<rparr>)
   }"

text \<open>The test is made before and after taking the lock, each time with the current time.\<close>

definition cleanupExpiredKeys :: "auth_env \<Rightarrow> unit auth_io" where
  "cleanupExpiredKeys e = do {
     t1 \<leftarrow> now e;
     s1 \<leftarrow> State_Monad.get;
     (if since t1 (at_lastCleanup s1) \<le> 15 * minute then State_Monad.return ()
      else do {
        t2 \<leftarrow> now e;
        (if since t2 (at_lastCleanup s1) \<le> 15 * minute then State_Monad.return ()
         else do {
           t \<leftarrow> now e;
           State_Monad.update (\<lambda>s. (drop_keys
             (map fst (filter (\<lambda>p. snd p < t) (e_order e (at_ticks s) (at_cacheExpiry s)))) s)\<lparr>at_lastCleanup := t\<rparr>)
         })
      })
   }"

section \<open>Tokens\<close>

definition kms_GenerateToken :: "auth_env \<Rightarrow> kms_manager \<Rightarrow> token_args \<Rightarrow> (string res) auth_io" where
  "kms_GenerateToken e m a = do {
     t \<leftarrow> now e;
     bind_ok (GenerateDataKey e (km_keyId m) (km_encryptionContext m)) (Wrap ''failed to generate data key'')
       (\<lambda>(plaintextKey, encryptedKey).
         (case j_sign (e_jwt e) \<lparr>hd_alg = HS384, hd_edk = Some (b64_encode encryptedKey)\<rparr>
                 (make_claims (e_jwt e) (km_issuer m) (km_audience m) (km_expiration m) t a) plaintextKey of
            Inl err \<Rightarrow> State_Monad.return (Inl (Wrap ''failed to sign token'' err))
          | Inr tokenString \<Rightarrow> do {
              setCachedKey e m (hashKey e encryptedKey) plaintextKey;
              State_Monad.return (Inr tokenString)
            }))
   }"

text \<open>The key function of \<open>ValidateToken\<close>.\<close>

definition kms_key :: "auth_env \<Rightarrow> kms_manager \<Rightarrow> jwt_header \<Rightarrow> (string res) auth_io" where
  "kms_key e m h =
     (if hd_alg h \<noteq> HS384
      then State_Monad.return (Inl (Msg (''unexpected signing method: '' @ alg_name (hd_alg h) @ '', expected HS384'')))
      else case hd_edk h of
        None \<Rightarrow> State_Monad.return (Inl (Msg ''missing encrypted data key in header''))
      | Some edkStr \<Rightarrow> (case b64_decode edkStr of
          Inl err \<Rightarrow> State_Monad.return (Inl (Wrap ''invalid encrypted data key'' err))
        | Inr encryptedKey \<Rightarrow> do {
            s \<leftarrow> State_Monad.get;
            (case map_of (at_keyCache s) (hashKey e encryptedKey) of
               Some plaintextKey \<Rightarrow> State_Monad.return (Inr plaintextKey)
             | None \<Rightarrow> do {
                 cleanupExpiredKeys e;
                 bind_ok (Decrypt e encryptedKey (km_encryptionContext m)) (Wrap ''failed to decrypt data key'')
                   (\<lambda>plaintextKey. do {
                     setCachedKey e m (hashKey e encryptedKey) plaintextKey;
                     State_Monad.return (Inr plaintextKey)
                   })
               })
          }))"

definition kms_opts :: jwt_opts where
  "kms_opts = \<lparr>op_issuer = None, op_audience = None, op_methods = None, op_leeway = 0\<rparr>"

definition kms_ValidateToken :: "auth_env \<Rightarrow> kms_manager \<Rightarrow> string \<Rightarrow> (claims res) auth_io" where
  "kms_ValidateToken e m tokenString = (case j_parse (e_jwt e) kms_opts tokenString of
     Inl err \<Rightarrow> State_Monad.return (Inl (je_err err))
   | Inr (h, resume) \<Rightarrow> do {
       key \<leftarrow> kms_key e m h;
       t \<leftarrow> now e;
       (case resume key t of
          Inl err \<Rightarrow> State_Monad.return (Inl (je_err err))
        | Inr (_, claims) \<Rightarrow> do {
            t' \<leftarrow> now e;
            State_Monad.return (case c_ExpiresAt claims of
                Some x \<Rightarrow> if x < t' then Inl ErrTokenExpired else Inr claims
              | None \<Rightarrow> Inr claims)
          })
     })"

definition KMSSigner :: "auth_env \<Rightarrow> kms_manager \<Rightarrow> signer" where
  "KMSSigner e m = \<lparr>sn_GenerateToken = kms_GenerateToken e m, sn_ValidateToken = kms_ValidateToken e m\<rparr>"

section \<open>The factory\<close>

record signer_factory =
  sf_defaultKeyId :: string
  sf_expiration :: int

definition kms_config :: "string \<Rightarrow> string \<Rightarrow> string \<Rightarrow> int \<Rightarrow> enc_ctx \<Rightarrow> kms_manager" where
  "kms_config keyId issuer audience expiration encryptionContext = \<lparr>km_keyId = keyId, km_issuer = issuer,
     km_audience = audience, km_expiration = expiration, km_encryptionContext = encryptionContext,
     km_maxCacheSize = 0, km_evictBatchSize = 0\<rparr>"

definition createDefaultSigner :: "auth_env \<Rightarrow> signer_factory \<Rightarrow> signer auth_io" where
  "createDefaultSigner e f = do {
     m \<leftarrow> NewKMSJWTManager e (kms_config (sf_defaultKeyId f) ''jupyter-k8s'' ''workspace-ui'' (sf_expiration f) []);
     State_Monad.return (KMSSigner e m)
   }"

definition CreateSigner :: "auth_env \<Rightarrow> signer_factory \<Rightarrow> access_strategy option \<Rightarrow> (signer res) auth_io" where
  "CreateSigner e f accessStrategy = (case accessStrategy of
     None \<Rightarrow> do { sg \<leftarrow> createDefaultSigner e f; State_Monad.return (Inr sg) }
   | Some as \<Rightarrow>
       let handler = as_CreateConnectionHandler (a_Spec as); ctx = as_CreateConnectionContext (a_Spec as) in
       if handler = '''' then do { sg \<leftarrow> createDefaultSigner e f; State_Monad.return (Inr sg) }
       else if handler \<noteq> ''aws'' then State_Monad.return (Inl (Msg (''unsupported connection handler: '' @ handler)))
       else let keyId = map_get ctx ''kmsKeyId''; encCtxStr = map_get ctx ''encryptionContext'' in
         if keyId = '''' then State_Monad.return (Inl (Msg ''kmsKeyId is required in createConnectionContext''))
         else (case (if encCtxStr \<noteq> '''' then e_json_map e encCtxStr else Inr []) of
             Inl err \<Rightarrow> State_Monad.return (Inl (Wrap ''failed to parse encryptionContext'' err))
           | Inr encryptionContext \<Rightarrow> do {
               m \<leftarrow> NewKMSJWTManager e (kms_config keyId ''jupyter-k8s'' ''workspace-ui'' (sf_expiration f) encryptionContext);
               State_Monad.return (Inr (KMSSigner e m))
             }))"

section \<open>Base64 round trip\<close>

lemma b64_value_symbol [simp]: "v < 64 \<Longrightarrow> b64_value (b64_symbol v) = Some v"
proof -
  assume v: "v < 64"
  have d: "byte (CHR ''-'') = (45::nat)" "byte (CHR ''_'') = (95::nat)"
    by simp_all
  consider "v < 26" | "26 \<le> v" "v < 52" | "52 \<le> v" "v < 62" | "v = 62" | "v = 63"
    using v by linarith
  then show ?thesis
    by cases (auto simp: b64_value_def b64_symbol_def)
qed

lemma b64_symbol_plain: "v < 64 \<Longrightarrow> byte (b64_symbol v) \<noteq> 13 \<and> byte (b64_symbol v) \<noteq> 10 \<and> b64_symbol v \<noteq> CHR ''=''"
proof -
  assume v: "v < 64"
  then have "b64_value (b64_symbol v) = Some v"
    by simp
  then show ?thesis
    by (auto simp: b64_value_def split: if_split_asm)
qed

lemma pieces_bounds:
  "a < (256::nat) \<Longrightarrow> a div 4 < 64" "a mod 4 * 16 < (64::nat)" "b < (256::nat) \<Longrightarrow> a mod 4 * 16 + b div 16 < 64"
  "b mod 16 * 4 < (64::nat)" "c < (256::nat) \<Longrightarrow> b mod 16 * 4 + c div 64 < 64" "c mod 64 < (64::nat)"
proof -
  have "a mod 4 \<le> 3" "b mod 16 \<le> 15" and "b < 256 \<Longrightarrow> b div 16 \<le> 15" "c < 256 \<Longrightarrow> c div 64 \<le> 3"
    by auto
  then show "a < 256 \<Longrightarrow> a div 4 < 64" "a mod 4 * 16 < 64" "b < 256 \<Longrightarrow> a mod 4 * 16 + b div 16 < 64"
    "b mod 16 * 4 < 64" "c < 256 \<Longrightarrow> b mod 16 * 4 + c div 64 < 64" "c mod 64 < 64"
    by auto
qed

lemma pieces_small:
  "b < (256::nat) \<Longrightarrow> b div 16 mod 16 = b div 16" "b < (256::nat) \<Longrightarrow> b div 16 div 16 = 0"
  "c < (256::nat) \<Longrightarrow> c div 64 mod 4 = c div 64" "c < (256::nat) \<Longrightarrow> c div 64 div 4 = 0"
  by (auto simp: less_mult_imp_div_less)

lemma b64_groups_plain:
  assumes "\<forall>b \<in> set bs. b < 256"
  shows "\<forall>c \<in> set (b64_groups bs). byte c \<noteq> 13 \<and> byte c \<noteq> 10"
  using assms by (induction bs rule: b64_groups.induct) (auto simp: b64_symbol_plain pieces_bounds)

lemma b64_quads_groups:
  assumes "\<forall>b \<in> set bs. b < 256"
  shows "b64_quads (b64_groups bs) = Some bs"
  using assms
  by (induction bs rule: b64_groups.induct)
    (simp_all add: b64_symbol_plain pieces_bounds pieces_small)

lemma b64_roundtrip: "b64_decode (b64_encode s) = Inr s"
proof -
  have b: "\<forall>b \<in> set (map byte s). b < 256"
    by simp
  then have "filter (\<lambda>c. byte c \<noteq> 13 \<and> byte c \<noteq> 10) (b64_groups (map byte s)) = b64_groups (map byte s)"
    using b64_groups_plain [OF b] by (simp add: filter_id_conv)
  then show ?thesis
    using b64_quads_groups [OF b] by (simp add: b64_decode_def b64_encode_def map_idI)
qed

section \<open>The cache\<close>

text \<open>Visiting a map lists its entries in some order.\<close>

definition order_law :: "auth_env \<Rightarrow> bool" where
  "order_law e \<longleftrightarrow> (\<forall>n xs. mset (e_order e n xs) = mset xs)"

definition sizes_ok :: "kms_manager \<Rightarrow> bool" where
  "sizes_ok m \<longleftrightarrow> 0 < km_maxCacheSize m \<and> 0 < km_evictBatchSize m"

text \<open>Both maps have the same keys, one entry per key, and at most the configured number of them.\<close>

definition same_keys :: "auth_state \<Rightarrow> bool" where
  "same_keys s \<longleftrightarrow> distinct (map fst (at_keyCache s)) \<and> distinct (map fst (at_cacheExpiry s)) \<and>
     fst ` set (at_keyCache s) = fst ` set (at_cacheExpiry s)"

definition cache_ok :: "kms_manager \<Rightarrow> auth_state \<Rightarrow> bool" where
  "cache_ok m s \<longleftrightarrow> same_keys s \<and> int (length (at_keyCache s)) \<le> km_maxCacheSize m"

lemma fold_delete: "fold AList.delete hs xs = filter (\<lambda>p. fst p \<notin> set hs) xs"
  by (induction hs arbitrary: xs) (auto simp: AList.delete_eq intro!: filter_cong)

lemma drop_keys_same:
  assumes "same_keys s"
  shows "same_keys (drop_keys hs s)" "length (at_keyCache (drop_keys hs s)) \<le> length (at_keyCache s)"
  using assms
  by (auto simp: same_keys_def drop_keys_def fold_delete distinct_map_filter image_iff length_filter_le) force+

lemma drop_keys_cache_ok: "cache_ok m s \<Longrightarrow> cache_ok m (drop_keys hs s)"
  using drop_keys_same [of s hs] by (simp add: cache_ok_def)

lemma evictIfNeeded_room:
  assumes "cache_ok m s" and "sizes_ok m" and "order_law e"
  shows "same_keys (evictIfNeeded e m s)" "int (length (at_keyCache (evictIfNeeded e m s))) < km_maxCacheSize m"
proof -
  show "same_keys (evictIfNeeded e m s)"
    using assms(1) by (simp add: evictIfNeeded_def Let_def cache_ok_def drop_keys_same)
  show "int (length (at_keyCache (evictIfNeeded e m s))) < km_maxCacheSize m"
  proof (cases "int (length (at_keyCache s)) < km_maxCacheSize m")
    case False
    define es where "es = sort_key snd (e_order e (at_ticks s) (at_cacheExpiry s))"
    define hs where "hs = map fst (take (nat (if km_evictBatchSize m > int (length es) then int (length es)
      else km_evictBatchSize m)) es)"
    have set: "mset es = mset (at_cacheExpiry s)"
      using assms(3) by (simp add: es_def order_law_def)
    then have keys: "fst ` set es = fst ` set (at_keyCache s)"
      using assms(1) by (metis cache_ok_def same_keys_def set_mset_mset)
    have "at_keyCache s \<noteq> []"
      using False assms(2) by (auto simp: sizes_ok_def)
    then obtain x rest where es: "es = x # rest"
      using keys by (cases es) auto
    then have "fst x \<in> set hs"
      using assms(2) by (auto simp: hs_def sizes_ok_def take_Cons' nat_eq_iff)
    moreover have "fst x \<in> fst ` set (at_keyCache s)"
      using keys es by auto
    ultimately have "length (filter (\<lambda>p. fst p \<notin> set hs) (at_keyCache s)) < length (at_keyCache s)"
      by (auto intro!: length_filter_less)
    moreover have "evictIfNeeded e m s = drop_keys hs s"
      using False by (simp add: evictIfNeeded_def Let_def hs_def es_def)
    ultimately show ?thesis
      using assms(1) by (simp add: drop_keys_def fold_delete cache_ok_def)
  qed (simp add: evictIfNeeded_def)
qed

abbreviation keeps :: "(auth_state \<Rightarrow> bool) \<Rightarrow> 'a auth_io \<Rightarrow> bool" where
  "keeps P \<equiv> state_io_rel (\<lambda>s s'. P s \<longrightarrow> P s')"

lemma keeps_preorder: "reflp (\<lambda>s s'. P s \<longrightarrow> P s')" "transp (\<lambda>s s'. P s \<longrightarrow> P s')"
  by (auto simp: reflp_def transp_def)

lemmas keeps_return [intro!] = state_io_rel_return [OF keeps_preorder(1)]
lemmas keeps_bind [intro!] = state_io_rel_bind [OF keeps_preorder(2)]
lemmas keeps_bind_ok [intro!] = state_io_rel_bind_ok [OF keeps_preorder(2) keeps_preorder(1)]

lemma keeps_update: "(\<And>s. P s \<Longrightarrow> P (f s)) \<Longrightarrow> keeps P (State_Monad.update f)"
  by (auto simp: state_io_rel_def State_Monad.update_def)

lemma keeps_steps [intro!]: "keeps (cache_ok m) (now e)" "keeps (cache_ok m) (request f c)" "keeps (cache_ok m) State_Monad.get"
  by (auto simp: state_io_rel_def cache_ok_def same_keys_def)

lemma update_keys:
  "distinct (map fst xs) \<Longrightarrow> distinct (map fst (AList.update h v xs))"
  "fst ` set (AList.update h v xs) = insert h (fst ` set xs)" "length (AList.update h v xs) \<le> Suc (length xs)"
  by (simp add: distinct_update) (induction xs; auto)+

lemma setCachedKey_keeps:
  assumes "sizes_ok m" and "order_law e"
  shows "keeps (cache_ok m) (setCachedKey e m h k)"
proof -
  have "cache_ok m (snd (run_state (setCachedKey e m h k) s))" if "cache_ok m s" for s
  proof -
    define s1 where "s1 = evictIfNeeded e m s"
    have s1: "same_keys s1" "int (length (at_keyCache s1)) < km_maxCacheSize m"
      using evictIfNeeded_room [OF that assms] by (simp_all add: s1_def)
    have "snd (run_state (setCachedKey e m h k) s) = s1\<lparr>at_ticks := Suc (at_ticks s1),
        at_keyCache := AList.update h k (at_keyCache s1),
        at_cacheExpiry := AList.update h (e_now e (at_ticks s1) + (km_expiration m + 15 * minute)) (at_cacheExpiry s1)\<rparr>"
      by (simp add: setCachedKey_def State_Monad.update_def s1_def)
    then show ?thesis
      using s1 update_keys(3) [of h k "at_keyCache s1"] by (simp add: cache_ok_def same_keys_def update_keys(1,2))
  qed
  then show ?thesis
    by (simp add: state_io_rel_def)
qed

lemma cleanupExpiredKeys_keeps: "keeps (cache_ok m) (cleanupExpiredKeys e)"
proof -
  have "cache_ok m ((drop_keys hs s)\<lparr>at_lastCleanup := t\<rparr>)" if "cache_ok m s" for hs s t
    using drop_keys_cache_ok [OF that] by (simp add: cache_ok_def same_keys_def)
  then show ?thesis
    unfolding cleanupExpiredKeys_def by (auto intro!: keeps_update)
qed

lemma kms_keeps:
  assumes "sizes_ok m" and "order_law e"
  shows "keeps (cache_ok m) (kms_GenerateToken e m a)" "keeps (cache_ok m) (kms_ValidateToken e m tok)"
proof -
  note set = setCachedKey_keeps [OF assms]
  show "keeps (cache_ok m) (kms_GenerateToken e m a)"
    unfolding kms_GenerateToken_def GenerateDataKey_def using set by (auto split: sum.split)
  have "keeps (cache_ok m) (kms_key e m h)" for h
    unfolding kms_key_def Decrypt_def using set cleanupExpiredKeys_keeps by (auto split: option.split sum.split)
  then show "keeps (cache_ok m) (kms_ValidateToken e m tok)"
    unfolding kms_ValidateToken_def by (auto split: sum.split)
qed

text \<open>The requests a manager serves, one after the other.\<close>

datatype kms_op = OpGenerate token_args | OpValidate string

fun serve :: "auth_env \<Rightarrow> kms_manager \<Rightarrow> kms_op list \<Rightarrow> unit auth_io" where
  "serve e m [] = State_Monad.return ()"
| "serve e m (OpGenerate a # ops) = do { kms_GenerateToken e m a; serve e m ops }"
| "serve e m (OpValidate tok # ops) = do { kms_ValidateToken e m tok; serve e m ops }"

lemma serve_keeps:
  assumes "sizes_ok m" and "order_law e"
  shows "keeps (cache_ok m) (serve e m ops)"
  using kms_keeps [OF assms] by (induction ops rule: serve.induct) auto

text \<open>
  C31. The key cache is bounded. After any sequence of requests to a new manager, the cache has at most the
  configured number of keys (ten thousand by default), one per encrypted key, and the map of keys and
  the map of their expiry have the same domain; so eviction and cleanup always find every cached key.
\<close>

theorem kms_cache_bounded:
  assumes "order_law e"
  shows "case run_state (NewKMSJWTManager e config) s of (m, s0) \<Rightarrow>
    let s1 = snd (run_state (serve e m ops) s0) in
      int (length (at_keyCache s1)) \<le> km_maxCacheSize m \<and>
      km_maxCacheSize m = (if km_maxCacheSize config \<le> 0 then 10000 else km_maxCacheSize config) \<and>
      distinct (map fst (at_keyCache s1)) \<and> dom (map_of (at_keyCache s1)) = dom (map_of (at_cacheExpiry s1))"
proof -
  obtain m s0 where r: "run_state (NewKMSJWTManager e config) s = (m, s0)"
    by fastforce
  then have m: "sizes_ok m" "km_maxCacheSize m = (if km_maxCacheSize config \<le> 0 then 10000 else km_maxCacheSize config)"
    and "cache_ok m s0"
    by (auto simp: NewKMSJWTManager_def State_Monad.update_def Let_def sizes_ok_def cache_ok_def same_keys_def)
  then have "cache_ok m (snd (run_state (serve e m ops) s0))"
    using serve_keeps [OF m(1) assms, of ops] by (auto simp: state_io_rel_def)
  then show ?thesis
    using r m(2) by (simp add: cache_ok_def same_keys_def Let_def dom_map_of_conv_image_fst)
qed

theorem kms_cache_bounded_witness:
  "int (length (at_keyCache (snd (run_state (serve quiet_env (kms_config '''' '''' '''' 0 []\<lparr>km_maxCacheSize := 2, km_evictBatchSize := 1000\<rparr>)
     [OpGenerate alice_args]) (idle_auth\<lparr>at_ticks := 1\<rparr>))))) \<le> 2"
proof -
  have "order_law quiet_env"
    by (simp add: order_law_def quiet_env_def)
  from kms_cache_bounded [OF this, where config = "kms_config '''' '''' '''' 0 []\<lparr>km_maxCacheSize := 2\<rparr>" and s = idle_auth
      and ops = "[OpGenerate alice_args]"]
  show ?thesis
    by (simp add: NewKMSJWTManager_def State_Monad.update_def Let_def kms_config_def idle_auth_def quiet_env_def)
qed

section \<open>Tokens of the KMS signer\<close>

lemma kms_GenerateToken_signed:
  assumes "fst (run_state (kms_GenerateToken e m a) s) = Inr tok"
  obtains p ck where "e_kms_generate e (at_calls s) (km_keyId m) (km_encryptionContext m) = Inr (p, ck)"
    "j_sign (e_jwt e) \<lparr>hd_alg = HS384, hd_edk = Some (b64_encode ck)\<rparr>
       (make_claims (e_jwt e) (km_issuer m) (km_audience m) (km_expiration m) (e_now e (at_ticks s)) a) p = Inr tok"
  using assms by (auto simp: kms_GenerateToken_def GenerateDataKey_def split: sum.splits prod.splits)

interpretation kms: token_signer e "KMSSigner e m" "km_issuer m" "km_audience m" "km_expiration m"
  for e :: auth_env and m :: kms_manager
  by unfold_locales (simp add: KMSSigner_def token_of_def, metis fst_conv kms_GenerateToken_signed)

text \<open>The service decrypts the keys it generated, in the same encryption context.\<close>

definition kms_law :: "auth_env \<Rightarrow> bool" where
  "kms_law e \<longleftrightarrow> (\<forall>calls keyId ctx p c. e_kms_generate e calls keyId ctx = Inr (p, c) \<longrightarrow>
     (\<forall>calls'. e_kms_decrypt e calls' c ctx = Inr p))"

text \<open>
  The digest of an encrypted key identifies it: no other ciphertext that the service decrypts in this context has the same SHA-256 digest.
\<close>

definition digest_law :: "auth_env \<Rightarrow> enc_ctx \<Rightarrow> string \<Rightarrow> bool" where
  "digest_law e ctx c \<longleftrightarrow> (\<forall>calls c' k. e_kms_decrypt e calls c' ctx = Inr k \<longrightarrow> e_sha256 e c' = e_sha256 e c \<longrightarrow> c' = c)"

section \<open>What the cache holds\<close>

text \<open>The cache holds the right key for a ciphertext, or none.\<close>

definition caches_right :: "auth_env \<Rightarrow> string \<Rightarrow> string \<Rightarrow> auth_state \<Rightarrow> bool" where
  "caches_right e c p s \<longleftrightarrow> (\<forall>k. map_of (at_keyCache s) (hashKey e c) = Some k \<longrightarrow> k = p)"

lemma hashKey_eq: "hashKey e c' = hashKey e c \<longleftrightarrow> e_sha256 e c' = e_sha256 e c"
  unfolding hashKey_def by (metis b64_roundtrip sum.inject(2))

lemma map_of_fold_delete: "map_of (fold AList.delete hs xs) key = Some v \<Longrightarrow> map_of xs key = Some v"
proof (induction hs arbitrary: xs)
  case (Cons h hs)
  then have "map_of (AList.delete h xs) key = Some v" by simp
  then show ?case by (simp add: AList.delete_conv split: if_splits)
qed simp

lemma drop_keys_right: "caches_right e c p s \<Longrightarrow> caches_right e c p (drop_keys hs s)"
  by (auto simp: caches_right_def drop_keys_def dest: map_of_fold_delete)

lemma setCachedKey_right:
  assumes "caches_right e c p s" "h = hashKey e c \<Longrightarrow> k = p"
  shows "caches_right e c p (snd (run_state (setCachedKey e m h k) s))"
proof -
  have "caches_right e c p (evictIfNeeded e m s)"
    using assms(1) by (simp add: evictIfNeeded_def Let_def drop_keys_right)
  then show ?thesis
    using assms(2) by (auto simp: setCachedKey_def State_Monad.update_def caches_right_def AList.update_conv')
qed

lemma cleanupExpiredKeys_right:
  assumes "caches_right e c p s"
  shows "caches_right e c p (snd (run_state (cleanupExpiredKeys e) s))"
proof -
  have other: "caches_right e c p (s\<lparr>at_ticks := n\<rparr>)" for n using assms by (simp add: caches_right_def)
  have "caches_right e c p ((drop_keys hs s1)\<lparr>at_lastCleanup := t\<rparr>)" if "caches_right e c p s1" for hs s1 t
    using drop_keys_right [OF that] by (simp add: caches_right_def)
  then show ?thesis
    using other by (simp add: cleanupExpiredKeys_def State_Monad.update_def Let_def)
qed

text \<open>Every request of a manager in the context of the ciphertext keeps this.\<close>

lemma kms_right:
  assumes key: "\<And>calls. e_kms_decrypt e calls c (km_encryptionContext m) = Inr p" and "kms_law e" "digest_law e (km_encryptionContext m) c"
  shows "keeps (caches_right e c p) (kms_GenerateToken e m a)" and "keeps (caches_right e c p) (kms_ValidateToken e m tok)"
proof -
  have decrypted: "k = p" if "e_kms_decrypt e calls c' (km_encryptionContext m) = Inr k" "hashKey e c' = hashKey e c" for calls c' k
    using that key [of calls] assms(3) unfolding digest_law_def hashKey_eq by (metis sum.inject(2))
  have generated: "p' = p" if "e_kms_generate e calls id (km_encryptionContext m) = Inr (p', c')" "hashKey e c' = hashKey e c" for calls id p' c'
    using that decrypted assms(2) unfolding kms_law_def by metis
  have free: "caches_right e c p (s\<lparr>at_ticks := n\<rparr>)" "caches_right e c p (s\<lparr>at_calls := cs\<rparr>)" if "caches_right e c p s" for s n cs
    using that by (simp_all add: caches_right_def)
  show "keeps (caches_right e c p) (kms_GenerateToken e m a)"
  proof (rule state_io_relI, rule impI)
    fix r s s' assume run: "run_state (kms_GenerateToken e m a) s = (r, s')" and s: "caches_right e c p s"
    let ?s = "s\<lparr>at_ticks := Suc (at_ticks s), at_calls := at_calls s @ [CGenerateDataKey (km_keyId m) (km_encryptionContext m)]\<rparr>"
    have ok: "caches_right e c p ?s" using s by (simp add: caches_right_def)
    consider "s' = ?s" | p' c' where "e_kms_generate e (at_calls s) (km_keyId m) (km_encryptionContext m) = Inr (p', c')"
        "s' = snd (run_state (setCachedKey e m (hashKey e c') p') ?s)"
      using run by (auto simp: kms_GenerateToken_def GenerateDataKey_def Let_def split: sum.splits prod.splits)
    then show "caches_right e c p s'"
    proof cases
      case 2
      then show ?thesis using setCachedKey_right [OF ok] generated by metis
    qed (use ok in simp)
  qed
  have "keeps (caches_right e c p) (kms_key e m hd)" for hd
  proof (rule state_io_relI, rule impI)
    fix r s s' assume run: "run_state (kms_key e m hd) s = (r, s')" and s: "caches_right e c p s"
    define s1 where "s1 = snd (run_state (cleanupExpiredKeys e) s)"
    have clean: "run_state (cleanupExpiredKeys e) s = ((), s1)" by (simp add: s1_def prod_eq_iff)
    have s1: "caches_right e c p (s1\<lparr>at_calls := cs\<rparr>)" for cs
      using cleanupExpiredKeys_right [OF s] free by (simp add: s1_def)
    consider "s' = s" | cs where "s' = s1\<lparr>at_calls := cs\<rparr>" | c' k calls cs where "e_kms_decrypt e calls c' (km_encryptionContext m) = Inr k"
        "s' = snd (run_state (setCachedKey e m (hashKey e c') k) (s1\<lparr>at_calls := cs\<rparr>))"
      using run clean by (auto simp: kms_key_def Decrypt_def split: if_splits option.splits sum.splits prod.splits) (metis snd_conv)
    then show "caches_right e c p s'"
    proof cases
      case 3
      then show ?thesis using setCachedKey_right [OF s1] decrypted by metis
    qed (use s s1 in simp_all)
  qed
  moreover have "keeps (caches_right e c p) (now e)" using free by (auto simp: state_io_rel_def)
  ultimately show "keeps (caches_right e c p) (kms_ValidateToken e m tok)"
    unfolding kms_ValidateToken_def by (auto split: sum.split)
qed

lemma serve_right:
  assumes "\<And>calls. e_kms_decrypt e calls c (km_encryptionContext m) = Inr p" "kms_law e" "digest_law e (km_encryptionContext m) c"
  shows "keeps (caches_right e c p) (serve e m ops)"
  using kms_right [OF assms] by (induction ops rule: serve.induct) auto

lemma ticks_drop [simp]: "at_ticks (drop_keys hs s) = at_ticks s" "at_ticks (evictIfNeeded e m s) = at_ticks s"
  "at_calls (drop_keys hs s) = at_calls s" "at_calls (evictIfNeeded e m s) = at_calls s"
  by (simp_all add: drop_keys_def evictIfNeeded_def Let_def)

lemma run_setCachedKey_ticks [simp]:
  "at_ticks (snd (run_state (setCachedKey e m h k) s)) = Suc (at_ticks s)"
  by (simp add: setCachedKey_def State_Monad.update_def)

lemma run_cleanup_ticks:
  "at_ticks (snd (run_state (cleanupExpiredKeys e) s)) \<in> {at_ticks s .. at_ticks s + 3}"
  by (simp add: cleanupExpiredKeys_def State_Monad.update_def Let_def)

lemma kms_key_answer:
  assumes "caches_right e c p s" and "\<forall>calls. e_kms_decrypt e calls c (km_encryptionContext m) = Inr p"
  shows "fst (run_state (kms_key e m \<lparr>hd_alg = HS384, hd_edk = Some (b64_encode c)\<rparr>) s) = Inr p"
    and "at_ticks (snd (run_state (kms_key e m \<lparr>hd_alg = HS384, hd_edk = Some (b64_encode c)\<rparr>) s)) \<in> {at_ticks s .. at_ticks s + 4}"
proof -
  define s1 where "s1 = snd (run_state (cleanupExpiredKeys e) s)"
  have s1: "run_state (cleanupExpiredKeys e) s = ((), s1)" "at_ticks s1 \<in> {at_ticks s .. at_ticks s + 3}"
    using run_cleanup_ticks [of e s] by (simp_all add: s1_def prod_eq_iff)
  have cached: "k = p" if "map_of (at_keyCache s) (hashKey e c) = Some k" for k
    using that assms by (simp add: caches_right_def)
  define s2 where "s2 = snd (run_state (setCachedKey e m (hashKey e c) p) (s1\<lparr>at_calls := at_calls s1 @ [CDecrypt c (km_encryptionContext m)]\<rparr>))"
  have s2: "run_state (setCachedKey e m (hashKey e c) p) (s1\<lparr>at_calls := at_calls s1 @ [CDecrypt c (km_encryptionContext m)]\<rparr>) = ((), s2)"
    "at_ticks s2 = Suc (at_ticks s1)"
    by (simp_all add: s2_def prod_eq_iff)
  have "run_state (kms_key e m \<lparr>hd_alg = HS384, hd_edk = Some (b64_encode c)\<rparr>) s =
      (Inr p, if map_of (at_keyCache s) (hashKey e c) = None then s2 else s)"
    using assms(2) cached s1(1) s2(1)
    by (simp add: kms_key_def b64_roundtrip Decrypt_def split: option.split)
  then show "fst (run_state (kms_key e m \<lparr>hd_alg = HS384, hd_edk = Some (b64_encode c)\<rparr>) s) = Inr p"
    "at_ticks (snd (run_state (kms_key e m \<lparr>hd_alg = HS384, hd_edk = Some (b64_encode c)\<rparr>) s)) \<in> {at_ticks s .. at_ticks s + 4}"
    using s1(2) s2(2) by auto
qed

text \<open>
  C32. Any replica accepts a token of the KMS signer. A token issued by one manager is accepted throughout its lifetime, with the
  claims it was issued for, by every manager created with the same encryption context, whatever requests, for tokens of its own and for
  the validation of any strings, that manager has served before: its cache, filled, evicted and cleaned up by these requests, never holds
  another key for the token. The service decrypts what it generated, and digests tell ciphertexts apart.
\<close>

theorem kms_token_validity:
  assumes lib: "date_law (e_jwt e)" "parse_signed (e_jwt e)" and service: "kms_law e"
      "\<forall>calls keyId p c. e_kms_generate e calls keyId (km_encryptionContext m) = Inr (p, c) \<longrightarrow> digest_law e (km_encryptionContext m) c"
    and issued: "fst (run_state (kms_GenerateToken e m a) st) = Inr tok"
    and strings: "list_all valid_utf8 (km_issuer m # km_audience m # ta_user a # ta_uid a # ta_path a # ta_domain a #
        ta_tokenType a # ta_groups a)" "\<forall>k v. ta_extra a k = Some v \<longrightarrow> valid_utf8 k \<and> list_all valid_utf8 v"
    and replica: "run_state (NewKMSJWTManager e config) s = (m', s0)" "km_encryptionContext config = km_encryptionContext m"
      "st' = snd (run_state (serve e m' ops) s0)"
  defines "t \<equiv> e_now e (at_ticks st)"
  assumes alive: "\<forall>n. at_ticks st' \<le> n \<and> n \<le> at_ticks st' + 5 \<longrightarrow>
      t \<le> e_now e n \<and> e_now e n < j_date (e_jwt e) (t + km_expiration m)"
  shows "fst (run_state (kms_ValidateToken e m' tok) st') =
      Inr (make_claims (e_jwt e) (km_issuer m) (km_audience m) (km_expiration m) t a)"
proof -
  have fresh: "km_encryptionContext m' = km_encryptionContext m" "at_keyCache s0 = []"
    using replica(1,2) by (auto simp: NewKMSJWTManager_def State_Monad.update_def Let_def)
  define c where "c = make_claims (e_jwt e) (km_issuer m) (km_audience m) (km_expiration m) t a"
  obtain p ck where gen: "e_kms_generate e (at_calls st) (km_keyId m) (km_encryptionContext m) = Inr (p, ck)"
    and sig: "j_sign (e_jwt e) \<lparr>hd_alg = HS384, hd_edk = Some (b64_encode ck)\<rparr> c p = Inr tok"
    using kms_GenerateToken_signed [OF issued] unfolding c_def t_def by blast
  have utf8: "claims_text c"
    using strings by (simp add: claims_text_def c_def make_claims_def)
  have "method_ok kms_opts h" for h
    by (simp add: method_ok_def kms_opts_def)
  then obtain resume where parsed: "j_parse (e_jwt e) kms_opts tok = Inr (\<lparr>hd_alg = HS384, hd_edk = Some (b64_encode ck)\<rparr>, resume)"
    and resume: "\<forall>t. claims_ok kms_opts t c \<longrightarrow> resume (Inr p) t = Inr (True, c)"
    using lib(2) sig utf8 unfolding parse_signed_def by metis
  have dec: "\<And>calls. e_kms_decrypt e calls ck (km_encryptionContext m') = Inr p" and digest: "digest_law e (km_encryptionContext m') ck"
    using service gen fresh(1) by (auto simp: kms_law_def)
  have "caches_right e ck p s0" by (simp add: caches_right_def fresh(2))
  then have "caches_right e ck p st'"
    using state_io_relD [OF serve_right [OF dec service(1) digest, of ops]] replica(3) by (metis prod.collapse)
  note key = kms_key_answer [OF this, of m'] dec
  have date: "j_date (e_jwt e) t \<le> t"
    using lib(1) by (simp add: date_law_def)
  obtain s2 where s2: "run_state (kms_key e m' \<lparr>hd_alg = HS384, hd_edk = Some (b64_encode ck)\<rparr>) st' = (Inr p, s2)"
    "at_ticks s2 \<in> {at_ticks st' .. at_ticks st' + 4}"
    using key by (metis prod.collapse)
  then have times: "t \<le> e_now e (at_ticks s2)" "e_now e (at_ticks s2) < j_date (e_jwt e) (t + km_expiration m)"
    "e_now e (Suc (at_ticks s2)) < j_date (e_jwt e) (t + km_expiration m)"
    using alive by auto
  then have "claims_ok kms_opts (e_now e (at_ticks s2)) c"
    using date by (simp add: claims_ok_def time_ok_def kms_opts_def c_def)
  then show ?thesis
    using parsed resume s2(1) times by (simp add: kms_ValidateToken_def c_def)
qed

definition kms_demo :: kms_manager where
  "kms_demo = kms_config ''key'' ''i'' ''a'' 3600000000000 []\<lparr>km_maxCacheSize := 1, km_evictBatchSize := 1\<rparr>"

definition kms_env :: auth_env where
  "kms_env = quiet_env\<lparr>e_kms_generate := \<lambda>_ _ _. Inr (''p'', ''c''), e_kms_decrypt := \<lambda>_ c _. if c = ''c'' then Inr ''p'' else Inl (Msg ''unknown key''),
     e_jwt := table_jwt [(''tok'', \<lparr>hd_alg = HS384, hd_edk = Some (b64_encode ''c'')\<rparr>,
       make_claims (table_jwt []) ''i'' ''a'' 3600000000000 0 alice_args, ''p'')]\<rparr>"

theorem kms_token_validity_witness:
  "\<exists>st'. run_state (serve kms_env kms_demo [OpValidate ''tok'']) (idle_auth\<lparr>at_ticks := 3001, at_lastCleanup := 3000000000000\<rparr>) = ((), st') \<and>
     at_keyCache st' \<noteq> [] \<and> fst (run_state (kms_ValidateToken kms_env kms_demo ''tok'') st') =
     Inr (make_claims (e_jwt kms_env) ''i'' ''a'' 3600000000000 0 alice_args)"
proof -
  have laws: "date_law (e_jwt kms_env)" "parse_signed (e_jwt kms_env)" "kms_law kms_env"
    by (simp_all add: kms_env_def table_jwt_laws kms_law_def)
  have "j_sign (e_jwt kms_env) \<lparr>hd_alg = HS384, hd_edk = Some (b64_encode ''c'')\<rparr>
      (make_claims (e_jwt kms_env) ''i'' ''a'' 3600000000000 0 alice_args) ''p'' = Inr ''tok''"
    by (simp add: kms_env_def) (simp add: table_jwt_def)
  then have gen: "fst (run_state (kms_GenerateToken kms_env kms_demo alice_args) idle_auth) = Inr ''tok''"
    by (simp add: kms_GenerateToken_def GenerateDataKey_def kms_demo_def kms_config_def split: prod.split)
      (simp add: kms_env_def quiet_env_def idle_auth_def split: prod.split)
  have k: "km_issuer kms_demo = ''i''" "km_audience kms_demo = ''a''" "km_expiration kms_demo = 3600000000000"
    by (simp_all add: kms_demo_def kms_config_def)
  have n: "e_now kms_env = (\<lambda>n. 1000000000 * int n)" "j_date (e_jwt kms_env) x = x - x mod 1000000000" "at_ticks idle_auth = 0" for x
    by (simp_all add: kms_env_def quiet_env_def table_jwt_def idle_auth_def)
  have law: "\<forall>calls keyId p c. e_kms_generate kms_env calls keyId (km_encryptionContext kms_demo) = Inr (p, c) \<longrightarrow>
      digest_law kms_env (km_encryptionContext kms_demo) c"
    by (simp add: digest_law_def kms_env_def split: if_splits)
  let ?s0 = "idle_auth\<lparr>at_ticks := 3001, at_lastCleanup := 3000000000000\<rparr>"
  have new: "run_state (NewKMSJWTManager kms_env kms_demo) (idle_auth\<lparr>at_ticks := 3000\<rparr>) = (kms_demo, ?s0)"
    by (simp add: NewKMSJWTManager_def State_Monad.update_def Let_def n kms_demo_def kms_config_def idle_auth_def)
  obtain st' where st': "run_state (serve kms_env kms_demo [OpValidate ''tok'']) ?s0 = ((), st')" "at_keyCache st' \<noteq> []" "at_ticks st' \<le> 3010"
      "3001 \<le> at_ticks st'"
  proof -
    let ?hd = "\<lparr>hd_alg = HS384, hd_edk = Some (b64_encode ''c'')\<rparr>"
    obtain resume where parsed: "j_parse (e_jwt kms_env) kms_opts ''tok'' = Inr (?hd, resume)"
      by (simp add: kms_env_def table_jwt_def method_ok_def kms_opts_def)
    obtain s2 where s2: "run_state (kms_key kms_env kms_demo ?hd) ?s0 = (Inr ''p'', s2)" "at_keyCache s2 \<noteq> []" "at_ticks s2 = 3003"
      by (simp add: kms_key_def b64_roundtrip Decrypt_def cleanupExpiredKeys_def setCachedKey_def evictIfNeeded_def State_Monad.update_def n since_def
          idle_auth_def kms_demo_def kms_config_def) (simp add: kms_env_def)
    show ?thesis
      using that parsed s2 by (cases "resume (Inr ''p'') (e_now kms_env 3003)") (auto simp: kms_ValidateToken_def split: prod.split)
  qed
  from kms_token_validity [OF laws(1,2,3) law gen _ _ new refl, of st' "[OpValidate ''tok'']"] st' show ?thesis
    by (simp add: k n alice_args_def valid_utf8_def invalid_rune_def ascii_runes)
qed

text \<open>
  The KMS signer writes issuer and audience into its tokens but does not look at them when it validates: a
  manager configured for another issuer or audience accepts the same tokens.
\<close>

lemma kms_ignores_issuer:
  "kms_ValidateToken e (m\<lparr>km_issuer := i, km_audience := au\<rparr>) tok = kms_ValidateToken e m tok"
proof -
  have "evictIfNeeded e (m\<lparr>km_issuer := i, km_audience := au\<rparr>) = evictIfNeeded e m"
    by (simp add: evictIfNeeded_def fun_eq_iff Let_def)
  then have same: "setCachedKey e (m\<lparr>km_issuer := i, km_audience := au\<rparr>) = setCachedKey e m"
    "km_encryptionContext (m\<lparr>km_issuer := i, km_audience := au\<rparr>) = km_encryptionContext m"
    by (intro ext) (simp_all add: setCachedKey_def)
  show ?thesis
    unfolding kms_ValidateToken_def kms_key_def same ..
qed

section \<open>Access strategies\<close>

text \<open>
  Which access strategies get a signer. A signer is made when there is no strategy or it names no
  handler (with the default key), or when it names the handler \<open>aws\<close>, a key and a readable encryption
  context; every other strategy is refused. A signer always starts with an empty cache.
\<close>

theorem CreateSigner_supported:
  "(\<exists>sg. fst (run_state (CreateSigner e f strategy) s) = Inr sg) \<longleftrightarrow>
     (case strategy of None \<Rightarrow> True
      | Some as \<Rightarrow> as_CreateConnectionHandler (a_Spec as) = '''' \<or>
          as_CreateConnectionHandler (a_Spec as) = ''aws'' \<and>
          map_get (as_CreateConnectionContext (a_Spec as)) ''kmsKeyId'' \<noteq> '''' \<and>
          (map_get (as_CreateConnectionContext (a_Spec as)) ''encryptionContext'' = '''' \<or>
           (\<exists>ctx. e_json_map e (map_get (as_CreateConnectionContext (a_Spec as)) ''encryptionContext'') = Inr ctx)))"
  by (auto simp: CreateSigner_def createDefaultSigner_def NewKMSJWTManager_def State_Monad.update_def Let_def
      simp del: map_get_simps split: option.split sum.split)

end
