(* ===== verification/AuthMiddleware.thy ===== *)
theory AuthMiddleware
  imports AuthConfig KmsSigner
begin

text \<open>
  The authentication middleware (\<open>internal/authmiddleware\<close>): cookies (\<open>cookie.go\<close>, \<open>config_utils.go\<close>), the OIDC
  verifier (\<open>oidc_verifier.go\<close>), the workspace of a request and its access review
  (\<open>workspace_connection.go\<close>), the routes \<open>/verify\<close>, \<open>/auth\<close>, \<open>/bearer-auth\<close> and \<open>/health\<close> (\<open>serverroute_*.go\<close>), the server
  (\<open>server.go\<close>) and the choice of the signer (\<open>jwt_factory.go\<close>).

  A handler is a computation that returns its response: the status, the cookies set on it and the body. A
  panic, which \<open>net/http\<close> recovers by dropping the connection, is the left value \<open>Panic\<close> of the result.
\<close>

section \<open>Responses\<close>

datatype same_site = SameSiteStrictMode | SameSiteNoneMode | SameSiteLaxMode

record http_cookie =
  ck_Name :: string
  ck_Value :: string
  ck_Path :: string
  ck_Domain :: string
  ck_MaxAge :: int
  ck_HttpOnly :: bool
  ck_Secure :: bool
  ck_SameSite :: same_site

record http_response =
  ho_status :: nat
  ho_cookies :: "http_cookie list"
  ho_body :: string

type_synonym handler = "http_request \<Rightarrow> (http_response res) auth_io"

definition respond :: "http_cookie list \<Rightarrow> nat \<Rightarrow> string \<Rightarrow> (http_response res) auth_io" where
  "respond cookies code body = State_Monad.return (Inr \<lparr>ho_status = code, ho_cookies = cookies, ho_body = body\<rparr>)"

text \<open>\<open>http.Error\<close> ends the message with a line break.\<close>

definition http_Error :: "http_cookie list \<Rightarrow> string \<Rightarrow> nat \<Rightarrow> (http_response res) auth_io" where
  "http_Error cookies msg code = respond cookies code (msg @ [CHR 0x0A])"

section \<open>Cookies\<close>

definition ExtractAppPath :: "auth_env \<Rightarrow> string \<Rightarrow> string \<Rightarrow> string" where
  "ExtractAppPath e fullPath regexPattern =
     (if fullPath = '''' \<or> regexPattern = '''' then fullPath
      else case e_regex e regexPattern fullPath of
        Inl _ \<Rightarrow> fullPath
      | Inr matches \<Rightarrow> if length matches \<ge> 2 then matches ! 1 else fullPath)"

record cookie_manager =
  cm_Name :: string
  cm_Secure :: bool
  cm_Domain :: string
  cm_Path :: string
  cm_MaxAge :: int
  cm_HTTPOnly :: bool
  cm_SameSite :: same_site
  cm_pathRegexPattern :: string

text \<open>
  \<open>strings.ToLower\<close>: besides the ASCII letters, two other runes have an ASCII lower case (the dotted capital i
  and the Kelvin sign); what other letters become is not ASCII, which is all the comparisons need.
\<close>

definition lower_rune :: "nat \<times> string \<Rightarrow> string" where
  "lower_rune p = (let (r, bs) = p in
     if r < 128 then map lower_char bs else if r = 304 then ''i'' else if r = 8490 then ''k'' else rune_text p)"

definition ToLower :: "string \<Rightarrow> string" where
  "ToLower s = concat (map lower_rune (runes s))"

definition NewCookieManager :: "config \<Rightarrow> cookie_manager res" where
  "NewCookieManager cfg = (let mk = (\<lambda>m. Inr \<lparr>cm_Name = cf_CookieName cfg, cm_Secure = cf_CookieSecure cfg,
       cm_Domain = cf_CookieDomain cfg, cm_Path = cf_CookiePath cfg, cm_MaxAge = cf_CookieMaxAge cfg,
       cm_HTTPOnly = cf_CookieHTTPOnly cfg, cm_SameSite = m, cm_pathRegexPattern = cf_PathRegexPattern cfg\<rparr>);
       v = ToLower (cf_CookieSameSite cfg)
     in if v = ''strict'' then mk SameSiteStrictMode
        else if v = ''none'' then mk SameSiteNoneMode
        else if v = ''lax'' then mk SameSiteLaxMode
        else Inl (Msg (''invalid same site value: '' @ cf_CookieSameSite cfg)))"

text \<open>The path of the cookie: the application's path, if there is one, instead of the configured path.\<close>

definition cookie_path :: "auth_env \<Rightarrow> cookie_manager \<Rightarrow> string \<Rightarrow> string" where
  "cookie_path e m path =
     (if path \<noteq> '''' then
        let appPath = (if cm_pathRegexPattern m \<noteq> '''' then ExtractAppPath e path (cm_pathRegexPattern m) else path)
        in if appPath \<noteq> '''' \<and> appPath \<noteq> ''/'' then appPath else cm_Path m
      else cm_Path m)"

text \<open>\<open>int(d.Seconds())\<close>: whole seconds, towards zero.\<close>

definition whole_seconds :: "int \<Rightarrow> int" where
  "whole_seconds d = (if d < 0 then - (- d div second) else d div second)"

definition SetCookie :: "auth_env \<Rightarrow> cookie_manager \<Rightarrow> string \<Rightarrow> string \<Rightarrow> string \<Rightarrow> http_cookie" where
  "SetCookie e m token path domain = \<lparr>ck_Name = cm_Name m, ck_Value = token, ck_Path = cookie_path e m path,
     ck_Domain = domain, ck_MaxAge = whole_seconds (cm_MaxAge m), ck_HttpOnly = cm_HTTPOnly m,
     ck_Secure = cm_Secure m, ck_SameSite = cm_SameSite m\<rparr>"

abbreviation ErrNoCookie :: goerr where "ErrNoCookie \<equiv> Msg ''cookie not found''"

text \<open>\<open>Request.Cookie\<close> fails only with \<open>http.ErrNoCookie\<close>.\<close>

definition GetCookie :: "cookie_manager \<Rightarrow> http_request \<Rightarrow> string res" where
  "GetCookie m r = (if cm_Name m = '''' then Inl ErrNoCookie
     else case map_of (hr_Cookies r) (cm_Name m) of None \<Rightarrow> Inl ErrNoCookie | Some v \<Rightarrow> Inr v)"

definition ClearCookie :: "auth_env \<Rightarrow> cookie_manager \<Rightarrow> string \<Rightarrow> string \<Rightarrow> http_cookie" where
  "ClearCookie e m path domain = \<lparr>ck_Name = cm_Name m, ck_Value = '''', ck_Path = cookie_path e m path,
     ck_Domain = domain, ck_MaxAge = -1, ck_HttpOnly = cm_HTTPOnly m,
     ck_Secure = cm_Secure m, ck_SameSite = cm_SameSite m\<rparr>"

section \<open>The identity provider\<close>

record oidc_verifier =
  ov_provider :: bool
  ov_clientID :: string
  ov_issuerURL :: string
  ov_timeoutSeconds :: int

definition NewOIDCVerifier :: "config \<Rightarrow> oidc_verifier res" where
  "NewOIDCVerifier cfg =
     (if cf_OIDCIssuerURL cfg = '''' then Inl (Msg ''OIDC issuer URL is required'')
      else if cf_OIDCClientID cfg = '''' then Inl (Msg ''OIDC client ID is required'')
      else Inr \<lparr>ov_provider = False, ov_clientID = cf_OIDCClientID cfg, ov_issuerURL = cf_OIDCIssuerURL cfg,
             ov_timeoutSeconds = cf_OIDCInitTimeoutSecs cfg\<rparr>)"

definition oidc_Start :: "auth_env \<Rightarrow> oidc_verifier \<Rightarrow> (oidc_verifier res) auth_io" where
  "oidc_Start e v =
     (if ov_provider v then State_Monad.return (Inr v)
      else do {
        r \<leftarrow> request (\<lambda>h. e_oidc_provider e h (ov_issuerURL v)) (COIDCProvider (ov_issuerURL v));
        State_Monad.return (case r of
            Some err \<Rightarrow> Inl (Wrap ''failed to initialize OIDC provider'' err)
          | None \<Rightarrow> Inr (v\<lparr>ov_provider := True\<rparr>))
      })"

text \<open>The error result has the flag that blames the provider instead of the token.\<close>

definition VerifyToken :: "auth_env \<Rightarrow> oidc_verifier \<Rightarrow> string \<Rightarrow> ((bool \<times> goerr) + oidc_claims) auth_io" where
  "VerifyToken e v tokenString =
     (if \<not> ov_provider v then State_Monad.return (Inl (True, Msg ''OIDC verifier is not initialized - call Start() first''))
      else do {
        a \<leftarrow> request (\<lambda>h. e_oidc_verify e h tokenString) (COIDCVerify tokenString);
        State_Monad.return (case a of
            OVerifyError timeout err \<Rightarrow>
              if contains (err_text err) ''failed to get discovery document'' \<or> timeout
              then Inl (True, Wrap ''failed to connect to OIDC provider'' err)
              else Inl (False, Wrap ''invalid ID token'' err)
          | OClaimsError err \<Rightarrow> Inl (False, Wrap ''failed to parse claims'' err)
          | OClaims claims \<Rightarrow> Inr claims)
      })"

definition GetOIDCGroupsFromToken :: "config \<Rightarrow> oidc_claims option \<Rightarrow> string list" where
  "GetOIDCGroupsFromToken cfg claims = (case claims of
     None \<Rightarrow> []
   | Some c \<Rightarrow> if length (oc_Groups c) = 0 then [] else GetOidcGroups (cf_OidcGroupsPrefix cfg) (oc_Groups c))"

definition GetOIDCUsernameFromToken :: "config \<Rightarrow> oidc_claims option \<Rightarrow> string" where
  "GetOIDCUsernameFromToken cfg claims = (case claims of
     None \<Rightarrow> ''''
   | Some c \<Rightarrow> if oc_Username c = '''' then '''' else GetOidcUsername (cf_OidcUsernamePrefix cfg) (oc_Username c))"

section \<open>The server and the workspace of a request\<close>

record server =
  sv_config :: config
  sv_jwtManager :: manager
  sv_cookieManager :: cookie_manager
  sv_restClient :: bool
  sv_oidcVerifier :: "oidc_verifier option"

record workspace_info =
  wi_Namespace :: string
  wi_Name :: string

text \<open>\<open>regexp.MustCompile\<close> panics on a pattern that does not compile; \<open>submatch\<close> has exactly one group.\<close>

definition must_match :: "auth_env \<Rightarrow> string \<Rightarrow> string \<Rightarrow> string \<Rightarrow> string res" where
  "must_match e pattern s failure = (case e_regex e pattern s of
     Inl err \<Rightarrow> Inl (Panic (err_text err))
   | Inr matches \<Rightarrow> if length matches \<noteq> 2 then Inl (Msg (failure @ s)) else Inr (matches ! 1))"

definition extractWorkspaceInfoFromPath :: "auth_env \<Rightarrow> server \<Rightarrow> http_request \<Rightarrow> workspace_info res" where
  "extractWorkspaceInfoFromPath e s r = (case GetForwardedURI r of
     Inl err \<Rightarrow> Inl err
   | Inr path \<Rightarrow> (case must_match e (cf_WorkspaceNamespacePathRegex (sv_config s)) path ''failed to extract namespace from path: '' of
       Inl err \<Rightarrow> Inl err
     | Inr namespace \<Rightarrow> (case must_match e (cf_WorkspaceNamePathRegex (sv_config s)) path
                              ''failed to extract workspace name from path: '' of
         Inl err \<Rightarrow> Inl err
       | Inr name \<Rightarrow> Inr \<lparr>wi_Namespace = namespace, wi_Name = name\<rparr>)))"

definition extractWorkspaceInfoFromSubdomain :: "auth_env \<Rightarrow> server \<Rightarrow> http_request \<Rightarrow> workspace_info res" where
  "extractWorkspaceInfoFromSubdomain e s r = (case GetForwardedHost r of
     Inl err \<Rightarrow> Inl err
   | Inr host \<Rightarrow> let subdomain = ExtractSubdomain host in
       (case must_match e (cf_WorkspaceNameSubdomainRegex (sv_config s)) subdomain
               ''failed to extract workspace name from subdomain: '' of
          Inl err \<Rightarrow> Inl err
        | Inr name \<Rightarrow> (case must_match e (cf_WorkspaceNamespaceSubdomainRegex (sv_config s)) subdomain
                            ''failed to extract namespace from subdomain: '' of
            Inl err \<Rightarrow> Inl err
          | Inr encoded \<Rightarrow> (case DecodeNamespaceB32 encoded of
              Inl err \<Rightarrow> Inl (Wrap ''failed to decode namespace from base32'' err)
            | Inr namespace \<Rightarrow> Inr \<lparr>wi_Namespace = namespace, wi_Name = name\<rparr>))))"

definition ExtractWorkspaceInfo :: "auth_env \<Rightarrow> server \<Rightarrow> http_request \<Rightarrow> workspace_info res" where
  "ExtractWorkspaceInfo e s r =
     (if cf_RoutingMode (sv_config s) = RoutingModeSubdomain then extractWorkspaceInfoFromSubdomain e s r
      else if cf_RoutingMode (sv_config s) = RoutingModePath then extractWorkspaceInfoFromPath e s r
      else Inl (Msg (''unsupported routing mode: '' @ cf_RoutingMode (sv_config s))))"

definition createConnectionAccessReview :: "auth_env \<Rightarrow> server \<Rightarrow> string \<Rightarrow> string list \<Rightarrow> string \<Rightarrow> string \<Rightarrow> string \<Rightarrow>
    (string \<rightharpoonup> string list) \<Rightarrow> (review_status res) auth_io" where
  "createConnectionAccessReview e s username groups namespace workspaceName uid extra =
     (if \<not> sv_restClient s then State_Monad.return (Inl (Msg ''kubernetes REST client not initialized''))
      else do {
        let spec = \<lparr>rv_WorkspaceName = workspaceName, rv_User = username, rv_Groups = groups, rv_UID = uid, rv_Extra = extra\<rparr>;
        bind_ok (request (\<lambda>h. e_review e h namespace spec) (CReview namespace spec))
          (Wrap ''failed to create ConnectionAccessReview'') (\<lambda>st. State_Monad.return (Inr st))
      })"

text \<open>The name of the workspace in the result only feeds the log.\<close>

definition VerifyWorkspaceAccess :: "auth_env \<Rightarrow> server \<Rightarrow> http_request \<Rightarrow> string \<Rightarrow> string list \<Rightarrow> string \<Rightarrow>
    (string \<rightharpoonup> string list) \<Rightarrow> (review_status res) auth_io" where
  "VerifyWorkspaceAccess e s r username groups uid extra = (case ExtractWorkspaceInfo e s r of
     Inl err \<Rightarrow> State_Monad.return (Inl err)
   | Inr info \<Rightarrow> bind_ok (createConnectionAccessReview e s username groups (wi_Namespace info) (wi_Name info) uid extra)
       (Wrap ''failed to check workspace permission'') (\<lambda>st. State_Monad.return (Inr st)))"

definition VerifyWorkspaceAccessFromJwt :: "auth_env \<Rightarrow> server \<Rightarrow> http_request \<Rightarrow> claims \<Rightarrow> (review_status res) auth_io" where
  "VerifyWorkspaceAccessFromJwt e s r c = (case ExtractWorkspaceInfo e s r of
     Inl err \<Rightarrow> State_Monad.return (Inl err)
   | Inr info \<Rightarrow> bind_ok (createConnectionAccessReview e s (c_User c) (c_Groups c) (wi_Namespace info) (wi_Name info) (c_UID c) (c_Extra c))
       (Wrap ''failed to check workspace permission'') (\<lambda>st. State_Monad.return (Inr st)))"

section \<open>Routes\<close>

text \<open>The refresh of a session on \<open>/verify\<close>: the cookie to set, or the response that ends the request.\<close>

definition refresh_session :: "auth_env \<Rightarrow> server \<Rightarrow> http_request \<Rightarrow> claims \<Rightarrow> (http_response res) auth_io" where
  "refresh_session e s r c = do {
     a \<leftarrow> VerifyWorkspaceAccessFromJwt e s r c;
     (case a of
        Inl (Panic m) \<Rightarrow> State_Monad.return (Inl (Panic m))
      | Inl accessErr \<Rightarrow> do {
          (newToken, _) \<leftarrow> UpdateSkipRefreshToken (sv_jwtManager s) (Some c);
          respond (case newToken of Inl _ \<Rightarrow> [] | Inr tok \<Rightarrow> [SetCookie e (sv_cookieManager s) tok (c_Path c) (c_Domain c)]) 200 ''''
        }
      | Inr review \<Rightarrow>
          if \<not> rv_Allowed review
          then http_Error [ClearCookie e (sv_cookieManager s) (c_Path c) (c_Domain c)]
                 ''Access denied: you are no longer authorized to access this workspace'' 403
          else do {
            newToken \<leftarrow> RefreshToken (sv_jwtManager s) (Some c);
            respond (case newToken of Inl _ \<Rightarrow> [] | Inr tok \<Rightarrow> [SetCookie e (sv_cookieManager s) tok (c_Path c) (c_Domain c)]) 200 ''''
          })
   }"

definition handleVerify :: "auth_env \<Rightarrow> server \<Rightarrow> handler" where
  "handleVerify e s r = (let requestPath = hr_Header r HeaderForwardedURI; requestDomain = hr_Header r HeaderForwardedHost in
     if requestPath = '''' then http_Error [] (''Missing '' @ HeaderForwardedURI @ '' header'') 400
     else if requestDomain = '''' then http_Error [] (''Missing '' @ HeaderForwardedHost @ '' header'') 400
     else case GetCookie (sv_cookieManager s) r of
       Inl _ \<Rightarrow> http_Error [] ''Unauthorized'' 401
     | Inr token \<Rightarrow> do {
         v \<leftarrow> ValidateToken (sv_jwtManager s) token;
         (case v of
            Inl _ \<Rightarrow> http_Error [] ''Unauthorized'' 401
          | Inr c \<Rightarrow>
              if c_TokenType c \<noteq> TokenTypeSession then http_Error [] ''Unauthorized'' 401
              else if c_Path c \<noteq> '''' \<and> requestPath \<noteq> '''' \<and> \<not> has_prefix requestPath (c_Path c)
              then http_Error [] ''Path not authorized'' 403
              else if c_Domain c \<noteq> requestDomain then http_Error [] ''Domain not authorized'' 403
              else do {
                due \<leftarrow> ShouldRefreshToken e (sv_jwtManager s) (Some c);
                (if due then refresh_session e s r c else respond [] 200 '''')
              })
       })"

text \<open>The comparison of the provider's claims with the headers of the proxy, and the access review.\<close>

definition authorize_user :: "auth_env \<Rightarrow> server \<Rightarrow> http_request \<Rightarrow> oidc_claims \<Rightarrow> (http_response res) auth_io" where
  "authorize_user e s r oidcClaims =
     (let host = hr_Header r HeaderForwardedHost;
          appPath = ExtractAppPath e (hr_Header r HeaderForwardedURI) (cf_PathRegexPattern (sv_config s));
          headerUID = hr_Header r HeaderAuthRequestUser;
          headerPreferredUsername = GetOidcUsername (cf_OidcUsernamePrefix (sv_config s)) (hr_Header r HeaderAuthRequestPreferredUsername);
          headerGroups = GetOidcGroups (cf_OidcGroupsPrefix (sv_config s)) (splitGroups (hr_Header r HeaderAuthRequestGroups));
          k8sUID = oc_Subject oidcClaims;
          k8sUsername = GetOIDCUsernameFromToken (sv_config s) (Some oidcClaims);
          k8sGroups = GetOIDCGroupsFromToken (sv_config s) (Some oidcClaims)
      in if headerPreferredUsername \<noteq> '''' \<and> k8sUsername \<noteq> headerPreferredUsername
         then http_Error [] ''Username mismatch between token and headers'' 401
         else if headerUID \<noteq> '''' \<and> k8sUID \<noteq> headerUID then http_Error [] ''UID verification failed'' 401
         else if length headerGroups > 0 \<and> \<not> fst (EnsureSubsetOf headerGroups k8sGroups)
         then http_Error [] ''Groups verification failed'' 401
         else if \<not> sv_restClient s then http_Error [] ''Internal server error'' 500
         else do {
           a \<leftarrow> VerifyWorkspaceAccess e s r k8sUsername k8sGroups k8sUID Map.empty;
           (case a of
              Inl (Panic m) \<Rightarrow> State_Monad.return (Inl (Panic m))
            | Inl _ \<Rightarrow> http_Error [] ''Failed to verify workspace access'' 500
            | Inr review \<Rightarrow>
                if \<not> rv_Allowed review \<or> rv_NotFound review
                then http_Error [] ''Access denied: you are not authorized to connect to this workspace'' 403
                else do {
                  t \<leftarrow> GenerateToken (sv_jwtManager s) \<lparr>ta_user = k8sUsername, ta_groups = k8sGroups, ta_uid = k8sUID,
                         ta_extra = Map.empty, ta_path = appPath, ta_domain = host, ta_tokenType = TokenTypeSession\<rparr>;
                  (case t of
                     Inl _ \<Rightarrow> http_Error [] ''Internal server error'' 500
                   | Inr jwtToken \<Rightarrow> respond [SetCookie e (sv_cookieManager s) jwtToken appPath host] 200 (''{}'' @ [CHR 0x0A]))
                })
         })"

definition handleAuth :: "auth_env \<Rightarrow> server \<Rightarrow> handler" where
  "handleAuth e s r =
     (if hr_Method r \<noteq> ''GET'' then http_Error [] ''Method not allowed'' 405
      else if hr_Header r HeaderForwardedURI = '''' then http_Error [] (''Missing '' @ HeaderForwardedURI @ '' header'') 400
      else if hr_Header r HeaderForwardedHost = '''' then http_Error [] (''Missing '' @ HeaderForwardedHost @ '' header'') 400
      else if hr_Header r HeaderAuthorization = '''' then http_Error [] ''Missing Authorization header'' 401
      else case sv_oidcVerifier s of
        None \<Rightarrow> http_Error [] ''Internal server error: OIDC verifier not initialized'' 500
      | Some verifier \<Rightarrow> (case ExtractBearerToken (hr_Header r HeaderAuthorization) of
          Inl _ \<Rightarrow> http_Error [] ''Invalid Authorization header'' 400
        | Inr token \<Rightarrow> do {
            v \<leftarrow> VerifyToken e verifier token;
            (case v of
               Inl (isVerifyTokenFault, _) \<Rightarrow>
                 if isVerifyTokenFault then http_Error [] ''Internal server error: OIDC provider not available'' 500
                 else http_Error [] ''Invalid or expired OIDC token'' 403
             | Inr oidcClaims \<Rightarrow> authorize_user e s r oidcClaims)
          }))"

definition handleBearerAuth :: "auth_env \<Rightarrow> server \<Rightarrow> handler" where
  "handleBearerAuth e s r = (let forwardedURI = hr_Header r HeaderForwardedURI in
     if hr_Method r \<noteq> ''GET'' then http_Error [] ''Method not allowed'' 405
     else if forwardedURI = '''' then http_Error [] (''Missing '' @ HeaderForwardedURI @ '' header'') 400
     else case e_query e forwardedURI ''token'' of
       Inl _ \<Rightarrow> http_Error [] ''Invalid forwarded URI'' 400
     | Inr token \<Rightarrow>
         if token = '''' then http_Error [] ''Missing token parameter'' 400
         else do {
           v \<leftarrow> ValidateToken (sv_jwtManager s) token;
           (case v of
              Inl _ \<Rightarrow> http_Error [] ''Invalid token'' 401
            | Inr c \<Rightarrow>
                if c_TokenType c \<noteq> TokenTypeBootstrap then http_Error [] ''Invalid token type'' 401
                else let host = hr_Header r HeaderForwardedHost in
                  if host = '''' then http_Error [] (''Missing '' @ HeaderForwardedHost @ '' header'') 400
                  else let appPath = ExtractAppPath e forwardedURI (cf_PathRegexPattern (sv_config s)) in
                    if c_Path c \<noteq> appPath then http_Error [] ''Token path mismatch'' 403
                    else do {
                      t \<leftarrow> GenerateToken (sv_jwtManager s) \<lparr>ta_user = c_Subject c, ta_groups = c_Groups c, ta_uid = c_UID c,
                             ta_extra = c_Extra c, ta_path = appPath, ta_domain = host, ta_tokenType = TokenTypeSession\<rparr>;
                      (case t of
                         Inl _ \<Rightarrow> http_Error [] ''Internal server error'' 500
                       | Inr sessionToken \<Rightarrow> respond [SetCookie e (sv_cookieManager s) sessionToken appPath host] 200 '''')
                    })
         })"

section \<open>The server\<close>

text \<open>\<open>NewServer\<close>, with the outcome of making the Kubernetes REST client as an argument.\<close>

definition NewServer :: "bool \<Rightarrow> config \<Rightarrow> manager \<Rightarrow> cookie_manager \<Rightarrow> server" where
  "NewServer restClient cfg jwtManager cookieManager = \<lparr>sv_config = cfg, sv_jwtManager = jwtManager,
     sv_cookieManager = cookieManager, sv_restClient = restClient,
     sv_oidcVerifier = (if cf_EnableOAuth cfg then (case NewOIDCVerifier cfg of Inl _ \<Rightarrow> None | Inr v \<Rightarrow> Some v) else None)\<rparr>"

text \<open>\<open>Start\<close> up to listening: the provider is contacted when OAuth is on and there is a verifier.\<close>

definition server_Start :: "auth_env \<Rightarrow> server \<Rightarrow> (server res) auth_io" where
  "server_Start e s = (case (cf_EnableOAuth (sv_config s), sv_oidcVerifier s) of
     (True, Some v) \<Rightarrow> bind_ok (oidc_Start e v) (Wrap ''failed to start OIDC verifier'')
       (\<lambda>v'. State_Monad.return (Inr (s\<lparr>sv_oidcVerifier := Some v'\<rparr>)))
   | _ \<Rightarrow> State_Monad.return (Inr s))"

text \<open>
  The date of a day number since the epoch in the proleptic Gregorian calendar: 400 years have 146097 days, and a year that starts with March
  has its leap day at its end.
\<close>

definition civil_date :: "int \<Rightarrow> int \<times> int \<times> int" where
  "civil_date days =
     (let z = days + 719468; era = z div 146097; doe = z mod 146097;
          yoe = (doe - doe div 1460 + doe div 36524 - doe div 146096) div 365;
          doy = doe - (365 * yoe + yoe div 4 - yoe div 100);
          mp = (5 * doy + 2) div 153;
          d = doy - (153 * mp + 2) div 5 + 1;
          m = (if mp < 10 then mp + 3 else mp - 9)
      in (yoe + era * 400 + (if m \<le> 2 then 1 else 0), m, d))"

definition padded :: "nat \<Rightarrow> int \<Rightarrow> string" where
  "padded n i = (let t = int_text i in replicate (n - length t) CHR ''0'' @ t)"

text \<open>\<open>Format(time.RFC3339)\<close> of a time in UTC, given in nanoseconds.\<close>

definition format_RFC3339 :: "int \<Rightarrow> string" where
  "format_RFC3339 t =
     (let secs = t div 1000000000; (y, m, d) = civil_date (secs div 86400); s = secs mod 86400
      in padded 4 y @ ''-'' @ padded 2 m @ ''-'' @ padded 2 d @ ''T'' @
         padded 2 (s div 3600) @ '':'' @ padded 2 (s div 60 mod 60) @ '':'' @ padded 2 (s mod 60) @ ''Z'')"

text \<open>The encoder prints the keys of a map in order and ends the document with a line break.\<close>

definition middleware_handleHealth :: "auth_env \<Rightarrow> handler" where
  "middleware_handleHealth e r = do {
     t \<leftarrow> now e;
     respond [] 200 (''{\"status\":\"ok\",\"time\":\"'' @ format_RFC3339 t @ ''\"}'' @ [CHR 0x0A])
   }"

text \<open>The registered routes.\<close>

definition route :: "auth_env \<Rightarrow> server \<Rightarrow> string \<Rightarrow> handler option" where
  "route e s path =
     (if path = ''/auth'' \<and> cf_EnableOAuth (sv_config s) then Some (handleAuth e s)
      else if path = ''/bearer-auth'' \<and> cf_EnableBearerAuth (sv_config s) then Some (handleBearerAuth e s)
      else if path = ''/verify'' then Some (handleVerify e s)
      else if path = ''/health'' then Some (middleware_handleHealth e)
      else None)"

definition NewJWTHandler :: "auth_env \<Rightarrow> config option \<Rightarrow> (manager res) auth_io" where
  "NewJWTHandler e cfg = (case cfg of
     None \<Rightarrow> State_Monad.return (Inl (Msg ''config cannot be nil''))
   | Some c \<Rightarrow>
       let mk = (\<lambda>sg. NewManager sg (cf_JWTRefreshEnable c) (cf_JWTRefreshWindow c) (cf_JWTRefreshHorizon c)) in
       if cf_JWTSigningType c = JWTSigningTypeStandard
       then State_Monad.return (Inr (mk (StandardSigner e (NewStandardSigner (cf_JWTSigningKey c) (cf_JWTIssuer c) (cf_JWTAudience c) (cf_JWTExpiration c)))))
       else if cf_JWTSigningType c = JWTSigningTypeKMS
       then if cf_KMSKeyId c = '''' then State_Monad.return (Inl (Msg ''KMS_KEY_ID required when JWT_SIGNING_TYPE is kms''))
         else (case e_kms_client e of
             Some err \<Rightarrow> State_Monad.return (Inl (Wrap ''failed to create KMS client'' (Wrap ''failed to load AWS config'' err)))
           | None \<Rightarrow> (case (if cf_KMSEncryptionContext c \<noteq> '''' then e_json_map e (cf_KMSEncryptionContext c) else Inr []) of
               Inl err \<Rightarrow> State_Monad.return (Inl (Wrap ''failed to parse KMS encryption context'' err))
             | Inr encryptionContext \<Rightarrow> do {
                 m \<leftarrow> NewKMSJWTManager e (kms_config (cf_KMSKeyId c) (cf_JWTIssuer c) (cf_JWTAudience c) (cf_JWTExpiration c) encryptionContext);
                 State_Monad.return (Inr (mk (KMSSigner e m)))
               }))
       else State_Monad.return (Inl (Msg (''unknown JWT signing type: '' @ cf_JWTSigningType c))))"

section \<open>The health route\<close>

text \<open>Days around the changes of a year and of a leap year.\<close>

lemma civil_date_samples:
  "civil_date 0 = (1970, 1, 1)" "civil_date (-1) = (1969, 12, 31)" "civil_date 11016 = (2000, 2, 29)" "civil_date 11017 = (2000, 3, 1)"
  "civil_date 47540 = (2100, 2, 28)" "civil_date 47541 = (2100, 3, 1)"
  by code_simp+

lemma format_RFC3339_sample: "format_RFC3339 951827696000000000 = ''2000-02-29T12:34:56Z''"
  by code_simp

text \<open>It answers without a cookie and asks nothing of the outside but the clock.\<close>

lemma health_open:
  "\<exists>resp. run_state (middleware_handleHealth e r) st = (Inr resp, st\<lparr>at_ticks := Suc (at_ticks st)\<rparr>) \<and> ho_status resp = 200 \<and> ho_cookies resp = []"
  by (simp add: middleware_handleHealth_def respond_def)

section \<open>Tokens of the configured signer\<close>

text \<open>A token issued for given arguments at some time with the settings of a configuration.\<close>

definition issued_for :: "auth_env \<Rightarrow> config \<Rightarrow> token_args \<Rightarrow> string \<Rightarrow> bool" where
  "issued_for e cfg a tok \<longleftrightarrow> (\<exists>t. token_of (e_jwt e)
     (make_claims (e_jwt e) (cf_JWTIssuer cfg) (cf_JWTAudience cfg) (cf_JWTExpiration cfg) t a) tok)"

definition handler_of :: "auth_env \<Rightarrow> config \<Rightarrow> manager \<Rightarrow> bool" where
  "handler_of e cfg m \<longleftrightarrow> (\<exists>st st'. run_state (NewJWTHandler e (Some cfg)) st = (Inr m, st'))"

lemma standard_handler:
  assumes "cf_JWTSigningType cfg = JWTSigningTypeStandard"
  shows "handler_of e cfg (NewManager (StandardSigner e (NewStandardSigner (cf_JWTSigningKey cfg) (cf_JWTIssuer cfg) (cf_JWTAudience cfg)
    (cf_JWTExpiration cfg))) (cf_JWTRefreshEnable cfg) (cf_JWTRefreshWindow cfg) (cf_JWTRefreshHorizon cfg))"
  using assms by (auto simp: handler_of_def NewJWTHandler_def Let_def)

text \<open>Both signers the factory chooses from keep the contract of signers, with the configured settings.\<close>

lemma handler_issues:
  assumes "handler_of e cfg m" and "run_state (sn_GenerateToken (mg_signer m) a) s = (Inr tok, s')"
  shows "issued_for e cfg a tok"
proof -
  obtain st st' where h: "run_state (NewJWTHandler e (Some cfg)) st = (Inr m, st')"
    using assms(1) by (auto simp: handler_of_def)
  then consider
      "mg_signer m = StandardSigner e (NewStandardSigner (cf_JWTSigningKey cfg) (cf_JWTIssuer cfg) (cf_JWTAudience cfg) (cf_JWTExpiration cfg))"
    | k where "mg_signer m = KMSSigner e k" "km_issuer k = cf_JWTIssuer cfg" "km_audience k = cf_JWTAudience cfg"
        "km_expiration k = cf_JWTExpiration cfg"
    by (auto simp: NewJWTHandler_def NewManager_def NewKMSJWTManager_def kms_config_def State_Monad.update_def Let_def
        split: if_split_asm option.splits sum.splits)
  then show ?thesis
  proof cases
    case 1
    show ?thesis
      using standard.issues [OF assms(2) [unfolded 1]] by (auto simp: issued_for_def NewStandardSigner_def)
  next
    case (2 k)
    show ?thesis
      using kms.issues [OF assms(2) [unfolded 2(1)]] 2 by (auto simp: issued_for_def)
  qed
qed

lemma generate_issues:
  "handler_of e cfg m \<Longrightarrow> run_state (GenerateToken m a) s = (Inr tok, s') \<Longrightarrow> issued_for e cfg a tok"
  by (auto simp: GenerateToken_def intro: handler_issues)

lemma refresh_issues:
  "handler_of e cfg m \<Longrightarrow> run_state (RefreshToken m (Some c)) s = (Inr tok, s') \<Longrightarrow> issued_for e cfg (args_of c) tok"
  "handler_of e cfg m \<Longrightarrow> run_state (UpdateSkipRefreshToken m (Some c)) s = ((Inr tok, c'), s') \<Longrightarrow> issued_for e cfg (args_of c) tok"
  by (auto simp: RefreshToken_def UpdateSkipRefreshToken_def Let_def intro: handler_issues split: prod.splits)

section \<open>Signing in\<close>

lemma run_respond [simp]:
  "run_state (respond cs code b) s = (Inr \<lparr>ho_status = code, ho_cookies = cs, ho_body = b\<rparr>, s)"
  "run_state (http_Error cs msg code) s = (Inr \<lparr>ho_status = code, ho_cookies = cs, ho_body = msg @ [CHR 0x0A]\<rparr>, s)"
  by (simp_all add: respond_def http_Error_def)

text \<open>The review that a user's request causes, with the calls made before.\<close>

definition review_of :: "auth_env \<Rightarrow> server \<Rightarrow> http_request \<Rightarrow> auth_call list \<Rightarrow> string \<Rightarrow> string list \<Rightarrow> string \<Rightarrow>
    (string \<rightharpoonup> string list) \<Rightarrow> review_status res" where
  "review_of e s r calls user gs uid extra = (case ExtractWorkspaceInfo e s r of
     Inl err \<Rightarrow> Inl err
   | Inr info \<Rightarrow>
       if \<not> sv_restClient s then Inl (Msg ''kubernetes REST client not initialized'')
       else e_review e calls (wi_Namespace info)
         \<lparr>rv_WorkspaceName = wi_Name info, rv_User = user, rv_Groups = gs, rv_UID = uid, rv_Extra = extra\<rparr>)"

lemma VerifyWorkspaceAccess_review:
  "fst (run_state (VerifyWorkspaceAccess e s r user gs uid extra) st) = Inr rv \<longleftrightarrow>
     review_of e s r (at_calls st) user gs uid extra = Inr rv"
  by (auto simp: VerifyWorkspaceAccess_def createConnectionAccessReview_def review_of_def Let_def split: sum.splits)

lemma VerifyWorkspaceAccessFromJwt_eq:
  "VerifyWorkspaceAccessFromJwt e s r c = VerifyWorkspaceAccess e s r (c_User c) (c_Groups c) (c_UID c) (c_Extra c)"
  by (simp add: VerifyWorkspaceAccessFromJwt_def VerifyWorkspaceAccess_def)

text \<open>What a user of the identity provider is called in the cluster, and the session made for the user.\<close>

definition oidc_args :: "auth_env \<Rightarrow> server \<Rightarrow> http_request \<Rightarrow> oidc_claims \<Rightarrow> token_args" where
  "oidc_args e s r oc = \<lparr>ta_user = GetOIDCUsernameFromToken (sv_config s) (Some oc),
     ta_groups = GetOIDCGroupsFromToken (sv_config s) (Some oc), ta_uid = oc_Subject oc, ta_extra = Map.empty,
     ta_path = ExtractAppPath e (hr_Header r HeaderForwardedURI) (cf_PathRegexPattern (sv_config s)),
     ta_domain = hr_Header r HeaderForwardedHost, ta_tokenType = TokenTypeSession\<rparr>"

lemma authorize_user_cookie:
  assumes "handler_of e cfg (sv_jwtManager s)"
    and "fst (run_state (authorize_user e s r oc) st) = Inr resp" and "ck \<in> set (ho_cookies resp)"
  shows "\<exists>rv. review_of e s r (at_calls st) (ta_user (oidc_args e s r oc)) (ta_groups (oidc_args e s r oc)) (oc_Subject oc) Map.empty = Inr rv \<and>
      rv_Allowed rv \<and> \<not> rv_NotFound rv \<and> issued_for e cfg (oidc_args e s r oc) (ck_Value ck) \<and>
      (hr_Header r HeaderAuthRequestUser \<noteq> '''' \<longrightarrow> oc_Subject oc = hr_Header r HeaderAuthRequestUser) \<and>
      ck_Domain ck = hr_Header r HeaderForwardedHost"
proof -
  let ?a = "oidc_args e s r oc"
  obtain a st1 where a: "run_state (VerifyWorkspaceAccess e s r (ta_user ?a) (ta_groups ?a) (oc_Subject oc) Map.empty) st = (a, st1)"
    by fastforce
  obtain t st2 where t: "run_state (GenerateToken (sv_jwtManager s) ?a) st1 = (t, st2)"
    by fastforce
  obtain rv tok where ok: "a = Inr rv" "rv_Allowed rv" "\<not> rv_NotFound rv" "t = Inr tok"
    "ck = SetCookie e (sv_cookieManager s) tok (ta_path ?a) (hr_Header r HeaderForwardedHost)"
    "hr_Header r HeaderAuthRequestUser \<noteq> '''' \<longrightarrow> oc_Subject oc = hr_Header r HeaderAuthRequestUser"
    using assms(2,3) a t
    by (auto simp: authorize_user_def oidc_args_def Let_def split: if_split_asm sum.splits goerr.splits)
  then show ?thesis
    using VerifyWorkspaceAccess_review [of e s r "ta_user ?a" "ta_groups ?a" "oc_Subject oc" Map.empty st rv] a t
      generate_issues [OF assms(1), of ?a st1 tok st2] by (auto simp: SetCookie_def)
qed

lemma handleAuth_authorized:
  assumes "handler_of e cfg (sv_jwtManager s)"
    and "fst (run_state (handleAuth e s r) st) = Inr resp" and "ck \<in> set (ho_cookies resp)"
  obtains tok oc where "ExtractBearerToken (hr_Header r HeaderAuthorization) = Inr tok" "e_oidc_verify e (at_calls st) tok = OClaims oc"
    "fst (run_state (authorize_user e s r oc) (st\<lparr>at_calls := at_calls st @ [COIDCVerify tok]\<rparr>)) = Inr resp"
proof -
  obtain v tok a st1 where v: "sv_oidcVerifier s = Some v" "ExtractBearerToken (hr_Header r HeaderAuthorization) = Inr tok"
    "run_state (VerifyToken e v tok) st = (a, st1)"
    using assms(2,3) by (auto simp: handleAuth_def split: if_split_asm option.splits sum.splits) fastforce
  obtain oc where oc: "a = Inr oc" "fst (run_state (authorize_user e s r oc) st1) = Inr resp"
    using assms(2,3) v by (auto simp: handleAuth_def split: if_split_asm sum.splits)
  have "e_oidc_verify e (at_calls st) tok = OClaims oc" "st1 = st\<lparr>at_calls := at_calls st @ [COIDCVerify tok]\<rparr>"
    using v(3) oc(1) by (auto simp: VerifyToken_def split: if_split_asm oidc_answer.splits)
  then show ?thesis
    using that v(2) oc(2) by simp
qed

text \<open>
  C27. Signing in needs the identity provider and the access review. When \<open>/auth\<close> sets a cookie, the provider's
  verifier accepted the bearer token of the request, the access review for the workspace of the
  request allowed the provider's user to connect, and the cookie holds a session token issued for exactly
  this user and its groups, the application's path and the host of the request.
\<close>

theorem auth_session:
  assumes "handler_of e cfg (sv_jwtManager s)"
    and "fst (run_state (handleAuth e s r) st) = Inr resp" and "ck \<in> set (ho_cookies resp)"
  shows "\<exists>tok oc rv. ExtractBearerToken (hr_Header r HeaderAuthorization) = Inr tok \<and>
      e_oidc_verify e (at_calls st) tok = OClaims oc \<and>
      review_of e s r (at_calls st @ [COIDCVerify tok]) (GetOIDCUsernameFromToken (sv_config s) (Some oc))
        (GetOIDCGroupsFromToken (sv_config s) (Some oc)) (oc_Subject oc) Map.empty = Inr rv \<and>
      rv_Allowed rv \<and> \<not> rv_NotFound rv \<and> issued_for e cfg (oidc_args e s r oc) (ck_Value ck)"
proof (rule handleAuth_authorized [OF assms])
  fix tok oc
  assume "ExtractBearerToken (hr_Header r HeaderAuthorization) = Inr tok" "e_oidc_verify e (at_calls st) tok = OClaims oc"
    "fst (run_state (authorize_user e s r oc) (st\<lparr>at_calls := at_calls st @ [COIDCVerify tok]\<rparr>)) = Inr resp"
  then show ?thesis
    using authorize_user_cookie [OF assms(1) _ assms(3), of r oc "st\<lparr>at_calls := at_calls st @ [COIDCVerify tok]\<rparr>"]
    by (auto simp: oidc_args_def)
qed

text \<open>
  C28. The exchange of a bearer link. When \<open>/bearer-auth\<close> sets a cookie, the link's token was valid, is a
  bootstrap token and names the application path of the request; the cookie holds a session token for the
  subject, groups and other identity of that token, restricted to this path and the host of the request.
\<close>

theorem bearer_exchange:
  assumes "handler_of e cfg (sv_jwtManager s)"
    and "fst (run_state (handleBearerAuth e s r) st) = Inr resp" and "ck \<in> set (ho_cookies resp)"
  defines "path \<equiv> ExtractAppPath e (hr_Header r HeaderForwardedURI) (cf_PathRegexPattern (sv_config s))"
  shows "\<exists>tok c. e_query e (hr_Header r HeaderForwardedURI) ''token'' = Inr tok \<and>
      fst (run_state (ValidateToken (sv_jwtManager s) tok) st) = Inr c \<and> c_TokenType c = TokenTypeBootstrap \<and> c_Path c = path \<and>
      issued_for e cfg \<lparr>ta_user = c_Subject c, ta_groups = c_Groups c, ta_uid = c_UID c, ta_extra = c_Extra c,
        ta_path = path, ta_domain = hr_Header r HeaderForwardedHost, ta_tokenType = TokenTypeSession\<rparr> (ck_Value ck)"
proof -
  obtain tok v st1 where tok: "e_query e (hr_Header r HeaderForwardedURI) ''token'' = Inr tok"
    "run_state (ValidateToken (sv_jwtManager s) tok) st = (v, st1)"
    using assms(2,3) by (auto simp: handleBearerAuth_def Let_def split: if_split_asm sum.splits) fastforce
  obtain c where c: "v = Inr c" "c_TokenType c = TokenTypeBootstrap" "c_Path c = path"
    using assms(2,3) tok by (auto simp: handleBearerAuth_def path_def Let_def split: if_split_asm sum.splits)
  define a where "a = \<lparr>ta_user = c_Subject c, ta_groups = c_Groups c, ta_uid = c_UID c, ta_extra = c_Extra c,
        ta_path = path, ta_domain = hr_Header r HeaderForwardedHost, ta_tokenType = TokenTypeSession\<rparr>"
  obtain t st2 where t: "run_state (GenerateToken (sv_jwtManager s) a) st1 = (t, st2)"
    by fastforce
  obtain tok' where "t = Inr tok'" "ck_Value ck = tok'"
    using assms(2,3) tok c t
    by (auto simp: handleBearerAuth_def a_def path_def [symmetric] SetCookie_def Let_def split: if_split_asm sum.splits)
  then show ?thesis
    using generate_issues [OF assms(1), of a st1 tok' st2] tok c t by (auto simp: a_def)
qed

section \<open>Verifying a session\<close>

text \<open>The claims fit a request: a session token for this host whose path, if any, is a prefix of the request's.\<close>

definition session_fits :: "http_request \<Rightarrow> claims \<Rightarrow> bool" where
  "session_fits r c \<longleftrightarrow> c_TokenType c = TokenTypeSession \<and> c_Domain c = hr_Header r HeaderForwardedHost \<and>
     (c_Path c = '''' \<or> has_prefix (hr_Header r HeaderForwardedURI) (c_Path c))"

definition headers_present :: "http_request \<Rightarrow> bool" where
  "headers_present r \<longleftrightarrow> hr_Header r HeaderForwardedURI \<noteq> '''' \<and> hr_Header r HeaderForwardedHost \<noteq> ''''"

lemma run_handleVerify:
  assumes "headers_present r" and "GetCookie (sv_cookieManager s) r = Inr tok"
    and "run_state (ValidateToken (sv_jwtManager s) tok) st = (Inr c, st1)" and "session_fits r c"
    and "run_state (ShouldRefreshToken e (sv_jwtManager s) (Some c)) st1 = (due, st2)"
  shows "run_state (handleVerify e s r) st = run_state (if due then refresh_session e s r c else respond [] 200 '''') st2"
  using assms by (auto simp: handleVerify_def headers_present_def session_fits_def Let_def)

lemma handleVerify_accepts_only:
  assumes "fst (run_state (handleVerify e s r) st) = Inr resp" and "ho_status resp = 200 \<or> ho_cookies resp \<noteq> []"
  obtains tok c st1 where "headers_present r" "GetCookie (sv_cookieManager s) r = Inr tok"
    "run_state (ValidateToken (sv_jwtManager s) tok) st = (Inr c, st1)" "session_fits r c"
proof -
  obtain tok v st1 where tok: "headers_present r" "GetCookie (sv_cookieManager s) r = Inr tok"
    "run_state (ValidateToken (sv_jwtManager s) tok) st = (v, st1)"
    using assms by (auto simp: handleVerify_def headers_present_def Let_def split: if_split_asm sum.splits) fastforce+
  moreover obtain c where "v = Inr c" "session_fits r c"
    using assms tok by (auto simp: handleVerify_def headers_present_def session_fits_def Let_def split: if_split_asm sum.splits)
  ultimately show ?thesis
    using that by blast
qed

fun is_panic :: "goerr \<Rightarrow> bool" where
  "is_panic (Panic _) = True"
| "is_panic _ = False"

text \<open>The review does not stop a refresh: it allows the user, or it could not be made.\<close>

definition not_denied :: "review_status res \<Rightarrow> bool" where
  "not_denied a = (case a of Inl err \<Rightarrow> \<not> is_panic err | Inr rv \<Rightarrow> rv_Allowed rv)"

lemma refresh_session_passes:
  "(\<exists>resp. fst (run_state (refresh_session e s r c) st) = Inr resp \<and> ho_status resp = 200) \<longleftrightarrow>
     not_denied (fst (run_state (VerifyWorkspaceAccessFromJwt e s r c) st))"
  by (auto simp: refresh_session_def not_denied_def split: sum.splits goerr.splits prod.splits if_split_asm)

lemma refresh_session_cookie:
  assumes "handler_of e cfg (sv_jwtManager s)" and "fst (run_state (refresh_session e s r c) st) = Inr resp"
    and "ho_status resp = 200" and "ck \<in> set (ho_cookies resp)"
  shows "issued_for e cfg (args_of c) (ck_Value ck)"
proof -
  obtain a st1 where a: "run_state (VerifyWorkspaceAccessFromJwt e s r c) st = (a, st1)"
    by fastforce
  obtain n c' st2 where n: "run_state (UpdateSkipRefreshToken (sv_jwtManager s) (Some c)) st1 = ((n, c'), st2)"
    by (metis surj_pair)
  obtain t st3 where t: "run_state (RefreshToken (sv_jwtManager s) (Some c)) st1 = (t, st3)"
    by fastforce
  have "t = Inr (ck_Value ck) \<or> n = Inr (ck_Value ck)"
    using assms(2-4) a n t
    by (auto simp: refresh_session_def SetCookie_def split: sum.splits goerr.splits if_split_asm)
  then show ?thesis
    using refresh_issues [OF assms(1)] n t by blast
qed

text \<open>A fitting session was presented: its claims, and the state after validation.\<close>

definition presented :: "server \<Rightarrow> http_request \<Rightarrow> auth_state \<Rightarrow> claims \<Rightarrow> auth_state \<Rightarrow> bool" where
  "presented s r st c st1 \<longleftrightarrow> headers_present r \<and> session_fits r c \<and>
     (\<exists>tok. GetCookie (sv_cookieManager s) r = Inr tok \<and> run_state (ValidateToken (sv_jwtManager s) tok) st = (Inr c, st1))"

lemma presented_run:
  assumes "presented s r st c st1" and "run_state (ShouldRefreshToken e (sv_jwtManager s) (Some c)) st1 = (due, st2)"
  shows "run_state (handleVerify e s r) st = run_state (if due then refresh_session e s r c else respond [] 200 '''') st2"
  using assms run_handleVerify [of r s] by (auto simp: presented_def)

lemma presented_passes:
  assumes "presented s r st c st1" and "run_state (ShouldRefreshToken e (sv_jwtManager s) (Some c)) st1 = (due, st2)"
  shows "(\<exists>resp. fst (run_state (handleVerify e s r) st) = Inr resp \<and> ho_status resp = 200) \<longleftrightarrow>
     (due \<longrightarrow> not_denied (fst (run_state (VerifyWorkspaceAccessFromJwt e s r c) st2)))"
  using presented_run [OF assms] refresh_session_passes [of e s r c st2] by (cases due) simp_all

lemma presented_needed:
  assumes "fst (run_state (handleVerify e s r) st) = Inr resp" and "ho_status resp = 200"
  obtains c st1 due st2 where "presented s r st c st1" "run_state (ShouldRefreshToken e (sv_jwtManager s) (Some c)) st1 = (due, st2)"
proof -
  obtain c st1 where "presented s r st c st1"
    using handleVerify_accepts_only [OF assms(1)] assms(2) unfolding presented_def by metis
  then show ?thesis
    using that by (metis surj_pair)
qed

text \<open>
  C26. What \<open>/verify\<close> lets pass. A request passes exactly when its cookie holds a valid session token for the
  host whose path is a prefix of the request's, and, if a refresh is due, the access review did not
  deny the user. A cookie set on a request that passes holds a token with the same user, groups, path, host and
  type as the one presented.
\<close>

theorem verify_session:
  assumes "handler_of e cfg (sv_jwtManager s)"
  shows "((\<exists>resp. fst (run_state (handleVerify e s r) st) = Inr resp \<and> ho_status resp = 200) \<longleftrightarrow>
     (\<exists>c st1 due st2. presented s r st c st1 \<and> run_state (ShouldRefreshToken e (sv_jwtManager s) (Some c)) st1 = (due, st2) \<and>
        (due \<longrightarrow> not_denied (fst (run_state (VerifyWorkspaceAccessFromJwt e s r c) st2))))) \<and>
    (\<forall>resp ck. fst (run_state (handleVerify e s r) st) = Inr resp \<and> ho_status resp = 200 \<and> ck \<in> set (ho_cookies resp) \<longrightarrow>
       (\<exists>c st1. presented s r st c st1 \<and> issued_for e cfg (args_of c) (ck_Value ck)))"
proof (intro conjI iffI allI impI)
  assume "\<exists>resp. fst (run_state (handleVerify e s r) st) = Inr resp \<and> ho_status resp = 200"
  then show "\<exists>c st1 due st2. presented s r st c st1 \<and> run_state (ShouldRefreshToken e (sv_jwtManager s) (Some c)) st1 = (due, st2) \<and>
        (due \<longrightarrow> not_denied (fst (run_state (VerifyWorkspaceAccessFromJwt e s r c) st2)))"
    using presented_needed [of e s r st] presented_passes [of s r st _ _ e] by metis
next
  assume "\<exists>c st1 due st2. presented s r st c st1 \<and> run_state (ShouldRefreshToken e (sv_jwtManager s) (Some c)) st1 = (due, st2) \<and>
        (due \<longrightarrow> not_denied (fst (run_state (VerifyWorkspaceAccessFromJwt e s r c) st2)))"
  then show "\<exists>resp. fst (run_state (handleVerify e s r) st) = Inr resp \<and> ho_status resp = 200"
    using presented_passes [of s r st _ _ e] by blast
next
  fix resp ck
  assume p: "fst (run_state (handleVerify e s r) st) = Inr resp \<and> ho_status resp = 200 \<and> ck \<in> set (ho_cookies resp)"
  then obtain c st1 due st2 where c: "presented s r st c st1"
    "run_state (ShouldRefreshToken e (sv_jwtManager s) (Some c)) st1 = (due, st2)"
    using presented_needed by blast
  have "due" "fst (run_state (refresh_session e s r c) st2) = Inr resp"
    using p presented_run [OF c] by (auto split: if_split_asm)
  then show "\<exists>c st1. presented s r st c st1 \<and> issued_for e cfg (args_of c) (ck_Value ck)"
    using refresh_session_cookie [OF assms] p c(1) by blast
qed

section \<open>Examples\<close>

text \<open>A server with the standard signer, and requests to it.\<close>

definition demo_config :: config where
  "demo_config = createDefaultConfig\<lparr>cf_JWTSigningKey := ''k'', cf_JWTIssuer := ''i'', cf_JWTAudience := ''a''\<rparr>"

definition demo_cookies :: cookie_manager where
  "demo_cookies = \<lparr>cm_Name = ''c'', cm_Secure = True, cm_Domain = '''', cm_Path = ''/'', cm_MaxAge = second, cm_HTTPOnly = True,
     cm_SameSite = SameSiteLaxMode, cm_pathRegexPattern = ''p''\<rparr>"

definition demo_server :: "auth_env \<Rightarrow> server" where
  "demo_server e = \<lparr>sv_config = demo_config,
     sv_jwtManager = NewManager (StandardSigner e (NewStandardSigner ''k'' ''i'' ''a'' (3600 * second))) True (900 * second) (43200 * second),
     sv_cookieManager = demo_cookies, sv_restClient = True,
     sv_oidcVerifier = Some \<lparr>ov_provider = True, ov_clientID = ''c'', ov_issuerURL = ''u'', ov_timeoutSeconds = 30\<rparr>\<rparr>"

definition demo_request :: http_request where
  "demo_request = \<lparr>hr_Method = ''GET'', hr_Header = (\<lambda>n. if n = HeaderForwardedURI then ''/w/lab'' else
       if n = HeaderForwardedHost then ''d'' else if n = HeaderAuthorization then ''Bearer x'' else ''''),
     hr_Cookies = [(''c'', ''tok'')]\<rparr>"

lemma demo_handler: "handler_of e demo_config (sv_jwtManager (demo_server e))"
  using standard_handler [of demo_config e] by (simp add: demo_config_def demo_server_def createDefaultConfig_def)

theorem verify_session_witness:
  "\<exists>resp. fst (run_state (handleVerify alice_env (demo_server alice_env) demo_request) (idle_auth\<lparr>at_ticks := 10\<rparr>)) = Inr resp \<and>
     ho_status resp = 200"
proof -
  let ?st = "idle_auth\<lparr>at_ticks := 10\<rparr>" and ?s = "demo_server alice_env" and ?st1 = "idle_auth\<lparr>at_ticks := 11\<rparr>"
    and ?c = "make_claims (table_jwt []) ''i'' ''a'' 3600000000000 0 alice_args"
  have v: "run_state (ValidateToken (sv_jwtManager ?s) ''tok'') ?st = (Inr ?c, ?st1)"
    by (simp add: ValidateToken_def demo_server_def NewManager_def StandardSigner_def std_ValidateToken_def NewStandardSigner_def
        alice_env_def quiet_env_def idle_auth_def)
      (simp add: table_jwt_def method_ok_def std_opts_def std_key_def claims_ok_def time_ok_def make_claims_def)
  have "presented ?s demo_request ?st ?c ?st1"
    using v by (simp add: presented_def headers_present_def session_fits_def GetCookie_def demo_request_def demo_server_def demo_cookies_def)
      (simp add: make_claims_def alice_args_def)
  moreover have "run_state (ShouldRefreshToken alice_env (sv_jwtManager ?s) (Some ?c)) ?st1 = (False, idle_auth\<lparr>at_ticks := 12\<rparr>)"
    by (simp add: ShouldRefreshToken_def demo_server_def NewManager_def alice_env_def quiet_env_def idle_auth_def since_def Let_def)
      (simp add: table_jwt_def)
  ultimately show ?thesis
    using verify_session [OF demo_handler [of alice_env], where r = demo_request and st = ?st] by blast
qed

definition alice_oidc :: oidc_claims where
  "alice_oidc = \<lparr>oc_Username = ''alice'', oc_Email = '''', oc_Groups = [], oc_Subject = ''u1''\<rparr>"

definition session_args :: token_args where
  "session_args = \<lparr>ta_user = ''github:alice'', ta_groups = [], ta_uid = ''u1'', ta_extra = Map.empty, ta_path = ''/w'', ta_domain = ''d'',
     ta_tokenType = TokenTypeSession\<rparr>"

definition demo_header :: jwt_header where "demo_header = \<lparr>hd_alg = HS256, hd_edk = None\<rparr>"

text \<open>Services that know Alice and allow her to use one workspace; the patterns match and give its path and name.\<close>

definition demo_review :: review_spec where
  "demo_review = \<lparr>rv_WorkspaceName = ''w'', rv_User = ''github:alice'', rv_Groups = [], rv_UID = ''u1'', rv_Extra = Map.empty\<rparr>"

definition demo_env :: "token_table \<Rightarrow> auth_env" where
  "demo_env tab = quiet_env\<lparr>e_oidc_verify := \<lambda>_ _. OClaims alice_oidc, e_regex := \<lambda>p s. Inr [s, if p = DefaultPathRegexPattern then ''/w'' else ''w''], e_query := \<lambda>_ _. Inr ''boot'',
     e_review := \<lambda>_ ns spec. if ns = ''w'' \<and> spec = demo_review
       then Inr \<lparr>rv_Allowed = True, rv_NotFound = False, rv_Reason = ''Valid RBAC and the subject Workspace is public''\<rparr>
       else Inl (Msg ''review''), e_jwt := table_jwt tab\<rparr>"

definition sign_in_table :: token_table where
  "sign_in_table = [(''tok'', demo_header, make_claims (table_jwt []) ''i'' ''a'' (3600 * second) 0 session_args, ''k'')]"

lemma demo_args: "oidc_args (demo_env sign_in_table) (demo_server (demo_env sign_in_table)) demo_request alice_oidc = session_args"
  by (simp add: oidc_args_def session_args_def alice_oidc_def demo_request_def demo_server_def demo_config_def createDefaultConfig_def
    GetOIDCUsernameFromToken_def GetOIDCGroupsFromToken_def GetOidcUsername_def ExtractAppPath_def demo_env_def)

lemma demo_sign_in:
  obtains resp ck where "fst (run_state (handleAuth (demo_env sign_in_table) (demo_server (demo_env sign_in_table)) demo_request) idle_auth) = Inr resp"
    "ck \<in> set (ho_cookies resp)"
proof -
  let ?e = "demo_env sign_in_table" and ?s = "demo_server (demo_env sign_in_table)"
  have "j_sign (table_jwt sign_in_table) demo_header (make_claims (table_jwt sign_in_table) ''i'' ''a'' (3600 * second) 0 session_args) ''k'' = Inr ''tok''"
    by (simp add: sign_in_table_def) (simp add: table_jwt_def)
  then have gen: "run_state (GenerateToken (sv_jwtManager ?s) session_args) (idle_auth\<lparr>at_calls := cs\<rparr>) =
      (Inr ''tok'', idle_auth\<lparr>at_calls := cs, at_ticks := 1\<rparr>)" for cs
    by (simp add: GenerateToken_def demo_server_def NewManager_def StandardSigner_def std_GenerateToken_def NewStandardSigner_def
        idle_auth_def demo_env_def quiet_env_def demo_header_def)
  have "\<exists>resp. fst (run_state (handleAuth ?e ?s demo_request) idle_auth) = Inr resp \<and> ho_cookies resp \<noteq> []"
    using gen [unfolded session_args_def]
    by (simp add: handleAuth_def VerifyToken_def authorize_user_def ExtractBearerToken_def demo_request_def demo_server_def
        alice_oidc_def GetOIDCUsernameFromToken_def GetOIDCGroupsFromToken_def GetOidcUsername_def GetOidcGroups_def splitGroups_def
        ExtractAppPath_def VerifyWorkspaceAccess_def ExtractWorkspaceInfo_def extractWorkspaceInfoFromPath_def must_match_def
        GetForwardedURI_def createConnectionAccessReview_def demo_review_def demo_env_def demo_config_def createDefaultConfig_def idle_auth_def
        trim_prefix_def Let_def)
  then show ?thesis using that by (metis list.set_intros(1) neq_Nil_conv)
qed

theorem auth_session_witness:
  "\<exists>resp ck. fst (run_state (handleAuth (demo_env sign_in_table) (demo_server (demo_env sign_in_table)) demo_request) idle_auth) = Inr resp \<and>
     ck \<in> set (ho_cookies resp) \<and> issued_for (demo_env sign_in_table) demo_config session_args (ck_Value ck)"
proof (rule demo_sign_in)
  fix resp ck
  assume resp: "fst (run_state (handleAuth (demo_env sign_in_table) (demo_server (demo_env sign_in_table)) demo_request) idle_auth) = Inr resp"
    "ck \<in> set (ho_cookies resp)"
  have "\<And>calls tok. e_oidc_verify (demo_env sign_in_table) calls tok = OClaims alice_oidc"
    by (simp add: demo_env_def)
  then show ?thesis
    using auth_session [OF demo_handler resp] resp demo_args by auto
qed

definition boot_claims :: claims where
  "boot_claims = make_claims (table_jwt []) ''i'' ''a'' (3600 * second) 0 (session_args\<lparr>ta_tokenType := TokenTypeBootstrap\<rparr>)"

definition exchange_table :: token_table where
  "exchange_table = [(''boot'', demo_header, boot_claims, ''k''),
     (''tok'', demo_header, make_claims (table_jwt []) ''i'' ''a'' (3600 * second) second session_args, ''k'')]"

theorem bearer_exchange_witness:
  "\<exists>resp ck. fst (run_state (handleBearerAuth (demo_env exchange_table) (demo_server (demo_env exchange_table)) demo_request) idle_auth) = Inr resp \<and>
     ck \<in> set (ho_cookies resp) \<and> issued_for (demo_env exchange_table) demo_config session_args (ck_Value ck)"
proof -
  let ?e = "demo_env exchange_table" and ?s = "demo_server (demo_env exchange_table)"
  have val: "run_state (ValidateToken (sv_jwtManager ?s) ''boot'') idle_auth = (Inr boot_claims, idle_auth\<lparr>at_ticks := 1\<rparr>)"
    by (simp add: ValidateToken_def demo_server_def NewManager_def StandardSigner_def std_ValidateToken_def NewStandardSigner_def
        demo_env_def quiet_env_def idle_auth_def exchange_table_def)
      (simp add: table_jwt_def demo_header_def boot_claims_def method_ok_def std_opts_def std_key_def claims_ok_def time_ok_def make_claims_def)
  have ne: "boot_claims \<noteq> make_claims j i au x t session_args" for j i au x t
    by (simp add: boot_claims_def make_claims_def session_args_def)
  have "j_sign (table_jwt exchange_table) demo_header (make_claims (table_jwt exchange_table) ''i'' ''a'' (3600 * second) second session_args) ''k'' = Inr ''tok''"
    by (simp add: exchange_table_def) (simp add: table_jwt_def ne)
  then have gen: "run_state (GenerateToken (sv_jwtManager ?s) session_args) (idle_auth\<lparr>at_ticks := 1\<rparr>) =
      (Inr ''tok'', idle_auth\<lparr>at_ticks := 2\<rparr>)"
    by (simp add: GenerateToken_def demo_server_def NewManager_def StandardSigner_def std_GenerateToken_def NewStandardSigner_def
        idle_auth_def demo_env_def quiet_env_def demo_header_def)
  have boot: "c_TokenType boot_claims = TokenTypeBootstrap" "c_Path boot_claims = ''/w''" "c_Subject boot_claims = ''github:alice''"
    "c_Groups boot_claims = []" "c_UID boot_claims = ''u1''" "c_Extra boot_claims = Map.empty"
    by (simp_all add: boot_claims_def make_claims_def session_args_def)
  have env: "e_query ?e = (\<lambda>_ _. Inr ''boot'')" "e_regex ?e DefaultPathRegexPattern = (\<lambda>s. Inr [s, ''/w''])"
    by (simp_all add: demo_env_def)
  have hdr: "hr_Method demo_request = ''GET''" "hr_Header demo_request HeaderForwardedURI = ''/w/lab''" "hr_Header demo_request HeaderForwardedHost = ''d''"
    by (simp_all add: demo_request_def)
  have path: "ExtractAppPath ?e ''/w/lab'' (cf_PathRegexPattern (sv_config ?s)) = ''/w''"
    by (simp add: ExtractAppPath_def env demo_server_def demo_config_def createDefaultConfig_def)
  have "\<exists>resp. fst (run_state (handleBearerAuth ?e ?s demo_request) idle_auth) = Inr resp \<and> ho_cookies resp \<noteq> []"
    using gen [unfolded session_args_def] by (simp add: handleBearerAuth_def hdr env val boot path Let_def)
  then obtain resp ck where resp: "fst (run_state (handleBearerAuth ?e ?s demo_request) idle_auth) = Inr resp" "ck \<in> set (ho_cookies resp)"
    by (metis list.set_intros(1) neq_Nil_conv)
  show ?thesis
    using bearer_exchange [OF demo_handler resp] resp val boot path by (auto simp: env hdr session_args_def)
qed


section \<open>Limits\<close>

text \<open>The path test is a prefix test without a boundary: the session of one workspace fits the paths of another.\<close>

lemma sibling_path_accepted:
  assumes "c_TokenType c = TokenTypeSession" and "c_Domain c = hr_Header r HeaderForwardedHost"
    and "c_Path c = ''/workspaces/ns/app''" and "hr_Header r HeaderForwardedURI = ''/workspaces/ns/app2/lab''"
  shows "session_fits r c"
  using assms by (simp add: session_fits_def)

text \<open>
  A review that fails prolongs the session: the response passes and its cookie holds a token with a new lifetime that
  can be refreshed again.
\<close>

lemma failed_review_prolongs:
  assumes "handler_of e cfg (sv_jwtManager s)"
    and "run_state (VerifyWorkspaceAccessFromJwt e s r c) st = (Inl err, st1)" and "\<not> is_panic err"
    and "run_state (UpdateSkipRefreshToken (sv_jwtManager s) (Some c)) st1 = ((Inr tok, c'), st2)"
  shows "fst (run_state (refresh_session e s r c) st) = Inr \<lparr>ho_status = 200,
      ho_cookies = [SetCookie e (sv_cookieManager s) tok (c_Path c) (c_Domain c)], ho_body = ''''\<rparr>"
    and "issued_for e cfg (args_of c) tok"
  using assms refresh_issues(2) by (auto simp: refresh_session_def split: goerr.split)

text \<open>The patterns for host names are not compiled when the configuration is loaded; a bad one panics on every request.\<close>

lemma bad_subdomain_pattern_panics:
  assumes "cf_RoutingMode (sv_config s) = RoutingModeSubdomain" and "hr_Header r HeaderForwardedHost \<noteq> ''''"
    and "\<And>x. e_regex e (cf_WorkspaceNameSubdomainRegex (sv_config s)) x = Inl err"
  shows "ExtractWorkspaceInfo e s r = Inl (Panic (err_text err))"
  using assms by (simp add: ExtractWorkspaceInfo_def extractWorkspaceInfoFromSubdomain_def GetForwardedHost_def must_match_def Let_def)

end
