(* ===== verification/Ssm.thy ===== *)
theory Ssm
  imports Controllers KmsSigner
begin

text \<open>
  Remote access through AWS Systems Manager (\<open>internal/aws\<close>): the client (\<open>ssm_client.go\<close>), the remote access
  strategy that registers a pod's sidecar and starts its server (\<open>ssm_remote_access_strategy.go\<close>), the one-time
  creation of the session document (\<open>initializer.go\<close>), and the part of the pod event handler that calls them
  (\<open>internal/controller/pod_event_handler.go\<close>).

  The service, its clock, the loading of the AWS configuration and the JSON coding of the state file are the
  fields of the record \<open>aws_env\<close>. The state is a \<open>world\<close>: the requests to the cluster and to the service so
  far, the permission reviews, the state of the signers, and the two global variables of the initializer. A computation ends with a
  value or with a panic; a panic skips everything after it, which matters where the sources log an
  error and go on.
\<close>

section \<open>The world\<close>

record ssm_instance =
  in_InstanceId :: "string option"
  in_RegistrationDate :: "int option"

record activation_input =
  ai_Description :: string
  ai_IamRole :: string
  ai_RegistrationLimit :: int
  ai_ExpirationDate :: int
  ai_DefaultInstanceName :: string
  ai_Tags :: "(string \<times> string) list"

record session_output =
  so_SessionId :: "string option"
  so_StreamUrl :: "string option"
  so_TokenValue :: "string option"

datatype ssm_call =
    SCreateActivation activation_input
  | SDescribeInstances string string
  | SDeregister string
  | SDescribeActivations string
  | SDeleteActivation string
  | SDescribeSessions string int
  | SStartSession string string string
  | SCreateDocument string "(string \<times> string) list"

record resource_initializer =
  ri_done :: bool
  ri_error :: "goerr option"

text \<open>A review of a user's permission to use a verb on a resource, asked of the cluster.\<close>

record sar_spec =
  sar_Namespace :: string
  sar_Verb :: string
  sar_Group :: string
  sar_Resource :: string
  sar_User :: string
  sar_Groups :: "string list"
  sar_UID :: string
  sar_Extra :: "string \<rightharpoonup> string list"

record world =
  wd_hist :: hist
  wd_auth :: auth_state
  wd_ssm :: "ssm_call list"
  wd_sar :: "sar_spec list"
  wd_once :: bool
  wd_initializer :: "resource_initializer option"

text \<open>The state file of a pod (\<open>RegistrationState\<close>); a time that is not set is 0.\<close>

record registration_state =
  rs_SidecarRestartCount :: int
  rs_WorkspaceRestartCount :: int
  rs_SetupInProgress :: bool
  rs_SetupStartedAt :: int

record aws_env =
  x_config_err :: "goerr option"
  x_region :: string
  x_create_activation :: "world \<Rightarrow> activation_input \<Rightarrow> (string option \<times> string option) res"
  x_describe_instances :: "world \<Rightarrow> string \<Rightarrow> string \<Rightarrow> ssm_instance list res"
  x_deregister :: "world \<Rightarrow> string \<Rightarrow> goerr option"
  x_describe_activations :: "world \<Rightarrow> string \<Rightarrow> (string option) list res"
  x_delete_activation :: "world \<Rightarrow> string \<Rightarrow> goerr option"
  x_describe_sessions :: "world \<Rightarrow> string \<Rightarrow> int \<Rightarrow> string list res"
  x_start_session :: "world \<Rightarrow> string \<Rightarrow> string \<Rightarrow> string \<Rightarrow> (bool \<times> goerr) + session_output"
  x_create_document :: "world \<Rightarrow> string \<Rightarrow> (string \<times> string) list \<Rightarrow> (bool \<times> goerr) option"
  x_now :: "world \<Rightarrow> int"
  x_marshal :: "registration_state \<Rightarrow> string"
  x_unmarshal :: "string \<Rightarrow> registration_state res"

type_synonym 'a pio = "(world, string + 'a) state"

definition pret :: "'a \<Rightarrow> 'a pio" where "pret x = State_Monad.return (Inr x)"
definition panic :: "string \<Rightarrow> 'a pio" where "panic m = State_Monad.return (Inl m)"

definition pbind :: "'a pio \<Rightarrow> ('a \<Rightarrow> 'b pio) \<Rightarrow> 'b pio" where
  "pbind m f = do { r \<leftarrow> m; (case r of Inl p \<Rightarrow> State_Monad.return (Inl p) | Inr x \<Rightarrow> f x) }"

text \<open>Continuing after a \<open>(value, error)\<close> result.\<close>

definition pok :: "('a res) pio \<Rightarrow> (goerr \<Rightarrow> goerr) \<Rightarrow> ('a \<Rightarrow> ('b res) pio) \<Rightarrow> ('b res) pio" where
  "pok m w f = pbind m (\<lambda>r. case r of Inl e \<Rightarrow> pret (Inl (w e)) | Inr x \<Rightarrow> f x)"

definition on_cluster :: "'a io \<Rightarrow> 'a pio" where
  "on_cluster m = State (\<lambda>w. let (x, h) = run_state m (wd_hist w) in (Inr x, w\<lparr>wd_hist := h\<rparr>))"

definition on_service :: "(world \<Rightarrow> 'a) \<Rightarrow> ssm_call \<Rightarrow> 'a pio" where
  "on_service f c = State (\<lambda>w. (Inr (f w), w\<lparr>wd_ssm := wd_ssm w @ [c]\<rparr>))"

definition on_world :: "(world \<Rightarrow> 'a \<times> world) \<Rightarrow> 'a pio" where
  "on_world f = State (\<lambda>w. let (x, w') = f w in (Inr x, w'))"

lemma run_pio [simp]:
  "run_state (pret x) w = (Inr x, w)" "run_state (panic p) w = (Inl p, w)"
  "run_state (on_service f c) w = (Inr (f w), w\<lparr>wd_ssm := wd_ssm w @ [c]\<rparr>)"
  "run_state (on_cluster m) w = (Inr (fst (run_state m (wd_hist w))), w\<lparr>wd_hist := snd (run_state m (wd_hist w))\<rparr>)"
  "run_state (on_world g) w = (Inr (fst (g w)), snd (g w))"
  by (simp_all add: pret_def panic_def on_service_def on_cluster_def on_world_def split: prod.split)

lemma run_pbind [simp]:
  "run_state (pbind m f) w = (case run_state m w of (Inl p, w') \<Rightarrow> (Inl p, w') | (Inr x, w') \<Rightarrow> run_state (f x) w')"
  by (auto simp: pbind_def split: prod.splits sum.splits)

lemma run_pok [simp]:
  "run_state (pok m g f) w = (case run_state m w of
     (Inl p, w') \<Rightarrow> (Inl p, w') | (Inr (Inl e), w') \<Rightarrow> (Inr (Inl (g e)), w') | (Inr (Inr x), w') \<Rightarrow> run_state (f x) w')"
  by (auto simp: pok_def split: prod.splits sum.splits)

section \<open>The client\<close>

text \<open>
  A value of the interface type that holds the client: no value, a nil pointer, or a client. A nil pointer in an
  interface is not equal to nil, and every method reads a field of the receiver.
\<close>

datatype ssm_ref = NilInterface | NilClient | Client

abbreviation nil_dereference :: string where
  "nil_dereference \<equiv> ''runtime error: invalid memory address or nil pointer dereference''"

definition ssm_method :: "ssm_ref \<Rightarrow> 'a pio \<Rightarrow> 'a pio" where
  "ssm_method c m = (if c = Client then m else panic nil_dereference)"

abbreviation WorkspacePodUIDTagKey :: string where "WorkspacePodUIDTagKey \<equiv> ''tag:workspace-pod-uid''"
abbreviation EKSClusterARNEnv :: string where "EKSClusterARNEnv \<equiv> ''CLUSTER_ID''"
abbreviation CustomSSHDocumentName :: string where "CustomSSHDocumentName \<equiv> ''SageMaker-SpaceSSHSessionDocument''"
abbreviation SSMInstanceNamePrefix :: string where "SSMInstanceNamePrefix \<equiv> ''workspace''"
abbreviation MaxConcurrentSSMSessionsPerInstance :: int where "MaxConcurrentSSMSessionsPerInstance \<equiv> 10"

definition NewSSMClient :: "aws_env \<Rightarrow> ssm_ref \<times> goerr option" where
  "NewSSMClient x = (case x_config_err x of
     Some err \<Rightarrow> (NilClient, Some (Wrap ''failed to load AWS config'' err))
   | None \<Rightarrow> (Client, None))"

text \<open>One request, without a token for a next page: the instances are those of the first page the service answers.\<close>

definition describeInstanceInformation :: "aws_env \<Rightarrow> string \<Rightarrow> (ssm_instance list res) pio" where
  "describeInstanceInformation x podUID =
     pok (on_service (\<lambda>w. x_describe_instances x w WorkspacePodUIDTagKey podUID) (SDescribeInstances WorkspacePodUIDTagKey podUID))
       (Wrap ''failed to describe SSM managed instances'') (\<lambda>is. pret (Inr is))"

text \<open>
  \<open>sort.Slice\<close> with the newest registration first and instances without a date at the end. Go does not specify the order of
  instances with the same date; here they keep the order of the answer.
\<close>

definition newest_first :: "ssm_instance list \<Rightarrow> ssm_instance list" where
  "newest_first is = sort_key (\<lambda>i. - the (in_RegistrationDate i)) (filter (\<lambda>i. in_RegistrationDate i \<noteq> None) is) @
     filter (\<lambda>i. in_RegistrationDate i = None) is"

definition FindInstanceByPodUID :: "aws_env \<Rightarrow> ssm_ref \<Rightarrow> string \<Rightarrow> (string res) pio" where
  "FindInstanceByPodUID x c podUID = ssm_method c (
     pok (describeInstanceInformation x podUID) (Wrap ''failed to describe instances'')
       (\<lambda>instances0.
         if length instances0 = 0 then pret (Inl (Msg (''no managed instance found with workspace-pod-uid tag: '' @ podUID)))
         else let instances = (if length instances0 > 1 then newest_first instances0 else instances0) in
           (case in_InstanceId (instances ! 0) of
              None \<Rightarrow> pret (Inl (Msg (''instance ID is nil for pod UID: '' @ podUID)))
            | Some i \<Rightarrow> pret (Inr i))))"

definition checkNumActiveSessions :: "aws_env \<Rightarrow> string \<Rightarrow> (unit res) pio" where
  "checkNumActiveSessions x instanceID =
     pok (on_service (\<lambda>w. x_describe_sessions x w instanceID MaxConcurrentSSMSessionsPerInstance)
            (SDescribeSessions instanceID MaxConcurrentSSMSessionsPerInstance))
       (Wrap (''failed to describe sessions for instance '' @ instanceID))
       (\<lambda>sessions. let numActiveSessions = int (length sessions) in
         if numActiveSessions \<ge> MaxConcurrentSSMSessionsPerInstance
         then pret (Inl (Msg (''instance '' @ instanceID @ '' exceeds active sessions limit ('' @ int_text numActiveSessions @ ''/'' @
                int_text MaxConcurrentSSMSessionsPerInstance @ '')'')))
         else pret (Inr ()))"

record session_info =
  si_SessionID :: string
  si_StreamURL :: string
  si_TokenValue :: string

definition or_empty :: "string option \<Rightarrow> string" where
  "or_empty v = (case v of None \<Rightarrow> '''' | Some s \<Rightarrow> s)"

definition StartSession :: "aws_env \<Rightarrow> ssm_ref \<Rightarrow> string \<Rightarrow> string \<Rightarrow> string \<Rightarrow> (session_info res) pio" where
  "StartSession x c instanceID documentName port = ssm_method c (
     pok (checkNumActiveSessions x instanceID) id (\<lambda>_.
       pbind (on_service (\<lambda>w. x_start_session x w instanceID documentName port) (SStartSession instanceID documentName port))
         (\<lambda>r. case r of
            Inl (invalidDocument, err) \<Rightarrow>
              pret (Inl (if invalidDocument then Wrap (''SSM document '' @ [CHR 0x27] @ documentName @ [CHR 0x27] @ '' not found or invalid'') err
                         else Wrap (''failed to start session for instance '' @ instanceID) err))
          | Inr out \<Rightarrow> (case so_SessionId out of
              None \<Rightarrow> pret (Inl (Msg ''received nil SessionId from SSM service''))
            | Some sid \<Rightarrow> pret (Inr \<lparr>si_SessionID = sid, si_StreamURL = or_empty (so_StreamUrl out),
                si_TokenValue = or_empty (so_TokenValue out)\<rparr>)))))"

text \<open>
  The result's pointers are dereferenced without a check. The tags are a map in the source, whose iteration order is
  arbitrary; here they are listed in the order of the literal that makes them.
\<close>

definition CreateActivation :: "aws_env \<Rightarrow> ssm_ref \<Rightarrow> string \<Rightarrow> string \<Rightarrow> string \<Rightarrow> (string \<times> string) list \<Rightarrow> ((string \<times> string) res) pio" where
  "CreateActivation x c description instanceName iamRole tags = ssm_method c (
     if iamRole = '''' then pret (Inl (Msg ''IAM role is required for SSM activation''))
     else pbind (on_world (\<lambda>w. (x_now x w, w))) (\<lambda>t.
       let input = \<lparr>ai_Description = description, ai_IamRole = iamRole, ai_RegistrationLimit = 1,
             ai_ExpirationDate = t + 5 * minute, ai_DefaultInstanceName = instanceName, ai_Tags = tags\<rparr>
       in pok (on_service (\<lambda>w. x_create_activation x w input) (SCreateActivation input)) (Wrap ''failed to create SSM activation'')
            (\<lambda>r. case r of (Some i, Some code) \<Rightarrow> pret (Inr (i, code)) | _ \<Rightarrow> panic nil_dereference)))"

definition deregisterManagedInstance :: "aws_env \<Rightarrow> string \<Rightarrow> (goerr option) pio" where
  "deregisterManagedInstance x instanceId =
     pbind (on_service (\<lambda>w. x_deregister x w instanceId) (SDeregister instanceId))
       (\<lambda>e. pret (map_option (Wrap (''failed to deregister SSM managed instance '' @ instanceId)) e))"

definition deleteActivation :: "aws_env \<Rightarrow> string \<Rightarrow> (goerr option) pio" where
  "deleteActivation x activationId =
     pbind (on_service (\<lambda>w. x_delete_activation x w activationId) (SDeleteActivation activationId))
       (\<lambda>e. pret (map_option (Wrap (''failed to delete SSM activation '' @ activationId)) e))"

text \<open>The loops over what was found: every item is tried, the failures are counted.\<close>

fun count_failures :: "('a \<Rightarrow> (goerr option) pio) \<Rightarrow> 'a list \<Rightarrow> nat pio" where
  "count_failures f [] = pret 0"
| "count_failures f (y # ys) = pbind (f y) (\<lambda>e. pbind (count_failures f ys) (\<lambda>n. pret (if e = None then n else Suc n)))"

definition CleanupManagedInstancesByPodUID :: "aws_env \<Rightarrow> ssm_ref \<Rightarrow> string \<Rightarrow> (unit res) pio" where
  "CleanupManagedInstancesByPodUID x c podUID = ssm_method c (
     pok (describeInstanceInformation x podUID) (Wrap (''failed to find managed instances for pod '' @ podUID))
       (\<lambda>instances.
         if length instances = 0 then pret (Inr ())
         else pbind (count_failures (\<lambda>i. deregisterManagedInstance x (or_empty (in_InstanceId i))) instances)
           (\<lambda>errs. pret (if errs > 0
              then Inl (Msg (''failed to deregister '' @ int_text (int errs) @ '' out of '' @ int_text (int (length instances)) @
                     '' managed instances for pod '' @ podUID))
              else Inr ()))))"

definition CleanupActivationsByPodUID :: "aws_env \<Rightarrow> ssm_ref \<Rightarrow> string \<Rightarrow> (unit res) pio" where
  "CleanupActivationsByPodUID x c podUID = ssm_method c (
     let instanceName = SSMInstanceNamePrefix @ ''-'' @ podUID in
     pok (on_service (\<lambda>w. x_describe_activations x w instanceName) (SDescribeActivations instanceName))
       (Wrap (''failed to describe SSM activations for pod '' @ podUID))
       (\<lambda>activations.
         if length activations = 0 then pret (Inr ())
         else pbind (count_failures (\<lambda>a. deleteActivation x (or_empty a)) activations)
           (\<lambda>errs. pret (if errs > 0
              then Inl (Msg (''failed to delete '' @ int_text (int errs) @ '' out of '' @ int_text (int (length activations)) @
                     '' activations for pod '' @ podUID))
              else Inr ()))))"

definition createSageMakerSpaceSSMDocument :: "aws_env \<Rightarrow> client \<Rightarrow> (unit res) pio" where
  "createSageMakerSpaceSSMDocument x k = (let clusterARN = k_getenv k EKSClusterARNEnv in
     if clusterARN = '''' then pret (Inl (Msg (EKSClusterARNEnv @ '' environment variable is required'')))
     else let tags = [(''sagemaker.amazonaws.com/managed-by'', ''amazon-sagemaker-spaces''),
                      (''sagemaker.amazonaws.com/eks-cluster-arn'', clusterARN)] in
       pbind (on_service (\<lambda>w. x_create_document x w CustomSSHDocumentName tags) (SCreateDocument CustomSSHDocumentName tags))
         (\<lambda>e. pret (case e of
             None \<Rightarrow> Inr ()
           | Some (docAlreadyExists, err) \<Rightarrow>
               if docAlreadyExists then Inr () else Inl (Wrap ''failed to create SSH document'' err))))"

section \<open>The initializer\<close>

text \<open>The method, on the global initializer: the document is created once, its error is kept.\<close>

definition initializer_ensure :: "aws_env \<Rightarrow> client \<Rightarrow> (unit res) pio" where
  "initializer_ensure x k = pbind (on_world (\<lambda>w. (wd_initializer w, w))) (\<lambda>r. case r of
     None \<Rightarrow> panic nil_dereference
   | Some i \<Rightarrow>
       let result = (\<lambda>err. case err of None \<Rightarrow> Inr () | Some e \<Rightarrow> Inl e) in
       if ri_done i then pret (result (ri_error i))
       else pbind (createSageMakerSpaceSSMDocument x k) (\<lambda>d.
         let err = (case d of Inl e \<Rightarrow> Some (Wrap ''failed to create SSH document'' e) | Inr _ \<Rightarrow> ri_error i) in
         pbind (on_world (\<lambda>w. ((), w\<lparr>wd_initializer := Some \<lparr>ri_done = True, ri_error = err\<rparr>\<rparr>))) (\<lambda>_. pret (result err))))"

text \<open>The global function: the initializer is made once; the error of making it is only seen by the call that made it.\<close>

definition EnsureResourcesInitialized :: "aws_env \<Rightarrow> client \<Rightarrow> (unit res) pio" where
  "EnsureResourcesInitialized x k = pbind (on_world (\<lambda>w. (wd_once w, w\<lparr>wd_once := True\<rparr>))) (\<lambda>once.
     if once then initializer_ensure x k
     else case NewSSMClient x of
       (_, Some err) \<Rightarrow> pret (Inl (Wrap ''failed to create SSM client'' err))
     | (_, None) \<Rightarrow> pbind (on_world (\<lambda>w. ((), w\<lparr>wd_initializer := Some \<lparr>ri_done = False, ri_error = None\<rparr>\<rparr>)))
         (\<lambda>_. initializer_ensure x k))"

section \<open>The remote access strategy\<close>

text \<open>Where commands run: in the pod, or nowhere, for the strategy that only makes connection links.\<close>

datatype pod_exec = PodExecUtil | NoOpPodExec

record ssm_strategy =
  rs_ssmClient :: ssm_ref
  rs_podExecUtil :: pod_exec

definition NewSSMRemoteAccessStrategy :: "aws_env \<Rightarrow> ssm_ref \<Rightarrow> pod_exec option \<Rightarrow> ssm_strategy res" where
  "NewSSMRemoteAccessStrategy x ssmClient podExecUtil =
     (let c = (if ssmClient = NilInterface then fst (NewSSMClient x) else ssmClient) in
      case podExecUtil of
        None \<Rightarrow> Inl (Msg ''podExecUtil is required'')
      | Some p \<Rightarrow> Inr \<lparr>rs_ssmClient = c, rs_podExecUtil = p\<rparr>)"

definition exec :: "client \<Rightarrow> ssm_strategy \<Rightarrow> pod \<Rightarrow> string \<Rightarrow> string list \<Rightarrow> string \<Rightarrow> (string res) pio" where
  "exec k s p containerName cmd stdin = (case rs_podExecUtil s of
     PodExecUtil \<Rightarrow> on_cluster (ExecInPod k p containerName cmd stdin)
   | NoOpPodExec \<Rightarrow> pret (Inl (Msg ''pod exec not supported in connection URL generation'')))"

abbreviation SSMAgentSidecarContainerName :: string where "SSMAgentSidecarContainerName \<equiv> ''ssm-agent-sidecar''"
abbreviation WorkspaceContainerName :: string where "WorkspaceContainerName \<equiv> ''workspace''"
abbreviation SSMRegistrationStateFile :: string where
  "SSMRegistrationStateFile \<equiv> ''/opt/amazon/sagemaker/workspace/.ssm-registration-state.json''"
abbreviation RemoteAccessServerPort :: string where "RemoteAccessServerPort \<equiv> ''2222''"

definition isContainerRunning :: "pod \<Rightarrow> string \<Rightarrow> bool" where
  "isContainerRunning p containerName =
     (case find (\<lambda>cs. cs_Name cs = containerName) (pod_ContainerStatuses p) of None \<Rightarrow> False | Some cs \<Rightarrow> cs_Running cs)"

definition getCurrentRestartCounts :: "pod \<Rightarrow> int \<times> int" where
  "getCurrentRestartCounts p = fold (\<lambda>cs (sidecarCount, workspaceCount).
     (if cs_Name cs = SSMAgentSidecarContainerName then cs_RestartCount cs else sidecarCount,
      if cs_Name cs = WorkspaceContainerName then cs_RestartCount cs else workspaceCount)) (pod_ContainerStatuses p) (0, 0)"

text \<open>No state: \<open>Inr None\<close> when the file cannot be read, \<open>Inl\<close> when it does not decode.\<close>

definition readRegistrationState :: "aws_env \<Rightarrow> client \<Rightarrow> ssm_strategy \<Rightarrow> pod \<Rightarrow> (registration_state option res) pio" where
  "readRegistrationState x k s p =
     pbind (exec k s p SSMAgentSidecarContainerName [''cat'', SSMRegistrationStateFile] '''') (\<lambda>r. case r of
       Inl _ \<Rightarrow> pret (Inr None)
     | Inr output \<Rightarrow> pret (case x_unmarshal x output of Inl err \<Rightarrow> Inl err | Inr st \<Rightarrow> Inr (Some st)))"

definition write_cmd :: "aws_env \<Rightarrow> registration_state \<Rightarrow> string list" where
  "write_cmd x st = [''bash'', ''-c'', ''echo '' @ [CHR 0x27] @ x_marshal x st @ [CHR 0x27] @ '' > '' @ SSMRegistrationStateFile @
     ''.tmp && mv '' @ SSMRegistrationStateFile @ ''.tmp '' @ SSMRegistrationStateFile]"

definition writeRegistrationState :: "aws_env \<Rightarrow> client \<Rightarrow> ssm_strategy \<Rightarrow> pod \<Rightarrow> registration_state \<Rightarrow> (unit res) pio" where
  "writeRegistrationState x k s p st =
     pok (exec k s p SSMAgentSidecarContainerName (write_cmd x st) '''') (Wrap ''failed to write state file'') (\<lambda>_. pret (Inr ()))"

definition CleanupSSMManagedNodes :: "aws_env \<Rightarrow> ssm_strategy \<Rightarrow> pod \<Rightarrow> (unit res) pio" where
  "CleanupSSMManagedNodes x s p =
     (if rs_ssmClient s = NilInterface then pret (Inl (Msg ''SSM client not available''))
      else pbind (CleanupManagedInstancesByPodUID x (rs_ssmClient s) (om_UID (pod_meta p))) (\<lambda>_.
        pok (CleanupActivationsByPodUID x (rs_ssmClient s) (om_UID (pod_meta p)))
          (Wrap (''failed to cleanup activations for pod '' @ om_UID (pod_meta p))) (\<lambda>_. pret (Inr ()))))"

definition createSSMActivation :: "aws_env \<Rightarrow> client \<Rightarrow> ssm_strategy \<Rightarrow> pod \<Rightarrow> workspace \<Rightarrow> access_strategy \<Rightarrow> ((string \<times> string) res) pio" where
  "createSSMActivation x k s p ws as =
     (if rs_ssmClient s = NilInterface then pret (Inl (Msg ''SSM client not available''))
      else let iamRole = map_get (as_CreateConnectionContext (a_Spec as)) ''ssmManagedNodeRole'';
               eksClusterARN = k_getenv k EKSClusterARNEnv; uid = om_UID (pod_meta p)
        in if iamRole = '''' then pret (Inl (Msg ''ssmManagedNodeRole not found in access strategy''))
           else if eksClusterARN = '''' then pret (Inl (Msg (EKSClusterARNEnv @ '' environment variable is required'')))
           else pok (CreateActivation x (rs_ssmClient s)
                  (''Activation for '' @ w_Namespace ws @ ''/'' @ om_Name (w_meta ws) @ '' (pod: '' @ uid @ '')'')
                  (SSMInstanceNamePrefix @ ''-'' @ uid) iamRole
                  [(''sagemaker.amazonaws.com/managed-by'', ''amazon-sagemaker-spaces''),
                   (''sagemaker.amazonaws.com/eks-cluster-arn'', eksClusterARN), (''workspace-name'', om_Name (w_meta ws)),
                   (''namespace'', w_Namespace ws), (''workspace-pod-uid'', uid)])
                (Wrap ''failed to create SSM activation'') (\<lambda>(activationId, activationCode). pret (Inr (activationCode, activationId))))"

definition register_cmd :: "aws_env \<Rightarrow> string list" where
  "register_cmd x = [''bash'', ''-c'', ''read ACTIVATION_ID && read ACTIVATION_CODE && env ACTIVATION_ID='' @ [CHR 0x22] @
     ''$ACTIVATION_ID'' @ [CHR 0x22] @ '' ACTIVATION_CODE='' @ [CHR 0x22] @ ''$ACTIVATION_CODE'' @ [CHR 0x22] @ '' REGION='' @ x_region x @
     '' /usr/local/bin/register-ssm.sh'']"

definition setupSidecarContainer :: "aws_env \<Rightarrow> client \<Rightarrow> ssm_strategy \<Rightarrow> pod \<Rightarrow> workspace \<Rightarrow> access_strategy \<Rightarrow> bool \<Rightarrow> (unit res) pio" where
  "setupSidecarContainer x k s p ws as cleanupNeeded =
     pbind (if cleanupNeeded then pbind (CleanupSSMManagedNodes x s p) (\<lambda>_. pret ()) else pret ()) (\<lambda>_.
     pok (createSSMActivation x k s p ws as) (Wrap ''failed to create SSM activation'') (\<lambda>(activationCode, activationId).
     pok (exec k s p SSMAgentSidecarContainerName (register_cmd x) (activationId @ [CHR 0x0A] @ activationCode @ [CHR 0x0A]))
       (Wrap ''failed to execute SSM registration script'') (\<lambda>_.
     pok (exec k s p SSMAgentSidecarContainerName [''touch'', ''/tmp/ssm-registered''] '''')
       (Wrap ''failed to create marker file'') (\<lambda>_. pret (Inr ())))))"

definition setupWorkspaceContainer :: "client \<Rightarrow> ssm_strategy \<Rightarrow> pod \<Rightarrow> (unit res) pio" where
  "setupWorkspaceContainer k s p =
     (if \<not> isContainerRunning p WorkspaceContainerName then pret (Inr ())
      else pok (exec k s p WorkspaceContainerName
             [''/opt/amazon/sagemaker/workspace/remote-access/start-remote-access-server.sh'', ''--port'', RemoteAccessServerPort] '''')
           (Wrap ''failed to start remote access server'') (\<lambda>_. pret (Inr ())))"

text \<open>
  What is to be done, from the restart counts and the state file: nothing, or a sidecar setup, a workspace
  setup and a cleanup, each or not.
\<close>

definition needed_setup :: "int \<times> int \<Rightarrow> registration_state option res \<Rightarrow> (bool \<times> bool \<times> bool) option" where
  "needed_setup counts st = (case st of
     Inl _ \<Rightarrow> Some (True, True, True)
   | Inr None \<Rightarrow> Some (True, True, False)
   | Inr (Some st) \<Rightarrow>
       if rs_SetupInProgress st then None
       else let sidecarRestarted = fst counts > rs_SidecarRestartCount st; workspaceRestarted = snd counts > rs_WorkspaceRestartCount st
         in if \<not> sidecarRestarted \<and> \<not> workspaceRestarted then None else Some (sidecarRestarted, workspaceRestarted, sidecarRestarted))"

text \<open>The setup between the two writes of the state file, and its error.\<close>

definition perform_setup :: "aws_env \<Rightarrow> client \<Rightarrow> ssm_strategy \<Rightarrow> pod \<Rightarrow> workspace \<Rightarrow> access_strategy \<Rightarrow> int \<times> int \<Rightarrow>
    bool \<times> bool \<times> bool \<Rightarrow> (unit res) pio" where
  "perform_setup x k s p ws as counts = (\<lambda>(needSidecarSetup, needWorkspaceSetup, needCleanup).
     pbind (on_world (\<lambda>w. (x_now x w, w))) (\<lambda>t.
     pbind (writeRegistrationState x k s p \<lparr>rs_SidecarRestartCount = fst counts, rs_WorkspaceRestartCount = snd counts,
              rs_SetupInProgress = True, rs_SetupStartedAt = t\<rparr>) (\<lambda>_.
     pbind (if needSidecarSetup then setupSidecarContainer x k s p ws as needCleanup else pret (Inr ())) (\<lambda>r1.
     pbind (case r1 of Inl err \<Rightarrow> pret (Inl err)
            | Inr _ \<Rightarrow> if needWorkspaceSetup then setupWorkspaceContainer k s p else pret (Inr ())) (\<lambda>setupErr.
     pbind (writeRegistrationState x k s p \<lparr>rs_SidecarRestartCount = fst counts, rs_WorkspaceRestartCount = snd counts,
              rs_SetupInProgress = False, rs_SetupStartedAt = 0\<rparr>) (\<lambda>_.
     pret setupErr))))))"

definition SetupContainers :: "aws_env \<Rightarrow> client \<Rightarrow> ssm_strategy \<Rightarrow> pod \<Rightarrow> workspace \<Rightarrow> access_strategy \<Rightarrow> (unit res) pio" where
  "SetupContainers x k s p ws as =
     (if rs_ssmClient s = NilInterface then pret (Inl (Msg ''SSM client not available''))
      else if \<not> isContainerRunning p SSMAgentSidecarContainerName then pret (Inr ())
      else pbind (readRegistrationState x k s p) (\<lambda>st. case needed_setup (getCurrentRestartCounts p) st of
          None \<Rightarrow> pret (Inr ())
        | Some needs \<Rightarrow> perform_setup x k s p ws as (getCurrentRestartCounts p) needs))"

definition GenerateVSCodeConnectionURL :: "aws_env \<Rightarrow> ssm_strategy \<Rightarrow> string \<Rightarrow> string \<Rightarrow> string \<Rightarrow> string \<Rightarrow> access_strategy \<Rightarrow> (string res) pio" where
  "GenerateVSCodeConnectionURL x s workspaceName namespace podUID eksClusterARN as =
     pok (FindInstanceByPodUID x (rs_ssmClient s) podUID) (Wrap ''failed to find instance by pod UID'') (\<lambda>instanceID.
       let documentName = map_get (as_CreateConnectionContext (a_Spec as)) ''ssmDocumentName'' in
       if documentName = '''' then pret (Inl (Msg ''ssmDocumentName not found in access strategy''))
       else pok (StartSession x (rs_ssmClient s) instanceID documentName RemoteAccessServerPort) (Wrap ''failed to start SSM session'')
         (\<lambda>si. pret (Inr (''vscode://amazonwebservices.aws-toolkit-vscode/connect/workspace?sessionId='' @ si_SessionID si @
            ''&sessionToken='' @ si_TokenValue si @ ''&streamUrl='' @ si_StreamURL si @ ''&workspaceName='' @ workspaceName @
            ''&namespace='' @ namespace @ ''&eksClusterArn='' @ eksClusterARN))))"

section \<open>Pod events\<close>

text \<open>\<open>NewPodEventHandler\<close>: the strategy of the handler, if commands can be run in pods.\<close>

definition NewPodEventHandler :: "aws_env \<Rightarrow> client \<Rightarrow> ssm_strategy option" where
  "NewPodEventHandler x k = (case NewPodExecUtil k of
     Inl _ \<Rightarrow> None
   | Inr _ \<Rightarrow> (case NewSSMRemoteAccessStrategy x NilInterface (Some PodExecUtil) of Inl _ \<Rightarrow> None | Inr s \<Rightarrow> Some s))"

definition handlePodRunning :: "aws_env \<Rightarrow> client \<Rightarrow> ssm_strategy option \<Rightarrow> pod \<Rightarrow> string \<Rightarrow> unit pio" where
  "handlePodRunning x k strategy p workspaceName =
     (let key = nn (om_Namespace (pod_meta p)) workspaceName in
      pbind (on_cluster (call (\<lambda>h. k_get_Workspace k h key) (CGetWorkspace key))) (\<lambda>r. case r of
        Inl _ \<Rightarrow> pret ()
      | Inr ws \<Rightarrow> pbind (on_cluster (GetAccessStrategyForWorkspace k ws)) (\<lambda>a. case a of
          Inr (Some as) \<Rightarrow>
            if as_PodEventsHandler (a_Spec as) = ''aws''
            then (case strategy of
                None \<Rightarrow> pret ()
              | Some s \<Rightarrow> pbind (SetupContainers x k s p ws as) (\<lambda>_. pret ()))
            else pret ()
        | _ \<Rightarrow> pret ())))"

definition handlePodDeleted :: "aws_env \<Rightarrow> client \<Rightarrow> ssm_strategy option \<Rightarrow> pod \<Rightarrow> unit pio" where
  "handlePodDeleted x k strategy p =
     (let accessStrategyName = map_get (om_Labels (pod_meta p)) LabelAccessStrategyName;
          accessStrategyNamespace = map_get (om_Labels (pod_meta p)) LabelAccessStrategyNamespace;
          key = nn accessStrategyNamespace accessStrategyName
      in if accessStrategyName = '''' then pret ()
         else if accessStrategyNamespace = '''' then pret ()
         else pbind (on_cluster (call (\<lambda>h. k_get_AccessStrategy k h key) (CGetAccessStrategy key))) (\<lambda>r. case r of
           Inl _ \<Rightarrow> pret ()
         | Inr as \<Rightarrow>
             if as_PodEventsHandler (a_Spec as) = ''aws''
             then (case strategy of
                 None \<Rightarrow> pret ()
               | Some s \<Rightarrow> pbind (CleanupSSMManagedNodes x s p) (\<lambda>_. pret ()))
             else pret ()))"

text \<open>The event handler never asks for a reconciliation.\<close>

definition HandleWorkspacePodEvents :: "aws_env \<Rightarrow> client \<Rightarrow> ssm_strategy option \<Rightarrow> pod \<Rightarrow> (nsname list) pio" where
  "HandleWorkspacePodEvents x k strategy p =
     (let workspaceName = map_get (om_Labels (pod_meta p)) LabelWorkspaceName in
      if is_deleting (pod_meta p) then pbind (handlePodDeleted x k strategy p) (\<lambda>_. pret [])
      else if pod_Phase p = ''Running'' then pbind (handlePodRunning x k strategy p workspaceName) (\<lambda>_. pret [])
      else pret [])"

section \<open>What a cleanup asks of the service\<close>

lemma run_count_failures:
  assumes "\<And>y w. \<exists>e. run_state (f y) w = (Inr e, w\<lparr>wd_ssm := wd_ssm w @ [c y]\<rparr>)"
  shows "\<exists>n. run_state (count_failures f ys) w = (Inr n, w\<lparr>wd_ssm := wd_ssm w @ map c ys\<rparr>)"
proof (induction ys arbitrary: w)
  case (Cons y ys)
  obtain e where "run_state (f y) w = (Inr e, w\<lparr>wd_ssm := wd_ssm w @ [c y]\<rparr>)" using assms by blast
  then show ?case using Cons.IH [of "w\<lparr>wd_ssm := wd_ssm w @ [c y]\<rparr>"] by auto
qed simp

lemma run_cleanup_loops:
  "\<exists>n. run_state (count_failures (\<lambda>i. deregisterManagedInstance x (g i)) ys) w = (Inr n, w\<lparr>wd_ssm := wd_ssm w @ map (\<lambda>i. SDeregister (g i)) ys\<rparr>)"
  "\<exists>n. run_state (count_failures (\<lambda>a. deleteActivation x (g a)) ys) w = (Inr n, w\<lparr>wd_ssm := wd_ssm w @ map (\<lambda>a. SDeleteActivation (g a)) ys\<rparr>)"
  by (rule run_count_failures; simp add: deregisterManagedInstance_def deleteActivation_def)+

text \<open>
  The requests of a cleanup for a pod: the instances with the pod's tag, then the deregistration of every instance of that answer; the
  activations with the pod's name, then the deletion of every activation of that answer. A query that fails is followed by nothing.
\<close>

definition instance_cleanup :: "aws_env \<Rightarrow> string \<Rightarrow> world \<Rightarrow> ssm_call list" where
  "instance_cleanup x uid w = SDescribeInstances WorkspacePodUIDTagKey uid #
     (case x_describe_instances x w WorkspacePodUIDTagKey uid of
        Inl _ \<Rightarrow> [] | Inr is \<Rightarrow> map (\<lambda>i. SDeregister (or_empty (in_InstanceId i))) is)"

definition activation_cleanup :: "aws_env \<Rightarrow> string \<Rightarrow> world \<Rightarrow> ssm_call list" where
  "activation_cleanup x uid w = (let name = SSMInstanceNamePrefix @ ''-'' @ uid in SDescribeActivations name #
     (case x_describe_activations x w name of Inl _ \<Rightarrow> [] | Inr as \<Rightarrow> map (\<lambda>a. SDeleteActivation (or_empty a)) as))"

definition cleanup_requests :: "aws_env \<Rightarrow> string \<Rightarrow> world \<Rightarrow> ssm_call list" where
  "cleanup_requests x uid w = (let cs = instance_cleanup x uid w in cs @ activation_cleanup x uid (w\<lparr>wd_ssm := wd_ssm w @ cs\<rparr>))"

lemma run_cleanup_instances:
  "\<exists>r. run_state (CleanupManagedInstancesByPodUID x Client uid) w = (Inr r, w\<lparr>wd_ssm := wd_ssm w @ instance_cleanup x uid w\<rparr>)"
proof (cases "x_describe_instances x w WorkspacePodUIDTagKey uid")
  case (Inr "is")
  let ?w = "w\<lparr>wd_ssm := wd_ssm w @ [SDescribeInstances WorkspacePodUIDTagKey uid]\<rparr>"
  obtain n where "run_state (count_failures (\<lambda>i. deregisterManagedInstance x (or_empty (in_InstanceId i))) is) ?w =
      (Inr n, ?w\<lparr>wd_ssm := wd_ssm ?w @ map (\<lambda>i. SDeregister (or_empty (in_InstanceId i))) is\<rparr>)"
    using run_cleanup_loops(1) [of x "\<lambda>i. or_empty (in_InstanceId i)"] by blast
  then show ?thesis
    using Inr by (simp add: CleanupManagedInstancesByPodUID_def ssm_method_def describeInstanceInformation_def instance_cleanup_def)
qed (simp add: CleanupManagedInstancesByPodUID_def ssm_method_def describeInstanceInformation_def instance_cleanup_def)

lemma run_cleanup_activations:
  "\<exists>r. run_state (CleanupActivationsByPodUID x Client uid) w = (Inr r, w\<lparr>wd_ssm := wd_ssm w @ activation_cleanup x uid w\<rparr>)"
proof (cases "x_describe_activations x w (SSMInstanceNamePrefix @ ''-'' @ uid)")
  case (Inr acts)
  let ?w = "w\<lparr>wd_ssm := wd_ssm w @ [SDescribeActivations (SSMInstanceNamePrefix @ ''-'' @ uid)]\<rparr>"
  obtain n where "run_state (count_failures (\<lambda>a. deleteActivation x (or_empty a)) acts) ?w =
      (Inr n, ?w\<lparr>wd_ssm := wd_ssm ?w @ map (\<lambda>a. SDeleteActivation (or_empty a)) acts\<rparr>)"
    using run_cleanup_loops(2) [of x or_empty] by blast
  then show ?thesis using Inr by (simp add: CleanupActivationsByPodUID_def ssm_method_def activation_cleanup_def Let_def)
qed (simp add: CleanupActivationsByPodUID_def ssm_method_def activation_cleanup_def Let_def)

text \<open>
  Every instance with the pod's tag is deregistered and every activation with the pod's name deleted, in the order
  found, whatever fails in between.
\<close>

lemma run_cleanup:
  assumes "rs_ssmClient s = Client"
  shows "\<exists>r. run_state (CleanupSSMManagedNodes x s p) w =
     (Inr r, w\<lparr>wd_ssm := wd_ssm w @ cleanup_requests x (om_UID (pod_meta p)) w\<rparr>)"
proof -
  let ?uid = "om_UID (pod_meta p)" and ?w1 = "w\<lparr>wd_ssm := wd_ssm w @ instance_cleanup x (om_UID (pod_meta p)) w\<rparr>"
  obtain r where r: "run_state (CleanupManagedInstancesByPodUID x Client ?uid) w = (Inr r, ?w1)"
    using run_cleanup_instances by blast
  obtain q where "run_state (CleanupActivationsByPodUID x Client ?uid) ?w1 = (Inr q, ?w1\<lparr>wd_ssm := wd_ssm ?w1 @ activation_cleanup x ?uid ?w1\<rparr>)"
    using run_cleanup_activations by blast
  then show ?thesis using assms r by (simp add: CleanupSSMManagedNodes_def cleanup_requests_def Let_def split: sum.split)
qed

section \<open>What a setup asks of the service\<close>

text \<open>
  The one activation of a setup: for this pod, this workspace and the role of the strategy, for one instance; none without a role or
  without the name of the cluster.
\<close>

definition activation_for :: "client \<Rightarrow> pod \<Rightarrow> workspace \<Rightarrow> access_strategy \<Rightarrow> activation_input \<Rightarrow> bool" where
  "activation_for k p ws as inp \<longleftrightarrow>
     ai_RegistrationLimit inp = 1 \<and> ai_IamRole inp = map_get (as_CreateConnectionContext (a_Spec as)) ''ssmManagedNodeRole'' \<and>
     ai_DefaultInstanceName inp = SSMInstanceNamePrefix @ ''-'' @ om_UID (pod_meta p) \<and>
     (''workspace-pod-uid'', om_UID (pod_meta p)) \<in> set (ai_Tags inp) \<and>
     (''workspace-name'', om_Name (w_meta ws)) \<in> set (ai_Tags inp) \<and> (''namespace'', w_Namespace ws) \<in> set (ai_Tags inp) \<and>
     (''sagemaker.amazonaws.com/eks-cluster-arn'', k_getenv k EKSClusterARNEnv) \<in> set (ai_Tags inp)"

definition activation_requests :: "client \<Rightarrow> pod \<Rightarrow> workspace \<Rightarrow> access_strategy \<Rightarrow> ssm_call list \<Rightarrow> bool" where
  "activation_requests k p ws as cs \<longleftrightarrow>
     (if map_get (as_CreateConnectionContext (a_Spec as)) ''ssmManagedNodeRole'' = '''' \<or> k_getenv k EKSClusterARNEnv = '''' then cs = []
      else \<exists>inp. cs = [SCreateActivation inp] \<and> activation_for k p ws as inp)"

lemma createSSMActivation_requests:
  assumes "run_state (createSSMActivation x k s p ws as) w = (r, w')"
  shows "rs_ssmClient s = Client \<Longrightarrow> \<exists>ac. wd_ssm w' = wd_ssm w @ ac \<and> activation_requests k p ws as ac"
    and "rs_ssmClient s = NilClient \<Longrightarrow> wd_ssm w' = wd_ssm w"
  using assms
  by (auto simp: createSSMActivation_def CreateActivation_def ssm_method_def activation_requests_def activation_for_def Let_def
      split: if_splits sum.splits option.splits prod.splits)

text \<open>Commands in the pod ask nothing of the service.\<close>

lemma exec_cluster_only: "\<exists>r h. run_state (exec k s p c cmd inp) w = (Inr r, w\<lparr>wd_hist := h\<rparr>)"
proof (cases "rs_podExecUtil s")
  case NoOpPodExec
  then show ?thesis by (auto simp: exec_def intro!: exI [of _ "wd_hist w"])
qed (auto simp: exec_def)

lemma exec_then:
  assumes "run_state (pok (exec k s p c cmd inp) g f) w = (r, w')" "\<And>y w r w'. run_state (f y) w = (r, w') \<Longrightarrow> wd_ssm w' = wd_ssm w"
  shows "wd_ssm w' = wd_ssm w"
proof -
  obtain a h where a: "run_state (exec k s p c cmd inp) w = (Inr a, w\<lparr>wd_hist := h\<rparr>)" using exec_cluster_only by blast
  show ?thesis
  proof (cases a)
    case (Inr y)
    then have "run_state (f y) (w\<lparr>wd_hist := h\<rparr>) = (r, w')" using assms(1) a by simp
    from assms(2) [OF this] show ?thesis by simp
  qed (use assms(1) a in auto)
qed

lemma setupSidecarContainer_requests:
  assumes "run_state (setupSidecarContainer x k s p ws as cl) w = (r, w')"
  shows "rs_ssmClient s = Client \<Longrightarrow> \<exists>ac. wd_ssm w' = wd_ssm w @
      (if cl then cleanup_requests x (om_UID (pod_meta p)) w else []) @ ac \<and> activation_requests k p ws as ac" (is "_ \<Longrightarrow> ?client")
    and "rs_ssmClient s = NilClient \<Longrightarrow> wd_ssm w' = wd_ssm w" (is "_ \<Longrightarrow> ?nil")
proof -
  have register: "wd_ssm w' = wd_ssm w" if "run_state (pok (exec k s p SSMAgentSidecarContainerName (register_cmd x) inp)
      (Wrap ''failed to execute SSM registration script'') (\<lambda>_.
        pok (exec k s p SSMAgentSidecarContainerName [''touch'', ''/tmp/ssm-registered''] '''')
          (Wrap ''failed to create marker file'') (\<lambda>_. pret (Inr ())))) w = (r, w')" for inp w w' r
    using that by (rule exec_then) (erule exec_then, simp)
  have after: "wd_ssm w' = wd_ssm w2"
    if "run_state (createSSMActivation x k s p ws as) w1 = (r1, w2)" "run_state (setupSidecarContainer x k s p ws as False) w1 = (r, w')" for w1 w2 r1
    using that by (auto simp del: run_pok simp: run_pok [of "createSSMActivation x k s p ws as"] setupSidecarContainer_def
      split: sum.splits prod.splits dest!: register)
  define w1 where "w1 = (if cl then w\<lparr>wd_ssm := wd_ssm w @ cleanup_requests x (om_UID (pod_meta p)) w\<rparr> else w)"
  obtain r1 w2 where act: "run_state (createSSMActivation x k s p ws as) w1 = (r1, w2)" by fastforce
  show ?client if "rs_ssmClient s = Client"
  proof -
    have "run_state (setupSidecarContainer x k s p ws as False) w1 = (r, w')"
      using assms run_cleanup [OF that, of x p w] by (auto simp: setupSidecarContainer_def w1_def)
    then show ?thesis
      using createSSMActivation_requests(1) [OF act that] after [OF act] by (auto simp: w1_def)
  qed
  show ?nil if "rs_ssmClient s = NilClient"
  proof (cases cl)
    case True
    then show ?thesis
      using assms that by (simp add: setupSidecarContainer_def CleanupSSMManagedNodes_def CleanupManagedInstancesByPodUID_def ssm_method_def)
  next
    case False
    then show ?thesis using assms createSSMActivation_requests(2) [OF act that] after [OF act] by (simp add: w1_def)
  qed
qed

section \<open>Setup\<close>

lemma run_readRegistrationState:
  obtains st h where "run_state (readRegistrationState x k s p) w = (Inr st, w\<lparr>wd_hist := h\<rparr>)"
proof -
  obtain a h where "run_state (exec k s p SSMAgentSidecarContainerName [''cat'', SSMRegistrationStateFile] '''') w = (Inr a, w\<lparr>wd_hist := h\<rparr>)"
    using exec_cluster_only by blast
  then show ?thesis using that by (cases a) (auto simp: readRegistrationState_def)
qed

lemma perform_setup_requests:
  assumes "run_state (perform_setup x k s p ws as counts (sc, wc, cl)) w = (r, w')" and "rs_ssmClient s \<noteq> NilInterface"
  shows "if sc \<and> rs_ssmClient s = Client
    then \<exists>h ac. wd_ssm w' = wd_ssm w @ (if cl then cleanup_requests x (om_UID (pod_meta p)) (w\<lparr>wd_hist := h\<rparr>) else []) @ ac \<and>
      activation_requests k p ws as ac
    else wd_ssm w' = wd_ssm w"
proof -
  have writes: "\<exists>a h. run_state (writeRegistrationState x k s p st) w = (Inr a, w\<lparr>wd_hist := h\<rparr>)" for st w
    using exec_cluster_only [of k s p SSMAgentSidecarContainerName "write_cmd x st" "''''" w]
    by (auto simp: writeRegistrationState_def split: sum.split)
  have container: "wd_ssm w' = wd_ssm w" if "run_state (setupWorkspaceContainer k s p) w = (r, w')" for r w w'
    using that by (auto simp: setupWorkspaceContainer_def simp del: run_pok split: if_splits elim!: exec_then)
  obtain a h where first: "run_state (writeRegistrationState x k s p \<lparr>rs_SidecarRestartCount = fst counts, rs_WorkspaceRestartCount = snd counts,
      rs_SetupInProgress = True, rs_SetupStartedAt = x_now x w\<rparr>) w = (Inr a, w\<lparr>wd_hist := h\<rparr>)" using writes by blast
  let ?sidecar = "if sc then setupSidecarContainer x k s p ws as cl else pret (Inr ())"
  obtain r1 w1 where r1: "run_state ?sidecar (w\<lparr>wd_hist := h\<rparr>) = (r1, w1)" by fastforce
  have "wd_ssm w' = wd_ssm w1"
  proof (cases r1)
    case (Inr r2)
    let ?rest = "case r2 of Inl err \<Rightarrow> pret (Inl err) | Inr _ \<Rightarrow> if wc then setupWorkspaceContainer k s p else pret (Inr ())"
    obtain r3 w3 where r3: "run_state ?rest w1 = (r3, w3)" by fastforce
    then have "wd_ssm w3 = wd_ssm w1" by (auto split: sum.splits if_splits dest: container)
    moreover obtain b h3 where "run_state (writeRegistrationState x k s p \<lparr>rs_SidecarRestartCount = fst counts,
        rs_WorkspaceRestartCount = snd counts, rs_SetupInProgress = False, rs_SetupStartedAt = 0\<rparr>) w3 = (Inr b, w3\<lparr>wd_hist := h3\<rparr>)"
      using writes by blast
    ultimately show ?thesis using assms(1) first r1 r3 Inr by (auto simp: perform_setup_def split: sum.splits)
  qed (use assms(1) first r1 in \<open>auto simp: perform_setup_def\<close>)
  moreover have "rs_ssmClient s = Client \<or> rs_ssmClient s = NilClient" using assms(2) by (cases "rs_ssmClient s") auto
  ultimately show ?thesis
    using r1 setupSidecarContainer_requests [of x k s p ws as cl "w\<lparr>wd_hist := h\<rparr>" r1 w1] by (cases sc) auto
qed

text \<open>When the sidecar is to be set up, and when what an earlier setup left is to be cleaned up first.\<close>

fun sidecar_due :: "int \<times> int \<Rightarrow> registration_state option res \<Rightarrow> bool" where
  "sidecar_due counts (Inl e) = True"
| "sidecar_due counts (Inr None) = True"
| "sidecar_due counts (Inr (Some st)) = (\<not> rs_SetupInProgress st \<and> fst counts > rs_SidecarRestartCount st)"

lemma needed_setup_sidecar:
  "needed_setup counts st = Some (sc, wc, cl) \<Longrightarrow> sc = sidecar_due counts st \<and> (sc \<longrightarrow> cl = (st \<noteq> Inr None))"
  "needed_setup counts st = None \<Longrightarrow> \<not> sidecar_due counts st"
  by (cases "(counts, st)" rule: sidecar_due.cases; auto simp: needed_setup_def Let_def split: if_splits)+

text \<open>
  C37. What \<open>SetupContainers\<close> asks of the service: nothing while the sidecar is not running, while a setup is marked
  as in progress, or when the sidecar has not restarted since the recorded setup (or when there is no client). Otherwise, unless no setup
  was recorded, a cleanup for this pod: the query for the instances tagged with its uid and the deregistration of exactly the instances
  answered, then the query for the activations with its name and the deletion of exactly the activations answered. Then one new
  activation, for one instance, with the role of the access strategy, named and tagged after this pod, workspace, namespace and
  cluster; none if the strategy has no role or the cluster has no name.
\<close>

theorem setup_requests_only_when_due:
  assumes "run_state (SetupContainers x k s p ws as) w = (r, w')"
  shows "\<exists>st cs. fst (run_state (readRegistrationState x k s p) w) = Inr st \<and> wd_ssm w' = wd_ssm w @ cs \<and>
    (if rs_ssmClient s = Client \<and> isContainerRunning p SSMAgentSidecarContainerName \<and> sidecar_due (getCurrentRestartCounts p) st
     then \<exists>h ac. cs = (if st = Inr None then [] else cleanup_requests x (om_UID (pod_meta p)) (w\<lparr>wd_hist := h\<rparr>)) @ ac \<and>
        activation_requests k p ws as ac
     else cs = [])"
proof -
  obtain st h where read: "run_state (readRegistrationState x k s p) w = (Inr st, w\<lparr>wd_hist := h\<rparr>)"
    by (rule run_readRegistrationState)
  consider "rs_ssmClient s = NilInterface \<or> \<not> isContainerRunning p SSMAgentSidecarContainerName"
    | "needed_setup (getCurrentRestartCounts p) st = None"
    | sc wc cl where "isContainerRunning p SSMAgentSidecarContainerName" "rs_ssmClient s \<noteq> NilInterface"
        "needed_setup (getCurrentRestartCounts p) st = Some (sc, wc, cl)"
    by (cases "needed_setup (getCurrentRestartCounts p) st") auto
  then show ?thesis
  proof cases
    case 3
    have "run_state (perform_setup x k s p ws as (getCurrentRestartCounts p) (sc, wc, cl)) (w\<lparr>wd_hist := h\<rparr>) = (r, w')"
      using assms read 3 by (simp add: SetupContainers_def)
    from perform_setup_requests [OF this 3(2)] show ?thesis
      using 3(1) read needed_setup_sidecar(1) [OF 3(3)] by (fastforce split: if_splits)
  qed (use assms read needed_setup_sidecar(2) in \<open>auto simp: SetupContainers_def split: if_splits\<close>)
qed

text \<open>
  The state file, as a hypothesis on the pod: a write of the state succeeds, and what is read right
  after it decodes to the state written.
\<close>

definition state_file_law :: "aws_env \<Rightarrow> client \<Rightarrow> pod \<Rightarrow> registration_state \<Rightarrow> bool" where
  "state_file_law x k p st \<longleftrightarrow> (let key = key_of (pod_meta p); c = SSMAgentSidecarContainerName in
     \<forall>h. (\<exists>out. k_exec k h key c (write_cmd x st) '''' = Inr out) \<and>
       (\<exists>out. k_exec k (h @ [CExec key c (write_cmd x st) '''']) key c [''cat'', SSMRegistrationStateFile] '''' = Inr out \<and>
          x_unmarshal x (TrimSpace out) = Inr st))"

definition recorded :: "pod \<Rightarrow> registration_state" where
  "recorded p = \<lparr>rs_SidecarRestartCount = fst (getCurrentRestartCounts p), rs_WorkspaceRestartCount = snd (getCurrentRestartCounts p),
     rs_SetupInProgress = False, rs_SetupStartedAt = 0\<rparr>"

lemma run_exec: "rs_podExecUtil s = PodExecUtil \<Longrightarrow> run_state (exec k s p c cmd inp) w =
    (Inr (case k_exec k (wd_hist w) (key_of (pod_meta p)) c cmd inp of Inl e \<Rightarrow> Inl e | Inr out \<Rightarrow> Inr (TrimSpace out)),
     w\<lparr>wd_hist := wd_hist w @ [CExec (key_of (pod_meta p)) c cmd inp]\<rparr>)"
  by (simp add: exec_def ExecInPod_def on_ok_def split: sum.split)

lemma perform_setup_records:
  assumes "rs_podExecUtil s = PodExecUtil"
    and "run_state (perform_setup x k s p ws as (getCurrentRestartCounts p) needs) w = (Inr r, w')"
  obtains h where "wd_hist w' = h @ [CExec (key_of (pod_meta p)) SSMAgentSidecarContainerName (write_cmd x (recorded p)) '''']"
proof -
  obtain sc wc cl where "needs = (sc, wc, cl)" by (cases needs)
  then have "\<exists>h. wd_hist w' = h @ [CExec (key_of (pod_meta p)) SSMAgentSidecarContainerName (write_cmd x (recorded p)) '''']"
    using assms
    by (auto simp: perform_setup_def writeRegistrationState_def [of x k s p "\<lparr>rs_SidecarRestartCount = _, rs_WorkspaceRestartCount = _,
       rs_SetupInProgress = False, rs_SetupStartedAt = _\<rparr>"] run_exec recorded_def split: prod.splits sum.splits)
  then show ?thesis using that by blast
qed
text \<open>
  C38. A setup is done once: when \<open>SetupContainers\<close> has returned from a setup that was due, the next event for the same
  pod finds the restart counts recorded and does nothing but read the state file. This holds whatever
  the first call returned: a setup that failed is recorded in the same way and not repeated either.
\<close>

theorem setup_runs_once:
  assumes "rs_podExecUtil s = PodExecUtil" "rs_ssmClient s \<noteq> NilInterface" "isContainerRunning p SSMAgentSidecarContainerName"
    and "state_file_law x k p (recorded p)"
    and "run_state (readRegistrationState x k s p) w = (Inr st, w1)" "needed_setup (getCurrentRestartCounts p) st = Some needs"
    and "run_state (SetupContainers x k s p ws as) w = (Inr r, w')"
  shows "run_state (SetupContainers x k s p ws as) w' = (Inr (Inr ()),
    w'\<lparr>wd_hist := wd_hist w' @ [CExec (key_of (pod_meta p)) SSMAgentSidecarContainerName [''cat'', SSMRegistrationStateFile] '''']\<rparr>)"
proof -
  have "run_state (perform_setup x k s p ws as (getCurrentRestartCounts p) needs) w1 = (Inr r, w')"
    using assms by (simp add: SetupContainers_def)
  then obtain h where h: "wd_hist w' = h @ [CExec (key_of (pod_meta p)) SSMAgentSidecarContainerName (write_cmd x (recorded p)) '''']"
    using perform_setup_records [OF assms(1)] by blast
  obtain out where "k_exec k (wd_hist w') (key_of (pod_meta p)) SSMAgentSidecarContainerName [''cat'', SSMRegistrationStateFile] '''' = Inr out"
      "x_unmarshal x (TrimSpace out) = Inr (recorded p)"
    using assms(4) unfolding h state_file_law_def Let_def by blast
  then show ?thesis
    using assms(1-3) by (simp add: SetupContainers_def readRegistrationState_def run_exec needed_setup_def recorded_def)
qed

section \<open>Sessions\<close>

text \<open>An instance that no other one was registered after.\<close>

definition newest_of :: "ssm_instance \<Rightarrow> ssm_instance list \<Rightarrow> bool" where
  "newest_of i is \<longleftrightarrow> i \<in> set is \<and>
     (\<forall>j\<in>set is. case in_RegistrationDate j of None \<Rightarrow> True | Some d \<Rightarrow> (\<exists>d'. in_RegistrationDate i = Some d' \<and> d \<le> d'))"

lemma newest_first_head:
  assumes "is \<noteq> []"
  shows "newest_of (newest_first is ! 0) is"
proof (cases "filter (\<lambda>i. in_RegistrationDate i \<noteq> None) is = []")
  case True
  then have "newest_first is = is" by (simp add: newest_first_def filter_empty_conv)
  moreover have "in_RegistrationDate j = None" if "j \<in> set is" for j using True that by (auto simp: filter_empty_conv)
  ultimately show ?thesis using assms by (auto simp: newest_of_def)
next
  case False
  let ?f = "\<lambda>i. - the (in_RegistrationDate i)" and ?ds = "filter (\<lambda>i. in_RegistrationDate i \<noteq> None) is"
  obtain i rest where sorted: "sort_key ?f ?ds = i # rest"
    using False by (metis length_0_conv length_sort neq_Nil_conv)
  have "sorted (map ?f (i # rest))" using sorted_sort_key [of ?f ?ds] unfolding sorted .
  then have le: "?f i \<le> ?f j" if "j \<in> set rest" for j using that by auto
  have set: "set (i # rest) = set ?ds" using sorted set_sort [of ?f ?ds] by simp
  then have "i \<in> set ?ds" by auto
  then obtain d' where i: "i \<in> set is" "in_RegistrationDate i = Some d'" by auto
  have "d \<le> d'" if "j \<in> set is" "in_RegistrationDate j = Some d" for j d
  proof -
    have "j \<in> set ?ds" using that by simp
    then have "j = i \<or> j \<in> set rest" using set by auto
    then show ?thesis using that i le [of j] by auto
  qed
  then have "newest_of i is"
    using i unfolding newest_of_def by (auto split: option.split)
  moreover have "newest_first is ! 0 = i" unfolding newest_first_def sorted by simp
  ultimately show ?thesis by simp
qed

lemma newest_of_single: "length is = 1 \<Longrightarrow> newest_of (is ! 0) is"
  by (cases "is") (auto simp: newest_of_def split: option.split)

definition connection_link :: "session_info \<Rightarrow> string \<Rightarrow> string \<Rightarrow> string \<Rightarrow> string" where
  "connection_link si workspaceName namespace arn =
     ''vscode://amazonwebservices.aws-toolkit-vscode/connect/workspace?sessionId='' @ si_SessionID si @
     ''&sessionToken='' @ si_TokenValue si @ ''&streamUrl='' @ si_StreamURL si @ ''&workspaceName='' @ workspaceName @
     ''&namespace='' @ namespace @ ''&eksClusterArn='' @ arn"

lemma FindInstanceByPodUID_newest:
  assumes "run_state (FindInstanceByPodUID x c uid) w = (Inr (Inr i), w')"
  obtains "is" inst where "x_describe_instances x w WorkspacePodUIDTagKey uid = Inr is" "newest_of inst is" "in_InstanceId inst = Some i"
    "w' = w\<lparr>wd_ssm := wd_ssm w @ [SDescribeInstances WorkspacePodUIDTagKey uid]\<rparr>" "c = Client"
proof -
  obtain "is" where "is": "x_describe_instances x w WorkspacePodUIDTagKey uid = Inr is" "is \<noteq> []"
      "in_InstanceId ((if length is > 1 then newest_first is else is) ! 0) = Some i"
      "w' = w\<lparr>wd_ssm := wd_ssm w @ [SDescribeInstances WorkspacePodUIDTagKey uid]\<rparr>" "c = Client"
    using assms by (auto simp: FindInstanceByPodUID_def describeInstanceInformation_def ssm_method_def Let_def
      split: if_splits sum.splits option.splits)
  have "newest_of ((if length is > 1 then newest_first is else is) ! 0) is"
    using newest_first_head [OF "is"(2)] newest_of_single [of "is"] "is"(2) by (cases "is") auto
  then show ?thesis using "is" that by blast
qed

text \<open>
  C36. A connection link is only made from a session on the most recently registered of the instances that the query for the pod's
  tag answered (one page of the service's answer, as the code reads it), started with the
  document of the access strategy and only when fewer than ten sessions were active there; the link carries this
  session, and the two queries and the start are all that is asked of the service.
\<close>

theorem vscode_session:
  assumes "run_state (GenerateVSCodeConnectionURL x s workspaceName namespace uid arn as) w = (Inr (Inr url), w')"
  shows "\<exists>is inst i ss out sid. let doc = map_get (as_CreateConnectionContext (a_Spec as)) ''ssmDocumentName'';
      w1 = w\<lparr>wd_ssm := wd_ssm w @ [SDescribeInstances WorkspacePodUIDTagKey uid]\<rparr>;
      w2 = w\<lparr>wd_ssm := wd_ssm w @ [SDescribeInstances WorkspacePodUIDTagKey uid, SDescribeSessions i 10]\<rparr> in
    x_describe_instances x w WorkspacePodUIDTagKey uid = Inr is \<and> newest_of inst is \<and> in_InstanceId inst = Some i \<and>
    x_describe_sessions x w1 i 10 = Inr ss \<and> length ss < 10 \<and> doc \<noteq> '''' \<and>
    x_start_session x w2 i doc RemoteAccessServerPort = Inr out \<and> so_SessionId out = Some sid \<and>
    url = connection_link \<lparr>si_SessionID = sid, si_StreamURL = or_empty (so_StreamUrl out), si_TokenValue = or_empty (so_TokenValue out)\<rparr>
            workspaceName namespace arn \<and>
    w' = w\<lparr>wd_ssm := wd_ssm w @ [SDescribeInstances WorkspacePodUIDTagKey uid, SDescribeSessions i 10,
            SStartSession i doc RemoteAccessServerPort]\<rparr>"
proof -
  obtain i w1 where find: "run_state (FindInstanceByPodUID x (rs_ssmClient s) uid) w = (Inr (Inr i), w1)"
    using assms by (auto simp: GenerateVSCodeConnectionURL_def split: prod.splits sum.splits)
  obtain "is" inst where "is": "x_describe_instances x w WorkspacePodUIDTagKey uid = Inr is" "newest_of inst is" "in_InstanceId inst = Some i"
      "w1 = w\<lparr>wd_ssm := wd_ssm w @ [SDescribeInstances WorkspacePodUIDTagKey uid]\<rparr>" "rs_ssmClient s = Client"
    by (rule FindInstanceByPodUID_newest [OF find])
  show ?thesis
    using assms "is" unfolding GenerateVSCodeConnectionURL_def run_pok find
    by (auto simp: StartSession_def checkNumActiveSessions_def ssm_method_def Let_def connection_link_def
      split: if_splits sum.splits option.splits prod.splits)
qed

section \<open>Failures of the setup\<close>

text \<open>
  Without an AWS configuration the handler still gets a strategy, and the value it holds is not equal to nil: the
  guards of \<open>SetupContainers\<close> and \<open>CleanupSSMManagedNodes\<close> do not stop it, and the first call
  of the client panics.
\<close>

lemma typed_nil_client:
  assumes "x_config_err x = Some err" "NewPodExecUtil k = Inr ()"
  shows "NewPodEventHandler x k = Some \<lparr>rs_ssmClient = NilClient, rs_podExecUtil = PodExecUtil\<rparr>"
    "run_state (CleanupSSMManagedNodes x \<lparr>rs_ssmClient = NilClient, rs_podExecUtil = PodExecUtil\<rparr> p) w = (Inl nil_dereference, w)"
  using assms by (simp_all add: NewPodEventHandler_def NewSSMRemoteAccessStrategy_def NewSSMClient_def CleanupSSMManagedNodes_def
    CleanupManagedInstancesByPodUID_def ssm_method_def)

text \<open>The error of the first client creation is reported once; the next call panics.\<close>

lemma second_initialization_panics:
  assumes "x_config_err x = Some err" "\<not> wd_once w" "wd_initializer w = None"
    and "run_state (EnsureResourcesInitialized x k) w = (r, w')"
  shows "r = Inr (Inl (Wrap ''failed to create SSM client'' (Wrap ''failed to load AWS config'' err)))"
    "fst (run_state (EnsureResourcesInitialized x k) w') = Inl nil_dereference"
  using assms by (auto simp: EnsureResourcesInitialized_def initializer_ensure_def NewSSMClient_def)

text \<open>The session document is asked for at most once, whatever the answer.\<close>

lemma document_requested_once:
  assumes "run_state (initializer_ensure x k) w = (Inr r, w')"
  shows "run_state (initializer_ensure x k) w' = (Inr r, w')"
proof (cases "wd_initializer w")
  case None
  then show ?thesis using assms by (simp add: initializer_ensure_def)
next
  case (Some i)
  then show ?thesis
  proof (cases "ri_done i")
    case True
    then show ?thesis using Some assms by (auto simp: initializer_ensure_def Let_def)
  next
    case False
    obtain d w1 where "run_state (createSageMakerSpaceSSMDocument x k) w = (d, w1)" by fastforce
    then show ?thesis using Some False assms by (auto simp: initializer_ensure_def Let_def split: sum.splits)
  qed
qed

text \<open>A state marked as in progress blocks every later setup, however old the mark is.\<close>

lemma stale_progress_blocks:
  assumes "rs_podExecUtil s = PodExecUtil" "x_unmarshal x (TrimSpace out) = Inr st" "rs_SetupInProgress st" "rs_ssmClient s \<noteq> NilInterface"
    and "k_exec k (wd_hist w) (key_of (pod_meta p)) SSMAgentSidecarContainerName [''cat'', SSMRegistrationStateFile] '''' = Inr out"
  shows "fst (run_state (SetupContainers x k s p ws as) w) = Inr (Inr ())" "wd_ssm (snd (run_state (SetupContainers x k s p ws as) w)) = wd_ssm w"
  using assms by (simp_all add: SetupContainers_def readRegistrationState_def run_exec needed_setup_def)

section \<open>Examples\<close>

definition demo_pod :: pod where
  "demo_pod = \<lparr>pod_meta = empty_meta\<lparr>om_Name := ''ws-0'', om_Namespace := ''team'', om_UID := ''u1''\<rparr>, pod_Phase = ''Running'', pod_Conditions = [],
     pod_ContainerStatuses = [\<lparr>cs_Name = SSMAgentSidecarContainerName, cs_Running = True, cs_RestartCount = 1\<rparr>]\<rparr>"

definition demo_aws :: aws_env where
  "demo_aws = \<lparr>x_config_err = None, x_region = ''eu-west-1'',
     x_create_activation = \<lambda>_ _. Inr (Some ''act'', Some ''code''),
     x_describe_instances = \<lambda>_ _ _. Inr [\<lparr>in_InstanceId = Some ''mi-1'', in_RegistrationDate = Some 1\<rparr>,
        \<lparr>in_InstanceId = Some ''mi-0'', in_RegistrationDate = None\<rparr>, \<lparr>in_InstanceId = Some ''mi-2'', in_RegistrationDate = Some 2\<rparr>],
     x_deregister = \<lambda>_ _. None, x_describe_activations = \<lambda>_ _. Inr [Some ''act''], x_delete_activation = \<lambda>_ _. None,
     x_describe_sessions = \<lambda>_ _ _. Inr [''s1''],
     x_start_session = \<lambda>_ _ _ _. Inr \<lparr>so_SessionId = Some ''sid'', so_StreamUrl = Some ''wss'', so_TokenValue = Some ''tok''\<rparr>,
     x_create_document = \<lambda>_ _ _. None, x_now = \<lambda>_. 0,
     x_marshal = \<lambda>st. if rs_SetupInProgress st then ''busy'' else ''done'',
     x_unmarshal = \<lambda>s. if s = ''done'' then Inr (recorded demo_pod) else Inl (Msg ''invalid'')\<rparr>"

text \<open>A pod whose state file is missing at first and holds the recorded state later.\<close>

definition shell_server :: client where
  "shell_server = empty_server\<lparr>k_exec := \<lambda>h key c cmd inp.
     if cmd = [''cat'', SSMRegistrationStateFile] then (if h = [] then Inl (Msg ''no such file'') else Inr ''done'') else Inr '''',
     k_getenv := \<lambda>_. ''arn''\<rparr>"

definition demo_strategy :: ssm_strategy where
  "demo_strategy = \<lparr>rs_ssmClient = Client, rs_podExecUtil = PodExecUtil\<rparr>"

definition remote_strategy :: access_strategy where
  "remote_strategy = sample_access_strategy\<lparr>a_Spec := empty_as_spec\<lparr>
     as_CreateConnectionContext := Some [''ssmManagedNodeRole'' \<mapsto> ''role'', ''ssmDocumentName'' \<mapsto> ''doc'']\<rparr>\<rparr>"

definition demo_world :: world where
  "demo_world = \<lparr>wd_hist = [], wd_auth = idle_auth, wd_ssm = [], wd_sar = [], wd_once = False, wd_initializer = None\<rparr>"

lemmas setup_demo = demo_pod_def demo_aws_def shell_server_def demo_strategy_def remote_strategy_def demo_world_def empty_server_def
  empty_meta_def sample_access_strategy_def empty_as_spec_def getCurrentRestartCounts_def isContainerRunning_def readRegistrationState_def

lemma demo_read: "run_state (readRegistrationState demo_aws shell_server demo_strategy demo_pod) demo_world = (Inr (Inr None),
    demo_world\<lparr>wd_hist := [CExec (nn ''team'' ''ws-0'') SSMAgentSidecarContainerName [''cat'', SSMRegistrationStateFile] '''']\<rparr>)"
  by (simp add: readRegistrationState_def run_exec demo_strategy_def shell_server_def demo_pod_def demo_world_def key_of_def empty_meta_def)

lemma demo_setup:
  "\<exists>h. run_state (SetupContainers demo_aws shell_server demo_strategy demo_pod sample_workspace remote_strategy) demo_world =
     (Inr (Inr ()), demo_world\<lparr>wd_hist := h, wd_ssm := [SCreateActivation \<lparr>ai_Description = ''Activation for team/ws (pod: u1)'',
        ai_IamRole = ''role'', ai_RegistrationLimit = 1, ai_ExpirationDate = 5 * minute, ai_DefaultInstanceName = ''workspace-u1'',
        ai_Tags = [(''sagemaker.amazonaws.com/managed-by'', ''amazon-sagemaker-spaces''),
                   (''sagemaker.amazonaws.com/eks-cluster-arn'', ''arn''), (''workspace-name'', ''ws''),
                   (''namespace'', ''team''), (''workspace-pod-uid'', ''u1'')]\<rparr>]\<rparr>)"
  by (simp add: setup_demo SetupContainers_def perform_setup_def run_exec needed_setup_def writeRegistrationState_def
    setupSidecarContainer_def setupWorkspaceContainer_def createSSMActivation_def CreateActivation_def ssm_method_def
    sample_workspace_def map_get_def write_cmd_def register_cmd_def Let_def)

text \<open>A pod whose state file does not decode: its setup begins with a cleanup.\<close>

definition broken_server :: client where
  "broken_server = shell_server\<lparr>k_exec := \<lambda>h key c cmd inp. Inr (if cmd = [''cat'', SSMRegistrationStateFile] then ''{'' else '''')\<rparr>"

lemma broken_read: "fst (run_state (readRegistrationState demo_aws broken_server demo_strategy demo_pod) demo_world) = Inr (Inl (Msg ''invalid''))"
  by (simp add: readRegistrationState_def run_exec demo_strategy_def broken_server_def demo_aws_def TrimSpace_def IsSpace_def ascii_runes)

lemma demo_cleanup_requests: "cleanup_requests demo_aws (om_UID (pod_meta demo_pod)) w =
    [SDescribeInstances WorkspacePodUIDTagKey ''u1'', SDeregister ''mi-1'', SDeregister ''mi-0'', SDeregister ''mi-2'',
     SDescribeActivations ''workspace-u1'', SDeleteActivation ''act'']"
  by (simp add: cleanup_requests_def instance_cleanup_def activation_cleanup_def or_empty_def demo_aws_def demo_pod_def empty_meta_def)

theorem setup_requests_only_when_due_witness:
  "\<exists>inp. wd_ssm (snd (run_state (SetupContainers demo_aws broken_server demo_strategy demo_pod sample_workspace remote_strategy) demo_world)) =
     [SDescribeInstances WorkspacePodUIDTagKey ''u1'', SDeregister ''mi-1'', SDeregister ''mi-0'', SDeregister ''mi-2'',
      SDescribeActivations ''workspace-u1'', SDeleteActivation ''act'', SCreateActivation inp] \<and> ai_IamRole inp = ''role''"
proof -
  obtain r w' where run: "run_state (SetupContainers demo_aws broken_server demo_strategy demo_pod sample_workspace remote_strategy) demo_world = (r, w')"
    by fastforce
  have "rs_ssmClient demo_strategy = Client" "isContainerRunning demo_pod SSMAgentSidecarContainerName" "wd_ssm demo_world = []"
    "map_get (as_CreateConnectionContext (a_Spec remote_strategy)) ''ssmManagedNodeRole'' = ''role''" "k_getenv broken_server EKSClusterARNEnv = ''arn''"
    by (simp_all add: setup_demo broken_server_def map_get_def)
  then show ?thesis
    using setup_requests_only_when_due [OF run] run
    by (auto simp: broken_read demo_cleanup_requests activation_requests_def activation_for_def)
qed

lemma demo_state_file: "state_file_law demo_aws shell_server demo_pod (recorded demo_pod)"
  by (simp add: state_file_law_def Let_def demo_aws_def shell_server_def recorded_def write_cmd_def TrimSpace_def IsSpace_def ascii_runes)

theorem setup_runs_once_witness:
  "\<exists>w'. fst (run_state (SetupContainers demo_aws shell_server demo_strategy demo_pod sample_workspace remote_strategy) demo_world) = Inr (Inr ()) \<and>
     fst (run_state (SetupContainers demo_aws shell_server demo_strategy demo_pod sample_workspace remote_strategy) w') = Inr (Inr ()) \<and>
     wd_ssm (snd (run_state (SetupContainers demo_aws shell_server demo_strategy demo_pod sample_workspace remote_strategy) w')) = wd_ssm w' \<and>
     length (wd_ssm w') = 1"
proof -
  obtain w' where w': "run_state (SetupContainers demo_aws shell_server demo_strategy demo_pod sample_workspace remote_strategy) demo_world = (Inr (Inr ()), w')"
      "length (wd_ssm w') = 1"
    using demo_setup by fastforce
  have "isContainerRunning demo_pod SSMAgentSidecarContainerName" "needed_setup c (Inr None) = Some (True, True, False)" for c
    by (simp_all add: isContainerRunning_def demo_pod_def needed_setup_def)
  then show ?thesis
    using setup_runs_once [OF _ _ _ demo_state_file demo_read _ w'(1)] w'
    by (intro exI [of _ w']) (simp add: demo_strategy_def)
qed

lemma demo_link:
  "\<exists>w'. run_state (GenerateVSCodeConnectionURL demo_aws demo_strategy ''ws'' ''team'' ''u1'' ''arn'' remote_strategy) demo_world =
     (Inr (Inr (connection_link \<lparr>si_SessionID = ''sid'', si_StreamURL = ''wss'', si_TokenValue = ''tok''\<rparr> ''ws'' ''team'' ''arn'')), w')"
  by (simp add: GenerateVSCodeConnectionURL_def FindInstanceByPodUID_def describeInstanceInformation_def ssm_method_def StartSession_def
    checkNumActiveSessions_def demo_aws_def demo_strategy_def remote_strategy_def empty_as_spec_def map_get_def newest_first_def
    connection_link_def or_empty_def Let_def)

theorem vscode_session_witness:
  "\<exists>is inst i. x_describe_instances demo_aws demo_world WorkspacePodUIDTagKey ''u1'' = Inr is \<and> length is = 3 \<and>
     newest_of inst is \<and> in_InstanceId inst = Some i \<and> i = ''mi-2''"
proof -
  obtain w' where run: "run_state (GenerateVSCodeConnectionURL demo_aws demo_strategy ''ws'' ''team'' ''u1'' ''arn'' remote_strategy) demo_world =
     (Inr (Inr (connection_link \<lparr>si_SessionID = ''sid'', si_StreamURL = ''wss'', si_TokenValue = ''tok''\<rparr> ''ws'' ''team'' ''arn'')), w')"
    using demo_link by blast
  have three: "length is = 3 \<and> i = ''mi-2''"
    if "x_describe_instances demo_aws demo_world WorkspacePodUIDTagKey ''u1'' = Inr is" "newest_of inst is" "in_InstanceId inst = Some i"
    for "is" inst i
    using that by (auto simp: demo_aws_def newest_of_def)
  show ?thesis
    using vscode_session [OF run] three unfolding Let_def by blast
qed

end
