(* ===== verification/ExtensionApi.thy ===== *)
theory ExtensionApi
  imports Ssm WorkspaceUtil GoText
begin

text \<open>
  The extension API server (\<open>internal/extensionapi\<close>): it answers access reviews and creates connections to
  workspaces. The JSON decoders, URL parsing and the permission review of the cluster are the fields of the record
  \<open>ext_env\<close>; the objects come from the \<open>client\<close>, the token signers and the remote access sessions are those
  of \<open>KmsSigner\<close> and \<open>Ssm\<close>.

  A response is a value of the datatype \<open>response\<close>: the two error formats of \<open>utils.go\<close>, the answered
  review, the created connection, and the fixed documents. \<open>WriteHeader\<close> and the encoding of the body
  are the constructor.
\<close>

section \<open>Configuration\<close>

record ext_config =
  xc_ApiPath :: string
  xc_ServerPort :: int
  xc_CertPath :: string
  xc_KeyPath :: string
  xc_LogLevel :: string
  xc_DisableTLS :: bool
  xc_ReadTimeoutSeconds :: int
  xc_WriteTimeoutSeconds :: int
  xc_AllowedOrigin :: string
  xc_ClusterId :: string
  xc_KMSKeyID :: string
  xc_Domain :: string

datatype config_option =
    WithDefaultApiPath string | WithServerPort int | WithCertPath string | WithKeyPath string | WithLogLevel string
  | WithDisableTLS bool | WithReadTimeoutSeconds int | WithWriteTimeoutSeconds int | WithAllowedOrigin string
  | WithKMSKeyID string | WithDomain string | WithClusterId string

fun apply_option :: "config_option \<Rightarrow> ext_config \<Rightarrow> ext_config" where
  "apply_option (WithDefaultApiPath v) c = c\<lparr>xc_ApiPath := v\<rparr>"
| "apply_option (WithServerPort n) c = c\<lparr>xc_ServerPort := n\<rparr>"
| "apply_option (WithCertPath v) c = c\<lparr>xc_CertPath := v\<rparr>"
| "apply_option (WithKeyPath v) c = c\<lparr>xc_KeyPath := v\<rparr>"
| "apply_option (WithLogLevel v) c = c\<lparr>xc_LogLevel := v\<rparr>"
| "apply_option (WithDisableTLS b) c = c\<lparr>xc_DisableTLS := b\<rparr>"
| "apply_option (WithReadTimeoutSeconds n) c = c\<lparr>xc_ReadTimeoutSeconds := n\<rparr>"
| "apply_option (WithWriteTimeoutSeconds n) c = c\<lparr>xc_WriteTimeoutSeconds := n\<rparr>"
| "apply_option (WithAllowedOrigin v) c = c\<lparr>xc_AllowedOrigin := v\<rparr>"
| "apply_option (WithKMSKeyID v) c = c\<lparr>xc_KMSKeyID := v\<rparr>"
| "apply_option (WithDomain v) c = c\<lparr>xc_Domain := v\<rparr>"
| "apply_option (WithClusterId v) c = c\<lparr>xc_ClusterId := v\<rparr>"

definition default_ext_config :: ext_config where
  "default_ext_config = \<lparr>xc_ApiPath = ''/apis/connection.workspace.jupyter.org/v1alpha1'', xc_ServerPort = 7443,
     xc_CertPath = ''/tmp/extension-server/serving-certs/tls.crt'', xc_KeyPath = ''/tmp/extension-server/serving-certs/tls.key'',
     xc_LogLevel = ''info'', xc_DisableTLS = False, xc_ReadTimeoutSeconds = 30, xc_WriteTimeoutSeconds = 120,
     xc_AllowedOrigin = ''*'', xc_ClusterId = '''', xc_KMSKeyID = '''', xc_Domain = ''''\<rparr>"

definition NewExtensionConfig :: "config_option list \<Rightarrow> ext_config" where
  "NewExtensionConfig opts = fold apply_option opts default_ext_config"

section \<open>Requests, responses and the environment\<close>

text \<open>The name of the user in the request's context, if the context has one.\<close>

record ext_request =
  xr_Method :: string
  xr_Path :: string
  xr_User :: "string option"
  xr_Header :: "string \<Rightarrow> string"
  xr_Body :: "string res"

record access_review =
  ar_Namespace :: string
  ar_Spec :: review_spec
  ar_Status :: review_status

record connection_spec =
  cn_WorkspaceName :: string
  cn_WorkspaceConnectionType :: string

record connection_status =
  cn_Type :: string
  cn_URL :: string

datatype response =
    WriteError nat string
  | WriteKubernetesError nat string
  | ReviewAnswer access_review
  | Created connection_spec connection_status
  | NotFoundPage
  | HealthOk
  | Discovery string "(string \<times> string \<times> string) list"

record ext_env =
  y_auth :: auth_env
  y_aws :: aws_env
  y_sar :: "world \<Rightarrow> sar_spec \<Rightarrow> (bool \<times> string) res"
  y_review :: "string \<Rightarrow> review_spec res"
  y_connection :: "string \<Rightarrow> connection_spec res"
  y_url :: "string \<Rightarrow> (string \<times> string) res"

record ext_server =
  xs_config :: ext_config
  xs_signerFactory :: signer_factory

definition createJWTSignerFactory :: "auth_env \<Rightarrow> ext_config \<Rightarrow> signer_factory res" where
  "createJWTSignerFactory e config = (case e_kms_client e of
     Some err \<Rightarrow> Inl (Wrap ''failed to create KMS client'' err)
   | None \<Rightarrow> Inr \<lparr>sf_defaultKeyId = xc_KMSKeyID config, sf_expiration = 5 * minute\<rparr>)"

definition on_auth :: "'a auth_io \<Rightarrow> 'a pio" where
  "on_auth m = State (\<lambda>w. let (v, a) = run_state m (wd_auth w) in (Inr v, w\<lparr>wd_auth := a\<rparr>))"

definition on_sar :: "(world \<Rightarrow> 'a) \<Rightarrow> sar_spec \<Rightarrow> 'a pio" where
  "on_sar f c = State (\<lambda>w. (Inr (f w), w\<lparr>wd_sar := wd_sar w @ [c]\<rparr>))"

lemma run_on_auth [simp]:
  "run_state (on_auth m) w = (Inr (fst (run_state m (wd_auth w))), w\<lparr>wd_auth := snd (run_state m (wd_auth w))\<rparr>)"
  "run_state (on_sar f c) w = (Inr (f w), w\<lparr>wd_sar := wd_sar w @ [c]\<rparr>)"
  by (simp_all add: on_auth_def on_sar_def split: prod.split)

section \<open>Helpers\<close>

text \<open>The first match of the pattern \<open>/namespaces/([^/]+)/\<close>.\<close>

fun namespace_match :: "string \<Rightarrow> string option" where
  "namespace_match [] = None"
| "namespace_match (c # cs) =
     (let rest = drop 12 (c # cs); segment = takeWhile (\<lambda>d. d \<noteq> CHR ''/'') rest in
      if take 12 (c # cs) = ''/namespaces/'' \<and> segment \<noteq> [] \<and> length segment < length rest then Some segment
      else namespace_match cs)"

definition GetNamespaceFromPath :: "string \<Rightarrow> string res" where
  "GetNamespaceFromPath path = (case namespace_match path of
     Some ns \<Rightarrow> Inr ns
   | None \<Rightarrow> Inl (Msg ''cannot find the namespace in URL''))"

abbreviation HeaderUser :: string where "HeaderUser \<equiv> ''X-User''"
abbreviation HeaderRemoteUser :: string where "HeaderRemoteUser \<equiv> ''X-Remote-User''"

definition GetUser :: "ext_request \<Rightarrow> string" where
  "GetUser r = (case xr_User r of
     Some (c # cs) \<Rightarrow> SanitizeUsername (c # cs)
   | _ \<Rightarrow> if xr_Header r HeaderUser \<noteq> '''' then SanitizeUsername (xr_Header r HeaderUser)
          else if xr_Header r HeaderRemoteUser \<noteq> '''' then SanitizeUsername (xr_Header r HeaderRemoteUser)
          else '''')"

definition ext_getWorkspace :: "client \<Rightarrow> string \<Rightarrow> string \<Rightarrow> (workspace res) pio" where
  "ext_getWorkspace k namespace workspaceName =
     (let key = nn namespace workspaceName in on_cluster (call (\<lambda>h. k_get_Workspace k h key) (CGetWorkspace key)))"

definition ext_getAccessStrategy :: "client \<Rightarrow> workspace \<Rightarrow> (access_strategy option res) pio" where
  "ext_getAccessStrategy k ws = (case ws_AccessStrategy (w_Spec ws) of
     None \<Rightarrow> pret (Inr None)
   | Some ref \<Rightarrow>
       let accessStrategyNamespace = (if asr_Namespace ref \<noteq> '''' then asr_Namespace ref else w_Namespace ws);
           key = nn accessStrategyNamespace (asr_Name ref)
       in pok (on_cluster (call (\<lambda>h. k_get_AccessStrategy k h key) (CGetAccessStrategy key))) id (\<lambda>as. pret (Inr (Some as))))"

section \<open>Access to a workspace\<close>

abbreviation AccessTypePrivate :: string where "AccessTypePrivate \<equiv> ''Private''"
abbreviation AccessTypePublic :: string where "AccessTypePublic \<equiv> ''Public''"
abbreviation OwnerAnnotation :: string where "OwnerAnnotation \<equiv> ''workspace.jupyter.org/created-by''"

record admission_result =
  ad_Allowed :: bool
  ad_NotFound :: bool
  ad_Reason :: string
  ad_AccessType :: string
  ad_OwnerUsername :: string

definition getWorkspaceAccessType :: "workspace \<Rightarrow> string" where
  "getWorkspaceAccessType ws = (let accessType = ws_AccessType (w_Spec ws) in
     if accessType = '''' \<or> accessType = ''Public'' then AccessTypePublic else AccessTypePrivate)"

definition getWorkspaceOwner :: "workspace \<Rightarrow> string" where
  "getWorkspaceOwner ws = (case om_Annotations (w_meta ws) of
     None \<Rightarrow> ''''
   | Some a \<Rightarrow> (case a OwnerAnnotation of None \<Rightarrow> '''' | Some owner \<Rightarrow> owner))"

definition CheckWorkspaceAccess :: "client \<Rightarrow> string \<Rightarrow> string \<Rightarrow> string \<Rightarrow> (admission_result res) pio" where
  "CheckWorkspaceAccess k namespace workspaceName username =
     (let key = nn namespace workspaceName in
      pbind (on_cluster (call (\<lambda>h. k_get_Workspace k h key) (CGetWorkspace key))) (\<lambda>r. case r of
        Inl err \<Rightarrow>
          if IsNotFound err
          then pret (Inr \<lparr>ad_Allowed = False, ad_NotFound = True, ad_Reason = ''Workspace not found'',
                 ad_AccessType = ''unknown'', ad_OwnerUsername = ''''\<rparr>)
          else pret (Inl (Wrap ''failed to get workspace'' err))
      | Inr ws \<Rightarrow>
          let accessType = getWorkspaceAccessType ws; owner = getWorkspaceOwner ws in
          if accessType = AccessTypePublic
          then pret (Inr \<lparr>ad_Allowed = True, ad_NotFound = False, ad_Reason = ''Workspace is public'',
                 ad_AccessType = accessType, ad_OwnerUsername = owner\<rparr>)
          else if owner = username
          then pret (Inr \<lparr>ad_Allowed = True, ad_NotFound = False, ad_Reason = ''User is the workspace owner'',
                 ad_AccessType = accessType, ad_OwnerUsername = owner\<rparr>)
          else pret (Inr \<lparr>ad_Allowed = False, ad_NotFound = False, ad_Reason = ''User is not the workspace owner'',
                 ad_AccessType = accessType, ad_OwnerUsername = owner\<rparr>)))"

definition CheckRBACPermission :: "ext_env \<Rightarrow> string \<Rightarrow> string \<Rightarrow> string list \<Rightarrow> string \<Rightarrow> (string \<rightharpoonup> string list) \<Rightarrow> ((bool \<times> string) res) pio" where
  "CheckRBACPermission y namespace username groups uid extra =
     (let sarRequest = \<lparr>sar_Namespace = namespace, sar_Verb = ''create'', sar_Group = ''connection.workspace.jupyter.org'',
            sar_Resource = ''workspaceconnections'', sar_User = username, sar_Groups = groups, sar_UID = uid, sar_Extra = extra\<rparr>
      in pok (on_sar (\<lambda>w. y_sar y w sarRequest) sarRequest) (Wrap ''failed to create SubjectAccessReview'') (\<lambda>r. pret (Inr r)))"

definition CheckWorkspaceConnectionPermission :: "ext_env \<Rightarrow> client \<Rightarrow> string \<Rightarrow> string \<Rightarrow> string \<Rightarrow> string list \<Rightarrow> string \<Rightarrow>
    (string \<rightharpoonup> string list) \<Rightarrow> (review_status res) pio" where
  "CheckWorkspaceConnectionPermission y k namespace workspaceName username groups uid extra =
     pok (CheckRBACPermission y namespace username groups uid extra) id (\<lambda>(rbacAllowed, rbacReason).
       if \<not> rbacAllowed then pret (Inr \<lparr>rv_Allowed = False, rv_NotFound = False, rv_Reason = ''RBAC permission denied''\<rparr>)
       else pok (CheckWorkspaceAccess k namespace workspaceName username) id (\<lambda>workspaceResult.
         if ad_NotFound workspaceResult
         then pret (Inr \<lparr>rv_Allowed = False, rv_NotFound = ad_NotFound workspaceResult, rv_Reason = ''Workspace not found''\<rparr>)
         else if \<not> ad_Allowed workspaceResult
         then pret (Inr \<lparr>rv_Allowed = ad_Allowed workspaceResult, rv_NotFound = ad_NotFound workspaceResult,
                rv_Reason = ''User is not the owner of the private Workspace''\<rparr>)
         else let reason = (if ad_AccessType workspaceResult = AccessTypePublic
                  then ''Valid RBAC and the subject Workspace is public''
                  else ''Valid RBAC and user is the owner of the private Workspace'')
           in pret (Inr \<lparr>rv_Allowed = ad_Allowed workspaceResult, rv_NotFound = ad_NotFound workspaceResult, rv_Reason = reason\<rparr>)))"

definition handleConnectionAccessReview :: "ext_env \<Rightarrow> client \<Rightarrow> ext_request \<Rightarrow> response pio" where
  "handleConnectionAccessReview y k r =
     (if xr_Method r \<noteq> ''POST'' then pret (WriteError 400 ''ConnectionAccessReview must use POST method'')
      else case GetNamespaceFromPath (xr_Path r) of
        Inl _ \<Rightarrow> pret (WriteError 400 ''ConnectionAccessReview must be namespaced'')
      | Inr namespace \<Rightarrow> (case xr_Body r of
          Inl _ \<Rightarrow> pret (WriteError 400 ''Failed to read request body'')
        | Inr body \<Rightarrow> (case y_review y body of
            Inl _ \<Rightarrow> pret (WriteError 400 ''Invalid ConnectionAccessReview format'')
          | Inr spec \<Rightarrow>
              if rv_WorkspaceName spec = '''' then pret (WriteError 400 ''WorkspaceName is required in the spec'')
              else pbind (CheckWorkspaceConnectionPermission y k namespace (rv_WorkspaceName spec) (rv_User spec) (rv_Groups spec)
                     (rv_UID spec) (rv_Extra spec)) (\<lambda>result. case result of
                Inl _ \<Rightarrow> pret (WriteError 500 ''Failed to verify access permission'')
              | Inr status \<Rightarrow> pret (ReviewAnswer \<lparr>ar_Namespace = namespace, ar_Spec = spec, ar_Status = status\<rparr>)))))"

section \<open>Connections\<close>

abbreviation ConnectionTypeVSCodeRemote :: string where "ConnectionTypeVSCodeRemote \<equiv> ''vscode-remote''"
abbreviation ConnectionTypeWebUI :: string where "ConnectionTypeWebUI \<equiv> ''web-ui''"

definition renderBearerAuthURL :: "client \<Rightarrow> string \<Rightarrow> workspace \<Rightarrow> access_strategy \<Rightarrow> string res" where
  "renderBearerAuthURL k templateStr ws as =
     (case k_template k True templateStr \<lparr>td_Workspace = ws, td_AccessStrategy = as, td_Service = None\<rparr> of
        TmplParseError e \<Rightarrow> Inl (Wrap ''failed to parse template'' e)
      | TmplExecError e \<Rightarrow> Inl (Wrap ''failed to execute template'' e)
      | TmplOutput u \<Rightarrow> Inr u)"

text \<open>The path of the link's application: without a final \<open>/bearer-auth\<close>.\<close>

definition claims_path :: "string \<Rightarrow> string" where
  "claims_path path = (if has_suffix path ''/bearer-auth''
     then (let path = trim_suffix path ''/bearer-auth'' in if path = '''' then ''/'' else path) else path)"

definition generateWebUIBearerTokenURL :: "ext_env \<Rightarrow> client \<Rightarrow> ext_server \<Rightarrow> ext_request \<Rightarrow> string \<Rightarrow> string \<Rightarrow> (connection_status res) pio" where
  "generateWebUIBearerTokenURL y k s r workspaceName namespace =
     (let user = GetUser r in
      if user = '''' then pret (Inl (Msg ''user information not found in request headers''))
      else pok (ext_getWorkspace k namespace workspaceName) (Wrap ''failed to get workspace'') (\<lambda>ws.
        pok (ext_getAccessStrategy k ws) (Wrap ''failed to get access strategy'') (\<lambda>accessStrategy. case accessStrategy of
          None \<Rightarrow> pret (Inl (Msg ''no AccessStrategy configured for workspace''))
        | Some as \<Rightarrow>
            if as_BearerAuthURLTemplate (a_Spec as) = ''''
            then pret (Inl (Msg ''BearerAuthURLTemplate not configured in AccessStrategy''))
            else pok (on_auth (CreateSigner (y_auth y) (xs_signerFactory s) (Some as))) (Wrap ''failed to create signer'') (\<lambda>sg.
              case renderBearerAuthURL k (as_BearerAuthURLTemplate (a_Spec as)) ws as of
                Inl err \<Rightarrow> pret (Inl (Wrap ''failed to render bearer auth URL'' err))
              | Inr webUIURL \<Rightarrow> (case y_url y webUIURL of
                  Inl err \<Rightarrow> pret (Inl (Wrap ''failed to parse generated URL'' err))
                | Inr (domain, path) \<Rightarrow>
                    pok (on_auth (sn_GenerateToken sg \<lparr>ta_user = user, ta_groups = [], ta_uid = user, ta_extra = Map.empty,
                           ta_path = claims_path path, ta_domain = domain, ta_tokenType = TokenTypeBootstrap\<rparr>))
                      (Wrap ''failed to generate JWT token'')
                      (\<lambda>token. pret (Inr \<lparr>cn_Type = ConnectionTypeWebUI, cn_URL = webUIURL @ ''?token='' @ token\<rparr>)))))))"

definition generateVSCodeURL :: "ext_env \<Rightarrow> client \<Rightarrow> ext_server \<Rightarrow> string \<Rightarrow> string \<Rightarrow> (connection_status res) pio" where
  "generateVSCodeURL y k s workspaceName namespace =
     pok (ext_getWorkspace k namespace workspaceName) id (\<lambda>ws.
     pok (ext_getAccessStrategy k ws) id (\<lambda>accessStrategy. case accessStrategy of
       None \<Rightarrow> pret (Inl (Msg ''no access strategy configured for workspace''))
     | Some as \<Rightarrow>
         pok (on_cluster (GetPodUIDFromWorkspaceName k workspaceName)) id (\<lambda>podUID.
           case NewSSMRemoteAccessStrategy (y_aws y) NilInterface (Some NoOpPodExec) of
             Inl err \<Rightarrow> pret (Inl err)
           | Inr ssmStrategy \<Rightarrow>
               pok (GenerateVSCodeConnectionURL (y_aws y) ssmStrategy workspaceName namespace podUID (xc_ClusterId (xs_config s)) as) id
                 (\<lambda>u. pret (Inr \<lparr>cn_Type = ConnectionTypeVSCodeRemote, cn_URL = u\<rparr>)))))"

definition checkWorkspaceAuthorization :: "client \<Rightarrow> ext_request \<Rightarrow> string \<Rightarrow> string \<Rightarrow> (admission_result res) pio" where
  "checkWorkspaceAuthorization k r workspaceName namespace =
     (let user = GetUser r in
      if user = '''' then pret (Inl (Msg ''user not found in request headers''))
      else CheckWorkspaceAccess k namespace workspaceName user)"

definition validateWorkspaceConnectionRequest :: "connection_spec \<Rightarrow> goerr option" where
  "validateWorkspaceConnectionRequest req =
     (if cn_WorkspaceName req = '''' then Some (Msg ''workspaceName is required'')
      else if cn_WorkspaceConnectionType req = '''' then Some (Msg ''workspaceConnectionType is required'')
      else if cn_WorkspaceConnectionType req \<in> {ConnectionTypeVSCodeRemote, ConnectionTypeWebUI} then None
      else Some (Msg (''invalid workspaceConnectionType: '' @ [CHR 0x27] @ cn_WorkspaceConnectionType req @ [CHR 0x27] @
             ''. Valid types are: '' @ [CHR 0x27] @ ''vscode-remote'' @ [CHR 0x27] @ '', '' @ [CHR 0x27] @ ''web-ui'' @ [CHR 0x27])))"

definition create_connection :: "ext_env \<Rightarrow> client \<Rightarrow> ext_server \<Rightarrow> ext_request \<Rightarrow> string \<Rightarrow> connection_spec \<Rightarrow> response pio" where
  "create_connection y k s r namespace req =
     pbind (checkWorkspaceAuthorization k r (cn_WorkspaceName req) namespace) (\<lambda>result. case result of
       Inl err \<Rightarrow> pret (WriteKubernetesError 500 (err_text err))
     | Inr result \<Rightarrow>
         if ad_NotFound result then pret (WriteKubernetesError 404 (ad_Reason result))
         else if \<not> ad_Allowed result then pret (WriteKubernetesError 403 (ad_Reason result))
         else if cn_WorkspaceConnectionType req \<notin> {ConnectionTypeVSCodeRemote, ConnectionTypeWebUI}
         then pret (WriteKubernetesError 400 ''Invalid workspace connection type'')
         else pbind (if cn_WorkspaceConnectionType req = ConnectionTypeVSCodeRemote
                     then generateVSCodeURL y k s (cn_WorkspaceName req) namespace
                     else generateWebUIBearerTokenURL y k s r (cn_WorkspaceName req) namespace) (\<lambda>out. case out of
           Inl err \<Rightarrow> pret (WriteKubernetesError 500 (err_text err))
         | Inr status \<Rightarrow> pret (Created req status)))"

definition HandleConnectionCreate :: "ext_env \<Rightarrow> client \<Rightarrow> ext_server \<Rightarrow> ext_request \<Rightarrow> response pio" where
  "HandleConnectionCreate y k s r =
     pbind (EnsureResourcesInitialized (y_aws y) k) (\<lambda>i. case i of
       Inl err \<Rightarrow> pret (WriteKubernetesError 500 (''Failed to initialize resources: '' @ err_text err))
     | Inr _ \<Rightarrow>
         if xr_Method r \<noteq> ''POST'' then pret (WriteKubernetesError 400 ''Connection must use POST method'')
         else case GetNamespaceFromPath (xr_Path r) of
           Inl _ \<Rightarrow> pret (WriteKubernetesError 400 ''Invalid URL path'')
         | Inr namespace \<Rightarrow> (case xr_Body r of
             Inl _ \<Rightarrow> pret (WriteKubernetesError 400 ''Failed to read request body'')
           | Inr body \<Rightarrow> (case y_connection y body of
               Inl _ \<Rightarrow> pret (WriteKubernetesError 400 ''Invalid JSON'')
             | Inr req \<Rightarrow> (case validateWorkspaceConnectionRequest req of
                 Some err \<Rightarrow> pret (WriteKubernetesError 400 (err_text err))
               | None \<Rightarrow>
                   if cn_WorkspaceConnectionType req = ConnectionTypeVSCodeRemote \<and> xc_ClusterId (xs_config s) = ''''
                   then pret (WriteKubernetesError 400
                     ''CLUSTER_ID not configured. Please set controllerManager.container.env.CLUSTER_ID in helm values'')
                   else create_connection y k s r namespace req))))"

section \<open>Routes\<close>

definition handleHealth :: "response pio" where "handleHealth = pret HealthOk"

text \<open>The resources of the discovery document: plural and singular name, and kind.\<close>

definition handleDiscovery :: "response pio" where
  "handleDiscovery = pret (Discovery ''connection.workspace.jupyter.org/v1alpha1''
     [(''workspaceconnections'', ''workspaceconnection'', ''WorkspaceConnection''),
      (''connectionaccessreviews'', ''connectionaccessreview'', ''ConnectionAccessReview'')])"

text \<open>The handler of the prefix of namespaced resources, with the table of \<open>registerAllRoutes\<close>.\<close>

definition namespaced_handler :: "ext_env \<Rightarrow> client \<Rightarrow> ext_server \<Rightarrow> ext_request \<Rightarrow> response pio" where
  "namespaced_handler y k s r = (case GetNamespaceFromPath (xr_Path r) of
     Inl _ \<Rightarrow> pret (WriteError 400 ''Invalid or missing namespace in path'')
   | Inr _ \<Rightarrow> (let parts = split_char CHR ''/'' (xr_Path r) in
       if length parts < 6 then pret NotFoundPage
       else let resource = last parts in
         if resource = ''workspaceconnections'' then HandleConnectionCreate y k s r
         else if resource = ''connectionaccessreview'' then handleConnectionAccessReview y k r
         else pret NotFoundPage))"

section \<open>Access reviews\<close>

text \<open>Who may connect to a workspace: everybody when its access is not restricted, else the recorded creator.\<close>

definition may_connect :: "workspace \<Rightarrow> string \<Rightarrow> bool" where
  "may_connect ws user \<longleftrightarrow> ws_AccessType (w_Spec ws) \<in> {'''', ''Public''} \<or> getWorkspaceOwner ws = user"

lemma run_CheckWorkspaceAccess:
  "\<exists>res. run_state (CheckWorkspaceAccess k ns name user) w = (Inr res, w\<lparr>wd_hist := wd_hist w @ [CGetWorkspace (nn ns name)]\<rparr>) \<and>
     (case k_get_Workspace k (wd_hist w) (nn ns name) of
        Inl err \<Rightarrow> if IsNotFound err then (\<exists>a. res = Inr a \<and> ad_NotFound a \<and> \<not> ad_Allowed a) else (\<exists>e. res = Inl e)
      | Inr ws \<Rightarrow> (\<exists>a. res = Inr a \<and> \<not> ad_NotFound a \<and> ad_Allowed a = may_connect ws user))"
  by (auto simp: CheckWorkspaceAccess_def may_connect_def getWorkspaceAccessType_def Let_def split: sum.split)

definition connection_sar :: "string \<Rightarrow> review_spec \<Rightarrow> sar_spec" where
  "connection_sar ns spec = \<lparr>sar_Namespace = ns, sar_Verb = ''create'', sar_Group = ''connection.workspace.jupyter.org'',
     sar_Resource = ''workspaceconnections'', sar_User = rv_User spec, sar_Groups = rv_Groups spec, sar_UID = rv_UID spec,
     sar_Extra = rv_Extra spec\<rparr>"

text \<open>The decision of a review, from the answer of the cluster to the permission review and the workspace.\<close>

definition review_decision :: "(bool \<times> string) \<Rightarrow> workspace res \<Rightarrow> string \<Rightarrow> bool \<times> bool" where
  "review_decision rbac ws user =
     (fst rbac \<and> (case ws of Inr ws \<Rightarrow> may_connect ws user | Inl _ \<Rightarrow> False),
      fst rbac \<and> (case ws of Inr _ \<Rightarrow> False | Inl e \<Rightarrow> IsNotFound e))"

lemma run_CheckWorkspaceConnectionPermission:
  fixes spec ns
  defines "sar \<equiv> connection_sar ns spec"
  assumes "run_state (CheckWorkspaceConnectionPermission y k ns (rv_WorkspaceName spec) (rv_User spec) (rv_Groups spec) (rv_UID spec)
    (rv_Extra spec)) w = (Inr (Inr st), w')"
  shows "\<exists>rbac. y_sar y w sar = Inr rbac \<and>
    (rv_Allowed st, rv_NotFound st) = review_decision rbac (k_get_Workspace k (wd_hist w) (nn ns (rv_WorkspaceName spec))) (rv_User spec) \<and>
    w' = w\<lparr>wd_sar := wd_sar w @ [sar], wd_hist := wd_hist w @ (if fst rbac then [CGetWorkspace (nn ns (rv_WorkspaceName spec))] else [])\<rparr>"
proof -
  obtain rbac where rbac: "y_sar y w sar = Inr rbac"
    using assms(2) by (cases "y_sar y w sar") (auto simp: CheckWorkspaceConnectionPermission_def CheckRBACPermission_def
      connection_sar_def sar_def Let_def)
  let ?w = "w\<lparr>wd_sar := wd_sar w @ [sar]\<rparr>"
  obtain res where res: "run_state (CheckWorkspaceAccess k ns (rv_WorkspaceName spec) (rv_User spec)) ?w =
      (Inr res, ?w\<lparr>wd_hist := wd_hist ?w @ [CGetWorkspace (nn ns (rv_WorkspaceName spec))]\<rparr>)"
    "case k_get_Workspace k (wd_hist ?w) (nn ns (rv_WorkspaceName spec)) of
        Inl err \<Rightarrow> if IsNotFound err then (\<exists>a. res = Inr a \<and> ad_NotFound a \<and> \<not> ad_Allowed a) else (\<exists>e. res = Inl e)
      | Inr ws \<Rightarrow> (\<exists>a. res = Inr a \<and> \<not> ad_NotFound a \<and> ad_Allowed a = may_connect ws (rv_User spec))"
    using run_CheckWorkspaceAccess by blast
  show ?thesis
  proof (cases "fst rbac")
    case False
    then show ?thesis
      using assms(2) rbac by (auto simp: CheckWorkspaceConnectionPermission_def CheckRBACPermission_def review_decision_def
        sar_def connection_sar_def Let_def split: prod.splits)
  next
    case True
    then have run: "run_state (CheckWorkspaceConnectionPermission y k ns (rv_WorkspaceName spec) (rv_User spec) (rv_Groups spec) (rv_UID spec)
        (rv_Extra spec)) w = (case res of Inl e \<Rightarrow> (Inr (Inl e), ?w\<lparr>wd_hist := wd_hist ?w @ [CGetWorkspace (nn ns (rv_WorkspaceName spec))]\<rparr>)
          | Inr a \<Rightarrow> (Inr (Inr \<lparr>rv_Allowed = \<not> ad_NotFound a \<and> ad_Allowed a, rv_NotFound = ad_NotFound a,
              rv_Reason = (if ad_NotFound a then ''Workspace not found'' else if \<not> ad_Allowed a then ''User is not the owner of the private Workspace''
                else if ad_AccessType a = AccessTypePublic then ''Valid RBAC and the subject Workspace is public''
                else ''Valid RBAC and user is the owner of the private Workspace'')\<rparr>),
              ?w\<lparr>wd_hist := wd_hist ?w @ [CGetWorkspace (nn ns (rv_WorkspaceName spec))]\<rparr>))"
      using rbac res(1) by (cases rbac) (simp add: CheckWorkspaceConnectionPermission_def CheckRBACPermission_def sar_def connection_sar_def
        Let_def split: sum.split)
    show ?thesis
      using assms(2) run rbac True res(2)
      by (auto simp: review_decision_def split: sum.splits if_splits)
  qed
qed

lemma review_answer:
  assumes "run_state (handleConnectionAccessReview y k r) w = (Inr (ReviewAnswer a), w')"
  obtains body where "xr_Method r = ''POST''" "GetNamespaceFromPath (xr_Path r) = Inr (ar_Namespace a)" "xr_Body r = Inr body"
      "y_review y body = Inr (ar_Spec a)" "rv_WorkspaceName (ar_Spec a) \<noteq> ''''"
      "run_state (CheckWorkspaceConnectionPermission y k (ar_Namespace a) (rv_WorkspaceName (ar_Spec a)) (rv_User (ar_Spec a))
         (rv_Groups (ar_Spec a)) (rv_UID (ar_Spec a)) (rv_Extra (ar_Spec a))) w = (Inr (Inr (ar_Status a)), w')"
  using assms by (auto simp: handleConnectionAccessReview_def split: if_splits sum.splits prod.splits)

text \<open>
  C34. The answer to an access review: it allows the user exactly when the cluster grants the user, with the
  groups, uid and extra values of the review, the creation of connections in the namespace of the path, and the workspace
  exists there and is public or recorded as created by this user. It reports a missing workspace only to
  users the cluster grants this, and one permission review, and a read of the workspace if it was granted, are all that is requested.
\<close>

theorem access_review_decision:
  assumes "run_state (handleConnectionAccessReview y k r) w = (Inr (ReviewAnswer a), w')"
  shows "\<exists>body rbac. xr_Method r = ''POST'' \<and> GetNamespaceFromPath (xr_Path r) = Inr (ar_Namespace a) \<and>
    xr_Body r = Inr body \<and> y_review y body = Inr (ar_Spec a) \<and> rv_WorkspaceName (ar_Spec a) \<noteq> '''' \<and>
    y_sar y w (connection_sar (ar_Namespace a) (ar_Spec a)) = Inr rbac \<and>
    (rv_Allowed (ar_Status a), rv_NotFound (ar_Status a)) = review_decision rbac
      (k_get_Workspace k (wd_hist w) (nn (ar_Namespace a) (rv_WorkspaceName (ar_Spec a)))) (rv_User (ar_Spec a)) \<and>
    w' = w\<lparr>wd_sar := wd_sar w @ [connection_sar (ar_Namespace a) (ar_Spec a)],
      wd_hist := wd_hist w @ (if fst rbac then [CGetWorkspace (nn (ar_Namespace a) (rv_WorkspaceName (ar_Spec a)))] else [])\<rparr>"
  by (rule review_answer [OF assms]) (use run_CheckWorkspaceConnectionPermission in blast)

section \<open>Connections\<close>

lemma EnsureResourcesInitialized_cluster:
  assumes "run_state (EnsureResourcesInitialized x k) w = (r, w')"
  shows "wd_hist w' = wd_hist w \<and> wd_auth w' = wd_auth w \<and> wd_sar w' = wd_sar w"
proof -
  have ensure: "wd_hist (snd (run_state (initializer_ensure x k) w)) = wd_hist w \<and> wd_auth (snd (run_state (initializer_ensure x k) w)) = wd_auth w \<and>
      wd_sar (snd (run_state (initializer_ensure x k) w)) = wd_sar w" for w
    by (auto simp: initializer_ensure_def createSageMakerSpaceSSMDocument_def Let_def split: option.split)
  show ?thesis
  proof (cases "wd_once w")
    case True
    then have "w' = snd (run_state (initializer_ensure x k) (w\<lparr>wd_once := True\<rparr>))"
      using assms by (simp add: EnsureResourcesInitialized_def)
    then show ?thesis using ensure by simp
  next
    case False
    then show ?thesis
    proof (cases "x_config_err x")
      case None
      then have "w' = snd (run_state (initializer_ensure x k) (w\<lparr>wd_once := True, wd_initializer := Some \<lparr>ri_done = False, ri_error = None\<rparr>\<rparr>))"
        using assms False by (simp add: EnsureResourcesInitialized_def NewSSMClient_def)
      then show ?thesis using ensure by simp
    qed (use assms False in \<open>auto simp: EnsureResourcesInitialized_def NewSSMClient_def\<close>)
  qed
qed

text \<open>
  The strategy of a workspace, as the cluster answers for its reference after the requests \<open>h\<close>, and the link of a web connection made
  with it: what the link was rendered from, and that its token was issued, in the signer state \<open>a\<close>, by the signer of this strategy.
\<close>

definition strategy_fetched :: "client \<Rightarrow> hist \<Rightarrow> workspace \<Rightarrow> access_strategy \<Rightarrow> bool" where
  "strategy_fetched k h ws as \<longleftrightarrow> (case ws_AccessStrategy (w_Spec ws) of
     None \<Rightarrow> False
   | Some ref \<Rightarrow> k_get_AccessStrategy k h (nn (if asr_Namespace ref \<noteq> '''' then asr_Namespace ref else w_Namespace ws) (asr_Name ref)) = Inr as)"

definition web_link :: "ext_env \<Rightarrow> client \<Rightarrow> ext_server \<Rightarrow> auth_state \<Rightarrow> workspace \<Rightarrow> access_strategy \<Rightarrow> string \<Rightarrow> string \<Rightarrow> bool" where
  "web_link y k s a ws as user link \<longleftrightarrow> (\<exists>sg a1 u domain path token a2.
     run_state (CreateSigner (y_auth y) (xs_signerFactory s) (Some as)) a = (Inr sg, a1) \<and>
     renderBearerAuthURL k (as_BearerAuthURLTemplate (a_Spec as)) ws as = Inr u \<and> y_url y u = Inr (domain, path) \<and>
     run_state (sn_GenerateToken sg \<lparr>ta_user = user, ta_groups = [], ta_uid = user, ta_extra = Map.empty,
       ta_path = claims_path path, ta_domain = domain, ta_tokenType = TokenTypeBootstrap\<rparr>) a1 = (Inr token, a2) \<and>
     link = u @ ''?token='' @ token)"

lemma run_ext_getAccessStrategy:
  assumes "run_state (ext_getAccessStrategy k ws) w = (Inr (Inr (Some as)), w')"
  shows "strategy_fetched k (wd_hist w) ws as" and "wd_auth w' = wd_auth w"
  using assms by (auto simp: ext_getAccessStrategy_def strategy_fetched_def Let_def split: option.splits sum.splits)

lemma run_ext_getWorkspace:
  "run_state (ext_getWorkspace k ns name) w =
     (Inr (k_get_Workspace k (wd_hist w) (nn ns name)), w\<lparr>wd_hist := wd_hist w @ [CGetWorkspace (nn ns name)]\<rparr>)"
  by (simp add: ext_getWorkspace_def Let_def)

lemma generateWebUIBearerTokenURL_link:
  assumes "run_state (generateWebUIBearerTokenURL y k s r name ns) w = (Inr (Inr status), w')"
  shows "\<exists>ws as. k_get_Workspace k (wd_hist w) (nn ns name) = Inr ws \<and>
    strategy_fetched k (wd_hist w @ [CGetWorkspace (nn ns name)]) ws as \<and> web_link y k s (wd_auth w) ws as (GetUser r) (cn_URL status)"
proof -
  obtain ws as w1 where ws: "k_get_Workspace k (wd_hist w) (nn ns name) = Inr ws"
      "run_state (ext_getAccessStrategy k ws) (w\<lparr>wd_hist := wd_hist w @ [CGetWorkspace (nn ns name)]\<rparr>) = (Inr (Inr (Some as)), w1)"
    using assms by (auto simp: generateWebUIBearerTokenURL_def run_ext_getWorkspace Let_def
      split: if_splits sum.splits option.splits prod.splits)
  have as: "strategy_fetched k (wd_hist w @ [CGetWorkspace (nn ns name)]) ws as" "wd_auth w1 = wd_auth w"
    using run_ext_getAccessStrategy [OF ws(2)] by simp_all
  obtain sg a1 where sg: "run_state (CreateSigner (y_auth y) (xs_signerFactory s) (Some as)) (wd_auth w1) = (Inr sg, a1)"
    using assms ws by (cases "run_state (CreateSigner (y_auth y) (xs_signerFactory s) (Some as)) (wd_auth w1)")
      (auto simp: generateWebUIBearerTokenURL_def run_ext_getWorkspace Let_def split: if_splits sum.splits)
  obtain u domain path where u: "renderBearerAuthURL k (as_BearerAuthURLTemplate (a_Spec as)) ws as = Inr u" "y_url y u = Inr (domain, path)"
    using assms ws sg by (auto simp: generateWebUIBearerTokenURL_def run_ext_getWorkspace Let_def split: if_splits sum.splits)
  let ?args = "\<lparr>ta_user = GetUser r, ta_groups = [], ta_uid = GetUser r, ta_extra = Map.empty,
       ta_path = claims_path path, ta_domain = domain, ta_tokenType = TokenTypeBootstrap\<rparr>"
  obtain t a3 where t: "run_state (sn_GenerateToken sg ?args) a1 = (t, a3)" by fastforce
  have "\<exists>token. t = Inr token \<and> cn_URL status = u @ ''?token='' @ token"
    using assms ws sg u t by (auto simp: generateWebUIBearerTokenURL_def run_ext_getWorkspace Let_def split: if_splits sum.splits)
  then have "web_link y k s (wd_auth w) ws as (GetUser r) (cn_URL status)"
    using sg u t unfolding web_link_def as(2) by blast
  then show ?thesis using ws(1) as(1) by blast
qed

text \<open>
  C35. Connections are only created for those who may connect: a created connection was requested by a named user with a
  valid request, for a workspace that exists in the namespace of the path and that is public or recorded as
  created by this user. A web connection is the link rendered from the strategy the cluster returns for the workspace's reference, with a
  bootstrap token that the signer of this strategy issued for this user, the link's host and the application path of the link. (The link
  of a remote connection carries the token of an SSM session instead.)
\<close>

theorem connection_authorized:
  assumes "run_state (HandleConnectionCreate y k s r) w = (Inr (Created req status), w')"
  shows "\<exists>ns body ws. xr_Method r = ''POST'' \<and> GetNamespaceFromPath (xr_Path r) = Inr ns \<and> xr_Body r = Inr body \<and>
    y_connection y body = Inr req \<and> validateWorkspaceConnectionRequest req = None \<and> GetUser r \<noteq> '''' \<and>
    k_get_Workspace k (wd_hist w) (nn ns (cn_WorkspaceName req)) = Inr ws \<and> may_connect ws (GetUser r) \<and>
    (cn_WorkspaceConnectionType req = ConnectionTypeWebUI \<longrightarrow>
      (\<exists>ws as. k_get_Workspace k (wd_hist w @ [CGetWorkspace (nn ns (cn_WorkspaceName req))]) (nn ns (cn_WorkspaceName req)) = Inr ws \<and>
         strategy_fetched k (wd_hist w @ [CGetWorkspace (nn ns (cn_WorkspaceName req)), CGetWorkspace (nn ns (cn_WorkspaceName req))]) ws as \<and>
         web_link y k s (wd_auth w) ws as (GetUser r) (cn_URL status)))"
proof -
  obtain i w1 where i: "run_state (EnsureResourcesInitialized (y_aws y) k) w = (i, w1)" by fastforce
  obtain ns body where r: "xr_Method r = ''POST''" "GetNamespaceFromPath (xr_Path r) = Inr ns" "xr_Body r = Inr body"
      "y_connection y body = Inr req" "validateWorkspaceConnectionRequest req = None"
      "run_state (create_connection y k s r ns req) w1 = (Inr (Created req status), w')"
    using assms i by (auto simp: HandleConnectionCreate_def create_connection_def split: if_splits sum.splits option.splits prod.splits)
  have hist: "wd_hist w1 = wd_hist w" "wd_auth w1 = wd_auth w" using EnsureResourcesInitialized_cluster [OF i] by simp_all
  have user: "GetUser r \<noteq> ''''" using r(6) by (auto simp: create_connection_def checkWorkspaceAuthorization_def)
  let ?key = "nn ns (cn_WorkspaceName req)" and ?w = "w1\<lparr>wd_hist := wd_hist w @ [CGetWorkspace (nn ns (cn_WorkspaceName req))]\<rparr>"
  obtain res where res: "run_state (CheckWorkspaceAccess k ns (cn_WorkspaceName req) (GetUser r)) w1 = (Inr res, ?w)"
    "case k_get_Workspace k (wd_hist w) ?key of
        Inl err \<Rightarrow> if IsNotFound err then (\<exists>a. res = Inr a \<and> ad_NotFound a \<and> \<not> ad_Allowed a) else (\<exists>e. res = Inl e)
      | Inr ws \<Rightarrow> (\<exists>a. res = Inr a \<and> \<not> ad_NotFound a \<and> ad_Allowed a = may_connect ws (GetUser r))"
    using run_CheckWorkspaceAccess [of k ns "cn_WorkspaceName req" "GetUser r" w1] unfolding hist by blast
  obtain a where a: "res = Inr a" "\<not> ad_NotFound a" "ad_Allowed a"
    using r(6) res(1) user by (auto simp: create_connection_def checkWorkspaceAuthorization_def Let_def split: sum.splits if_splits)
  then obtain ws where ws: "k_get_Workspace k (wd_hist w) ?key = Inr ws" "may_connect ws (GetUser r)"
    using res(2) by (auto split: sum.splits if_splits)
  have "\<exists>ws as. k_get_Workspace k (wd_hist w @ [CGetWorkspace ?key]) ?key = Inr ws \<and>
      strategy_fetched k (wd_hist w @ [CGetWorkspace ?key, CGetWorkspace ?key]) ws as \<and> web_link y k s (wd_auth w) ws as (GetUser r) (cn_URL status)"
    if web: "cn_WorkspaceConnectionType req = ConnectionTypeWebUI"
  proof -
    have "run_state (generateWebUIBearerTokenURL y k s r (cn_WorkspaceName req) ns) ?w = (Inr (Inr status), w')"
      using r(6) res(1) user a web by (auto simp: create_connection_def checkWorkspaceAuthorization_def Let_def split: sum.splits prod.splits)
    from generateWebUIBearerTokenURL_link [OF this] show ?thesis using hist(2) by simp
  qed
  then show ?thesis using r(1-5) user ws by blast
qed
section \<open>Examples\<close>

text \<open>A private workspace of alice, with an access strategy, and a pod with the same workspace label in another namespace.\<close>

definition private_workspace :: workspace where
  "private_workspace = \<lparr>w_meta = empty_meta\<lparr>om_Name := ''ws'', om_Namespace := ''team'', om_Annotations := Some [OwnerAnnotation \<mapsto> ''alice'']\<rparr>,
     w_Spec = empty_spec\<lparr>ws_AccessType := ''OwnerOnly'', ws_AccessStrategy := Some \<lparr>asr_Name = ''web'', asr_Namespace = ''''\<rparr>\<rparr>,
     w_Status = empty_status\<rparr>"

definition link_strategy :: access_strategy where
  "link_strategy = sample_access_strategy\<lparr>a_Spec := empty_as_spec\<lparr>as_BearerAuthURLTemplate := ''https://host/ws/bearer-auth'',
     as_CreateConnectionContext := Some [''ssmDocumentName'' \<mapsto> ''doc'']\<rparr>\<rparr>"

definition other_pod :: pod where
  "other_pod = \<lparr>pod_meta = empty_meta\<lparr>om_Name := ''ws-1'', om_Namespace := ''other'', om_UID := ''u9'',
     om_Labels := Some [LabelWorkspaceName \<mapsto> ''ws'']\<rparr>, pod_Phase = ''Running'', pod_Conditions = [], pod_ContainerStatuses = []\<rparr>"

definition ext_cluster :: client where
  "ext_cluster = empty_server\<lparr>k_get_Workspace := \<lambda>_ key. if key = nn ''team'' ''ws'' then Inr private_workspace else Inl (ApiErr NotFound ''none''),
     k_get_AccessStrategy := \<lambda>_ _. Inr link_strategy,
     k_list_Pods := \<lambda>_ ns _. if ns = '''' \<or> ns = ''other'' then Inr [other_pod] else Inr [], k_getenv := \<lambda>_. ''arn''\<rparr>"

definition link_args :: token_args where
  "link_args = \<lparr>ta_user = ''alice'', ta_groups = [], ta_uid = ''alice'', ta_extra = Map.empty, ta_path = ''/ws'',
     ta_domain = ''host'', ta_tokenType = TokenTypeBootstrap\<rparr>"

definition demo_ext :: ext_env where
  "demo_ext = \<lparr>y_auth = kms_env\<lparr>e_jwt := table_jwt [(''tok'', \<lparr>hd_alg = HS384, hd_edk = Some (b64_encode ''c'')\<rparr>,
       make_claims (table_jwt []) ''jupyter-k8s'' ''workspace-ui'' 300000000000 1000000000 link_args, ''p'')]\<rparr>,
     y_aws = demo_aws, y_sar = \<lambda>_ c. Inr (sar_User c = ''alice'', ''''),
     y_review = \<lambda>b. Inr \<lparr>rv_WorkspaceName = ''ws'', rv_User = b, rv_Groups = [], rv_UID = '''', rv_Extra = Map.empty\<rparr>,
     y_connection = \<lambda>b. Inr \<lparr>cn_WorkspaceName = ''ws'', cn_WorkspaceConnectionType = b\<rparr>,
     y_url = \<lambda>_. Inr (''host'', ''/ws/bearer-auth'')\<rparr>"

definition ext_demo_server :: ext_server where
  "ext_demo_server = \<lparr>xs_config = NewExtensionConfig [WithClusterId ''arn''],
     xs_signerFactory = \<lparr>sf_defaultKeyId = ''key'', sf_expiration = 300000000000\<rparr>\<rparr>"

definition post :: "string \<Rightarrow> string \<Rightarrow> ext_request" where
  "post resource body = \<lparr>xr_Method = ''POST'', xr_Path = ''/apis/connection.workspace.jupyter.org/v1alpha1/namespaces/team/'' @ resource,
     xr_User = Some ''alice'', xr_Header = \<lambda>_. '''', xr_Body = Inr body\<rparr>"

lemma post_namespace: "GetNamespaceFromPath (xr_Path (post resource body)) = Inr ''team''"
  by (simp add: post_def GetNamespaceFromPath_def Let_def)

lemma post_fields: "xr_Method (post resource body) = ''POST''" "xr_User (post resource body) = Some ''alice''" "xr_Body (post resource body) = Inr body"
  by (simp_all add: post_def)

lemma post_user: "GetUser (post resource body) = ''alice''"
  by (simp add: GetUser_def post_def SanitizeUsername_eq ascii_runes json_rune_def)

lemma get_private: "k_get_Workspace ext_cluster h (nn ''team'' ''ws'') = Inr private_workspace"
  by (simp add: ext_cluster_def)

theorem access_review_decision_witness:
  "\<exists>a w'. run_state (handleConnectionAccessReview demo_ext ext_cluster (post ''connectionaccessreview'' ''alice'')) demo_world = (Inr (ReviewAnswer a), w') \<and>
     (rv_Allowed (ar_Status a), rv_NotFound (ar_Status a)) = review_decision (True, '''') (Inr private_workspace) ''alice'' \<and> rv_Allowed (ar_Status a)"
proof -
  obtain a w' where run: "run_state (handleConnectionAccessReview demo_ext ext_cluster (post ''connectionaccessreview'' ''alice'')) demo_world =
      (Inr (ReviewAnswer a), w')" "ar_Namespace a = ''team''" "ar_Spec a = \<lparr>rv_WorkspaceName = ''ws'', rv_User = ''alice'', rv_Groups = [], rv_UID = '''', rv_Extra = Map.empty\<rparr>"
    by (simp add: handleConnectionAccessReview_def post_fields post_namespace demo_ext_def CheckWorkspaceConnectionPermission_def
      CheckRBACPermission_def CheckWorkspaceAccess_def get_private Let_def getWorkspaceAccessType_def private_workspace_def getWorkspaceOwner_def)
  show ?thesis
    using access_review_decision [OF run(1)] run
    by (auto simp: demo_ext_def connection_sar_def get_private review_decision_def may_connect_def private_workspace_def getWorkspaceOwner_def)
qed
lemma demo_initialize:
  "\<exists>w1. run_state (EnsureResourcesInitialized demo_aws ext_cluster) demo_world = (Inr (Inr ()), w1) \<and> wd_hist w1 = [] \<and> wd_auth w1 = idle_auth \<and>
     (\<exists>cs. wd_ssm w1 = cs)"
  by (simp add: EnsureResourcesInitialized_def initializer_ensure_def createSageMakerSpaceSSMDocument_def NewSSMClient_def demo_aws_def
    demo_world_def ext_cluster_def Let_def)

lemma demo_strategy_found:
  "run_state (ext_getAccessStrategy ext_cluster private_workspace) w =
     (Inr (Inr (Some link_strategy)), w\<lparr>wd_hist := wd_hist w @ [CGetAccessStrategy (nn ''team'' ''web'')]\<rparr>)"
  by (simp add: ext_getAccessStrategy_def private_workspace_def ext_cluster_def empty_meta_def empty_spec_def Let_def)

lemma demo_access:
  "run_state (checkWorkspaceAuthorization ext_cluster (post resource body) ''ws'' ''team'') w =
     (Inr (Inr \<lparr>ad_Allowed = True, ad_NotFound = False, ad_Reason = ''User is the workspace owner'', ad_AccessType = ''Private'',
        ad_OwnerUsername = ''alice''\<rparr>), w\<lparr>wd_hist := wd_hist w @ [CGetWorkspace (nn ''team'' ''ws'')]\<rparr>)"
  by (simp add: checkWorkspaceAuthorization_def post_user CheckWorkspaceAccess_def get_private Let_def getWorkspaceAccessType_def
    private_workspace_def getWorkspaceOwner_def)

lemma demo_signer:
  "\<exists>sg a1. run_state (CreateSigner (y_auth demo_ext) (xs_signerFactory ext_demo_server) (Some link_strategy)) idle_auth = (Inr sg, a1) \<and>
     (\<exists>a2. run_state (sn_GenerateToken sg link_args) a1 = (Inr ''tok'', a2))"
proof -
  have sign: "j_sign (e_jwt (y_auth demo_ext)) \<lparr>hd_alg = HS384, hd_edk = Some (b64_encode ''c'')\<rparr>
      (make_claims (e_jwt (y_auth demo_ext)) ''jupyter-k8s'' ''workspace-ui'' 300000000000 1000000000 link_args) ''p'' = Inr ''tok''"
    by (simp add: demo_ext_def) (simp add: table_jwt_def)
  have env: "e_now (y_auth demo_ext) = (\<lambda>n. 1000000000 * int n)" "e_kms_generate (y_auth demo_ext) = (\<lambda>_ _ _. Inr (''p'', ''c''))"
    by (simp_all add: demo_ext_def kms_env_def quiet_env_def)
  show ?thesis
    by (simp add: CreateSigner_def link_strategy_def empty_as_spec_def createDefaultSigner_def NewKMSJWTManager_def State_Monad.update_def
      KMSSigner_def kms_GenerateToken_def GenerateDataKey_def kms_config_def ext_demo_server_def idle_auth_def env sign split: prod.split)
qed

lemma demo_connection:
  "\<exists>status w'. run_state (HandleConnectionCreate demo_ext ext_cluster ext_demo_server (post ''workspaceconnections'' ConnectionTypeWebUI)) demo_world =
     (Inr (Created \<lparr>cn_WorkspaceName = ''ws'', cn_WorkspaceConnectionType = ConnectionTypeWebUI\<rparr> status), w') \<and>
     cn_URL status = ''https://host/ws/bearer-auth?token=tok''"
proof -
  obtain w1 where w1: "run_state (EnsureResourcesInitialized demo_aws ext_cluster) demo_world = (Inr (Inr ()), w1)" "wd_hist w1 = []" "wd_auth w1 = idle_auth"
    using demo_initialize by blast
  obtain sg a1 a2 where sg: "run_state (CreateSigner (y_auth demo_ext) (xs_signerFactory ext_demo_server) (Some link_strategy)) idle_auth = (Inr sg, a1)"
      "run_state (sn_GenerateToken sg link_args) a1 = (Inr ''tok'', a2)"
    using demo_signer by blast
  have path: "claims_path ''/ws/bearer-auth'' = ''/ws''"
    by (simp add: claims_path_def has_suffix_def trim_suffix_def)
  have y: "y_aws demo_ext = demo_aws" "y_connection demo_ext b = Inr \<lparr>cn_WorkspaceName = ''ws'', cn_WorkspaceConnectionType = b\<rparr>"
      "y_url demo_ext u = Inr (''host'', ''/ws/bearer-auth'')" for b u
    by (simp_all add: demo_ext_def)
  have link: "as_BearerAuthURLTemplate (a_Spec link_strategy) = ''https://host/ws/bearer-auth''"
      "renderBearerAuthURL ext_cluster t ws as = Inr t" for t ws as
    by (simp_all add: link_strategy_def renderBearerAuthURL_def ext_cluster_def empty_server_def)
  have args: "\<lparr>ta_user = ''alice'', ta_groups = [], ta_uid = ''alice'', ta_extra = Map.empty, ta_path = ''/ws'',
     ta_domain = ''host'', ta_tokenType = TokenTypeBootstrap\<rparr> = link_args" by (simp add: link_args_def)
  show ?thesis
    by (simp add: HandleConnectionCreate_def create_connection_def y w1 post_fields post_namespace validateWorkspaceConnectionRequest_def
      demo_access generateWebUIBearerTokenURL_def post_user run_ext_getWorkspace get_private demo_strategy_found link sg path args Let_def)
qed

theorem connection_authorized_witness:
  "may_connect private_workspace ''alice'' \<and> ws_AccessType (w_Spec private_workspace) = ''OwnerOnly'' \<and>
     web_link demo_ext ext_cluster ext_demo_server idle_auth private_workspace link_strategy ''alice'' ''https://host/ws/bearer-auth?token=tok''"
proof -
  obtain status w' where run: "run_state (HandleConnectionCreate demo_ext ext_cluster ext_demo_server (post ''workspaceconnections'' ConnectionTypeWebUI)) demo_world =
     (Inr (Created \<lparr>cn_WorkspaceName = ''ws'', cn_WorkspaceConnectionType = ConnectionTypeWebUI\<rparr> status), w')"
     "cn_URL status = ''https://host/ws/bearer-auth?token=tok''"
    using demo_connection by blast
  have "ws_AccessType (w_Spec private_workspace) = ''OwnerOnly''" by (simp add: private_workspace_def)
  then show ?thesis
    using connection_authorized [OF run(1)] run(2)
    by (auto simp: post_namespace post_user get_private strategy_fetched_def private_workspace_def ext_cluster_def demo_world_def)
qed

text \<open>
  A remote connection is made to the first pod with the workspace's name in any namespace: here alice's request for
  the workspace of the namespace \<open>team\<close> opens a session for a pod of the namespace \<open>other\<close>.
\<close>

lemma vscode_pod_of_other_namespace:
  "\<exists>status w'. run_state (HandleConnectionCreate demo_ext ext_cluster ext_demo_server (post ''workspaceconnections'' ConnectionTypeVSCodeRemote)) demo_world =
     (Inr (Created \<lparr>cn_WorkspaceName = ''ws'', cn_WorkspaceConnectionType = ConnectionTypeVSCodeRemote\<rparr> status), w') \<and>
     SDescribeInstances WorkspacePodUIDTagKey (om_UID (pod_meta other_pod)) \<in> set (wd_ssm w') \<and> om_Namespace (pod_meta other_pod) = ''other''"
proof -
  obtain w1 where w1: "run_state (EnsureResourcesInitialized demo_aws ext_cluster) demo_world = (Inr (Inr ()), w1)" "wd_hist w1 = []" "wd_auth w1 = idle_auth"
    using demo_initialize by blast
  have y: "y_aws demo_ext = demo_aws" "y_connection demo_ext b = Inr \<lparr>cn_WorkspaceName = ''ws'', cn_WorkspaceConnectionType = b\<rparr>" for b
    by (simp_all add: demo_ext_def)
  have pod: "run_state (GetPodUIDFromWorkspaceName ext_cluster ''ws'') h = (Inr ''u9'', h @ [CListPods '''' [(LabelWorkspaceName, ''ws'')]])" for h
    by (simp add: GetPodUIDFromWorkspaceName_def ext_cluster_def other_pod_def)
  have ssm: "NewSSMRemoteAccessStrategy demo_aws NilInterface (Some NoOpPodExec) = Inr \<lparr>rs_ssmClient = Client, rs_podExecUtil = NoOpPodExec\<rparr>"
      "xc_ClusterId (xs_config ext_demo_server) = ''arn''"
    by (simp_all add: NewSSMRemoteAccessStrategy_def NewSSMClient_def demo_aws_def ext_demo_server_def NewExtensionConfig_def)
  have url: "\<exists>u w2. run_state (GenerateVSCodeConnectionURL demo_aws \<lparr>rs_ssmClient = Client, rs_podExecUtil = NoOpPodExec\<rparr> ''ws'' ''team'' ''u9'' ''arn'' link_strategy) w =
      (Inr (Inr u), w2) \<and> SDescribeInstances WorkspacePodUIDTagKey ''u9'' \<in> set (wd_ssm w2)" for w
    by (simp add: GenerateVSCodeConnectionURL_def FindInstanceByPodUID_def describeInstanceInformation_def ssm_method_def StartSession_def
      checkNumActiveSessions_def demo_aws_def link_strategy_def empty_as_spec_def map_get_def newest_first_def or_empty_def Let_def)
  obtain u w2 where "run_state (GenerateVSCodeConnectionURL demo_aws \<lparr>rs_ssmClient = Client, rs_podExecUtil = NoOpPodExec\<rparr> ''ws'' ''team'' ''u9'' ''arn'' link_strategy)
      (w1\<lparr>wd_hist := [CGetWorkspace (nn ''team'' ''ws''), CGetWorkspace (nn ''team'' ''ws''), CGetAccessStrategy (nn ''team'' ''web''),
         CListPods '''' [(LabelWorkspaceName, ''ws'')]]\<rparr>) = (Inr (Inr u), w2)" "SDescribeInstances WorkspacePodUIDTagKey ''u9'' \<in> set (wd_ssm w2)"
    using url by blast
  then show ?thesis
    by (simp add: HandleConnectionCreate_def create_connection_def y w1 post_fields post_namespace validateWorkspaceConnectionRequest_def
      demo_access generateVSCodeURL_def run_ext_getWorkspace get_private demo_strategy_found pod ssm other_pod_def)
qed
section \<open>Paths\<close>

lemma namespace_of_path:
  assumes "ns \<noteq> ''''" "CHR ''/'' \<notin> set ns"
  shows "GetNamespaceFromPath (xc_ApiPath default_ext_config @ ''/namespaces/'' @ ns @ ''/'' @ resource) = Inr ns"
proof -
  have "takeWhile (\<lambda>d. d \<noteq> CHR ''/'') (ns @ CHR ''/'' # resource) = ns"
    using assms(2) by (subst takeWhile_append2) auto
  then show ?thesis using assms(1) by (simp add: GetNamespaceFromPath_def default_ext_config_def Let_def)
qed

text \<open>
  The discovery document lists \<open>connectionaccessreviews\<close>, but requests for a resource of that name are not served.
\<close>

lemma discovered_review_not_served:
  assumes "run_state handleDiscovery w = (Inr (Discovery gv rs), w')"
  shows "''connectionaccessreviews'' \<in> fst ` set rs" "namespaced_handler y k s (post ''connectionaccessreviews'' body) = pret NotFoundPage"
proof -
  show "''connectionaccessreviews'' \<in> fst ` set rs"
    using assms by (auto simp: handleDiscovery_def)
  show "namespaced_handler y k s (post ''connectionaccessreviews'' body) = pret NotFoundPage"
    by (simp add: namespaced_handler_def post_namespace) (simp add: post_def Let_def)
qed

text \<open>A private workspace with no recorded creator admits a review for the empty user name.\<close>

lemma ownerless_private_workspace:
  "om_Annotations (w_meta ws) = None \<Longrightarrow> may_connect ws '''' \<and> (user \<noteq> '''' \<longrightarrow> ws_AccessType (w_Spec ws) = ''OwnerOnly'' \<longrightarrow> \<not> may_connect ws user)"
  by (simp add: may_connect_def getWorkspaceOwner_def)

end
