(* ===== verification/Manager.thy ===== *)
theory Manager
  imports Requests Webhooks AuthMiddleware ExtensionApi
begin

text \<open>
  The manager process (\<open>cmd/main.go\<close>): its flags, the options it derives from them, what it registers, and the
  runs of the whole process as a transition relation over the handlers it registered.

  Parsing of the command line, the construction of the manager and the registration calls of controller-runtime are the fields of
  \<open>main_env\<close>, which say whether each of them fails. A step of the process handles one event: a reconciliation
  request, an event of a watched object, an admission request or a request to the extension API. The process may also be
  restarted between two events; then its memory is lost. Which events occur, in which order and how often, is arbitrary.
\<close>

section \<open>Flags and options\<close>

record manager_flags =
  mf_metricsAddr :: string
  mf_probeAddr :: string
  mf_enableLeaderElection :: bool
  mf_secureMetrics :: bool
  mf_webhookCertPath :: string
  mf_webhookCertName :: string
  mf_webhookCertKey :: string
  mf_metricsCertPath :: string
  mf_metricsCertName :: string
  mf_metricsCertKey :: string
  mf_enableHTTP2 :: bool
  mf_applicationImagesPullPolicy :: string
  mf_applicationImagesRegistry :: string
  mf_watchTraefik :: bool
  mf_enableExtensionAPI :: bool
  mf_watchResourcesGVK :: string
  mf_enableWorkspacePodWatching :: bool
  mf_defaultTemplateNamespace :: string

definition default_flags :: manager_flags where
  "default_flags = \<lparr>mf_metricsAddr = ''0'', mf_probeAddr = '':8081'', mf_enableLeaderElection = False, mf_secureMetrics = True,
     mf_webhookCertPath = '''', mf_webhookCertName = ''tls.crt'', mf_webhookCertKey = ''tls.key'',
     mf_metricsCertPath = '''', mf_metricsCertName = ''tls.crt'', mf_metricsCertKey = ''tls.key'', mf_enableHTTP2 = False,
     mf_applicationImagesPullPolicy = '''', mf_applicationImagesRegistry = '''', mf_watchTraefik = False, mf_enableExtensionAPI = False,
     mf_watchResourcesGVK = '''', mf_enableWorkspacePodWatching = False, mf_defaultTemplateNamespace = ''''\<rparr>"

text \<open>The options of the two servers; the only TLS option is the one that leaves HTTP/1.1 as the only protocol.\<close>

record server_options =
  so_BindAddress :: string
  so_SecureServing :: bool
  so_onlyHTTP1 :: bool
  so_authenticated :: bool
  so_CertDir :: string
  so_CertName :: string
  so_KeyName :: string

definition webhook_server_options :: "manager_flags \<Rightarrow> server_options" where
  "webhook_server_options f = (let hasCert = length (mf_webhookCertPath f) > 0 in
     \<lparr>so_BindAddress = '''', so_SecureServing = True, so_onlyHTTP1 = (\<not> mf_enableHTTP2 f), so_authenticated = False,
      so_CertDir = (if hasCert then mf_webhookCertPath f else ''''),
      so_CertName = (if hasCert then mf_webhookCertName f else ''''),
      so_KeyName = (if hasCert then mf_webhookCertKey f else '''')\<rparr>)"

definition metrics_server_options :: "manager_flags \<Rightarrow> server_options" where
  "metrics_server_options f = (let hasCert = length (mf_metricsCertPath f) > 0 in
     \<lparr>so_BindAddress = mf_metricsAddr f, so_SecureServing = mf_secureMetrics f, so_onlyHTTP1 = (\<not> mf_enableHTTP2 f),
      so_authenticated = mf_secureMetrics f,
      so_CertDir = (if hasCert then mf_metricsCertPath f else ''''),
      so_CertName = (if hasCert then mf_metricsCertName f else ''''),
      so_KeyName = (if hasCert then mf_metricsCertKey f else '''')\<rparr>)"

definition getImagePullPolicy :: "string \<Rightarrow> string" where
  "getImagePullPolicy policyStr = (let p = ToLower policyStr in
     if p = ''always'' then ''Always''
     else if p = ''never'' then ''Never''
     else if p = ''ifnotpresent'' then ''IfNotPresent''
     else ''IfNotPresent'')"

fun parse_watches :: "string list \<Rightarrow> gvk list \<Rightarrow> gvk list res" where
  "parse_watches [] watches = Inr watches"
| "parse_watches (item # items) watches = (let parts = split_char CHR ''/'' item in
     if length parts \<noteq> 3
     then Inl (Msg (''invalid GVK format: '' @ item @ ''. Expected format: group/version/kind''))
     else parse_watches items (watches @ [\<lparr>gvk_Group = parts ! 0, gvk_Version = parts ! 1, gvk_Kind = parts ! 2\<rparr>]))"

definition parseGVKWatches :: "string \<Rightarrow> gvk list res" where
  "parseGVKWatches gvkList = (if gvkList = '''' then Inr [] else parse_watches (split_char CHR '','' gvkList) [])"

definition manager_options :: "manager_flags \<Rightarrow> gvk list \<Rightarrow> controller_options" where
  "manager_options f watches = \<lparr>co_ApplicationImagesPullPolicy = getImagePullPolicy (mf_applicationImagesPullPolicy f),
     co_ApplicationImagesRegistry = mf_applicationImagesRegistry f, co_WatchTraefik = mf_watchTraefik f,
     co_ResourceWatches = watches, co_EnableWorkspacePodWatching = mf_enableWorkspacePodWatching f,
     co_DefaultTemplateNamespace = mf_defaultTemplateNamespace f\<rparr>"

section \<open>Registrations\<close>

text \<open>
  What a controller watches: its own kind, objects it owns (by API version and kind), and objects whose events are mapped to
  requests by a function of the controller.
\<close>

datatype watch =
    For string
  | Owns string string
  | Watches string string

definition workspace_SetupWithManager :: "controller_options \<Rightarrow> watch list" where
  "workspace_SetupWithManager options =
     [For ''Workspace'', Owns ''apps/v1'' ''Deployment'', Owns ''v1'' ''Service'', Owns ''v1'' ''PersistentVolumeClaim'',
      Watches ''WorkspaceAccessStrategy'' ''accessStrategyEventHandler''] @
     (if co_EnableWorkspacePodWatching options
      then [Watches ''Pod'' ''HandleWorkspacePodEvents'', Watches ''Event'' ''HandleKubernetesEvents''] else []) @
     (if co_WatchTraefik options
      then [Owns ''networking.k8s.io/v1'' ''NetworkPolicy'', Owns ''traefik.io/v1alpha1'' ''IngressRoute'',
            Owns ''traefik.io/v1alpha1'' ''Middleware''] else []) @
     map (\<lambda>g. Owns (gvk_APIVersion g) (gvk_Kind g)) (co_ResourceWatches options)"

definition template_SetupWithManager :: "watch list" where
  "template_SetupWithManager = [For ''WorkspaceTemplate'', Watches ''Workspace'' ''findTemplatesForWorkspace'']"

definition access_strategy_SetupWithManager :: "watch list" where
  "access_strategy_SetupWithManager = [For ''WorkspaceAccessStrategy'', Watches ''Workspace'' ''findAccessStrategiesForWorkspace'']"

text \<open>The routes of the extension server: a path or a prefix, and what handles it.\<close>

datatype ext_route = HealthRoute | DiscoveryRoute | NamespacedRoute

definition registerRoute :: "string \<Rightarrow> string" where
  "registerRoute name = (if has_prefix name ''/'' then name else ''/'' @ name)"

definition registerAllRoutes :: "ext_config \<Rightarrow> (string \<times> bool \<times> ext_route) list" where
  "registerAllRoutes config =
     [(registerRoute ''/health'', False, HealthRoute), (registerRoute (xc_ApiPath config), False, DiscoveryRoute),
      (xc_ApiPath config @ ''/namespaces/'', True, NamespacedRoute)]"

definition serve_route :: "ext_env \<Rightarrow> client \<Rightarrow> ext_server \<Rightarrow> ext_route \<Rightarrow> ext_request \<Rightarrow> response pio" where
  "serve_route y k s rt r = (case rt of
     HealthRoute \<Rightarrow> handleHealth
   | DiscoveryRoute \<Rightarrow> handleDiscovery
   | NamespacedRoute \<Rightarrow> namespaced_handler y k s r)"

text \<open>Which routes a path matches; the choice between them is the multiplexer's.\<close>

definition matching_routes :: "ext_config \<Rightarrow> string \<Rightarrow> ext_route list" where
  "matching_routes config path =
     [rt. (pattern, isPrefix, rt) \<leftarrow> registerAllRoutes config, if isPrefix then has_prefix path pattern else path = pattern]"

text \<open>The serving options of the extension server: the port and the key pair of its configuration.\<close>

record serving_options =
  sn_BindPort :: int
  sn_CertDirectory :: string
  sn_CertFile :: string
  sn_KeyFile :: string
  sn_PairName :: string

definition createRecommendedOptions :: "ext_config \<Rightarrow> serving_options" where
  "createRecommendedOptions config = \<lparr>sn_BindPort = xc_ServerPort config, sn_CertDirectory = '''', sn_CertFile = xc_CertPath config,
     sn_KeyFile = xc_KeyPath config, sn_PairName = ''tls''\<rparr>"

text \<open>
  The outcome of each call of the libraries: an error or none, by the name of what is set up, and for the serving options by their values.
\<close>

record main_env =
  me_client :: client
  me_library :: "string \<Rightarrow> goerr option"
  me_apply :: "serving_options \<Rightarrow> goerr option"
  me_auth :: auth_env

record manager_plan =
  pl_options :: controller_options
  pl_watches :: "watch list"
  pl_webhooks :: "string list"
  pl_extension :: "ext_server option"
  pl_webhook_server :: "server_options option"
  pl_metrics_server :: "server_options option"

definition library :: "main_env \<Rightarrow> string \<Rightarrow> unit res" where
  "library m what = del_res (me_library m what)"

definition createSARClient :: "main_env \<Rightarrow> unit res" where
  "createSARClient m = (case library m ''sar client'' of
     Inl err \<Rightarrow> Inl (Wrap ''failed to instantiate the sar client'' err)
   | Inr x \<Rightarrow> Inr x)"

definition createGenericAPIServer :: "main_env \<Rightarrow> serving_options \<Rightarrow> unit res" where
  "createGenericAPIServer m recommendedOptions = (case del_res (me_apply m recommendedOptions) of
     Inl err \<Rightarrow> Inl (Wrap ''failed to apply recommended options'' err)
   | Inr _ \<Rightarrow> (case library m ''generic server'' of
       Inl err \<Rightarrow> Inl (Wrap ''failed to create generic API server'' err)
     | Inr x \<Rightarrow> Inr x))"

definition addServerToManager :: "main_env \<Rightarrow> ext_server \<Rightarrow> ext_server res" where
  "addServerToManager m server = (case library m ''add extension server'' of
     Inl err \<Rightarrow> Inl (Wrap ''failed to add extension API server to manager'' err)
   | Inr _ \<Rightarrow> Inr server)"

definition NewExtensionServer :: "ext_config \<Rightarrow> signer_factory \<Rightarrow> ext_server" where
  "NewExtensionServer config signerFactory = \<lparr>xs_config = config, xs_signerFactory = signerFactory\<rparr>"

text \<open>Its routes are those of \<open>registerAllRoutes\<close> for the configuration it keeps.\<close>

definition createExtensionServer :: "ext_config \<Rightarrow> signer_factory \<Rightarrow> ext_server" where
  "createExtensionServer config signerFactory = NewExtensionServer config signerFactory"

definition SetupExtensionAPIServerWithManager :: "main_env \<Rightarrow> ext_config option \<Rightarrow> ext_server res" where
  "SetupExtensionAPIServerWithManager m given = (let config = (case given of None \<Rightarrow> NewExtensionConfig [] | Some c \<Rightarrow> c) in
   case createJWTSignerFactory (me_auth m) config of
     Inl err \<Rightarrow> Inl err
   | Inr signerFactory \<Rightarrow> (case createSARClient m of
       Inl err \<Rightarrow> Inl err
     | Inr _ \<Rightarrow> (case createGenericAPIServer m (createRecommendedOptions config) of
         Inl err \<Rightarrow> Inl err
       | Inr _ \<Rightarrow> addServerToManager m (createExtensionServer config signerFactory))))"

text \<open>A step of the setup that ends the process with status 1 when it fails.\<close>

definition or_exit :: "'a res \<Rightarrow> string \<Rightarrow> ('a \<Rightarrow> string + 'b) \<Rightarrow> string + 'b" where
  "or_exit r msg f = (case r of Inl _ \<Rightarrow> Inl msg | Inr x \<Rightarrow> f x)"

definition setup_webhooks :: "main_env \<Rightarrow> string + string list" where
  "setup_webhooks m =
     or_exit (if k_getenv (me_client m) ''ENABLE_WORKSPACE_WEBHOOK'' \<noteq> ''false'' then library m ''Workspace webhook'' else Inr ())
       ''unable to create webhook'' (\<lambda>_.
     or_exit (if k_getenv (me_client m) ''ENABLE_WORKSPACE_WEBHOOK'' \<noteq> ''false'' then del_res (SetupPodExecWebhookWithManager (me_client m)) else Inr ())
       ''unable to create webhook'' (\<lambda>_.
     or_exit (if k_getenv (me_client m) ''ENABLE_WORKSPACE_TEMPLATE_WEBHOOK'' \<noteq> ''false'' then library m ''WorkspaceTemplate webhook'' else Inr ())
       ''unable to create webhook'' (\<lambda>_.
     Inr ((if k_getenv (me_client m) ''ENABLE_WORKSPACE_WEBHOOK'' \<noteq> ''false'' then [''Workspace'', ''PodExec''] else []) @
          (if k_getenv (me_client m) ''ENABLE_WORKSPACE_TEMPLATE_WEBHOOK'' \<noteq> ''false'' then [''WorkspaceTemplate''] else [])))))"

definition setup_extension :: "main_env \<Rightarrow> manager_flags \<Rightarrow> string + ext_server option" where
  "setup_extension m f =
     (if mf_enableExtensionAPI f
      then or_exit (SetupExtensionAPIServerWithManager m (Some (NewExtensionConfig [WithServerPort 7443,
             WithClusterId (k_getenv (me_client m) ''CLUSTER_ID''), WithKMSKeyID (k_getenv (me_client m) ''KMS_KEY_ID''),
             WithDomain (k_getenv (me_client m) ''DOMAIN'')])))
             ''unable to create extension API server'' (\<lambda>x. Inr (Some x))
      else Inr None)"

definition main_setup :: "main_env \<Rightarrow> manager_flags \<Rightarrow> string + manager_plan" where
  "main_setup m f =
     or_exit (library m ''manager'') ''unable to start manager'' (\<lambda>_.
     or_exit (parseGVKWatches (mf_watchResourcesGVK f)) ''Error parsing GVK watches'' (\<lambda>gvkWatches.
     let options = manager_options f gvkWatches in
     or_exit (library m ''Workspace controller'') ''unable to create controller'' (\<lambda>_.
     or_exit (library m ''WorkspaceTemplate controller'') ''unable to create controller'' (\<lambda>_.
     or_exit (library m ''WorkspaceAccessStrategy controller'') ''unable to create controller'' (\<lambda>_.
     case setup_webhooks m of Inl msg \<Rightarrow> Inl msg | Inr webhooks \<Rightarrow>
     (case setup_extension m f of Inl msg \<Rightarrow> Inl msg | Inr extension \<Rightarrow>
     or_exit (library m ''healthz'') ''unable to set up health check'' (\<lambda>_.
     or_exit (library m ''readyz'') ''unable to set up ready check'' (\<lambda>_.
     Inr \<lparr>pl_options = options,
          pl_watches = workspace_SetupWithManager options @ template_SetupWithManager @ access_strategy_SetupWithManager,
          pl_webhooks = webhooks, pl_extension = extension, pl_webhook_server = Some (webhook_server_options f),
          pl_metrics_server = Some (metrics_server_options f)\<rparr>))))))))"

text \<open>
  The second entry point of the repository (\<open>cmd/manager/main.go\<close>) registers the controllers only, with the defaults of the library
  for its servers. It has its own flags, of which the one that requires templates and the address of the metrics are read and not
  used, and its own copies of the two parsing functions.
\<close>

record controllers_flags =
  cf_metricsAddr :: string
  cf_enableLeaderElection :: bool
  cf_probeAddr :: string
  cf_applicationImagesPullPolicy :: string
  cf_applicationImagesRegistry :: string
  cf_requireTemplate :: bool
  cf_watchTraefik :: bool
  cf_watchResourcesGVK :: string

definition default_controllers_flags :: controllers_flags where
  "default_controllers_flags = \<lparr>cf_metricsAddr = '':8080'', cf_enableLeaderElection = False, cf_probeAddr = '':8081'',
     cf_applicationImagesPullPolicy = '''', cf_applicationImagesRegistry = '''', cf_requireTemplate = False, cf_watchTraefik = False,
     cf_watchResourcesGVK = ''''\<rparr>"

fun controllers_parse_watches :: "string list \<Rightarrow> gvk list \<Rightarrow> gvk list res" where
  "controllers_parse_watches [] watches = Inr watches"
| "controllers_parse_watches (item # items) watches = (let parts = split_char CHR ''/'' item in
     if length parts \<noteq> 3
     then Inl (Msg (''invalid GVK format: '' @ item @ ''. Expected format: group/version/kind''))
     else controllers_parse_watches items (watches @ [\<lparr>gvk_Group = parts ! 0, gvk_Version = parts ! 1, gvk_Kind = parts ! 2\<rparr>]))"

definition controllers_parseGVKWatches :: "string \<Rightarrow> gvk list res" where
  "controllers_parseGVKWatches gvkList =
     (if gvkList = '''' then Inr [] else controllers_parse_watches (split_char CHR '','' gvkList) [])"

definition controllers_getImagePullPolicy :: "string \<Rightarrow> string" where
  "controllers_getImagePullPolicy policyStr = (let p = ToLower policyStr in
     if p = ''always'' then ''Always''
     else if p = ''never'' then ''Never''
     else if p = ''ifnotpresent'' then ''IfNotPresent''
     else ''IfNotPresent'')"

definition controllers_setup :: "main_env \<Rightarrow> controllers_flags \<Rightarrow> string + manager_plan" where
  "controllers_setup m f =
     or_exit (library m ''kubeconfig'') ''Error getting kubeconfig'' (\<lambda>_.
     or_exit (library m ''manager'') ''Error creating manager'' (\<lambda>_.
     or_exit (library m ''healthz'') ''Error setting up health check'' (\<lambda>_.
     or_exit (library m ''readyz'') ''Error setting up ready check'' (\<lambda>_.
     or_exit (controllers_parseGVKWatches (cf_watchResourcesGVK f)) ''Error parsing GVK watches'' (\<lambda>gvkWatches.
     let options = \<lparr>co_ApplicationImagesPullPolicy = controllers_getImagePullPolicy (cf_applicationImagesPullPolicy f),
           co_ApplicationImagesRegistry = cf_applicationImagesRegistry f, co_WatchTraefik = cf_watchTraefik f,
           co_ResourceWatches = gvkWatches, co_EnableWorkspacePodWatching = False, co_DefaultTemplateNamespace = ''''\<rparr> in
     or_exit (library m ''Workspace controller'') ''Error setting up workspace controller'' (\<lambda>_.
     or_exit (library m ''WorkspaceTemplate controller'') ''Error setting up workspace template controller'' (\<lambda>_.
     or_exit (library m ''WorkspaceAccessStrategy controller'') ''Error setting up workspace access strategy controller'' (\<lambda>_.
     Inr \<lparr>pl_options = options,
          pl_watches = workspace_SetupWithManager options @ template_SetupWithManager @ access_strategy_SetupWithManager,
          pl_webhooks = [], pl_extension = None, pl_webhook_server = None, pl_metrics_server = None\<rparr>))))))))"

section \<open>The middleware process\<close>

text \<open>
  \<open>cmd/authmiddleware/main.go\<close>, up to listening: the server it starts, or the message with which it ends. Whether a
  Kubernetes client could be made is the argument \<open>restClient\<close>.
\<close>

definition middleware_main :: "bool \<Rightarrow> auth_env \<Rightarrow> (string + server) auth_io" where
  "middleware_main restClient e = (case NewConfig e of
     Inl _ \<Rightarrow> State_Monad.return (Inl ''Failed to load configuration'')
   | Inr cfg \<Rightarrow> bind_ok (NewJWTHandler e (Some cfg)) (\<lambda>_. ''Failed to create JWT handler'') (\<lambda>jwtHandler.
       case NewCookieManager cfg of
         Inl _ \<Rightarrow> State_Monad.return (Inl ''Failed to create cookie manager'')
       | Inr cookieManager \<Rightarrow> bind_ok (server_Start e (NewServer restClient cfg jwtHandler cookieManager)) (\<lambda>_. ''Server failed'')
           (\<lambda>s. State_Monad.return (Inr s))))"

section \<open>Runs of the process\<close>

datatype event =
    ReconcileWorkspace nsname
  | ReconcileTemplate nsname
  | ReconcileAccessStrategy nsname
  | AccessStrategyEvent access_strategy
  | PodEvent pod
  | ClusterEvent k8s_event
  | AdmitDefault admission_ctx runtime_object
  | AdmitCreate admission_ctx runtime_object
  | AdmitUpdate admission_ctx runtime_object runtime_object
  | AdmitExec admission_request
  | ApiRequest ext_route ext_request

text \<open>Which events reach a handler: what is watched and registered, and the predicates of the watches.\<close>

fun delivered :: "manager_plan \<Rightarrow> event \<Rightarrow> bool" where
  "delivered p (ReconcileWorkspace _) = (For ''Workspace'' \<in> set (pl_watches p))"
| "delivered p (ReconcileTemplate _) = (For ''WorkspaceTemplate'' \<in> set (pl_watches p))"
| "delivered p (ReconcileAccessStrategy _) = (For ''WorkspaceAccessStrategy'' \<in> set (pl_watches p))"
| "delivered p (AccessStrategyEvent _) = (Watches ''WorkspaceAccessStrategy'' ''accessStrategyEventHandler'' \<in> set (pl_watches p))"
| "delivered p (PodEvent pod) = (Watches ''Pod'' ''HandleWorkspacePodEvents'' \<in> set (pl_watches p) \<and> watched_pod pod)"
| "delivered p (ClusterEvent ev) = (Watches ''Event'' ''HandleKubernetesEvents'' \<in> set (pl_watches p) \<and> watched_event ev)"
| "delivered p (AdmitDefault _ _) = (''Workspace'' \<in> set (pl_webhooks p))"
| "delivered p (AdmitCreate _ _) = (''Workspace'' \<in> set (pl_webhooks p))"
| "delivered p (AdmitUpdate _ _ _) = (''Workspace'' \<in> set (pl_webhooks p))"
| "delivered p (AdmitExec _) = (''PodExec'' \<in> set (pl_webhooks p))"
| "delivered p (ApiRequest rt r) = (case pl_extension p of
     None \<Rightarrow> False
   | Some s \<Rightarrow> rt \<in> set (matching_routes (xs_config s) (xr_Path r)))"

record process =
  pr_client :: client
  pr_plan :: manager_plan
  pr_decoders :: idle_decoders
  pr_ext :: ext_env

definition cluster_step :: "'a io \<Rightarrow> unit pio" where
  "cluster_step m = pbind (on_cluster m) (\<lambda>_. pret ())"

fun handle :: "process \<Rightarrow> event \<Rightarrow> unit pio" where
  "handle p (ReconcileWorkspace req) = cluster_step (Reconcile (pr_client p) (pl_options (pr_plan p)) (pr_decoders p) req)"
| "handle p (ReconcileTemplate req) = cluster_step (template_Reconcile (pr_client p) req)"
| "handle p (ReconcileAccessStrategy req) = cluster_step (access_strategy_Reconcile (pr_client p) req)"
| "handle p (AccessStrategyEvent a) = cluster_step (accessStrategyEventHandler (pr_client p) a)"
| "handle p (PodEvent pod) = pbind (HandleWorkspacePodEvents (y_aws (pr_ext p)) (pr_client p) (NewPodEventHandler (y_aws (pr_ext p)) (pr_client p)) pod) (\<lambda>_. pret ())"
| "handle p (ClusterEvent ev) = cluster_step (HandleKubernetesEvents (pr_client p) ev)"
| "handle p (AdmitDefault ctx obj) =
     cluster_step (Default (pr_client p) (co_DefaultTemplateNamespace (pl_options (pr_plan p))) ctx obj)"
| "handle p (AdmitCreate ctx obj) =
     cluster_step (ValidateCreate (pr_client p) (co_DefaultTemplateNamespace (pl_options (pr_plan p))) ctx obj)"
| "handle p (AdmitUpdate ctx old new) =
     cluster_step (ValidateUpdate (pr_client p) (co_DefaultTemplateNamespace (pl_options (pr_plan p))) ctx old new)"
| "handle p (AdmitExec req) = cluster_step (exec_Handle (pr_client p) req)"
| "handle p (ApiRequest rt r) = (case pl_extension (pr_plan p) of
     None \<Rightarrow> pret ()
   | Some s \<Rightarrow> pbind (serve_route (pr_ext p) (pr_client p) s rt r) (\<lambda>_. pret ()))"

text \<open>What a restart leaves: the effects on the outside, and none of the memory of the process.\<close>

definition restarted :: "world \<Rightarrow> world" where
  "restarted w = w\<lparr>wd_once := False, wd_initializer := None,
     wd_auth := (wd_auth w)\<lparr>at_keyCache := [], at_cacheExpiry := [], at_lastCleanup := 0\<rparr>\<rparr>"

inductive process_step :: "process \<Rightarrow> world \<Rightarrow> world \<Rightarrow> bool" for p where
  handled: "delivered (pr_plan p) ev \<Longrightarrow> run_state (handle p ev) w = (r, w') \<Longrightarrow> process_step p w w'"
| restart: "process_step p w (restarted w)"

inductive process_run :: "process \<Rightarrow> world \<Rightarrow> world \<Rightarrow> bool" for p where
  start: "process_run p w w"
| continue: "process_run p w w1 \<Longrightarrow> process_step p w1 w2 \<Longrightarrow> process_run p w w2"

inductive_cases process_stepE: "process_step p w w'"

section \<open>Requests of the handlers\<close>

text \<open>The calculus of \<^const>\<open>adds_only\<close> for computations over the world.\<close>

abbreviation requests :: "(api_call \<Rightarrow> bool) \<Rightarrow> 'a pio \<Rightarrow> bool" where
  "requests P \<equiv> state_io_rel (\<lambda>w w'. adds_only P (wd_hist w) (wd_hist w'))"

lemma requests_bind:
  assumes "requests P m" "\<And>x. requests P (f x)"
  shows "requests P (m \<bind> f)"
proof (rule state_io_rel_bind [OF _ assms])
  show "transp (\<lambda>w w'. adds_only P (wd_hist w) (wd_hist w'))"
    using transp_adds_only [of P] unfolding transp_def by blast
qed

lemma requests_return: "requests P (State_Monad.return x)"
  by (simp add: state_io_rel_def adds_only_def)

lemma requests_pret [intro]: "requests P (pret x)" "requests P (panic q)"
  by (simp_all add: pret_def panic_def requests_return)

lemma requests_pbind [intro]: "requests P m \<Longrightarrow> (\<And>x. requests P (f x)) \<Longrightarrow> requests P (pbind m f)"
  unfolding pbind_def by (rule requests_bind) (auto simp: requests_return split: sum.split)

lemma requests_pok [intro]: "requests P m \<Longrightarrow> (\<And>x. requests P (f x)) \<Longrightarrow> requests P (pok m g f)"
  unfolding pok_def by (rule requests_pbind) (auto split: sum.split)

lemma requests_cluster [intro]: "issues_only P m \<Longrightarrow> requests P (on_cluster m)"
  by (auto simp: state_io_rel_def adds_only_def)

lemma requests_outside [intro]:
  "requests P (on_service f c)" "requests P (on_auth a)" "requests P (on_sar g s)"
  by (simp_all add: state_io_rel_def adds_only_def)

lemma requests_world [intro]: "(\<And>w. wd_hist (snd (f w)) = wd_hist w) \<Longrightarrow> requests P (on_world f)"
  by (simp add: state_io_rel_def adds_only_def)

lemma requests_method [intro]: "requests P m \<Longrightarrow> requests P (ssm_method c m)"
  by (auto simp: ssm_method_def)

lemma requests_if [intro]: "(c \<Longrightarrow> requests P a) \<Longrightarrow> (\<not> c \<Longrightarrow> requests P b) \<Longrightarrow> requests P (if c then a else b)"
  by simp

lemma requests_sum [intro]:
  "(\<And>e. x = Inl e \<Longrightarrow> requests P (a e)) \<Longrightarrow> (\<And>y. x = Inr y \<Longrightarrow> requests P (b y)) \<Longrightarrow>
   requests P (case x of Inl e \<Rightarrow> a e | Inr y \<Rightarrow> b y)"
  by (simp split: sum.split)

lemma requests_option [intro]:
  "(x = None \<Longrightarrow> requests P a) \<Longrightarrow> (\<And>y. x = Some y \<Longrightarrow> requests P (b y)) \<Longrightarrow>
   requests P (case x of None \<Rightarrow> a | Some y \<Rightarrow> b y)"
  by (simp split: option.split)

lemma requests_prod [intro]:
  "(\<And>a b. x = (a, b) \<Longrightarrow> requests P (f a b)) \<Longrightarrow> requests P (case x of (a, b) \<Rightarrow> f a b)"
  by (cases x) simp

lemma requests_count_failures [intro]: "(\<And>y. requests P (f y)) \<Longrightarrow> requests P (count_failures f ys)"
  by (induction ys) auto

lemmas requests_intros = requests_pret requests_pbind requests_pok requests_cluster requests_outside requests_world
  requests_method requests_if requests_sum requests_option requests_prod requests_count_failures

lemma reads_only:
  "issues_only keeps_children (HasActiveWorkspacesWithTemplate k n ns)"
  "issues_only keeps_children (HasActiveWorkspacesWithAccessStrategy k n ns)"
  "issues_only keeps_children (GetWorkspaceReconciliationRequestsForAccessStrategy k n ns)"
  "issues_only keeps_children (GetPodUIDFromWorkspaceName k n)"
  "issues_only keeps_children (ResolveTemplate k d ref ns)"
  "issues_only keeps_children (ListActiveWorkspacesByTemplate k n ns c l)"
  by (auto simp: HasActiveWorkspacesWithTemplate_def ListActiveWorkspacesByTemplate_def HasActiveWorkspacesWithAccessStrategy_def
      ListActiveWorkspacesByAccessStrategy_def GetWorkspaceReconciliationRequestsForAccessStrategy_def GetPodUIDFromWorkspaceName_def
      ResolveTemplate_def Let_def intro!: issues_intros split: list.split)

lemma finalizer_writes:
  "issues_only keeps_children (SafelyAddFinalizerToAccessStrategy k a)"
  "issues_only keeps_children (SafelyRemoveFinalizerFromAccessStrategy k a b)"
  by (auto simp: SafelyAddFinalizerToAccessStrategy_def SafelyRemoveFinalizerFromAccessStrategy_def Let_def intro!: issues_intros)

lemma controllers_keep_children:
  "issues_only keeps_children (template_Reconcile k req)"
  "issues_only keeps_children (access_strategy_Reconcile k req)"
  "issues_only keeps_children (accessStrategyEventHandler k a)"
  "issues_only keeps_children (HandleKubernetesEvents k ev)"
     apply (auto simp: template_Reconcile_def template_handleDeletion_def manageFinalizer_def updateStatusObservedGeneration_def Let_def
      intro!: issues_intros reads_only)[1]
    apply (auto simp: access_strategy_Reconcile_def access_strategy_manage_def Let_def intro!: issues_intros reads_only finalizer_writes)[1]
   apply (auto simp: accessStrategyEventHandler_def intro!: issues_intros reads_only)[1]
  apply (auto simp: HandleKubernetesEvents_def updateWorkspaceDesiredStatus_def Let_def intro!: issues_intros)[1]
  done

lemma ownership_loop_keeps: "issues_only keeps_children (ownership_loop k w vs)"
  by (induction vs) (auto simp: Let_def intro!: issues_intros)

lemma ValidateCreateWorkspace_keeps: "issues_only keeps_children (ValidateCreateWorkspace k d w)"
  by (auto simp: ValidateCreateWorkspace_def ResolveTemplateForWorkspace_def Let_def intro!: issues_intros reads_only)

lemma validators_keep_children:
  "issues_only keeps_children (ValidateVolumeOwnership k w)"
  "issues_only keeps_children (ValidateServiceAccountAccess k ctx w)"
  "issues_only keeps_children (ValidateUpdateWorkspace k d w w')"
    apply (auto simp: ValidateVolumeOwnership_def validateVolumeOwnership_def intro!: issues_intros ownership_loop_keeps)[1]
   apply (auto simp: ValidateServiceAccountAccess_def GetDefaultServiceAccount_def Let_def intro!: issues_intros)[1]
  unfolding ValidateUpdateWorkspace_def ResolveTemplateForWorkspace_def Let_def
  apply (intro issues_only_if issues_intros reads_only ValidateCreateWorkspace_keeps issues_only_return issues_only_lift)
  done

lemma defaulters_keep_children:
  "issues_only keeps_children (ApplyTemplateDefaults k d w)"
  "issues_only keeps_children (ApplyTemplateName k w)"
  "issues_only keeps_children (ApplyServiceAccountDefaults k w)"
  "issues_only keeps_children (ensureTemplateFinalizer k n ns)"
  "issues_only keeps_children (ensureAccessStrategyFinalizer k w)"
      apply (auto simp: ApplyTemplateDefaults_def ResolveTemplateForWorkspace_def Let_def intro!: issues_intros reads_only)[1]
     apply (auto simp: ApplyTemplateName_def Let_def intro!: issues_intros)[1]
    apply (auto simp: ApplyServiceAccountDefaults_def GetDefaultServiceAccount_def Let_def intro!: issues_intros)[1]
   apply (auto simp: ensureTemplateFinalizer_def Let_def intro!: issues_intros reads_only)[1]
  apply (auto simp: ensureAccessStrategyFinalizer_def Let_def intro!: issues_intros finalizer_writes)[1]
  done

lemma webhooks_keep_children:
  "issues_only keeps_children (Default k d ctx obj)"
  "issues_only keeps_children (ValidateCreate k d ctx obj)"
  "issues_only keeps_children (ValidateUpdate k d ctx obj obj')"
  "issues_only keeps_children (exec_Handle k req)"
     apply (auto simp: Default_def Let_def intro!: issues_intros defaulters_keep_children split: runtime_object.split)[1]
    apply (auto simp: ValidateCreate_def and_then_def intro!: issues_intros validators_keep_children ValidateCreateWorkspace_keeps split: runtime_object.split)[1]
   apply (auto simp: ValidateUpdate_def and_then_def intro!: issues_intros validators_keep_children split: runtime_object.split)[1]
  apply (auto simp: exec_Handle_def Let_def intro!: issues_intros)[1]
  done

lemma service_requests:
  "requests P (describeInstanceInformation x u)" "requests P (FindInstanceByPodUID x c u)" "requests P (checkNumActiveSessions x i)"
  "requests P (StartSession x c i d port)" "requests P (CreateActivation x c ds n r ts)" "requests P (CleanupSSMManagedNodes x s p)"
  "requests P (EnsureResourcesInitialized x k)"
        apply (auto simp: describeInstanceInformation_def intro!: requests_intros)[1]
       apply (auto simp: FindInstanceByPodUID_def describeInstanceInformation_def Let_def intro!: requests_intros)[1]
      apply (auto simp: checkNumActiveSessions_def Let_def intro!: requests_intros)[1]
     apply (auto simp: StartSession_def checkNumActiveSessions_def Let_def intro!: requests_intros)[1]
    apply (auto simp: CreateActivation_def Let_def intro!: requests_intros)[1]
   apply (auto simp: CleanupSSMManagedNodes_def CleanupManagedInstancesByPodUID_def CleanupActivationsByPodUID_def
      describeInstanceInformation_def deregisterManagedInstance_def deleteActivation_def Let_def intro!: requests_intros)[1]
  apply (auto simp: EnsureResourcesInitialized_def initializer_ensure_def createSageMakerSpaceSSMDocument_def Let_def
      intro!: requests_intros)[1]
  done

lemma exec_requests: "requests keeps_children (exec k s p n cmd stdin)"
  by (auto simp: exec_def ExecInPod_def intro!: requests_intros issues_intros split: pod_exec.split)

lemma setup_requests:
  "requests keeps_children (setupSidecarContainer x k s p ws as b)"
  "requests keeps_children (setupWorkspaceContainer k s p)"
  "requests keeps_children (readRegistrationState x k s p)"
  "requests keeps_children (writeRegistrationState x k s p st)"
     apply (auto simp: setupSidecarContainer_def createSSMActivation_def Let_def intro!: requests_intros service_requests exec_requests)[1]
    apply (auto simp: setupWorkspaceContainer_def intro!: requests_intros exec_requests)[1]
   apply (auto simp: readRegistrationState_def intro!: requests_intros exec_requests)[1]
  apply (auto simp: writeRegistrationState_def intro!: requests_intros exec_requests)[1]
  done

lemma SetupContainers_requests: "requests keeps_children (SetupContainers x k s p ws as)"
  by (auto simp: SetupContainers_def perform_setup_def Let_def intro!: requests_intros setup_requests)

lemma pod_events_requests: "requests keeps_children (HandleWorkspacePodEvents x k strategy p)"
  by (auto simp: HandleWorkspacePodEvents_def handlePodRunning_def handlePodDeleted_def Let_def
      intro!: requests_intros issues_intros keeps_children_strategy service_requests SetupContainers_requests)

lemma lookup_requests:
  "requests keeps_children (ext_getWorkspace k ns n)" "requests keeps_children (ext_getAccessStrategy k ws)"
  "requests keeps_children (CheckWorkspaceAccess k ns n u)"
    apply (auto simp: ext_getWorkspace_def Let_def intro!: requests_intros issues_intros)[1]
   apply (auto simp: ext_getAccessStrategy_def Let_def intro!: requests_intros issues_intros)[1]
  apply (auto simp: CheckWorkspaceAccess_def Let_def intro!: requests_intros issues_intros)[1]
  done

lemma connection_requests:
  "requests keeps_children (generateWebUIBearerTokenURL y k s r n ns)"
  "requests keeps_children (generateVSCodeURL y k s n ns)"
   apply (auto simp: generateWebUIBearerTokenURL_def Let_def intro!: requests_intros lookup_requests)[1]
  apply (auto simp: generateVSCodeURL_def GenerateVSCodeConnectionURL_def Let_def
      intro!: requests_intros lookup_requests reads_only service_requests)[1]
  done

lemma extension_requests: "requests keeps_children (namespaced_handler y k s r)"
proof -
  have "requests keeps_children (create_connection y k s r ns req)" for ns req
    by (auto simp: create_connection_def checkWorkspaceAuthorization_def Let_def intro!: requests_intros lookup_requests connection_requests)
  then have "requests keeps_children (HandleConnectionCreate y k s r)"
    by (auto simp: HandleConnectionCreate_def intro!: requests_intros service_requests)
  moreover have "requests keeps_children (handleConnectionAccessReview y k r)"
    by (auto simp: handleConnectionAccessReview_def CheckWorkspaceConnectionPermission_def CheckRBACPermission_def Let_def
        intro!: requests_intros lookup_requests)
  ultimately show ?thesis
    by (auto simp: namespaced_handler_def Let_def intro!: requests_intros)
qed

section \<open>Changes in a run of the process\<close>

lemma step_justified:
  assumes "process_step p w w'" "answers_keyed (pr_client p)" "justified (pr_client p) (wd_hist w)"
  shows "justified (pr_client p) (wd_hist w')"
  using assms(1)
proof (rule process_stepE)
  fix ev r
  assume run: "run_state (handle p ev) w = (r, w')"
  have "justified (pr_client p) (wd_hist (snd (run_state (handle p ev) w)))"
  proof (cases "\<exists>req. ev = ReconcileWorkspace req")
    case True
    then show ?thesis
      using Reconcile_justified [OF assms(2,3)] by (auto simp: cluster_step_def)
  next
    case False
    then have "requests keeps_children (handle p ev)"
      by (cases ev) (auto simp: cluster_step_def serve_route_def handleHealth_def handleDiscovery_def split: ext_route.split intro!: requests_intros controllers_keep_children webhooks_keep_children
          pod_events_requests extension_requests)
    then show ?thesis
      using justified_keeps [OF assms(3)] unfolding state_io_rel_def adds_only_def by (metis)
  qed
  then show ?thesis using run by simp
next
  assume "w' = restarted w"
  then show ?thesis using assms(3) by (simp add: restarted_def)
qed

lemma run_justified:
  assumes "process_run p w w'" "answers_keyed (pr_client p)" "justified (pr_client p) (wd_hist w)"
  shows "justified (pr_client p) (wd_hist w')"
  using assms by (induction rule: process_run.induct) (auto intro: step_justified)

text \<open>
  C1. What the operator may create, change and destroy, in any run. Let the manager process handle any sequence of events in any
  order - reconciliations, watch events, admission requests, requests to the extension API - with restarts in between, whatever the
  cluster and the services answer. Every request it makes to create, update or delete a volume claim, a deployment or a
  service, and to create or update an access resource, comes after a read of a workspace that permits it, and concerns this workspace's own
  objects. Objects are made and changed only for a workspace that is to run, is not being deleted and carries the finalizer; a claim is
  deleted only when the workspace was being deleted; a deployment or a service only then or when the workspace was to be stopped. So a stop
  keeps the data. An object is its workspace's own when it has the name generated from the workspace's name and is in its namespace; for
  an access resource, a name that ends with the workspace's name after a prefix.
\<close>

theorem changes_justified:
  assumes "process_run p w w'" "wd_hist w = []" "answers_keyed (pr_client p)"
    and "wd_hist w' = earlier @ c # later" "\<not> keeps_children c"
  shows "\<exists>before key since ws. earlier = before @ CGetWorkspace key # since \<and>
    k_get_Workspace (pr_client p) before key = Inr ws \<and> permitted ws c"
proof -
  have "justified (pr_client p) (earlier @ c # later)"
    using run_justified [OF assms(1,3)] assms(2,4) by simp
  then show ?thesis
    using assms(5) unfolding justified_def justified_call_def by blast
qed

section \<open>What the manager serves\<close>

lemma or_exit_Inr: "or_exit r msg f = Inr y \<longleftrightarrow> (\<exists>x. r = Inr x \<and> f x = Inr y)"
  by (auto simp: or_exit_def split: sum.split)

lemma setup_webhooks_Inr:
  assumes "setup_webhooks m = Inr webhooks"
  shows "''Workspace'' \<in> set webhooks \<longleftrightarrow> k_getenv (me_client m) ''ENABLE_WORKSPACE_WEBHOOK'' \<noteq> ''false''"
    and "''PodExec'' \<in> set webhooks \<longleftrightarrow> k_getenv (me_client m) ''ENABLE_WORKSPACE_WEBHOOK'' \<noteq> ''false''"
    and "''PodExec'' \<in> set webhooks \<Longrightarrow>
      k_getenv (me_client m) ControllerPodNamespaceEnv \<noteq> '''' \<and> k_getenv (me_client m) ControllerPodServiceAccountEnv \<noteq> ''''"
  using assms by (auto simp: setup_webhooks_def or_exit_Inr SetupPodExecWebhookWithManager_def del_res_def split: if_splits)

lemma pass_Inr: "(case r of Inl e \<Rightarrow> Inl e | Inr x \<Rightarrow> f x) = Inr y \<longleftrightarrow> (\<exists>x. r = Inr x \<and> f x = Inr y)"
  by (auto split: sum.split)

lemma main_setup_Inr:
  assumes "main_setup m f = Inr plan"
  obtains watches webhooks extension where "parseGVKWatches (mf_watchResourcesGVK f) = Inr watches"
    "setup_webhooks m = Inr webhooks" "setup_extension m f = Inr extension"
    "plan = \<lparr>pl_options = manager_options f watches,
       pl_watches = workspace_SetupWithManager (manager_options f watches) @ template_SetupWithManager @ access_strategy_SetupWithManager,
       pl_webhooks = webhooks, pl_extension = extension, pl_webhook_server = Some (webhook_server_options f),
       pl_metrics_server = Some (metrics_server_options f)\<rparr>"
  using assms unfolding main_setup_def or_exit_Inr pass_Inr Let_def by auto

lemma main_setup_plan:
  assumes "main_setup m f = Inr plan"
  shows "For ''Workspace'' \<in> set (pl_watches plan)"
    and "Watches ''Pod'' ''HandleWorkspacePodEvents'' \<in> set (pl_watches plan) \<longleftrightarrow> mf_enableWorkspacePodWatching f"
    and "setup_webhooks m = Inr (pl_webhooks plan)"
    and "pl_extension plan \<noteq> None \<longleftrightarrow> mf_enableExtensionAPI f"
  by (rule main_setup_Inr [OF assms];
      auto simp: workspace_SetupWithManager_def template_SetupWithManager_def access_strategy_SetupWithManager_def manager_options_def
        setup_extension_def or_exit_Inr split: if_splits)+

text \<open>The copies of the parsing functions agree with the originals, so both entry points give their controllers the same options.\<close>

lemma copies_agree: "controllers_parseGVKWatches = parseGVKWatches" "controllers_getImagePullPolicy = getImagePullPolicy"
proof -
  have "controllers_parse_watches items watches = parse_watches items watches" for items watches
    by (induction items arbitrary: watches) (simp_all add: Let_def)
  then show "controllers_parseGVKWatches = parseGVKWatches" "controllers_getImagePullPolicy = getImagePullPolicy"
    by (simp_all add: fun_eq_iff controllers_parseGVKWatches_def parseGVKWatches_def controllers_getImagePullPolicy_def getImagePullPolicy_def)
qed

text \<open>A started extension server serves its own configuration, on the port the manager asks for.\<close>

lemma extension_started:
  assumes "setup_extension m f = Inr (Some s)"
  shows "me_apply m (createRecommendedOptions (xs_config s)) = None" "sn_BindPort (createRecommendedOptions (xs_config s)) = 7443"
proof -
  let ?c = "NewExtensionConfig [WithServerPort 7443, WithClusterId (k_getenv (me_client m) ''CLUSTER_ID''),
    WithKMSKeyID (k_getenv (me_client m) ''KMS_KEY_ID''), WithDomain (k_getenv (me_client m) ''DOMAIN'')]"
  have "SetupExtensionAPIServerWithManager m (Some ?c) = Inr s"
    using assms by (auto simp: setup_extension_def or_exit_Inr split: if_splits)
  then have "xs_config s = ?c" "me_apply m (createRecommendedOptions ?c) = None"
    by (auto simp: SetupExtensionAPIServerWithManager_def addServerToManager_def createExtensionServer_def NewExtensionServer_def createGenericAPIServer_def
        createSARClient_def del_res_def Let_def split: sum.splits option.splits)
  then show "me_apply m (createRecommendedOptions (xs_config s)) = None" "sn_BindPort (createRecommendedOptions (xs_config s)) = 7443"
    by (simp_all add: createRecommendedOptions_def NewExtensionConfig_def)
qed

text \<open>The options for TLS, time-outs, origin and log level of the configuration do not reach the server.\<close>

lemma unused_options:
  "createRecommendedOptions (apply_option (WithDisableTLS b) c) = createRecommendedOptions c"
  "createRecommendedOptions (apply_option (WithReadTimeoutSeconds n) c) = createRecommendedOptions c"
  "createRecommendedOptions (apply_option (WithWriteTimeoutSeconds n) c) = createRecommendedOptions c"
  "createRecommendedOptions (apply_option (WithAllowedOrigin v) c) = createRecommendedOptions c"
  "createRecommendedOptions (apply_option (WithLogLevel v) c) = createRecommendedOptions c"
  by (simp_all add: createRecommendedOptions_def)

text \<open>The controllers alone: no admission, no extension API, no pod events and no namespace to fall back to.\<close>

lemma controllers_setup_plan:
  assumes "controllers_setup m f = Inr plan"
  shows "pl_webhooks plan = [] \<and> pl_extension plan = None \<and> co_DefaultTemplateNamespace (pl_options plan) = '''' \<and>
    Watches ''Pod'' ''HandleWorkspacePodEvents'' \<notin> set (pl_watches plan) \<and> For ''Workspace'' \<in> set (pl_watches plan)"
  using assms
  by (auto simp: controllers_setup_def or_exit_Inr Let_def workspace_SetupWithManager_def template_SetupWithManager_def
      access_strategy_SetupWithManager_def)

text \<open>A middleware that has started runs with a valid configuration and the token handler made from it.\<close>

lemma middleware_main_Inr:
  assumes "fst (run_state (middleware_main restClient e) st) = Inr s"
  shows "NewConfig e = Inr (sv_config s)" "handler_of e (sv_config s) (sv_jwtManager s)"
proof -
  obtain cfg where cfg: "NewConfig e = Inr cfg"
    using assms by (cases "NewConfig e") (auto simp: middleware_main_def)
  obtain jwt st1 where jwt: "run_state (NewJWTHandler e (Some cfg)) st = (Inr jwt, st1)"
    using assms cfg by (auto simp: middleware_main_def split: prod.splits sum.splits)
  obtain ck where ck: "NewCookieManager cfg = Inr ck"
    using assms cfg jwt by (cases "NewCookieManager cfg") (auto simp: middleware_main_def)
  have "sv_config s = cfg \<and> sv_jwtManager s = jwt"
    using assms cfg jwt ck by (auto simp: middleware_main_def server_Start_def NewServer_def split: prod.splits sum.splits option.splits if_splits)
  then show "NewConfig e = Inr (sv_config s)" "handler_of e (sv_config s) (sv_jwtManager s)"
    using cfg jwt by (auto simp: handler_of_def)
qed

text \<open>Without the extension API and without watching pods, no run of the process uses Systems Manager or asks for a review.\<close>

lemma cluster_step_local:
  "wd_ssm (snd (run_state (cluster_step m) w)) = wd_ssm w" "wd_sar (snd (run_state (cluster_step m) w)) = wd_sar w"
  by (simp_all add: cluster_step_def)

lemma no_remote_access:
  assumes "process_run p w w'" "main_setup m f = Inr (pr_plan p)"
    and off: "\<not> mf_enableExtensionAPI f" "\<not> mf_enableWorkspacePodWatching f"
  shows "wd_ssm w' = wd_ssm w \<and> wd_sar w' = wd_sar w"
  using assms(1)
proof induction
  case (continue w w1 w2)
  from continue.hyps(2) have "wd_ssm w2 = wd_ssm w1 \<and> wd_sar w2 = wd_sar w1"
  proof (rule process_stepE)
    fix ev r
    assume ev: "delivered (pr_plan p) ev" and run: "run_state (handle p ev) w1 = (r, w2)"
    have "wd_ssm (snd (run_state (handle p ev) w1)) = wd_ssm w1 \<and> wd_sar (snd (run_state (handle p ev) w1)) = wd_sar w1"
      using ev main_setup_plan(2,4) [OF assms(2)] off by (cases ev) (simp_all add: cluster_step_local split: option.splits)
    then show ?thesis using run by simp
  qed (simp add: restarted_def)
  then show ?case using continue.IH by simp
qed simp

section \<open>Examples\<close>

text \<open>A cluster with a workspace under deletion whose claim is still there, and the manager started on it.\<close>

definition teardown_server :: client where
  "teardown_server = empty_server\<lparr>k_get_Workspace := \<lambda>_ _. Inr deleting_workspace,
     k_get_PVC := \<lambda>_ key. Inr \<lparr>p_meta = empty_meta\<lparr>om_Name := key_Name key, om_Namespace := key_Namespace key\<rparr>,
       p_Spec = \<lparr>pv_AccessModes = [], pv_Requests = [], pv_Limits = [], pv_StorageClassName = None, pv_Other = ''''\<rparr>\<rparr>,
     k_getenv := \<lambda>_. ''operator''\<rparr>"

definition demo_main :: main_env where
  "demo_main = \<lparr>me_client = teardown_server, me_library = \<lambda>_. None, me_apply = \<lambda>_. None, me_auth = kms_env\<rparr>"

definition demo_process :: process where
  "demo_process = \<lparr>pr_client = teardown_server, pr_plan = projr (main_setup demo_main default_flags),
     pr_decoders = sample_decoders, pr_ext = demo_ext\<rparr>"

lemma demo_setup_runs: "main_setup demo_main default_flags = Inr (pr_plan demo_process)"
  by (simp add: demo_process_def main_setup_def or_exit_def library_def del_res_def parseGVKWatches_def setup_webhooks_def
      SetupPodExecWebhookWithManager_def setup_extension_def default_flags_def demo_main_def teardown_server_def Let_def)

lemma teardown_keyed: "answers_keyed (pr_client demo_process)"
  by (simp add: demo_process_def answers_keyed_def status_keeps_key_def teardown_server_def empty_server_def key_of_def nn_def)

lemma demo_teardown:
  "\<exists>w' earlier later. process_run demo_process demo_world w' \<and>
     wd_hist w' = earlier @ CDeletePVC (nn ''team'' ''workspace-ws-pvc'') # later"
proof -
  let ?run = "run_state (handle demo_process (ReconcileWorkspace (nn ''team'' ''ws''))) demo_world"
  have "process_step demo_process demo_world (snd ?run)"
    by (rule process_step.handled [of _ "ReconcileWorkspace (nn ''team'' ''ws'')" _ "fst ?run"])
      (simp_all add: main_setup_plan(1) [OF demo_setup_runs])
  then have "process_run demo_process demo_world (snd ?run)"
    by (rule process_run.continue [OF process_run.start])
  moreover have "CDeletePVC (nn ''team'' ''workspace-ws-pvc'') \<in> set (wd_hist (snd ?run))"
    by (simp add: cluster_step_def demo_process_def Reconcile_def getWorkspace_def teardown_server_def empty_server_def demo_world_def
      deleting_workspace_def sample_workspace_def empty_meta_def ReconcileDeletion_def contains_finalizer_def UpdateDeletingStatus_def
      CleanupAllResources_def EnsureAccessResourcesDeleted_def EnsureDeploymentDeleted_def EnsureServiceDeleted_def EnsurePVCDeleted_def
      AreAllResourcesDeleted_def deletion_defs empty_status_def not_found_def GeneratePVCName_def key_of_def nn_def)
  ultimately show ?thesis by (meson split_list)
qed

theorem changes_justified_witness:
  "\<exists>w' earlier later before key since ws. process_run demo_process demo_world w' \<and>
     wd_hist w' = earlier @ CDeletePVC (nn ''team'' ''workspace-ws-pvc'') # later \<and> earlier = before @ CGetWorkspace key # since \<and>
     k_get_Workspace (pr_client demo_process) before key = Inr ws \<and> permitted ws (CDeletePVC (nn ''team'' ''workspace-ws-pvc''))"
proof -
  obtain w' earlier later where run: "process_run demo_process demo_world w'"
      "wd_hist w' = earlier @ CDeletePVC (nn ''team'' ''workspace-ws-pvc'') # later"
    using demo_teardown by blast
  have "wd_hist demo_world = []" by (simp add: demo_world_def)
  from changes_justified [OF run(1) this teardown_keyed run(2)] show ?thesis
    using run by fastforce
qed

end
