(* ===== verification/Cluster.thy ===== *)
theory Cluster
  imports Requests
begin

text \<open>
  A concrete API server, on which the theorems about the control loop are instantiated: it keeps one workspace and the deployments,
  services and claims, and computes the answer to a read from the requests made so far. Nothing here models code of the repository.
\<close>

section \<open>A store of objects\<close>

text \<open>What a request does to a store of objects of one kind.\<close>

datatype 'o event = Put 'o | Change 'o | Drop nsname | Other

fun store_step :: "('o \<Rightarrow> object_meta) \<Rightarrow> nsname \<Rightarrow> 'o option \<Rightarrow> 'o event \<Rightarrow> 'o option" where
  "store_step meta key x (Put y) = (if key_of (meta y) = key then Some y else x)"
| "store_step meta key x (Change y) = (if key_of (meta y) = key \<and> x \<noteq> None then Some y else x)"
| "store_step meta key x (Drop y) = (if y = key then None else x)"
| "store_step meta key x Other = x"

definition stored :: "('o \<Rightarrow> object_meta) \<Rightarrow> (api_call \<Rightarrow> 'o event) \<Rightarrow> nsname \<Rightarrow> 'o option \<Rightarrow> hist \<Rightarrow> 'o option" where
  "stored meta ev key x h = foldl (store_step meta key) x (map ev h)"

lemma stored_simps [simp]:
  "stored meta ev key x [] = x" "stored meta ev key x (h @ [c]) = store_step meta key (stored meta ev key x h) (ev c)"
  by (simp_all add: stored_def)

lemma stored_append: "stored meta ev key x (h @ new) = stored meta ev key (stored meta ev key x h) new"
  by (simp add: stored_def)

text \<open>Without a creation a missing object stays missing; without a deletion an object stays.\<close>

lemma stored_missing:
  "list_all (\<lambda>c. \<forall>y. ev c \<noteq> Put y) new \<Longrightarrow> stored meta ev key None new = None"
proof (induction new rule: rev_induct)
  case (snoc c cs)
  then show ?case by (cases "ev c") simp_all
qed simp

lemma stored_present:
  "list_all (\<lambda>c. \<forall>y. ev c \<noteq> Drop y) new \<Longrightarrow> x \<noteq> None \<Longrightarrow> stored meta ev key x new \<noteq> None"
proof (induction new rule: rev_induct)
  case (snoc c cs)
  then show ?case by (cases "ev c") simp_all
qed simp

fun deployment_event :: "api_call \<Rightarrow> deployment event" where
  "deployment_event (CCreateDeployment d) = Put d"
| "deployment_event (CUpdateDeployment d) = Change d"
| "deployment_event (CDeleteDeployment key) = Drop key"
| "deployment_event _ = Other"

fun service_event :: "api_call \<Rightarrow> service event" where
  "service_event (CCreateService s) = Put s"
| "service_event (CUpdateService s) = Change s"
| "service_event (CDeleteService key) = Drop key"
| "service_event _ = Other"

fun claim_event :: "api_call \<Rightarrow> pvc event" where
  "claim_event (CCreatePVC p) = Put p"
| "claim_event (CUpdatePVC p) = Change p"
| "claim_event (CDeletePVC key) = Drop key"
| "claim_event _ = Other"

section \<open>The workspace\<close>

text \<open>
  A write of the object leaves its status and its deletion timestamp as they are, a status write leaves everything else: the status of a
  workspace is a subresource.
\<close>

fun workspace_step :: "workspace \<Rightarrow> api_call \<Rightarrow> workspace" where
  "workspace_step w (CUpdateWorkspace v) = (if key_of (w_meta v) = key_of (w_meta w)
     then v\<lparr>w_meta := (w_meta v)\<lparr>om_DeletionTimestamp := om_DeletionTimestamp (w_meta w)\<rparr>, w_Status := w_Status w\<rparr> else w)"
| "workspace_step w (CStatusUpdateWorkspace v) = (if key_of (w_meta v) = key_of (w_meta w) then w\<lparr>w_Status := w_Status v\<rparr> else w)"
| "workspace_step w _ = w"

definition workspace_at :: "workspace \<Rightarrow> hist \<Rightarrow> workspace" where
  "workspace_at w h = foldl workspace_step w h"

lemma workspace_at_simps [simp]:
  "workspace_at w [] = w" "workspace_at w (h @ [c]) = workspace_step (workspace_at w h) c"
  by (simp_all add: workspace_at_def)

lemma workspace_at_key [simp]: "key_of (w_meta (workspace_at w h)) = key_of (w_meta w)"
proof (induction h rule: rev_induct)
  case (snoc c h)
  then show ?case by (cases c) (simp_all add: key_of_def)
qed simp

section \<open>The server\<close>

text \<open>An object as it is read: under the key asked for and not marked for deletion, since deletions take effect at once.\<close>

definition read_meta :: "nsname \<Rightarrow> object_meta \<Rightarrow> object_meta" where
  "read_meta key m = m\<lparr>om_Name := key_Name key, om_Namespace := key_Namespace key, om_DeletionTimestamp := None\<rparr>"

lemma read_meta_simps [simp]: "key_of (read_meta key m) = key" "\<not> is_deleting (read_meta key m)"
  by (simp_all add: read_meta_def key_of_def is_deleting_def nn_def)

definition available_deployment :: "nsname \<Rightarrow> deployment \<Rightarrow> deployment" where
  "available_deployment key d = d\<lparr>d_meta := read_meta key (d_meta d), d_Spec := (d_Spec d)\<lparr>ds_Replicas := Some 1\<rparr>,
     d_Status := \<lparr>dst_Conditions = [(''Available'', CTrue)], dst_AvailableReplicas = 1, dst_ReadyReplicas = 1\<rparr>\<rparr>"

definition cluster_server :: "workspace \<Rightarrow> deployment option \<Rightarrow> service option \<Rightarrow> pvc option \<Rightarrow> client" where
  "cluster_server w d s p = empty_server\<lparr>
     k_get_Workspace := \<lambda>h key. if key = key_of (w_meta w) then Inr (workspace_at w h) else Inl not_found,
     k_get_Deployment := \<lambda>h key. (case stored d_meta deployment_event key d h of None \<Rightarrow> Inl not_found
       | Some x \<Rightarrow> Inr (available_deployment key x)),
     k_get_Service := \<lambda>h key. (case stored s_meta service_event key s h of None \<Rightarrow> Inl not_found
       | Some x \<Rightarrow> Inr (x\<lparr>s_meta := read_meta key (s_meta x), s_Spec := (s_Spec x)\<lparr>sv_Type := ''ClusterIP''\<rparr>\<rparr>)),
     k_get_PVC := \<lambda>h key. (case stored p_meta claim_event key p h of None \<Rightarrow> Inl not_found
       | Some x \<Rightarrow> Inr (x\<lparr>p_meta := read_meta key (p_meta x)\<rparr>)),
     k_create_Deployment := \<lambda>_ x. Inr (available_deployment (key_of (d_meta x)) x)\<rparr>"

lemmas cluster_defs = cluster_server_def empty_server_def not_found_def

end
