(* ===== verification/ControlLoop.thy ===== *)
theory ControlLoop
  imports Cluster
begin

text \<open>
  The workspace controller in its loop. The work queue of controller-runtime calls \<open>Reconcile\<close> again
  after an error and after a requeue delay, and drops the request when the result is empty. What the
  passes achieve together is stated here: a deletion and a stop come to their end, and in how many passes.

  Time is counted in requests: a hypothesis that something takes at most \<open>n\<close> requests to take effect
  bounds the number of passes, because every pass issues at least one request.
\<close>

section \<open>The loop\<close>

text \<open>Passes over one request until one of them leaves nothing to do, at most as many as the fuel allows.\<close>

primrec control_loop :: "client \<Rightarrow> controller_options \<Rightarrow> idle_decoders \<Rightarrow> nsname \<Rightarrow> nat \<Rightarrow> bool io" where
  "control_loop k options dec req 0 = State_Monad.return False"
| "control_loop k options dec req (Suc passes) = do {
     out \<leftarrow> Reconcile k options dec req;
     if out = (0, None) then State_Monad.return True else control_loop k options dec req passes
   }"

text \<open>
  A loop in which every pass either ends it in a good history, or makes a counter grow that ends it when it has reached
  \<open>n\<close>, ends in a good history.
\<close>

lemma control_loop_completes:
  assumes step: "\<And>m h. stage m h \<Longrightarrow> \<exists>out h'. run_state (Reconcile k options dec req) h = (out, h') \<and>
      (if out = (0, None) then good h' else stage (Suc m) h') \<and> (stage n h \<longrightarrow> out = (0, None))"
    and start: "stage 0 h"
  shows "\<exists>h'. run_state (control_loop k options dec req (Suc n)) h = (True, h') \<and> good h'"
proof -
  have "\<exists>h'. run_state (control_loop k options dec req passes) h = (True, h') \<and> good h'"
    if "stage m h" "m + passes = Suc n" "m \<le> n" for m passes h
    using that
  proof (induction passes arbitrary: m h)
    case (Suc passes)
    obtain out h' where s: "run_state (Reconcile k options dec req) h = (out, h')" "stage n h \<longrightarrow> out = (0, None)"
      "if out = (0, None) then good h' else stage (Suc m) h'"
      using step [OF Suc.prems(1)] by blast
    show ?case
    proof (cases "out = (0, None)")
      case False
      then have "m \<noteq> n" using s(2) Suc.prems(1) by blast
      then show ?thesis using Suc.IH [of "Suc m" h'] Suc.prems(2,3) s False by simp
    qed (use s in simp)
  qed simp
  then show ?thesis using start by (metis add_0 le0)
qed

section \<open>Deletions that take effect\<close>

fun creates :: "api_call \<Rightarrow> bool" where
  "creates (CCreatePVC _) = True"
| "creates (CCreateDeployment _) = True"
| "creates (CCreateService _) = True"
| "creates _ = False"

text \<open>Calls after which an object that is going away still goes away, and the workspace is still what it was.\<close>

definition settling :: "api_call \<Rightarrow> bool" where
  "settling c \<longleftrightarrow> \<not> creates c \<and> \<not> writes_workspace c"

text \<open>
  An object is going away since at least \<open>m\<close> requests: it was read as missing or marked for deletion, or its
  deletion was requested, and none was created since.
\<close>

definition going ::
  "nat \<Rightarrow> (hist \<Rightarrow> nsname \<Rightarrow> 'o res) \<Rightarrow> ('o \<Rightarrow> object_meta) \<Rightarrow> (nsname \<Rightarrow> api_call) \<Rightarrow> nsname \<Rightarrow> hist \<Rightarrow> bool" where
  "going m get meta del key h \<longleftrightarrow> (\<exists>h1 h2. h = h1 @ h2 \<and> list_all settling h2 \<and> m \<le> length h2 \<and>
     (gone_or_deleting meta (get h1 key) \<or> (\<exists>h0. h1 = h0 @ [del key])))"

lemma going_extend:
  "going m get meta del key h \<Longrightarrow> list_all settling new \<Longrightarrow> m' \<le> m + length new \<Longrightarrow> going m' get meta del key (h @ new)"
  unfolding going_def by (elim exE conjE, rule_tac x = h1 in exI, rule_tac x = "h2 @ new" in exI) simp

text \<open>
  What the code relies on of the API for an object it deletes: reads succeed or report NotFound and return the object asked
  for, the deletion is accepted, and an object that is going away is not found after at most \<open>n\<close> requests.
\<close>

definition serves_deletion ::
  "nat \<Rightarrow> (hist \<Rightarrow> nsname \<Rightarrow> 'o res) \<Rightarrow> (hist \<Rightarrow> nsname \<Rightarrow> goerr option) \<Rightarrow> ('o \<Rightarrow> object_meta) \<Rightarrow> (nsname \<Rightarrow> api_call) \<Rightarrow> bool" where
  "serves_deletion n get del meta del_call \<longleftrightarrow>
     (\<forall>h key. case get h key of Inl e \<Rightarrow> IsNotFound e | Inr x \<Rightarrow> key_of (meta x) = key) \<and>
     (\<forall>h key. del h key = None) \<and>
     (\<forall>h key. going n get meta del_call key h \<longrightarrow> answers_not_found (get h key))"

context ensure_deleted
begin

text \<open>After the deletion operation the object is going away; an object that is long gone is read once.\<close>

lemma served:
  assumes "serves_deletion n get del meta del_call" and "\<And>y. settling (get_call y)"
  shows "\<exists>x new. run_state (ensure w) h = (Inr x, h @ new) \<and> new \<noteq> [] \<and> going 0 get meta del_call (key w) (h @ new) \<and>
    (going n get meta del_call (key w) h \<longrightarrow> x = None)"
proof -
  note law = assms(1) [unfolded serves_deletion_def]
  show ?thesis
  proof (cases "get h (key w)")
    case (Inl e)
    then have nf: "IsNotFound e" using law by (metis sum.case(1))
    have "going 0 get meta del_call (key w) (h @ [get_call (key w)])"
      unfolding going_def using assms(2) Inl nf
      by (intro exI [of _ h] exI [of _ "[get_call (key w)]"]) (simp add: gone_or_deleting_def)
    then show ?thesis using missing [OF Inl nf] by simp
  next
    case (Inr x)
    then have key: "key_of (meta x) = key w" using law by (metis sum.case(2))
    have read: "\<not> going n get meta del_call (key w) h"
      using law Inr by (metis answers_not_found_def sum.case(2))
    show ?thesis
    proof (cases "is_deleting (meta x)")
      case True
      have "going 0 get meta del_call (key w) (h @ [get_call (key w)])"
        unfolding going_def using assms(2) Inr True
        by (intro exI [of _ h] exI [of _ "[get_call (key w)]"]) (simp add: gone_or_deleting_def)
      then show ?thesis using deleting [OF Inr True] read by simp
    next
      case False
      have "going 0 get meta del_call (key w) (h @ [get_call (key w), del_call (key w)])"
        unfolding going_def by (rule exI [of _ "h @ [get_call (key w), del_call (key w)]"]) simp
      moreover have "run_state (ensure w) h = (Inr (Some x), h @ [get_call (key w), del_call (key w)])"
        using live [OF Inr False] law key by auto
      ultimately show ?thesis using read by blast
    qed
  qed
qed

end

section \<open>Requests that let a deletion settle\<close>

lemma settling_simps [simp]:
  "settling (CGetWorkspace x)" "settling (CGetDeployment x)" "settling (CGetService x)" "settling (CGetPVC x)"
  "settling (CGetUnstructured g x)" "settling (CDeleteDeployment x)" "settling (CDeleteService x)" "settling (CDeletePVC x)"
  "settling (CDeleteUnstructured g x)" "settling (CStatusUpdateWorkspace v)" "settling (CEvent x a b c)"
  by (simp_all add: settling_def)

lemma settling_status [settling_ops]:
  "issues_only settling (UpdateErrorStatus k w r m s)"
  "issues_only settling (UpdateStoppingStatus k w sr s)"
  "issues_only settling (UpdateStoppedStatus k w s)"
  "issues_only settling (UpdateDeletingStatus k w)"
  "issues_only settling (report_error k w r e s)"
  by (auto simp: UpdateErrorStatus_def UpdateDeletingStatus_def UpdateStoppingStatus_def UpdateStoppedStatus_def
      updateStatus_def report_error_def Let_def intro!: issues_intros)

lemma settling_access [settling_ops]: "issues_only settling (EnsureAccessResourcesDeleted k w)"
proof -
  have "issues_only settling (delete_access_loop k rs acc)" for rs acc
    by (induction rs arbitrary: acc) (auto simp: ensureAccessResourceDeleted_def Let_def intro!: issues_intros)
  then show ?thesis
    by (auto simp: EnsureAccessResourcesDeleted_def intro!: issues_intros)
qed

lemma settling_deletions [settling_ops]:
  "issues_only settling (EnsureDeploymentDeleted k w)" "issues_only settling (EnsureServiceDeleted k w)"
  "issues_only settling (EnsurePVCDeleted k w)" "issues_only settling (AreAllResourcesDeleted k w)"
  by (auto simp: EnsureDeploymentDeleted_def EnsureServiceDeleted_def EnsurePVCDeleted_def AreAllResourcesDeleted_def deletion_defs
      intro!: issues_intros)

lemma settling_stopped: "issues_only settling (reconcileDesiredStoppedStatus k w s)"
  by (auto simp: reconcileDesiredStoppedStatus_def ReconcileAccessForDesiredStoppedStatus_def Let_def
      intro!: issues_intros settling_ops)

lemma settling_cleanup: "issues_only settling (CleanupAllResources k w)"
  by (auto simp: CleanupAllResources_def intro!: issues_intros settling_ops)

text \<open>What the code relies on of the API for the access resources: they are read or reported missing, and their deletion is accepted.\<close>

definition serves_access_deletion :: "client \<Rightarrow> bool" where
  "serves_access_deletion k \<longleftrightarrow> (\<forall>h g key. case k_get_Unstructured k h g key of Inl e \<Rightarrow> IsNotFound e | Inr x \<Rightarrow> True) \<and>
     (\<forall>h g key. k_delete_Unstructured k h g key = None)"

lemma access_deletion_served:
  assumes "serves_access_deletion k"
  shows "\<exists>w' h'. run_state (EnsureAccessResourcesDeleted k w) h = ((w', None), h') \<and>
     st_AccessResources (w_Status w') = [] \<and> w_meta w' = w_meta w"
proof -
  have one: "\<exists>h'. run_state (ensureAccessResourceDeleted k r) h = (Inr True, h')" for r h
    using assms by (auto simp: ensureAccessResourceDeleted_def serves_access_deletion_def Let_def split: sum.split)
      (metis sum.case(1))
  have loop: "\<exists>h'. run_state (delete_access_loop k rs []) h = (Inr [], h')" for rs h
  proof (induction rs arbitrary: h)
    case (Cons r rs)
    obtain h1 where "run_state (ensureAccessResourceDeleted k r) h = (Inr True, h1)" using one by blast
    then show ?case using Cons.IH by simp
  qed simp
  obtain h' where "run_state (delete_access_loop k (st_AccessResources (w_Status w)) []) h = (Inr [], h')"
    using loop by blast
  then show ?thesis by (auto simp: EnsureAccessResourcesDeleted_def)
qed

text \<open>
  A loop whose passes only issue such requests: when each of them either ends the loop well or sets something going, and ends it once that
  has been going for \<open>n\<close> requests, the loop ends well within \<open>n + 2\<close> passes.
\<close>

lemma settling_loop:
  assumes grow: "\<And>m m' h new. G m h \<Longrightarrow> list_all settling new \<Longrightarrow> m' \<le> m + length new \<Longrightarrow> G m' (h @ new)"
    and pass: "\<And>h'. \<exists>new. h' = h @ new \<and> list_all settling new \<Longrightarrow>
      \<exists>out new. run_state (Reconcile k options dec req) h' = (out, h' @ new) \<and>
        (if out = (0, None) then good (h' @ new) else new \<noteq> [] \<and> list_all settling new \<and> G 0 (h' @ new)) \<and>
        (G n h' \<longrightarrow> out = (0, None))"
  shows "\<exists>h'. run_state (control_loop k options dec req (n + 2)) h = (True, h') \<and> good h'"
proof -
  define stage where "stage m h' \<longleftrightarrow> (\<exists>new. h' = h @ new \<and> list_all settling new) \<and> (0 < m \<longrightarrow> G (m - 1) h')" for m h'
  have step: "\<exists>out h''. run_state (Reconcile k options dec req) h' = (out, h'') \<and>
      (if out = (0, None) then good h'' else stage (Suc m) h'') \<and> (stage (n + 1) h' \<longrightarrow> out = (0, None))" if st: "stage m h'" for m h'
  proof -
    obtain new0 where new0: "h' = h @ new0" "list_all settling new0"
      using st stage_def by blast
    then obtain out new where p: "run_state (Reconcile k options dec req) h' = (out, h' @ new)"
      "if out = (0, None) then good (h' @ new) else new \<noteq> [] \<and> list_all settling new \<and> G 0 (h' @ new)"
      "G n h' \<longrightarrow> out = (0, None)"
      using pass by blast
    have "G m (h' @ new)" if "out \<noteq> (0, None)"
    proof (cases m)
      case (Suc j)
      then have "G j h'" "m \<le> j + length new" using st p(2) that by (cases new; simp add: stage_def)+
      then show ?thesis using p(2) that by (auto intro: grow)
    qed (use p(2) that in simp)
    then have "stage (Suc m) (h' @ new)" if "out \<noteq> (0, None)"
      using p(2) that new0 by (simp add: stage_def)
    then show ?thesis using p by (intro exI [of _ out] exI [of _ "h' @ new"]) (simp add: stage_def)
  qed
  have "stage 0 h" by (simp add: stage_def)
  from control_loop_completes [of stage k options dec req good "n + 1", OF step this] show ?thesis by simp
qed

section \<open>Deletion of a workspace\<close>

text \<open>What the teardown of a workspace relies on of the API.\<close>

definition serves_teardown :: "nat \<Rightarrow> client \<Rightarrow> bool" where
  "serves_teardown n k \<longleftrightarrow>
     serves_deletion n (k_get_Deployment k) (k_delete_Deployment k) d_meta CDeleteDeployment \<and>
     serves_deletion n (k_get_Service k) (k_delete_Service k) s_meta CDeleteService \<and>
     serves_deletion n (k_get_PVC k) (k_delete_PVC k) p_meta CDeletePVC \<and> serves_access_deletion k \<and>
     (\<forall>h v. \<exists>v'. k_status_Workspace k h v = Inr v' \<and> key_of (w_meta v') = key_of (w_meta v))"

text \<open>The compute objects of a workspace are going away, and its claim as well.\<close>

definition compute_going :: "nat \<Rightarrow> client \<Rightarrow> workspace \<Rightarrow> hist \<Rightarrow> bool" where
  "compute_going m k w h \<longleftrightarrow>
     going m (k_get_Deployment k) d_meta CDeleteDeployment (deployment_key w) h \<and>
     going m (k_get_Service k) s_meta CDeleteService (service_key w) h"

definition objects_going :: "nat \<Rightarrow> client \<Rightarrow> workspace \<Rightarrow> hist \<Rightarrow> bool" where
  "objects_going m k w h \<longleftrightarrow> compute_going m k w h \<and> going m (k_get_PVC k) p_meta CDeletePVC (pvc_key w) h"

lemma compute_going_extend:
  "compute_going m k w h \<Longrightarrow> list_all settling new \<Longrightarrow> m' \<le> m + length new \<Longrightarrow> compute_going m' k w (h @ new)"
  unfolding compute_going_def by (blast intro: going_extend)

lemma objects_going_extend:
  "objects_going m k w h \<Longrightarrow> list_all settling new \<Longrightarrow> m' \<le> m + length new \<Longrightarrow> objects_going m' k w (h @ new)"
  unfolding objects_going_def by (blast intro: going_extend compute_going_extend)

lemma going_key:
  assumes "key_of (w_meta a) = key_of (w_meta b)"
  shows "compute_going m k a h = compute_going m k b h" "objects_going m k a h = objects_going m k b h"
  using keys_of_key [OF assms] by (simp_all add: compute_going_def objects_going_def)

lemma serves_deletionD:
  "serves_deletion n get del meta del_call \<Longrightarrow> going n get meta del_call key h \<Longrightarrow> answers_not_found (get h key)"
  by (simp add: serves_deletion_def)

text \<open>Both compute deletions of a pass, for a stop as for a deletion.\<close>

lemma compute_deleted:
  assumes "serves_teardown n k"
  obtains d s h1 new where "run_state (EnsureDeploymentDeleted k w) h = (Inr d, h1)"
    "run_state (EnsureServiceDeleted k w) h1 = (Inr s, h @ new)" "new \<noteq> []" "list_all settling new" "compute_going 0 k w (h @ new)"
    "compute_going n k w h \<longrightarrow> d = None \<and> s = None"
proof -
  note sv = assms [unfolded serves_teardown_def]
  obtain d n1 where d: "run_state (EnsureDeploymentDeleted k w) h = (Inr d, h @ n1)" "n1 \<noteq> []"
    "going 0 (k_get_Deployment k) d_meta CDeleteDeployment (deployment_key w) (h @ n1)"
    "going n (k_get_Deployment k) d_meta CDeleteDeployment (deployment_key w) h \<longrightarrow> d = None"
    using deployment_deleted.served [of n k w h] sv unfolding deployment_key_def by auto
  have l1: "list_all settling n1"
    using issues_only_run [OF settling_deletions(1) d(1)] by (metis same_append_eq)
  obtain s n2 where s: "run_state (EnsureServiceDeleted k w) (h @ n1) = (Inr s, (h @ n1) @ n2)"
    "going 0 (k_get_Service k) s_meta CDeleteService (service_key w) ((h @ n1) @ n2)"
    "going n (k_get_Service k) s_meta CDeleteService (service_key w) (h @ n1) \<longrightarrow> s = None"
    using service_deleted.served [of n k w "h @ n1"] sv unfolding service_key_def by auto
  have l2: "list_all settling n2"
    using issues_only_run [OF settling_deletions(2) s(1)] by (metis same_append_eq)
  show ?thesis
  proof (rule that [of d "h @ n1" s "n1 @ n2"])
    show "compute_going 0 k w (h @ n1 @ n2)"
      using going_extend [OF d(3) l2, of 0] s(2) by (simp add: compute_going_def)
    show "compute_going n k w h \<longrightarrow> d = None \<and> s = None"
      using d(4) s(3) going_extend [OF _ l1] unfolding compute_going_def by (meson le_add1)
  qed (use d s l1 l2 in auto)
qed

text \<open>Once everything has been going away long enough, the final reads find nothing.\<close>

lemma settled_reads:
  assumes sv: "serves_teardown n k" and old: "objects_going n k w h" and acc: "st_AccessResources (w_Status w) = []"
  shows "fst (run_state (AreAllResourcesDeleted k w) h)"
proof -
  have nf: "answers_not_found (k_get_Deployment k (h @ new) (deployment_key w))"
    "answers_not_found (k_get_Service k (h @ new) (service_key w))"
    "answers_not_found (k_get_PVC k (h @ new) (pvc_key w))" if "list_all settling new" for new
    using objects_going_extend [OF old that, of n] sv unfolding serves_teardown_def objects_going_def compute_going_def
    by (auto intro: serves_deletionD)
  have "answers_not_found (k_get_Deployment k h (deployment_key w))"
    "answers_not_found (k_get_Service k (h @ [CGetDeployment (deployment_key w)]) (service_key w))"
    "answers_not_found (k_get_PVC k (h @ [CGetDeployment (deployment_key w), CGetService (service_key w)]) (pvc_key w))"
    using nf(1) [of "[]"] by (simp, intro nf, simp, intro nf, simp)
  then show ?thesis
    using acc
    by (auto simp: AreAllResourcesDeleted_def getDeployment_def getService_def getPVC_def Let_def
        AreAccessResourcesDeleted_def answers_not_found_def deployment_key_def service_key_def pvc_key_def
        split: sum.splits if_splits)
qed

text \<open>One cleanup: it ends without an error, afterwards everything is going away, and it reports completion when that has settled.\<close>

lemma cleanup_served:
  assumes "serves_teardown n k"
  obtains w' r new where "run_state (CleanupAllResources k w) h = ((w', Inr r), h @ new)" "new \<noteq> []" "list_all settling new"
    "objects_going 0 k w (h @ new)" "objects_going n k w h \<longrightarrow> r" "w_meta w' = w_meta w"
proof -
  note sv = assms [unfolded serves_teardown_def]
  obtain w' h0 where acc: "run_state (EnsureAccessResourcesDeleted k w) h = ((w', None), h0)"
    "st_AccessResources (w_Status w') = []" "w_meta w' = w_meta w"
    using access_deletion_served [of k w h] sv by blast
  obtain n0 where n0: "h0 = h @ n0" "list_all settling n0"
    by (rule issues_only_run [OF settling_access acc(1)])
  obtain d s h1 n1 where c: "run_state (EnsureDeploymentDeleted k w') h0 = (Inr d, h1)"
    "run_state (EnsureServiceDeleted k w') h1 = (Inr s, h0 @ n1)" "n1 \<noteq> []" "list_all settling n1" "compute_going 0 k w' (h0 @ n1)"
    by (rule compute_deleted [OF assms])
  obtain p n2 where p: "run_state (EnsurePVCDeleted k w') (h0 @ n1) = (Inr p, (h0 @ n1) @ n2)"
    "going 0 (k_get_PVC k) p_meta CDeletePVC (pvc_key w') ((h0 @ n1) @ n2)"
    using pvc_deleted.served [of n k w' "h0 @ n1"] sv unfolding pvc_key_def by auto
  have l2: "list_all settling n2"
    using issues_only_run [OF settling_deletions(3) p(1)] by (metis same_append_eq)
  let ?h = "h0 @ n1 @ n2"
  obtain r h3 where a: "run_state (AreAllResourcesDeleted k w') ?h = (r, h3)"
    by fastforce
  obtain n3 where n3: "h3 = ?h @ n3" "list_all settling n3"
    by (rule issues_only_run [OF settling_deletions(4) a])
  have run: "run_state (CleanupAllResources k w) h = ((w', Inr r), h @ n0 @ n1 @ n2 @ n3)"
    using acc(1) c p(1) a n3 n0 by (simp add: CleanupAllResources_def)
  have key: "key_of (w_meta w') = key_of (w_meta w)"
    using acc(3) by simp
  have g: "objects_going 0 k w' ?h"
    using compute_going_extend [OF c(5) l2, of 0] p(2) by (simp add: objects_going_def)
  show ?thesis
  proof (rule that [OF run])
    show "objects_going 0 k w (h @ n0 @ n1 @ n2 @ n3)"
      using objects_going_extend [OF g n3(2), of 0] n0(1) going_key [OF key] by simp
    show "objects_going n k w h \<longrightarrow> r"
      using objects_going_extend [of n k w h "n0 @ n1 @ n2" n] n0 c(4) l2 going_key [OF key] settled_reads [OF assms _ acc(2), of ?h] a by auto
  qed (use n0 c(3,4) l2 n3 acc(3) in simp_all)
qed

text \<open>The workspace is stored under deletion and with its finalizer until it is written.\<close>

definition being_deleted :: "client \<Rightarrow> nsname \<Rightarrow> hist \<Rightarrow> bool" where
  "being_deleted k req h \<longleftrightarrow> (\<forall>new. list_all settling new \<longrightarrow>
     (\<exists>w. k_get_Workspace k (h @ new) req = Inr w \<and> key_of (w_meta w) = req \<and> is_deleting (w_meta w) \<and>
        contains_finalizer (om_Finalizers (w_meta w)) WorkspaceFinalizerName))"

text \<open>The history of a completed deletion: the finalizer was removed by the last call, after everything was reported gone.\<close>

definition released :: "client \<Rightarrow> nsname \<Rightarrow> hist \<Rightarrow> bool" where
  "released k req h \<longleftrightarrow> (\<exists>before v. h = before @ [CUpdateWorkspace v] \<and> key_of (w_meta v) = req \<and> all_gone k v before \<and>
     st_AccessResources (w_Status v) = [] \<and> \<not> contains_finalizer (om_Finalizers (w_meta v)) WorkspaceFinalizerName)"

lemma deletion_pass:
  assumes sv: "serves_teardown n k" and upd: "\<And>h v. \<exists>v'. k_update_Workspace k h v = Inr v'"
    and get: "k_get_Workspace k h req = Inr w" and key: "key_of (w_meta w) = req" and del: "is_deleting (w_meta w)"
    and fin: "contains_finalizer (om_Finalizers (w_meta w)) WorkspaceFinalizerName"
  shows "\<exists>out new. run_state (Reconcile k options dec req) h = (out, h @ new) \<and>
     (if out = (0, None) then released k req (h @ new) else new \<noteq> [] \<and> list_all settling new \<and> objects_going 0 k w (h @ new)) \<and>
     (objects_going n k w h \<longrightarrow> out = (0, None))"
proof -
  let ?h = "h @ [CGetWorkspace req]"
  obtain s w1 where s: "run_state (UpdateDeletingStatus k w) ?h = ((w1, None), ?h @ [CStatusUpdateWorkspace s])"
    and k1: "key_of (w_meta w1) = key_of (w_meta w)"
  proof -
    obtain s where s: "w_meta s = w_meta w" "run_state (UpdateDeletingStatus k w) ?h =
        ((case k_status_Workspace k ?h s of Inl e \<Rightarrow> (s, Some e) | Inr w' \<Rightarrow> (w', None)), ?h @ [CStatusUpdateWorkspace s])"
      using run_UpdateDeletingStatus by metis
    obtain w1 where "k_status_Workspace k ?h s = Inr w1" "key_of (w_meta w1) = key_of (w_meta s)"
      using sv unfolding serves_teardown_def by blast
    then show ?thesis using that [of w1 s] s by simp
  qed
  let ?h1 = "?h @ [CStatusUpdateWorkspace s]"
  obtain w2 r new where c: "run_state (CleanupAllResources k w1) ?h1 = ((w2, Inr r), ?h1 @ new)" "new \<noteq> []" "list_all settling new"
    "objects_going 0 k w1 (?h1 @ new)" "objects_going n k w1 ?h1 \<longrightarrow> r" "w_meta w2 = w_meta w1"
    by (rule cleanup_served [OF sv, of w1 ?h1])
  have late: "objects_going n k w h \<Longrightarrow> r"
    using c(5) objects_going_extend [of n k w h "[CGetWorkspace req, CStatusUpdateWorkspace s]" n] going_key(2) [OF k1] by simp
  let ?v = "w2\<lparr>w_meta := (w_meta w2)\<lparr>om_Finalizers := remove_finalizer (om_Finalizers (w_meta w2)) WorkspaceFinalizerName\<rparr>\<rparr>"
  let ?new = "[CGetWorkspace req, CStatusUpdateWorkspace s] @ new @ (if r then [CUpdateWorkspace ?v] else [])"
  have run: "run_state (Reconcile k options dec req) h = (if r then (0, None) else (PollRequeueDelay, None), h @ ?new)"
    using get del fin s c(1) upd [of "?h1 @ new" ?v]
    by (auto simp: Reconcile_def getWorkspace_def ReconcileDeletion_def Let_def)
  have "released k req (h @ ?new)" if "r"
  proof -
    have "run_state (CleanupAllResources k w1) ?h1 = ((w2, Inr True), ?h1 @ new)" using c(1) that by simp
    note g = cleanup_all_gone [OF this]
    have "all_gone k ?v (?h1 @ new)"
      using g keys_of_key [of ?v w1] by (simp add: all_gone_def key_of_def)
    then show ?thesis
      unfolding released_def using that g k1 key
      by (intro exI [of _ "?h1 @ new"] exI [of _ ?v]) (simp add: key_of_def)
  qed
  moreover have "objects_going 0 k w (h @ ?new)" if "\<not> r"
    using c(4) going_key(2) [OF k1] that by simp
  ultimately show ?thesis
    using run late c(2,3) by (intro exI [of _ "if r then (0, None) else (PollRequeueDelay, None)"] exI [of _ ?new]) simp
qed

text \<open>
  C2. A deletion completes. Suppose the API serves the teardown: reads of the deployment, the service, the claim and the access resources
  succeed or report NotFound, deletions and writes are accepted, and an object that was seen missing or marked, or whose deletion was
  requested, is not found after at most \<open>n\<close> further requests. Then the control loop of a workspace under deletion ends after at most
  \<open>n + 2\<close> passes, and its last call is the write that removes the finalizer, after the reads that found everything gone.
\<close>

theorem deletion_completes:
  assumes "serves_teardown n k" and "being_deleted k req h" and "\<forall>h v. \<exists>v'. k_update_Workspace k h v = Inr v'"
  shows "\<exists>h'. run_state (control_loop k options dec req (n + 2)) h = (True, h') \<and> released k req h'"
proof -
  obtain w0 :: workspace where w0: "key_of (w_meta w0) = req"
    using assms(2) [unfolded being_deleted_def, rule_format, of "[]"] by simp blast
  show ?thesis
  proof (rule settling_loop [where G = "\<lambda>m. objects_going m k w0" and n = n])
    fix h' assume "\<exists>new. h' = h @ new \<and> list_all settling new"
    then obtain w where w: "k_get_Workspace k h' req = Inr w" "key_of (w_meta w) = req" "is_deleting (w_meta w)"
      "contains_finalizer (om_Finalizers (w_meta w)) WorkspaceFinalizerName"
      using assms(2) unfolding being_deleted_def by blast
    have same: "objects_going m k w0 = objects_going m k w" for m
      using going_key(2) [of w0 w] w0 w(2) by (simp add: fun_eq_iff)
    show "\<exists>out new. run_state (Reconcile k options dec req) h' = (out, h' @ new) \<and>
       (if out = (0, None) then released k req (h' @ new) else new \<noteq> [] \<and> list_all settling new \<and> objects_going 0 k w0 (h' @ new)) \<and>
       (objects_going n k w0 h' \<longrightarrow> out = (0, None))"
      unfolding same using deletion_pass [OF assms(1) _ w] assms(3) by blast
  qed (rule objects_going_extend)
qed

section \<open>Stopping a workspace\<close>

text \<open>The workspace is stored with the desired status Stopped and with its metadata in line until it is written.\<close>

definition being_stopped :: "client \<Rightarrow> nsname \<Rightarrow> hist \<Rightarrow> bool" where
  "being_stopped k req h \<longleftrightarrow> (\<forall>new. list_all settling new \<longrightarrow>
     (\<exists>w. k_get_Workspace k (h @ new) req = Inr w \<and> key_of (w_meta w) = req \<and> \<not> is_deleting (w_meta w) \<and>
        getDesiredStatus w = DesiredStateStopped \<and> \<not> snd (sync_metadata w)))"

text \<open>The history of a completed stop: its last call reports the workspace as stopped.\<close>

definition reported_stopped :: "nsname \<Rightarrow> hist \<Rightarrow> bool" where
  "reported_stopped req h \<longleftrightarrow> (\<exists>before s. h = before @ [CStatusUpdateWorkspace s] \<and> key_of (w_meta s) = req \<and>
     cond_value s ConditionTypeStopped = Some CTrue \<and> cond_value s ConditionTypeAvailable = Some CFalse \<and>
     cond_value s ConditionTypeDegraded = Some CFalse \<and> st_AccessResources (w_Status s) = [] \<and>
     st_DeploymentName (w_Status s) = '''' \<and> st_ServiceName (w_Status s) = '''')"

lemma UpdateStoppedStatus_reports:
  assumes "\<And>h v. \<exists>v'. k_status_Workspace k h v = Inr v'" "st_AccessResources (w_Status w) = []"
  obtains v s where "run_state (UpdateStoppedStatus k w snap) h = ((v, None), h @ [CStatusUpdateWorkspace s])"
    "reported_stopped (key_of (w_meta w)) (h @ [CStatusUpdateWorkspace s])"
proof -
  let ?v = "sent_status w (stopped_conditions w (k_now k h))"
  let ?s = "?v\<lparr>w_Status := (w_Status ?v)\<lparr>st_DeploymentName := '''', st_ServiceName := ''''\<rparr>\<rparr>"
  have "shows_phase CFalse CFalse CTrue w ?s"
    unfolding shows_phase_names by (rule shows_phase_sent) (rule stopped.phase_conditions_axioms)
  then have "reported_stopped (key_of (w_meta w)) (h @ [CStatusUpdateWorkspace ?s])"
    using assms(2) by (auto simp: reported_stopped_def shows_phase_def)
  moreover obtain v where "k_status_Workspace k h ?s = Inr v" using assms(1) by blast
  then have "run_state (UpdateStoppedStatus k w snap) h = ((v, None), h @ [CStatusUpdateWorkspace ?s])"
    by (simp add: run_UpdateStoppedStatus status_answer_def Let_def)
  ultimately show ?thesis using that by blast
qed

lemma stop_served:
  assumes "serves_teardown n k"
  shows "\<exists>w' out new. run_state (reconcileDesiredStoppedStatus k w snap) h = ((w', out), h @ new) \<and>
     (if out = (0, None) then reported_stopped (key_of (w_meta w)) (h @ new)
      else new \<noteq> [] \<and> list_all settling new \<and> compute_going 0 k w (h @ new)) \<and> (compute_going n k w h \<longrightarrow> out = (0, None))"
proof -
  note sv = assms [unfolded serves_teardown_def]
  obtain w1 h0 where acc: "run_state (ReconcileAccessForDesiredStoppedStatus k w) h = ((w1, None), h0)"
    "st_AccessResources (w_Status w1) = []" "w_meta w1 = w_meta w"
    using access_deletion_served [of k "clear_access w" h] sv
    by (auto simp: ReconcileAccessForDesiredStoppedStatus_def clear_access_def)
  obtain n0 where n0: "h0 = h @ n0" "list_all settling n0"
    using issues_only_run [OF settling_access, of k "clear_access w" h] acc(1)
    unfolding ReconcileAccessForDesiredStoppedStatus_def by metis
  obtain d s h1 n1 where c: "run_state (EnsureDeploymentDeleted k w1) h0 = (Inr d, h1)"
    "run_state (EnsureServiceDeleted k w1) h1 = (Inr s, h0 @ n1)" "n1 \<noteq> []" "list_all settling n1" "compute_going 0 k w1 (h0 @ n1)"
    "compute_going n k w1 h0 \<longrightarrow> d = None \<and> s = None"
    by (rule compute_deleted [OF assms, of w1 h0])
  have key: "key_of (w_meta w1) = key_of (w_meta w)" using acc(3) by simp
  let ?done = "IsDeploymentMissingOrDeleting d \<and> IsServiceMissingOrDeleting s"
  obtain w' out h' where run: "run_state (reconcileDesiredStoppedStatus k w snap) h = ((w', out), h')"
    by (metis surj_pair)
  obtain new where new: "h' = h @ new" "list_all settling new"
    by (rule issues_only_run [OF settling_stopped run])
  have "out = (0, None) \<and> reported_stopped (key_of (w_meta w)) h'" if ?done
  proof -
    let ?ev = "CEvent (key_of (w_meta w1)) ''Normal'' ''WorkspaceStopped''
      (if w_Annotations w1 \<noteq> None \<and> map_get (w_Annotations w1) PreemptionReasonAnnotation = PreemptedReason
       then PreemptedReason else ''Workspace has been stopped'')"
    obtain v st where "run_state (UpdateStoppedStatus k w1 snap) ((h0 @ n1) @ [?ev]) = ((v, None), ((h0 @ n1) @ [?ev]) @ [CStatusUpdateWorkspace st])"
      "reported_stopped (key_of (w_meta w1)) (((h0 @ n1) @ [?ev]) @ [CStatusUpdateWorkspace st])"
      using UpdateStoppedStatus_reports [OF _ acc(2), of k snap] sv by metis
    then show ?thesis
      using run acc c that key by (auto simp: reconcileDesiredStoppedStatus_def AreAccessResourcesDeleted_def Let_def)
  qed
  moreover have "\<exists>more. h' = (h0 @ n1) @ more \<and> list_all settling more \<and> out \<noteq> (0, None)" if "\<not> ?done"
    using run acc(1) c(1,2) that
    by (auto simp: reconcileDesiredStoppedStatus_def report_error_def run_UpdateStoppingStatus run_UpdateErrorStatus Let_def
        split: option.splits prod.splits if_splits)
  ultimately have "if out = (0, None) then reported_stopped (key_of (w_meta w)) h' else h' \<noteq> h \<and> compute_going 0 k w h'"
    using compute_going_extend [OF c(5), of _ 0] going_key(1) [OF key] n0(1) c(3) by (cases ?done) auto
  moreover have "out = (0, None)" if "compute_going n k w h"
    using compute_going_extend [OF that n0(2), of n] going_key(1) [OF key] n0(1) c(6) \<open>?done \<Longrightarrow> _\<close>
    by (simp add: IsDeploymentMissingOrDeleting_def IsServiceMissingOrDeleting_def)
  ultimately show ?thesis
    using run new by auto
qed

text \<open>A pass that finds the metadata in line and the desired status Stopped is a stop of the workspace read.\<close>

lemma stop_pass:
  assumes "serves_teardown n k" and get: "k_get_Workspace k h req = Inr w" and key: "key_of (w_meta w) = req"
    and live: "\<not> is_deleting (w_meta w)" and stop: "getDesiredStatus w = DesiredStateStopped" and line: "\<not> snd (sync_metadata w)"
  shows "\<exists>out new. run_state (Reconcile k options dec req) h = (out, h @ new) \<and>
     (if out = (0, None) then reported_stopped req (h @ new)
      else new \<noteq> [] \<and> list_all settling new \<and> compute_going 0 k w (h @ new)) \<and> (compute_going n k w h \<longrightarrow> out = (0, None))"
proof -
  obtain v where v: "sync_metadata w = (v, False)" using line by (cases "sync_metadata w") auto
  have same: "w_Spec v = w_Spec w" "key_of (w_meta v) = key_of (w_meta w)"
    using sync_metadata_sel(1,3) [of w] v by simp_all
  then have des: "getDesiredStatus v = DesiredStateStopped" using stop by (simp only: getDesiredStatus_def)
  let ?h = "h @ [CGetWorkspace req]"
  obtain w' out new where s: "run_state (reconcileDesiredStoppedStatus k v (w_Status v)) ?h = ((w', out), ?h @ new)"
    "if out = (0, None) then reported_stopped (key_of (w_meta v)) (?h @ new)
     else new \<noteq> [] \<and> list_all settling new \<and> compute_going 0 k v (?h @ new)" "compute_going n k v ?h \<longrightarrow> out = (0, None)"
    using stop_served [OF assms(1), of v "w_Status v" ?h] by blast
  have "run_state (Reconcile k options dec req) h = (out, h @ CGetWorkspace req # new)"
    using get live v des s(1) by (simp add: Reconcile_def getWorkspace_def ReconcileDesiredState_def)
  moreover have "compute_going n k w h \<Longrightarrow> compute_going n k v ?h"
    using compute_going_extend [of n k w h "[CGetWorkspace req]" n] going_key(1) [OF same(2)] by simp
  ultimately show ?thesis
    using s(2,3) going_key(1) [OF same(2)] same(2) key by (intro exI [of _ out] exI [of _ "CGetWorkspace req # new"]) auto
qed

text \<open>
  C4. A stop completes. Suppose the API serves the teardown: reads succeed or report NotFound, deletions and status writes are accepted, and
  an object that was seen missing or marked, or whose deletion was requested, is not found after at most \<open>n\<close> further requests. Then the
  control loop of a workspace whose desired status is Stopped, and whose finalizer and labels are in line, ends after at most \<open>n + 2\<close> passes, whatever objects and access resources
  existed and although the first pass may report an error, and its last call is a status write with Stopped True, Available False and
  Degraded False in which no access resource, deployment or service is listed any more.
\<close>

theorem stop_completes:
  assumes "serves_teardown n k" and "being_stopped k req h"
  shows "\<exists>h'. run_state (control_loop k options dec req (n + 2)) h = (True, h') \<and> reported_stopped req h'"
proof -
  obtain w0 :: workspace where w0: "key_of (w_meta w0) = req"
    using assms(2) [unfolded being_stopped_def, rule_format, of "[]"] by simp blast
  show ?thesis
  proof (rule settling_loop [where G = "\<lambda>m. compute_going m k w0" and n = n])
    fix h' assume "\<exists>new. h' = h @ new \<and> list_all settling new"
    then obtain w where w: "k_get_Workspace k h' req = Inr w" "key_of (w_meta w) = req" "\<not> is_deleting (w_meta w)"
      "getDesiredStatus w = DesiredStateStopped" "\<not> snd (sync_metadata w)"
      using assms(2) unfolding being_stopped_def by blast
    have same: "compute_going m k w0 = compute_going m k w" for m
      using going_key(1) [of w0 w] w0 w(2) by (simp add: fun_eq_iff)
    show "\<exists>out new. run_state (Reconcile k options dec req) h' = (out, h' @ new) \<and>
       (if out = (0, None) then reported_stopped req (h' @ new)
        else new \<noteq> [] \<and> list_all settling new \<and> compute_going 0 k w0 (h' @ new)) \<and> (compute_going n k w0 h' \<longrightarrow> out = (0, None))"
      unfolding same by (rule stop_pass [OF assms(1) w])
  qed (rule compute_going_extend)
qed


section \<open>On the concrete server\<close>

lemma stored_going:
  assumes read: "\<And>h key. get h key = (case stored meta ev key x0 h of None \<Rightarrow> Inl not_found | Some x \<Rightarrow> Inr (f key x))"
    and marks: "\<And>key x. \<not> is_deleting (meta (f key x))" and drop: "\<And>key. ev (del key) = Drop key"
    and put: "\<And>c y. ev c = Put y \<Longrightarrow> creates c"
    and "going 0 get meta del key h"
  shows "answers_not_found (get h key)"
proof -
  from assms(5) obtain h1 h2 where h: "h = h1 @ h2" "list_all settling h2"
    "gone_or_deleting meta (get h1 key) \<or> (\<exists>h0. h1 = h0 @ [del key])"
    unfolding going_def by blast
  have "stored meta ev key x0 h1 = None"
    using h(3)
  proof
    assume "gone_or_deleting meta (get h1 key)"
    then show ?thesis using marks by (auto simp: read gone_or_deleting_def split: option.splits)
  qed (auto simp: drop)
  moreover have "list_all (\<lambda>c. \<forall>y. ev c \<noteq> Put y) h2"
    using h(2) put by (auto simp: list_all_iff settling_def)
  ultimately have "stored meta ev key x0 h = None"
    by (simp add: h(1) stored_append stored_missing)
  then show ?thesis by (simp add: read answers_not_found_def not_found_def)
qed

lemma cluster_teardown: "serves_teardown 0 (cluster_server w d s p)"
proof -
  let ?k = "cluster_server w d s p"
  have put: "deployment_event c = Put x \<Longrightarrow> creates c" "service_event c = Put y \<Longrightarrow> creates c" "claim_event c = Put z \<Longrightarrow> creates c"
    for c x y z by (cases c; simp)+
  have "answers_not_found (k_get_Deployment ?k h key)" if "going 0 (k_get_Deployment ?k) d_meta CDeleteDeployment key h" for h key
    by (rule stored_going [where ev = deployment_event and meta = d_meta and f = available_deployment, OF _ _ _ _ that])
      (auto simp: cluster_server_def available_deployment_def put)
  moreover have "answers_not_found (k_get_Service ?k h key)" if "going 0 (k_get_Service ?k) s_meta CDeleteService key h" for h key
    by (rule stored_going [where ev = service_event and meta = s_meta and f = "\<lambda>key x. x\<lparr>s_meta := read_meta key (s_meta x),
          s_Spec := (s_Spec x)\<lparr>sv_Type := ''ClusterIP''\<rparr>\<rparr>", OF _ _ _ _ that])
      (auto simp: cluster_server_def put)
  moreover have "answers_not_found (k_get_PVC ?k h key)" if "going 0 (k_get_PVC ?k) p_meta CDeletePVC key h" for h key
    by (rule stored_going [where ev = claim_event and meta = p_meta and f = "\<lambda>key x. x\<lparr>p_meta := read_meta key (p_meta x)\<rparr>", OF _ _ _ _ that])
      (auto simp: cluster_server_def put)
  ultimately show ?thesis
    unfolding serves_teardown_def serves_deletion_def serves_access_deletion_def
    by (auto simp: cluster_defs available_deployment_def split: option.split)
qed

text \<open>Settling requests change nothing of the workspace but its status.\<close>

lemma workspace_settled:
  "list_all settling new \<Longrightarrow> w_meta (workspace_at w new) = w_meta w \<and> w_Spec (workspace_at w new) = w_Spec w"
proof (induction new rule: rev_induct)
  case (snoc c cs)
  then show ?case by (cases c) (auto simp: settling_def)
qed simp

text \<open>Objects that exist when the workspace is deleted or stopped.\<close>

definition old_deployment :: deployment where
  "old_deployment = \<lparr>d_meta = empty_meta, d_Spec = buildDeploymentSpec sample_options sample_workspace (parseResourceRequirements sample_workspace),
     d_Status = \<lparr>dst_Conditions = [], dst_AvailableReplicas = 0, dst_ReadyReplicas = 0\<rparr>\<rparr>"

definition old_service :: service where
  "old_service = \<lparr>s_meta = empty_meta, s_Spec = buildServiceSpec sample_workspace, s_Ingress = []\<rparr>"

theorem deletion_completes_witness:
  "\<exists>h'. run_state (control_loop (cluster_server deleting_workspace (Some old_deployment) (Some old_service) None) sample_options sample_decoders
       (nn ''team'' ''ws'') 2) [] = (True, h') \<and>
     released (cluster_server deleting_workspace (Some old_deployment) (Some old_service) None) (nn ''team'' ''ws'') h'"
proof -
  let ?k = "cluster_server deleting_workspace (Some old_deployment) (Some old_service) None"
  have "key_of (w_meta deleting_workspace) = nn ''team'' ''ws''"
    by (simp add: deleting_workspace_def sample_workspace_def key_of_def)
  then have "being_deleted ?k (nn ''team'' ''ws'') []"
    using workspace_settled [of _ deleting_workspace]
    by (auto simp: being_deleted_def cluster_server_def)
      (auto simp: deleting_workspace_def is_deleting_def contains_finalizer_def)
  moreover have "\<forall>h v. \<exists>v'. k_update_Workspace ?k h v = Inr v'"
    by (simp add: cluster_defs)
  ultimately show ?thesis
    by (rule deletion_completes [OF cluster_teardown, unfolded add_0])
qed

definition stopping_workspace :: workspace where
  "stopping_workspace = sample_workspace\<lparr>w_meta := (w_meta sample_workspace)\<lparr>om_Finalizers := [WorkspaceFinalizerName], om_Labels := Some Map.empty\<rparr>,
     w_Spec := (w_Spec sample_workspace)\<lparr>ws_DesiredStatus := DesiredStateStopped\<rparr>\<rparr>"

theorem stop_completes_witness:
  "\<exists>h'. run_state (control_loop (cluster_server stopping_workspace (Some old_deployment) (Some old_service) None) sample_options sample_decoders
       (nn ''team'' ''ws'') 2) [] = (True, h') \<and> reported_stopped (nn ''team'' ''ws'') h'"
proof -
  let ?k = "cluster_server stopping_workspace (Some old_deployment) (Some old_service) None"
  have key: "key_of (w_meta stopping_workspace) = nn ''team'' ''ws''"
    by (simp add: stopping_workspace_def sample_workspace_def key_of_def)
  have w: "\<not> is_deleting (w_meta v)" "getDesiredStatus v = DesiredStateStopped" "\<not> snd (sync_metadata v)"
    if "w_meta v = w_meta stopping_workspace" "w_Spec v = w_Spec stopping_workspace" for v :: workspace
    using that
    by (simp_all add: stopping_workspace_def sample_workspace_def empty_meta_def empty_spec_def is_deleting_def getDesiredStatus_def
        sync_metadata_def template_labels_def access_strategy_labels_def drop_label_def contains_finalizer_def)
  have "being_stopped ?k (nn ''team'' ''ws'') []"
    using workspace_settled [of _ stopping_workspace] w key by (auto simp: being_stopped_def cluster_server_def)
  then show ?thesis
    by (rule stop_completes [OF cluster_teardown, unfolded add_0])
qed
end
