(* ===== verification/StartLoop.thy ===== *)
theory StartLoop
  imports ControlLoop
begin

text \<open>
  The start of a workspace in the control loop: the passes that add the finalizer and the labels, create the claim, the deployment and
  the service, and wait until they are available come to their end.
\<close>

section \<open>Starting a workspace\<close>

fun disturbs :: "api_call \<Rightarrow> bool" where
  "disturbs (CDeleteDeployment _) = True"
| "disturbs (CDeleteService _) = True"
| "disturbs (CDeletePVC _) = True"
| "disturbs (CUpdateDeployment _) = True"
| "disturbs (CUpdateService _) = True"
| "disturbs (CUpdatePVC _) = True"
| "disturbs _ = False"

text \<open>Requests while a workspace starts: nothing is disturbed, the workspace is not written, and it is not reported available.\<close>

definition starting_call :: "api_call \<Rightarrow> bool" where
  "starting_call c \<longleftrightarrow> \<not> disturbs c \<and> \<not> writes_workspace c \<and> (\<forall>v. c = CStatusUpdateWorkspace v \<longrightarrow> \<not> IsWorkspaceAvailable v)"

lemma starting_call_simps [simp]:
  "starting_call (CGetDeployment x)" "starting_call (CGetService x)" "starting_call (CGetPVC x)" "starting_call (CGetWorkspace x)"
  "starting_call (CCreateDeployment d)" "starting_call (CCreateService s)" "starting_call (CCreatePVC p)"
  "starting_call (CStatusUpdateWorkspace v) \<longleftrightarrow> \<not> IsWorkspaceAvailable v"
  by (auto simp: starting_call_def)

lemma starting_undisturbed: "list_all starting_call new \<Longrightarrow> list_all (Not \<circ> disturbs) new"
  by (auto simp: list_all_iff starting_call_def)

text \<open>An object stands since at least \<open>m\<close> requests: it was read or its creation was requested, and none was changed or deleted since.\<close>

definition standing ::
  "nat \<Rightarrow> (hist \<Rightarrow> nsname \<Rightarrow> 'o res) \<Rightarrow> ('o \<Rightarrow> object_meta) \<Rightarrow> ('o \<Rightarrow> api_call) \<Rightarrow> nsname \<Rightarrow> hist \<Rightarrow> bool" where
  "standing m get meta create key h \<longleftrightarrow> (\<exists>h1 h2. h = h1 @ h2 \<and> list_all (Not \<circ> disturbs) h2 \<and> m \<le> length h2 \<and>
     ((\<exists>x. get h1 key = Inr x) \<or> (\<exists>h0 x. h1 = h0 @ [create x] \<and> key_of (meta x) = key)))"

lemma standing_extend:
  "standing m get meta create key h \<Longrightarrow> list_all (Not \<circ> disturbs) new \<Longrightarrow> m' \<le> m + length new \<Longrightarrow>
   standing m' get meta create key (h @ new)"
  unfolding standing_def by (elim exE conjE, rule_tac x = h1 in exI, rule_tac x = "h2 @ new" in exI) simp

text \<open>
  What the code relies on of the API for an object it creates: reads succeed or report NotFound, the creation is accepted, and an
  object that stands is found ready after at most \<open>n\<close> requests.
\<close>

definition serves_creation ::
  "nat \<Rightarrow> (hist \<Rightarrow> nsname \<Rightarrow> 'o res) \<Rightarrow> (hist \<Rightarrow> 'o \<Rightarrow> 'o res) \<Rightarrow> ('o \<Rightarrow> object_meta) \<Rightarrow> ('o \<Rightarrow> api_call) \<Rightarrow> ('o \<Rightarrow> bool) \<Rightarrow> bool" where
  "serves_creation n get create meta create_call ready \<longleftrightarrow>
     (\<forall>h key e. get h key = Inl e \<longrightarrow> IsNotFound e) \<and> (\<forall>h x. \<exists>y. create h x = Inr y) \<and>
     (\<forall>h key. standing n get meta create_call key h \<longrightarrow> (\<exists>x. get h key = Inr x \<and> ready x))"

context ensure_exists
begin

text \<open>After the creating operation the object stands; an object that has been standing long enough is returned ready.\<close>

lemma served:
  assumes "serves_creation n get create meta create_call ready" and w: "due w" "\<not> IsWorkspaceAvailable w"
    and b: "build w = Inr b" "key_of (meta b) = key w" and calls: "\<And>y. starting_call (get_call y)" "\<And>y. starting_call (create_call y)"
  shows "\<exists>x new. run_state (ensure w) h = (Inr (wrap x), h @ new) \<and> new \<noteq> [] \<and> list_all starting_call new \<and>
    standing 0 get meta create_call (key w) (h @ new) \<and> (standing n get meta create_call (key w) h \<longrightarrow> ready x)"
proof -
  note law = assms(1) [unfolded serves_creation_def]
  show ?thesis
  proof (cases "get h (key w)")
    case (Inl e)
    then have nf: "IsNotFound e" using law by blast
    obtain y where "create (h @ [get_call (key w)]) b = Inr y" using law by blast
    then have "run_state (ensure w) h = (Inr (wrap y), h @ [get_call (key w), create_call b])"
      using missing [OF w(1) Inl nf b(1)] by auto
    moreover have "standing 0 get meta create_call (key w) (h @ [get_call (key w), create_call b])"
      unfolding standing_def using b(2)
      by (intro exI [of _ "h @ [get_call (key w), create_call b]"] exI [of _ "[]"] conjI disjI2 exI [of _ "h @ [get_call (key w)]"] exI [of _ b])
        simp_all
    moreover have "\<not> standing n get meta create_call (key w) h" using law Inl by fastforce
    ultimately show ?thesis using calls by (intro exI [of _ y] exI [of _ "[get_call (key w), create_call b]"]) simp
  next
    case (Inr x)
    have "standing 0 get meta create_call (key w) (h @ [get_call (key w)])"
      unfolding standing_def using Inr calls by (intro exI [of _ h] exI [of _ "[get_call (key w)]"]) (simp add: starting_call_def)
    moreover have "ready x" if "standing n get meta create_call (key w) h" using law Inr that by fastforce
    ultimately show ?thesis
      using existing [OF w(1) Inr w(2)] calls by (intro exI [of _ x] exI [of _ "[get_call (key w)]"]) simp
  qed
qed

end

text \<open>What the start of a workspace relies on of the API.\<close>

definition serves_start :: "nat \<Rightarrow> client \<Rightarrow> bool" where
  "serves_start n k \<longleftrightarrow>
     serves_creation n (k_get_Deployment k) (k_create_Deployment k) d_meta CCreateDeployment (\<lambda>d. IsDeploymentAvailable (Some d) = Inr True) \<and>
     serves_creation n (k_get_Service k) (k_create_Service k) s_meta CCreateService (\<lambda>s. IsServiceAvailable (Some s)) \<and>
     serves_creation n (k_get_PVC k) (k_create_PVC k) p_meta CCreatePVC (\<lambda>_. True) \<and> serves_access_deletion k \<and>
     (\<forall>h key d. k_get_Deployment k h key = Inr d \<longrightarrow> ds_Replicas (d_Spec d) \<noteq> None) \<and>
     (\<forall>h d d'. k_create_Deployment k h d = Inr d' \<longrightarrow> ds_Replicas (d_Spec d') \<noteq> None) \<and>
     (\<forall>h v. \<exists>v'. k_status_Workspace k h v = Inr v' \<and> w_Spec v' = w_Spec v) \<and>
     (\<forall>w m. \<exists>m'. k_set_controller_ref k w m = Inr m' \<and> key_of m' = key_of m)"

definition objects_standing :: "nat \<Rightarrow> client \<Rightarrow> workspace \<Rightarrow> hist \<Rightarrow> bool" where
  "objects_standing m k w h \<longleftrightarrow>
     standing m (k_get_Deployment k) d_meta CCreateDeployment (deployment_key w) h \<and>
     standing m (k_get_Service k) s_meta CCreateService (service_key w) h"

lemma objects_standing_extend:
  "objects_standing m k w h \<Longrightarrow> list_all (Not \<circ> disturbs) new \<Longrightarrow> m' \<le> m + length new \<Longrightarrow> objects_standing m' k w (h @ new)"
  unfolding objects_standing_def by (blast intro: standing_extend)

lemma standing_key:
  "key_of (w_meta a) = key_of (w_meta b) \<Longrightarrow> objects_standing m k a h = objects_standing m k b h"
  by (drule keys_of_key) (simp add: objects_standing_def)

lemma builds_succeed:
  assumes "\<forall>w m. \<exists>m'. k_set_controller_ref k w m = Inr m' \<and> key_of m' = key_of m"
  shows "\<exists>d. BuildDeploymentWithAccessStrategy k options w None = Inr d \<and> key_of (d_meta d) = deployment_key w"
    and "\<exists>s. BuildService k w = Inr s \<and> key_of (s_meta s) = service_key w"
    and "ws_Storage (w_Spec w) \<noteq> None \<Longrightarrow> \<exists>p. built_claim k w = Inr p \<and> key_of (p_meta p) = pvc_key w"
proof -
  have ref: "\<exists>m'. k_set_controller_ref k w m = Inr m' \<and> key_of m' = key_of m" for m using assms by blast
  show "\<exists>d. BuildDeploymentWithAccessStrategy k options w None = Inr d \<and> key_of (d_meta d) = deployment_key w"
    using ref [of "deployment_buildObjectMeta w"]
    by (auto simp: BuildDeploymentWithAccessStrategy_def BuildDeployment_def Let_def deployment_key_def deployment_buildObjectMeta_def key_of_def)
  show "\<exists>s. BuildService k w = Inr s \<and> key_of (s_meta s) = service_key w"
    using ref [of "service_buildObjectMeta w"]
    by (auto simp: BuildService_def Let_def service_key_def service_buildObjectMeta_def key_of_def)
  show "\<exists>p. built_claim k w = Inr p \<and> key_of (p_meta p) = pvc_key w" if "ws_Storage (w_Spec w) \<noteq> None"
    using ref [of "pvc_buildObjectMeta w"] that
    by (auto simp: built_claim_def BuildPVC_def ResolveStorageConfig_def Let_def pvc_key_def pvc_buildObjectMeta_def key_of_def)
qed

text \<open>The three creating operations of a pass over a workspace that names no access strategy.\<close>

lemma objects_created:
  assumes "serves_start n k" and "\<not> IsWorkspaceAvailable w"
  obtains p d s r h1 h2 new where "run_state (EnsurePVCExists k w) h = (Inr p, h1)"
    "run_state (EnsureDeploymentExists k options w None) h1 = (Inr d, h2)" "run_state (EnsureServiceExists k w) h2 = (Inr s, h @ new)"
    "IsDeploymentAvailable (Some d) = Inr r" "new \<noteq> []" "list_all starting_call new" "objects_standing 0 k w (h @ new)"
    "objects_standing n k w h \<longrightarrow> r \<and> IsServiceAvailable (Some s)"
proof -
  note sv = assms(1) [unfolded serves_start_def] and na = assms(2)
  have "\<forall>w m. \<exists>m'. k_set_controller_ref k w m = Inr m' \<and> key_of m' = key_of m" using sv by simp
  note built = builds_succeed [OF this]
  obtain p n1 where p: "run_state (EnsurePVCExists k w) h = (Inr p, h @ n1)" "list_all starting_call n1"
  proof (cases "ws_Storage (w_Spec w) = None")
    case True
    then show ?thesis using that [of None "[]"] by (simp add: EnsurePVCExists_def)
  next
    case False
    obtain b where "built_claim k w = Inr b" "key_of (p_meta b) = pvc_key w" using built(3) [OF False] by blast
    then show ?thesis using pvc_exists.served [of n k p_meta "\<lambda>_. True" w b h] sv na False that by auto
  qed
  obtain bd where bd: "BuildDeploymentWithAccessStrategy k options w None = Inr bd" "key_of (d_meta bd) = deployment_key w"
    using built(1) by blast
  obtain d n2 where d: "run_state (EnsureDeploymentExists k options w None) (h @ n1) = (Inr d, (h @ n1) @ n2)" "list_all starting_call n2"
    "standing 0 (k_get_Deployment k) d_meta CCreateDeployment (deployment_key w) ((h @ n1) @ n2)" "n2 \<noteq> []"
    "standing n (k_get_Deployment k) d_meta CCreateDeployment (deployment_key w) (h @ n1) \<longrightarrow> IsDeploymentAvailable (Some d) = Inr True"
    using deployment_exists.served [of n k d_meta "\<lambda>d. IsDeploymentAvailable (Some d) = Inr True" w options None bd "h @ n1"] sv na bd by auto
  obtain bs where bs: "BuildService k w = Inr bs" "key_of (s_meta bs) = service_key w"
    using built(2) by blast
  obtain s n3 where s: "run_state (EnsureServiceExists k w) ((h @ n1) @ n2) = (Inr s, ((h @ n1) @ n2) @ n3)" "list_all starting_call n3"
    "standing 0 (k_get_Service k) s_meta CCreateService (service_key w) (((h @ n1) @ n2) @ n3)"
    "standing n (k_get_Service k) s_meta CCreateService (service_key w) ((h @ n1) @ n2) \<longrightarrow> IsServiceAvailable (Some s)"
    using service_exists.served [of n k s_meta "\<lambda>s. IsServiceAvailable (Some s)" w bs "(h @ n1) @ n2"] sv na bs by auto
  have "ds_Replicas (d_Spec d) \<noteq> None"
    using deployment_exists.returned [of w k options None "h @ n1" d] na d(1) sv by auto
  then have "\<exists>r. IsDeploymentAvailable (Some d) = Inr r"
    by (auto simp: IsDeploymentAvailable_def split: option.split)
  then obtain r where r: "IsDeploymentAvailable (Some d) = Inr r" ..
  show ?thesis
  proof (rule that [of p "h @ n1" d "(h @ n1) @ n2" s "n1 @ n2 @ n3" r])
    show "objects_standing 0 k w (h @ n1 @ n2 @ n3)"
      using standing_extend [OF d(3) starting_undisturbed [OF s(2)], of 0] s(3) by (simp add: objects_standing_def)
    show "objects_standing n k w h \<longrightarrow> r \<and> IsServiceAvailable (Some s)"
      using d(5) s(4) r objects_standing_extend [of n k w h n1 n] objects_standing_extend [of n k w h "n1 @ n2" n] p(2) d(2)
      by (auto simp: objects_standing_def starting_undisturbed)
  qed (use p d s r in auto)
qed

text \<open>The history of a completed start: its last call reports the workspace as running.\<close>

definition reported_running :: "nsname \<Rightarrow> hist \<Rightarrow> bool" where
  "reported_running req h \<longleftrightarrow> (\<exists>before s. h = before @ [CStatusUpdateWorkspace s] \<and> key_of (w_meta s) = req \<and>
     cond_value s ConditionTypeAvailable = Some CTrue \<and> cond_value s ConditionTypeProgressing = Some CFalse \<and>
     cond_value s ConditionTypeStopped = Some CFalse \<and> cond_value s ConditionTypeDegraded = Some CFalse)"

lemma UpdateRunningStatus_reports:
  assumes "\<And>h v. \<exists>v'. k_status_Workspace k h v = Inr v' \<and> w_Spec v' = w_Spec v"
  obtains v s where "run_state (UpdateRunningStatus k w snap) h = ((v, None), h @ [CStatusUpdateWorkspace s])"
    "reported_running (key_of (w_meta w)) (h @ [CStatusUpdateWorkspace s])" "w_Spec v = w_Spec w"
proof -
  let ?s = "sent_status w (running_conditions (k_now k h))"
  have phase: "shows_phase CTrue CFalse CFalse w ?s"
    by (rule shows_phase_sent) (rule running.phase_conditions_axioms)
  then have "reported_running (key_of (w_meta w)) (h @ [CStatusUpdateWorkspace ?s])"
    by (auto simp: reported_running_def shows_phase_def)
  moreover obtain v where v: "k_status_Workspace k h ?s = Inr v" "w_Spec v = w_Spec ?s" using assms by blast
  then have "run_state (UpdateRunningStatus k w snap) h = ((v, None), h @ [CStatusUpdateWorkspace ?s])"
    by (simp add: run_UpdateRunningStatus status_answer_def Let_def)
  ultimately show ?thesis using that v(2) phase by (auto simp: shows_phase_def)
qed

lemma start_served:
  assumes "serves_start n k" and na: "\<not> IsWorkspaceAvailable w" and acc: "ws_AccessStrategy (w_Spec w) = None"
    and idle: "\<And>c. ws_IdleShutdown (w_Spec w) = Some c \<Longrightarrow> \<not> is_Enabled c"
  shows "\<exists>w' out new. run_state (reconcileDesiredRunningStatus k options dec w snap None) h = ((w', out), h @ new) \<and>
     (if out = (0, None) then reported_running (key_of (w_meta w)) (h @ new)
      else new \<noteq> [] \<and> list_all starting_call new \<and> objects_standing 0 k w (h @ new)) \<and> (objects_standing n k w h \<longrightarrow> out = (0, None))"
proof -
  note sv = assms(1) [unfolded serves_start_def]
  have st: "\<And>h v. \<exists>v'. k_status_Workspace k h v = Inr v' \<and> w_Spec v' = w_Spec v" using sv by blast
  obtain p d s r h1 h2 n1 where c: "run_state (EnsurePVCExists k w) h = (Inr p, h1)"
    "run_state (EnsureDeploymentExists k options w None) h1 = (Inr d, h2)" "run_state (EnsureServiceExists k w) h2 = (Inr s, h @ n1)"
    "IsDeploymentAvailable (Some d) = Inr r" "n1 \<noteq> []" "list_all starting_call n1" "objects_standing 0 k w (h @ n1)"
    "objects_standing n k w h \<longrightarrow> r \<and> IsServiceAvailable (Some s)"
    by (rule objects_created [OF assms(1) na, of h options])
  show ?thesis
  proof (cases "r \<and> IsServiceAvailable (Some s)")
    case True
    obtain w1 h3 where a: "run_state (EnsureAccessResourcesDeleted k (clear_access w)) (h @ n1) = ((w1, None), h3)" "w_meta w1 = w_meta w"
      using access_deletion_served [of k "clear_access w" "h @ n1"] sv by (auto simp: clear_access_def)
    obtain n3 where n3: "h3 = (h @ n1) @ n3"
      by (rule issues_only_run [OF settling_access a(1)])
    have spec: "w_Spec w1 = w_Spec w"
      using EnsureAccessResourcesDeleted_ok(3) [OF a(1)] by (simp add: clear_access_def)
    let ?ev = "CEvent (key_of (w_meta w1)) ''Normal'' ''WorkspaceRunning'' ''Workspace is now running''"
    obtain v st where u: "run_state (UpdateRunningStatus k w1 snap) (h3 @ [?ev]) = ((v, None), (h3 @ [?ev]) @ [CStatusUpdateWorkspace st])"
      "reported_running (key_of (w_meta w1)) ((h3 @ [?ev]) @ [CStatusUpdateWorkspace st])" "w_Spec v = w_Spec w1"
      by (rule UpdateRunningStatus_reports [OF st, of w1 snap "h3 @ [?ev]"])
    have "run_state (reconcileDesiredRunningStatus k options dec w snap None) h = ((v, 0, None), h @ n1 @ n3 @ [?ev, CStatusUpdateWorkspace st])"
      using c True a u(1,3) n3 spec acc idle
      by (simp add: reconcileDesiredRunningStatus_def ReconcileAccessForDesiredRunningStatus_def handleIdleShutdownForRunningWorkspace_def
          Let_def split: option.split)
    then show ?thesis using u(2) a(2) n3 by auto
  next
    case False
    let ?w = "w\<lparr>w_Status := (w_Status w)\<lparr>st_DeploymentName := om_Name (d_meta d), st_ServiceName := om_Name (s_meta s)\<rparr>\<rparr>"
    let ?r = "\<lparr>computeReady = r, serviceReady = IsServiceAvailable (Some s), accessResourcesReady = False\<rparr>"
    let ?s = "sent_status ?w (starting_conditions ?r (k_now k (h @ n1)))"
    obtain v where "k_status_Workspace k (h @ n1) ?s = Inr v" using st by blast
    then have "run_state (reconcileDesiredRunningStatus k options dec w snap None) h = ((v, PollRequeueDelay, None), h @ n1 @ [CStatusUpdateWorkspace ?s])"
      using c(1-4) False by (auto simp: reconcileDesiredRunningStatus_def run_UpdateStartingStatus status_answer_def Let_def)
    moreover have "\<not> IsWorkspaceAvailable ?s"
      using starting.sent_available [of ?w ?r] by (simp add: phase_value_def)
    moreover have "objects_standing 0 k w (h @ n1 @ [CStatusUpdateWorkspace ?s])"
      using objects_standing_extend [OF c(7), of "[CStatusUpdateWorkspace ?s]" 0] by simp
    ultimately show ?thesis using False c(5,6,8) by auto
  qed
qed

text \<open>
  What the start relies on of the API for the workspace itself: it stays readable, nobody but the controller changes what the controller
  reads of it, a write replaces its spec, labels and finalizers, and it is available only once that was reported.
\<close>

definition same_object :: "workspace \<Rightarrow> workspace \<Rightarrow> bool" where
  "same_object a b \<longleftrightarrow> key_of (w_meta a) = key_of (w_meta b) \<and> w_Spec a = w_Spec b \<and> w_Labels a = w_Labels b \<and>
     om_Finalizers (w_meta a) = om_Finalizers (w_meta b)"

fun after_write :: "workspace \<Rightarrow> api_call \<Rightarrow> workspace" where
  "after_write w (CUpdateWorkspace v) = (if key_of (w_meta v) = key_of (w_meta w) then v else w)"
| "after_write w _ = w"

definition keeps_workspace :: "client \<Rightarrow> nsname \<Rightarrow> bool" where
  "keeps_workspace k req \<longleftrightarrow> (\<forall>h v. \<exists>v'. k_update_Workspace k h v = Inr v') \<and>
     (\<forall>h w c. k_get_Workspace k h req = Inr w \<and> \<not> is_deleting (w_meta w) \<longrightarrow>
       (\<exists>w'. k_get_Workspace k (h @ [c]) req = Inr w' \<and> \<not> is_deleting (w_meta w') \<and> same_object w' (after_write w c) \<and>
         (IsWorkspaceAvailable w' \<longrightarrow> IsWorkspaceAvailable w \<or> (\<exists>v. c = CStatusUpdateWorkspace v \<and> IsWorkspaceAvailable v))))"

text \<open>
  A workspace that can be started: live, desired to run, without access strategy and without idle shutdown, and not yet available.
\<close>

definition startable :: "nsname \<Rightarrow> workspace \<Rightarrow> bool" where
  "startable req w \<longleftrightarrow> key_of (w_meta w) = req \<and> \<not> is_deleting (w_meta w) \<and> getDesiredStatus w = DesiredStateRunning \<and>
     ws_AccessStrategy (w_Spec w) = None \<and> (case ws_IdleShutdown (w_Spec w) of None \<Rightarrow> True | Some c \<Rightarrow> \<not> is_Enabled c) \<and>
     \<not> IsWorkspaceAvailable w"

lemma same_object_refl [simp]: "same_object w w"
  by (simp add: same_object_def)

lemma same_object_trans: "same_object a b \<Longrightarrow> same_object b c \<Longrightarrow> same_object a c"
  by (simp add: same_object_def)

lemma desired_cong: "w_Spec a = w_Spec b \<Longrightarrow> getDesiredStatus a = getDesiredStatus b"
  by (simp only: getDesiredStatus_def)

lemma startable_same:
  assumes "startable req w" "key_of (w_meta w') = key_of (w_meta w)" "w_Spec w' = w_Spec w" "\<not> is_deleting (w_meta w')" "\<not> IsWorkspaceAvailable w'"
  shows "startable req w'"
  using assms desired_cong [OF assms(3)] by (simp add: startable_def)

text \<open>Whether a metadata write is due depends on what a write replaces only.\<close>

lemma sync_metadata_cong:
  assumes "same_object a b"
  shows "snd (sync_metadata a) = snd (sync_metadata b)"
proof -
  have eqs: "w_Spec a = w_Spec b" "w_Labels a = w_Labels b" "om_Finalizers (w_meta a) = om_Finalizers (w_meta b)" "w_Namespace a = w_Namespace b"
    using assms by (auto simp: same_object_def key_of_def nn_def)
  have "GetTemplateRefNamespace a = GetTemplateRefNamespace b"
    by (simp add: GetTemplateRefNamespace_def eqs split: option.split)
  then have "template_labels a = template_labels b" "access_strategy_labels a = access_strategy_labels b"
    by (simp_all add: fun_eq_iff template_labels_def access_strategy_labels_def eqs split: option.split)
  then show ?thesis
    by (simp add: sync_metadata_def eqs Let_def split: prod.split)
qed

text \<open>Through requests of a start the workspace stays startable and the same.\<close>

lemma starting_keeps:
  assumes "keeps_workspace k req" "k_get_Workspace k h req = Inr w" "startable req w" "list_all starting_call new"
  shows "\<exists>w'. k_get_Workspace k (h @ new) req = Inr w' \<and> startable req w' \<and> same_object w' w"
  using assms(4)
proof (induction new rule: rev_induct)
  case Nil
  then show ?case using assms by simp
next
  case (snoc c cs)
  then obtain w1 where w1: "k_get_Workspace k (h @ cs) req = Inr w1" "startable req w1" "same_object w1 w" by auto
  have c: "starting_call c" using snoc.prems by simp
  then have same: "after_write w1 c = w1" by (cases c) (auto simp: starting_call_def)
  obtain w2 where w2: "k_get_Workspace k ((h @ cs) @ [c]) req = Inr w2" "\<not> is_deleting (w_meta w2)" "same_object w2 w1"
    "IsWorkspaceAvailable w2 \<longrightarrow> IsWorkspaceAvailable w1 \<or> (\<exists>v. c = CStatusUpdateWorkspace v \<and> IsWorkspaceAvailable v)"
    using assms(1) w1(1,2) same unfolding keeps_workspace_def startable_def by metis
  have "\<not> IsWorkspaceAvailable w2" using w2(4) w1(2) c by (auto simp: starting_call_def startable_def)
  then show ?case using startable_same [OF w1(2), of w2] w2(1,2,3) same_object_trans [OF w2(3) w1(3)] by (simp add: same_object_def)
qed

text \<open>A pass over a startable workspace whose metadata is in line, and one over a workspace whose metadata is not.\<close>

lemma start_pass:
  assumes "serves_start n k" "keeps_workspace k req" "k_get_Workspace k h req = Inr w" "startable req w"
    and line: "\<not> snd (sync_metadata w)"
  shows "\<exists>out h'. run_state (Reconcile k options dec req) h = (out, h') \<and>
     (if out = (0, None) then reported_running req h'
      else objects_standing 0 k w h' \<and> (\<forall>m. objects_standing m k w h \<longrightarrow> objects_standing (Suc m) k w h') \<and>
        (\<exists>w'. k_get_Workspace k h' req = Inr w' \<and> startable req w' \<and> \<not> snd (sync_metadata w'))) \<and>
     (objects_standing n k w h \<longrightarrow> out = (0, None))"
proof -
  obtain v where v: "sync_metadata w = (v, False)" using line by (cases "sync_metadata w") auto
  have same: "w_Spec v = w_Spec w" "key_of (w_meta v) = key_of (w_meta w)" "w_Status v = w_Status w"
    using sync_metadata_sel(1,2,3) [of w] v by simp_all
  have sv: "\<not> IsWorkspaceAvailable v" "ws_AccessStrategy (w_Spec v) = None" "\<And>c. ws_IdleShutdown (w_Spec v) = Some c \<Longrightarrow> \<not> is_Enabled c"
    "getDesiredStatus v = DesiredStateRunning" "key_of (w_meta v) = req"
    using assms(4) desired_cong [OF same(1)] by (auto simp: startable_def same IsWorkspaceAvailable_def split: option.splits)
  let ?h = "h @ [CGetWorkspace req]"
  obtain w' out new where s: "run_state (reconcileDesiredRunningStatus k options dec v (w_Status v) None) ?h = ((w', out), ?h @ new)"
    "if out = (0, None) then reported_running (key_of (w_meta v)) (?h @ new)
     else new \<noteq> [] \<and> list_all starting_call new \<and> objects_standing 0 k v (?h @ new)" "objects_standing n k v ?h \<longrightarrow> out = (0, None)"
    using start_served [OF assms(1) sv(1-3), of options dec "w_Status v" ?h] by blast
  have run: "run_state (Reconcile k options dec req) h = (out, h @ CGetWorkspace req # new)"
    using assms(3,4) v sv s(1) by (simp add: Reconcile_def getWorkspace_def ReconcileDesiredState_def startable_def)
  have late: "objects_standing n k w h \<Longrightarrow> objects_standing n k v ?h"
    using objects_standing_extend [of n k w h "[CGetWorkspace req]" n] standing_key [OF same(2)] by simp
  show ?thesis
  proof (cases "out = (0, None)")
    case True
    then show ?thesis using run s(2) sv(5) by simp
  next
    case False
    have calls: "list_all starting_call (CGetWorkspace req # new)" using s(2) False by simp
    obtain w2 where "k_get_Workspace k (h @ CGetWorkspace req # new) req = Inr w2" "startable req w2" "same_object w2 w"
      using starting_keeps [OF assms(2,3,4) calls] by blast
    then have "\<exists>w'. k_get_Workspace k (h @ CGetWorkspace req # new) req = Inr w' \<and> startable req w' \<and> \<not> snd (sync_metadata w')"
      using line sync_metadata_cong by blast
    moreover have "objects_standing (Suc m) k w (h @ CGetWorkspace req # new)" if "objects_standing m k w h" for m
      using objects_standing_extend [OF that starting_undisturbed [OF calls], of "Suc m"] by simp
    ultimately show ?thesis
      using run s(2,3) False late standing_key [OF same(2)] by auto
  qed
qed

lemma metadata_pass:
  assumes "keeps_workspace k req" "k_get_Workspace k h req = Inr w" "startable req w" and out_of_line: "snd (sync_metadata w)"
  shows "\<exists>h' w'. run_state (Reconcile k options dec req) h = ((PollRequeueDelay, None), h') \<and> k_get_Workspace k h' req = Inr w' \<and>
     startable req w' \<and> \<not> snd (sync_metadata w')"
proof -
  obtain v where v: "sync_metadata w = (v, True)" using out_of_line by (cases "sync_metadata w") auto
  obtain v' where v': "k_update_Workspace k (h @ [CGetWorkspace req]) v = Inr v'"
    using assms(1) unfolding keeps_workspace_def by blast
  have run: "run_state (Reconcile k options dec req) h = ((PollRequeueDelay, None), (h @ [CGetWorkspace req]) @ [CUpdateWorkspace v])"
    using assms(2,3) v v' by (simp add: Reconcile_def getWorkspace_def startable_def)
  obtain w1 where w1: "k_get_Workspace k (h @ [CGetWorkspace req]) req = Inr w1" "startable req w1" "same_object w1 w"
    using starting_keeps [OF assms(1-3), of "[CGetWorkspace req]"] by auto
  have v1: "w_Spec v = w_Spec w" "key_of (w_meta v) = key_of (w_meta w)" using sync_metadata_sel(1,3) [of w] v by simp_all
  then have "after_write w1 (CUpdateWorkspace v) = v" using w1(3) by (simp add: same_object_def)
  then obtain w2 where w2: "k_get_Workspace k ((h @ [CGetWorkspace req]) @ [CUpdateWorkspace v]) req = Inr w2" "\<not> is_deleting (w_meta w2)"
    "same_object w2 v" "\<not> IsWorkspaceAvailable w2"
    using assms(1) w1(1,2) unfolding keeps_workspace_def startable_def by (metis api_call.distinct)
  have "startable req w2"
    using startable_same [OF assms(3), of w2] w2 v1 by (simp add: same_object_def)
  moreover have "\<not> snd (sync_metadata w2)"
    using sync_metadata_cong [OF w2(3)] sync_metadata_converges [of w] v by simp
  ultimately show ?thesis using run w2(1) by blast
qed

text \<open>
  How far a start has come: at stage 1 the metadata is in line, and at stage \<open>m + 2\<close> the objects have been standing for \<open>m\<close> requests.
\<close>

definition start_stage :: "client \<Rightarrow> nsname \<Rightarrow> nat \<Rightarrow> hist \<Rightarrow> bool" where
  "start_stage k req m h \<longleftrightarrow> (\<exists>w. k_get_Workspace k h req = Inr w \<and> startable req w \<and>
     (0 < m \<longrightarrow> \<not> snd (sync_metadata w)) \<and> (1 < m \<longrightarrow> objects_standing (m - 2) k w h))"

lemma start_stage_next:
  assumes "startable req w" "k_get_Workspace k h' req = Inr w'" "startable req w'" "\<not> snd (sync_metadata w')"
    and "objects_standing 0 k w h'" "1 < m \<longrightarrow> objects_standing (Suc (m - 2)) k w h'"
  shows "start_stage k req (Suc m) h'"
proof -
  have "key_of (w_meta w) = key_of (w_meta w')" using assms(1,3) by (simp add: startable_def)
  then have key: "objects_standing i k w h' = objects_standing i k w' h'" for i by (rule standing_key)
  have "objects_standing (m - 1) k w h'" if "0 < m"
  proof (cases "m = 1")
    case False
    then have "Suc (m - 2) = m - 1" "1 < m" using that by simp_all
    then show ?thesis using assms(6) by metis
  qed (use assms(5) in simp)
  then show ?thesis
    using assms(2-4) by (auto simp: start_stage_def key)
qed

lemma start_step:
  assumes "serves_start n k" "keeps_workspace k req" "start_stage k req m h"
  shows "\<exists>out h'. run_state (Reconcile k options dec req) h = (out, h') \<and>
     (if out = (0, None) then reported_running req h' else start_stage k req (Suc m) h') \<and> (start_stage k req (n + 2) h \<longrightarrow> out = (0, None))"
proof -
  obtain w where w: "k_get_Workspace k h req = Inr w" "startable req w" "0 < m \<longrightarrow> \<not> snd (sync_metadata w)"
    "1 < m \<longrightarrow> objects_standing (m - 2) k w h"
    using assms(3) start_stage_def by blast
  show ?thesis
  proof (cases "snd (sync_metadata w)")
    case True
    then have m: "m = 0" "\<not> start_stage k req (n + 2) h" using w(1,3) by (auto simp: start_stage_def)
    obtain h' w' where "run_state (Reconcile k options dec req) h = ((PollRequeueDelay, None), h')" "k_get_Workspace k h' req = Inr w'"
      "startable req w'" "\<not> snd (sync_metadata w')"
      using metadata_pass [OF assms(2) w(1,2) True, of options dec] by blast
    then show ?thesis using m by (simp add: start_stage_def)
  next
    case False
    obtain out h' where p: "run_state (Reconcile k options dec req) h = (out, h')" "objects_standing n k w h \<longrightarrow> out = (0, None)"
      "if out = (0, None) then reported_running req h'
       else objects_standing 0 k w h' \<and> (\<forall>m. objects_standing m k w h \<longrightarrow> objects_standing (Suc m) k w h') \<and>
         (\<exists>w'. k_get_Workspace k h' req = Inr w' \<and> startable req w' \<and> \<not> snd (sync_metadata w'))"
      using start_pass [OF assms(1,2) w(1,2) False, of options dec] by blast
    have "start_stage k req (Suc m) h'" if "out \<noteq> (0, None)"
      using p(3) [unfolded if_not_P [OF that]] w(4) start_stage_next [OF w(2)] by blast
    moreover have "start_stage k req (n + 2) h \<longrightarrow> objects_standing n k w h" using w(1) by (auto simp: start_stage_def)
    ultimately show ?thesis using p by auto
  qed
qed

text \<open>
  C3. A start completes. Suppose the API serves the start: reads of the claim, the deployment and the service succeed or report NotFound,
  creations, status writes and metadata writes are accepted and what was written is read back, and a deployment and a service that were
  read or created are found available after at most \<open>n\<close> further requests. Then the control loop of a workspace that is to run, is
  not yet available, names no access strategy and has no enabled idle shutdown ends after at most \<open>n + 3\<close> passes (one for the metadata, one that creates, the rest waiting),
  whatever existed before, and its last call is a status write with Available True, Progressing, Stopped and Degraded False.
\<close>

theorem start_completes:
  assumes "serves_start n k" and "keeps_workspace k req" and "k_get_Workspace k h req = Inr w" and "startable req w"
  shows "\<exists>h'. run_state (control_loop k options dec req (n + 3)) h = (True, h') \<and> reported_running req h'"
proof -
  have "start_stage k req 0 h" using assms(3,4) by (auto simp: start_stage_def)
  from control_loop_completes [of "start_stage k req" k options dec req "reported_running req" "n + 2", OF start_step [OF assms(1,2)] this]
  show ?thesis by (simp add: numeral_3_eq_3)
qed

section \<open>On the concrete server\<close>

lemma stored_standing:
  assumes keep: "\<And>c y. ev c = Drop y \<Longrightarrow> disturbs c" and put: "\<And>y. ev (create y) = Put y"
    and read: "\<And>h key. get h key = (case stored meta ev key x0 h of None \<Rightarrow> Inl not_found | Some x \<Rightarrow> Inr (f key x))"
    and "standing 0 get meta create key h"
  shows "\<exists>x. get h key = Inr (f key x)"
proof -
  from assms(4) obtain h1 h2 where h: "h = h1 @ h2" "list_all (Not \<circ> disturbs) h2"
    "(\<exists>x. get h1 key = Inr x) \<or> (\<exists>h0 x. h1 = h0 @ [create x] \<and> key_of (meta x) = key)"
    unfolding standing_def by blast
  have "stored meta ev key x0 h1 \<noteq> None"
    using h(3) by (auto simp: read put split: option.splits)
  moreover have "list_all (\<lambda>c. \<forall>y. ev c \<noteq> Drop y) h2"
    using h(2) keep by (auto simp: list_all_iff)
  ultimately have "stored meta ev key x0 h \<noteq> None"
    unfolding h(1) stored_append by (metis stored_present)
  then show ?thesis by (auto simp: read)
qed

lemma cluster_start: "serves_start 0 (cluster_server w d s p)"
proof -
  let ?k = "cluster_server w d s p"
  have keep: "deployment_event c = Drop x \<Longrightarrow> disturbs c" "service_event c = Drop x \<Longrightarrow> disturbs c" "claim_event c = Drop x \<Longrightarrow> disturbs c"
    for c x by (cases c; simp)+
  have "\<exists>x. k_get_Deployment ?k h key = Inr (available_deployment key x)"
    if "standing 0 (k_get_Deployment ?k) d_meta CCreateDeployment key h" for h key
    by (rule stored_standing [where ev = deployment_event and meta = d_meta, OF _ _ _ that]) (auto simp: cluster_server_def keep)
  moreover have "\<exists>x. k_get_Service ?k h key = Inr (x\<lparr>s_meta := read_meta key (s_meta x), s_Spec := (s_Spec x)\<lparr>sv_Type := ''ClusterIP''\<rparr>\<rparr>)"
    if "standing 0 (k_get_Service ?k) s_meta CCreateService key h" for h key
    by (rule stored_standing [where ev = service_event and meta = s_meta, OF _ _ _ that]) (auto simp: cluster_server_def keep)
  moreover have "\<exists>x. k_get_PVC ?k h key = Inr (x\<lparr>p_meta := read_meta key (p_meta x)\<rparr>)"
    if "standing 0 (k_get_PVC ?k) p_meta CCreatePVC key h" for h key
    by (rule stored_standing [where ev = claim_event and meta = p_meta, OF _ _ _ that]) (auto simp: cluster_server_def keep)
  moreover have "IsDeploymentAvailable (Some (available_deployment key x)) = Inr True"
      "IsServiceAvailable (Some (y\<lparr>s_meta := m, s_Spec := (s_Spec y)\<lparr>sv_Type := ''ClusterIP''\<rparr>\<rparr>))" for key x y m
    by (simp_all add: IsDeploymentAvailable_def IsServiceAvailable_def available_deployment_def)
  ultimately show ?thesis
    unfolding serves_start_def serves_creation_def serves_access_deletion_def
    by (fastforce simp: cluster_defs available_deployment_def split: option.splits)
qed

lemma cluster_keeps_workspace: "keeps_workspace (cluster_server w d s p) (key_of (w_meta w))"
proof -
  have step: "\<not> is_deleting (w_meta (workspace_step v c)) \<and> same_object (workspace_step v c) (after_write v c) \<and>
      (IsWorkspaceAvailable (workspace_step v c) \<longrightarrow> IsWorkspaceAvailable v \<or> (\<exists>u. c = CStatusUpdateWorkspace u \<and> IsWorkspaceAvailable u))"
    if "\<not> is_deleting (w_meta v)" for v c
    using that by (cases c) (auto simp: same_object_def is_deleting_def IsWorkspaceAvailable_def key_of_def)
  have "\<forall>h v. \<exists>v'. k_update_Workspace (cluster_server w d s p) h v = Inr v'"
    by (simp add: cluster_defs)
  moreover have "k_get_Workspace (cluster_server w d s p) h (key_of (w_meta w)) = Inr (workspace_at w h)" for h
    by (simp add: cluster_server_def)
  ultimately show ?thesis
    using step unfolding keeps_workspace_def by simp
qed

theorem start_completes_witness:
  "\<exists>h'. run_state (control_loop (cluster_server sample_workspace None None None) sample_options sample_decoders (nn ''team'' ''ws'') 3) [] =
     (True, h') \<and> reported_running (nn ''team'' ''ws'') h'"
proof -
  have key: "key_of (w_meta sample_workspace) = nn ''team'' ''ws''"
    by (simp add: sample_workspace_def key_of_def)
  have "k_get_Workspace (cluster_server sample_workspace None None None) [] (nn ''team'' ''ws'') = Inr sample_workspace"
    using key by (simp add: cluster_server_def)
  moreover have "startable (nn ''team'' ''ws'') sample_workspace"
    using key by (simp add: startable_def sample_workspace_def empty_meta_def empty_spec_def empty_status_def is_deleting_def
        getDesiredStatus_def IsWorkspaceAvailable_def)
  ultimately show ?thesis
    by (rule start_completes [OF cluster_start cluster_keeps_workspace [of sample_workspace, unfolded key], unfolded add_0])
qed
end
