(* ===== verification/RequestBound.thy ===== *)
theory RequestBound
  imports Requests
begin

text \<open>
  How many requests one pass of the workspace controller makes at most, in terms of the number of access resources a workspace lists and of
  access resource templates a strategy has.
\<close>

section \<open>Counting requests\<close>

definition costs :: "nat \<Rightarrow> 'a io \<Rightarrow> bool" where
  "costs n m \<longleftrightarrow> (\<forall>h. length (snd (run_state m h)) \<le> length h + n)"

lemma cost_mono: "costs a m \<Longrightarrow> a \<le> n \<Longrightarrow> costs n m"
  unfolding costs_def by (meson add_left_mono le_trans)

lemma cost_seq_result:
  assumes "costs a m" "\<And>h x. x = fst (run_state m h) \<Longrightarrow> costs b (f x)" "a + b \<le> n"
  shows "costs n (m \<bind> f)"
proof -
  have "length (snd (run_state (m \<bind> f) h)) \<le> length h + n" for h
  proof -
    obtain x h1 where run: "run_state m h = (x, h1)" by fastforce
    then have "length h1 \<le> length h + a" "length (snd (run_state (f x) h1)) \<le> length h1 + b"
      using assms(1,2) [unfolded costs_def] by (metis snd_conv, metis fst_conv)
    then show ?thesis using assms(3) run by simp
  qed
  then show ?thesis by (simp add: costs_def)
qed

lemma cost_seq: "costs a m \<Longrightarrow> (\<And>x. costs b (f x)) \<Longrightarrow> a + b \<le> n \<Longrightarrow> costs n (m \<bind> f)"
  by (rule cost_seq_result)

lemma cost_on_ok: "costs a m \<Longrightarrow> (\<And>x. costs b (f x)) \<Longrightarrow> a + b \<le> n \<Longrightarrow> costs n (on_ok m w f)"
  unfolding on_ok_def by (rule cost_seq) (auto simp: costs_def split: sum.split)

lemma cost_leaves [simp]:
  "costs n (State_Monad.return x)" "costs n (lift r)" "costs n (time_now k)"
  "0 < n \<Longrightarrow> costs n (call f c)" "0 < n \<Longrightarrow> costs n (Recorder_Event key ty reason msg)"
  by (simp_all add: costs_def)

lemma cost_event: "costs 1 (Recorder_Event key ty reason msg)"
  by simp

lemma cost_branches:
  "(b \<Longrightarrow> costs n m) \<Longrightarrow> (\<not> b \<Longrightarrow> costs n m') \<Longrightarrow> costs n (if b then m else m')"
  "(x = None \<Longrightarrow> costs n m) \<Longrightarrow> (\<And>y. x = Some y \<Longrightarrow> costs n (g y)) \<Longrightarrow> costs n (case x of None \<Rightarrow> m | Some y \<Rightarrow> g y)"
  "(\<And>e. r = Inl e \<Longrightarrow> costs n (p e)) \<Longrightarrow> (\<And>y. r = Inr y \<Longrightarrow> costs n (q y)) \<Longrightarrow> costs n (case r of Inl e \<Rightarrow> p e | Inr y \<Rightarrow> q y)"
  "(\<And>a b. z = (a, b) \<Longrightarrow> costs n (s a b)) \<Longrightarrow> costs n (case z of (a, b) \<Rightarrow> s a b)"
  by (auto split: option.split sum.split prod.split)

section \<open>Operations without loops\<close>

lemma cost_status:
  "costs 1 (UpdateErrorStatus k w r m s)" "costs 1 (UpdateStartingStatus k w rr s)" "costs 1 (UpdateRunningStatus k w s)"
  "costs 1 (UpdateStoppingStatus k w sr s)" "costs 1 (UpdateStoppedStatus k w s)" "costs 1 (UpdateDeletingStatus k w)"
  "costs 1 (report_error k w r e s)"
  by (auto simp: costs_def run_updaters UpdateDeletingStatus_def report_error_def Let_def split: prod.splits)

lemma cost_deletions:
  "costs 2 (EnsureDeploymentDeleted k w)" "costs 2 (EnsureServiceDeleted k w)" "costs 2 (EnsurePVCDeleted k w)"
  "costs 3 (AreAllResourcesDeleted k w)" "costs 2 (ensureAccessResourceDeleted k r)"
  by (auto simp: costs_def EnsureDeploymentDeleted_def EnsureServiceDeleted_def EnsurePVCDeleted_def AreAllResourcesDeleted_def
      ensureAccessResourceDeleted_def deletion_defs split: sum.split option.split)

lemma cost_strategy: "costs 1 (GetAccessStrategyForWorkspace k w)" "costs 1 (provided_or_fetched k w a msg)"
  by (auto simp: costs_def provided_or_fetched_def GetAccessStrategyForWorkspace_def Let_def split: sum.split option.split)

lemma cost_ensure_service: "costs 2 (EnsureServiceExists k w)"
  by (auto simp: costs_def ensure_defs updateService_def Let_def split: sum.split)

lemma cost_ensure_claim: "costs 2 (EnsurePVCExists k w)"
  by (auto simp: costs_def ensure_defs updatePVC_def Let_def split: sum.split option.split)

lemma cost_ensure_deployment: "costs 4 (EnsureDeploymentExists k options w a)"
proof -
  have "costs 2 (updateDeployment k options d w b)" for d b
    unfolding updateDeployment_def
    by (rule cost_on_ok [OF cost_strategy(2), where b = 1]) (auto simp: costs_def split: sum.split)
  then have "costs 2 (on_ok (lift r) e (\<lambda>needsUpdate. if needsUpdate then updateDeployment k options d w b else lift (Inr d)))" for r e d b
    by (intro cost_on_ok [where a = 0 and b = 2] cost_branches) simp_all
  then have up: "costs 3 (ensureDeploymentUpToDate k options d w a)" for d
    unfolding ensureDeploymentUpToDate_def
    by (intro cost_branches cost_on_ok [OF cost_strategy(2), where b = 2]) simp_all
  have create: "costs 3 (createDeployment k options w a)"
    by (auto simp: costs_def createDeployment_def split: sum.split)
  show ?thesis
    unfolding EnsureDeploymentExists_def getDeployment_def Let_def
    by (rule cost_seq [where a = 1 and b = 3]) (auto intro!: cost_branches up create)
qed

lemma cost_idle: "costs 5 (handleIdleShutdownForRunningWorkspace k dec w)"
proof -
  have ready: "costs 1 (isAtLeastOneWorkspacePodReady k w)"
    by (auto simp: costs_def isAtLeastOneWorkspacePodReady_def Let_def split: sum.split)
  have check: "costs 2 (CheckWorkspaceIdle k dec w c)" for c
    by (auto simp: costs_def CheckWorkspaceIdle_def findWorkspacePod_def CheckIdle_def ExecInPod_def Let_def
        split: sum.split option.split goerr.split)
  have stop: "costs 2 (stopWorkspaceDueToIdle k w c)" for c
    by (auto simp: costs_def stopWorkspaceDueToIdle_def Let_def split: sum.split)
  have checked: "costs 4 (CheckWorkspaceIdle k dec w c \<bind> (\<lambda>(result, err). case err of
      Some (Panic m) \<Rightarrow> State_Monad.return (w, 0, Some (Panic m))
    | Some _ \<Rightarrow> State_Monad.return (w, if \<not> ShouldRetry result then 0 else IdleCheckInterval, None)
    | None \<Rightarrow> if IsIdle result then stopWorkspaceDueToIdle k w c else State_Monad.return (w, IdleCheckInterval, None)))" for c
    by (rule cost_seq [OF check, where b = 2]) (auto split: prod.split option.split goerr.split intro: stop)
  show ?thesis
    unfolding handleIdleShutdownForRunningWorkspace_def
    by (intro cost_branches cost_leaves cost_seq [OF ready, where b = 4] checked) simp_all
qed

section \<open>Loops over access resources\<close>

lemma cost_delete_loops:
  "costs (2 * length rs) (delete_access_loop k rs acc)" "costs (2 * length rs) (delete_removed_loop k rs b)"
proof (induction rs arbitrary: acc b)
  case (Cons r rs)
  {
    case 1
    show ?case using Cons(1) by (auto intro!: cost_on_ok [OF cost_deletions(5)])
  next
    case 2
    show ?case using Cons(2) by (auto intro!: cost_on_ok [OF cost_deletions(5)])
  }
qed simp_all

text \<open>The access resources a workspace lists.\<close>

abbreviation listed :: "workspace \<Rightarrow> nat" where
  "listed w \<equiv> length (st_AccessResources (w_Status w))"

lemma cost_access_deleted: "costs (2 * listed w) (EnsureAccessResourcesDeleted k w)"
  unfolding EnsureAccessResourcesDeleted_def
  by (intro cost_branches cost_seq [OF cost_delete_loops(1), where b = 0]) simp_all

lemma create_access_resource_cost: "costs 3 (create_access_resource k w a s t b)"
  by (auto simp: costs_def create_access_resource_def Let_def split: sum.split)

lemma create_access_resource_listed:
  "listed (fst (fst (run_state (create_access_resource k w a s t b) h))) \<le> Suc (listed w)"
  by (auto simp: create_access_resource_def set_AccessResources_def Let_def split: sum.split prod.split)

lemma ensureAccessResourceExists_cost: "costs 4 (ensureAccessResourceExists k w a s t ns)"
proof -
  have "costs 1 (refresh_access_resource k w a s t x)" for x
    by (auto simp: costs_def refresh_access_resource_def Let_def split: sum.split)
  then show ?thesis
    unfolding ensureAccessResourceExists_def Let_def
    by (intro cost_branches cost_mono [OF create_access_resource_cost] cost_seq [where a = 1 and b = 3] cost_seq [where a = 1 and b = 0])
      (auto intro: create_access_resource_cost)
qed

text \<open>A template adds at most one entry: an entry that is replaced is taken out first.\<close>

lemma ensureAccessResourceExists_listed:
  "listed (fst (fst (run_state (ensureAccessResourceExists k w a s t ns) h))) \<le> Suc (listed w)"
proof (cases "find_access_status (st_AccessResources (w_Status w)) (art_Kind t) (lookup_name t w) ns 0")
  case None
  then show ?thesis using create_access_resource_listed by (simp add: ensureAccessResourceExists_def)
next
  case (Some p)
  then obtain i x where p: "p = (i, x)" by (cases p)
  let ?rs = "st_AccessResources (w_Status w)"
  have "listed (set_AccessResources w (take i ?rs @ drop (Suc i) ?rs)) \<le> listed w"
    by (simp add: set_AccessResources_def)
  then have "listed (fst (fst (run_state (create_access_resource k (set_AccessResources w (take i ?rs @ drop (Suc i) ?rs)) a s t True) h1))) \<le>
      Suc (listed w)" for h1
    using create_access_resource_listed [of k "set_AccessResources w (take i ?rs @ drop (Suc i) ?rs)" a s t True h1] by linarith
  then show ?thesis
    using Some p by (auto simp: ensureAccessResourceExists_def Let_def split: sum.split prod.split)
qed

lemma ensure_templates_loop_cost: "costs (4 * length ts) (ensure_templates_loop k a s ts w)"
proof (induction ts arbitrary: w)
  case (Cons t ts)
  show ?case
    unfolding ensure_templates_loop.simps
    by (rule cost_seq [OF ensureAccessResourceExists_cost, where b = "4 * length ts"])
      (auto intro!: cost_branches Cons.IH)
qed simp

lemma ensure_templates_loop_listed:
  "listed (fst (fst (run_state (ensure_templates_loop k a s ts w) h))) \<le> listed w + length ts"
proof (induction ts arbitrary: w h)
  case (Cons t ts)
  obtain w1 e h1 where run: "run_state (ensureAccessResourceExists k w a s t (w_Namespace w)) h = ((w1, e), h1)"
    by (metis surj_pair)
  then have one: "listed w1 \<le> Suc (listed w)"
    using ensureAccessResourceExists_listed [of k w a s t "w_Namespace w" h] by simp
  show ?case
  proof (cases e)
    case None
    then have "run_state (ensure_templates_loop k a s (t # ts) w) h = run_state (ensure_templates_loop k a s ts w1) h1" using run by simp
    then show ?thesis using Cons.IH [of w1 h1] one by simp
  next
    case (Some x)
    then have "run_state (ensure_templates_loop k a s (t # ts) w) h = ((w1, Some x), h1)" using run by simp
    then show ?thesis using one by simp
  qed
qed simp

lemma EnsureAccessResourcesExist_cost:
  "costs (6 * length (as_AccessResourceTemplates (a_Spec a)) + 2 * listed w) (EnsureAccessResourcesExist k w a s)"
  unfolding EnsureAccessResourcesExist_def Let_def
proof (rule cost_seq_result [OF ensure_templates_loop_cost,
      where b = "2 * (listed w + length (as_AccessResourceTemplates (a_Spec a)))"], goal_cases)
  case (1 h x)
  then have x: "listed (fst x) \<le> listed w + length (as_AccessResourceTemplates (a_Spec a))"
    using ensure_templates_loop_listed by simp
  have "2 * length (filter P (st_AccessResources (w_Status (fst x)))) \<le> 2 * (listed w + length (as_AccessResourceTemplates (a_Spec a)))" for P
    using length_filter_le [of P "st_AccessResources (w_Status (fst x))"] x by (simp del: length_filter_le)
  note removed = cost_mono [OF cost_delete_loops(2) this]
  obtain v e where v: "x = (v, e)" by (cases x)
  show ?case
  proof (cases e)
    case None
    show ?thesis
      unfolding v None prod.case option.case by (rule cost_seq [OF removed [unfolded v fst_conv], where b = 0]) simp_all
  qed (simp add: v)
qed simp

section \<open>Passes\<close>

text \<open>
  The API answers with at most \<open>r\<close> access resources in a workspace and at most \<open>t\<close> templates in an access strategy, and a status write is
  answered with no more access resources than it lists.
\<close>

definition lists_at_most :: "client \<Rightarrow> nat \<Rightarrow> nat \<Rightarrow> bool" where
  "lists_at_most k r t \<longleftrightarrow> (\<forall>h key w. k_get_Workspace k h key = Inr w \<longrightarrow> listed w \<le> r) \<and>
     (\<forall>h v w. k_status_Workspace k h v = Inr w \<longrightarrow> listed w \<le> listed v) \<and>
     (\<forall>h key a. k_get_AccessStrategy k h key = Inr a \<longrightarrow> length (as_AccessResourceTemplates (a_Spec a)) \<le> t)"

lemma stopped_cost: "costs (6 + 2 * listed w) (reconcileDesiredStoppedStatus k w s)"
proof -
  have acc: "costs (2 * listed w) (ReconcileAccessForDesiredStoppedStatus k w)"
    using cost_access_deleted [of "clear_access w" k] by (simp add: ReconcileAccessForDesiredStoppedStatus_def)
  show ?thesis
    unfolding reconcileDesiredStoppedStatus_def Let_def
    by (rule cost_seq [OF acc, where b = 6], intro cost_branches cost_seq [OF cost_deletions(1), where b = 4]
        cost_seq [OF cost_deletions(2), where b = 2] cost_mono [OF cost_status(7)] cost_seq [OF cost_status(4), where b = 0]
        cost_seq [OF cost_event, where b = 1] cost_seq [OF cost_status(5), where b = 0]) simp_all
qed

lemma running_access_cost:
  assumes "\<And>x. a = Some x \<Longrightarrow> length (as_AccessResourceTemplates (a_Spec x)) \<le> t"
  shows "costs (6 * t + 2 * listed w) (ReconcileAccessForDesiredRunningStatus k w s a)"
proof -
  have "costs (6 * t + 2 * listed w) (EnsureAccessResourcesDeleted k (clear_access w))"
    using cost_mono [OF cost_access_deleted [of "clear_access w" k]] by simp
  moreover have "costs (6 * t + 2 * listed w) (EnsureAccessResourcesExist k w x (Some s))" if "a = Some x" for x
    using cost_mono [OF EnsureAccessResourcesExist_cost [of x w k "Some s"]] assms [OF that] by simp
  ultimately show ?thesis
    unfolding ReconcileAccessForDesiredRunningStatus_def
    by (auto intro!: cost_branches intro: cost_seq [where b = 0])
qed

lemma running_cost:
  assumes "\<And>x. a = Some x \<Longrightarrow> length (as_AccessResourceTemplates (a_Spec x)) \<le> t"
  shows "costs (15 + 6 * t + 2 * listed w) (reconcileDesiredRunningStatus k options dec w s a)"
  unfolding reconcileDesiredRunningStatus_def Let_def
  by (rule cost_seq [OF cost_ensure_claim, where b = "13 + 6 * t + 2 * listed w"],
      intro cost_branches cost_mono [OF cost_status(7)] cost_leaves
        cost_seq [OF cost_ensure_deployment, where b = "9 + 6 * t + 2 * listed w"]
        cost_seq [OF cost_ensure_service, where b = "7 + 6 * t + 2 * listed w"]
        cost_seq [OF running_access_cost [OF assms], where b = 7]
        cost_seq [OF cost_event, where b = 6] cost_seq [OF cost_status(3), where b = 5] cost_idle
        cost_seq [OF cost_status(2), where b = 0]) simp_all

lemma cleanup_cost: "costs (9 + 2 * listed w) (CleanupAllResources k w)"
proof -
  have "costs 3 (AreAllResourcesDeleted k v \<bind> (\<lambda>gone. lift (Inr gone)))" for v
    by (rule cost_seq [OF cost_deletions(4), where b = 0]) simp_all
  then have "costs 9 (on_ok (EnsureDeploymentDeleted k v) id (\<lambda>_. on_ok (EnsureServiceDeleted k v) id
      (\<lambda>_. on_ok (EnsurePVCDeleted k v) id (\<lambda>_. AreAllResourcesDeleted k v \<bind> (\<lambda>gone. lift (Inr gone))))))" for v
    by (intro cost_on_ok [OF cost_deletions(1), where b = 7] cost_on_ok [OF cost_deletions(2), where b = 5]
        cost_on_ok [OF cost_deletions(3), where b = 3]) simp_all
  then show ?thesis
    unfolding CleanupAllResources_def
    by (intro cost_seq [OF cost_access_deleted, where b = 9] cost_branches cost_seq [where a = 9 and b = 0]) simp_all
qed

lemma deletion_cost:
  assumes "lists_at_most k r t" "listed w \<le> r"
  shows "costs (11 + 2 * r) (ReconcileDeletion k w)"
proof -
  have cleanup: "costs (10 + 2 * r) (case err of Some e \<Rightarrow> State_Monad.return (v, 0, Some e) | None \<Rightarrow> do {
       (w1, c) \<leftarrow> CleanupAllResources k v;
       (case c of
          Inl e \<Rightarrow> State_Monad.return (w1, 0, Some e)
        | Inr allDeleted \<Rightarrow>
            if \<not> allDeleted then State_Monad.return (w1, PollRequeueDelay, None)
            else do {
              let w2 = w1\<lparr>w_meta := (w_meta w1)\<lparr>om_Finalizers :=
                         remove_finalizer (om_Finalizers (w_meta w1)) WorkspaceFinalizerName\<rparr>\<rparr>;
              u \<leftarrow> call (\<lambda>h. k_update_Workspace k h w2) (CUpdateWorkspace w2);
              State_Monad.return (case u of Inl e \<Rightarrow> (w2, 0, Some e) | Inr w3 \<Rightarrow> (w3, 0, None))
            })
     })" if "err = None \<longrightarrow> listed v \<le> r" for v err
  proof (cases err)
    case None
    then have v: "costs (9 + 2 * r) (CleanupAllResources k v)" using that cost_mono [OF cleanup_cost] by simp
    show ?thesis
      unfolding None option.case Let_def
      by (intro cost_seq [OF v, where b = 1] cost_branches cost_leaves cost_seq [where a = 1 and b = 0]) simp_all
  qed simp
  have answer: "snd x = None \<longrightarrow> listed (fst x) \<le> r" if "x = fst (run_state (UpdateDeletingStatus k w) h)" for x h
    using assms that by (fastforce simp: UpdateDeletingStatus_def lists_at_most_def Let_def split: sum.splits)
  show ?thesis
    unfolding ReconcileDeletion_def
  proof (intro cost_branches cost_leaves, rule cost_seq_result [OF cost_status(6), where b = "10 + 2 * r"], goal_cases)
    case (1 h x)
    obtain v err where x: "x = (v, err)" by (cases x)
    have "err = None \<longrightarrow> listed v \<le> r" using answer [of x h] 1 x by (metis fst_conv snd_conv)
    then show ?case unfolding x prod.case by (rule cleanup)
  qed simp
qed

text \<open>
  C6. A pass is bounded. If the API answers with workspaces that list at most \<open>r\<close> access resources and with access strategies of at
  most \<open>t\<close> templates, and answers a status write with no more access resources than were written, then one pass of the workspace
  controller issues at most \<open>17 + 6 t + 2 r\<close> requests, whatever the answers are, failures and conflicts included.
\<close>

theorem Reconcile_bounded:
  assumes "lists_at_most k r t"
  shows "length (snd (run_state (Reconcile k options dec req) h)) \<le> length h + (17 + 6 * t + 2 * r)"
proof -
  have desired: "costs (15 + 6 * t + 2 * r) (ReconcileDesiredState k options dec v a)"
    if "listed v \<le> r" "\<And>x. a = Some x \<Longrightarrow> length (as_AccessResourceTemplates (a_Spec x)) \<le> t" for v a
    unfolding ReconcileDesiredState_def Let_def
    by (intro cost_branches cost_mono [OF stopped_cost] cost_mono [OF running_cost [OF that(2)]] cost_seq [OF cost_status(1), where b = 0])
      (use that(1) in simp_all)
  have fetched: "\<And>y. x = Inr (Some y) \<Longrightarrow> length (as_AccessResourceTemplates (a_Spec y)) \<le> t"
    if "x = fst (run_state (if b then GetAccessStrategyForWorkspace k v else lift (Inr None)) h)" for x b v h
    using that assms by (auto simp: GetAccessStrategyForWorkspace_def lists_at_most_def Let_def split: if_splits option.splits sum.splits)
  have onward: "costs (16 + 6 * t + 2 * r)
      ((if b then GetAccessStrategyForWorkspace k v else lift (Inr None)) \<bind> (\<lambda>a. case a of
         Inl err \<Rightarrow> State_Monad.return (0, Some err)
       | Inr accessStrategy \<Rightarrow> ReconcileDesiredState k options dec v accessStrategy \<bind> (\<lambda>(_, out). State_Monad.return out)))"
    if "listed v \<le> r" for v b
  proof (rule cost_seq_result [where a = 1 and b = "15 + 6 * t + 2 * r"], goal_cases)
    case 1
    show ?case using cost_strategy(1) by simp
  next
    case (2 h x)
    then show ?case
      by (intro cost_branches cost_leaves cost_seq [OF desired [OF that fetched], where b = 0]) auto
  qed simp
  have read: "listed w \<le> r" if "k_get_Workspace k h req = Inr w" for w h
    using assms that by (simp add: lists_at_most_def)
  have "costs (17 + 6 * t + 2 * r) (Reconcile k options dec req)"
    unfolding Reconcile_def getWorkspace_def
  proof (rule cost_seq_result [where a = 1 and b = "16 + 6 * t + 2 * r"], goal_cases)
    case (2 h x)
    have "listed v \<le> r" if "x = Inr w" "sync_metadata w = (v, b)" for v w b
      using read 2 that sync_metadata_sel(2) [of w] by simp
    moreover have "listed w \<le> r" if "x = Inr w" for w
      using read 2 that by simp
    ultimately show ?case
      by (intro cost_branches cost_leaves cost_seq [OF deletion_cost [OF assms], where b = 0])
        (auto simp: Let_def intro!: cost_branches onward cost_seq [where a = 1 and b = 0])
  qed simp_all
  then show ?thesis by (simp add: costs_def)
qed

theorem Reconcile_bounded_witness:
  "length (snd (run_state (Reconcile (workspace_server deleting_workspace) sample_options sample_decoders (nn ''team'' ''ws'')) [])) \<le> 17"
proof -
  have "lists_at_most (workspace_server deleting_workspace) 0 0"
    by (simp add: lists_at_most_def workspace_server_def empty_server_def deleting_workspace_def sample_workspace_def empty_status_def)
  from Reconcile_bounded [OF this, of sample_options sample_decoders "nn ''team'' ''ws''" "[]"] show ?thesis
    by simp
qed
end
