(* ===== verification/Spec2Isabelle.thy ===== *)
theory Spec2Isabelle
  imports Manager StartLoop RequestBound
begin

text \<open>
  Verification library of the Jupyter workspace operator: a Kubernetes operator that runs Jupyter workspaces
  (\<open>internal/controller\<close>), the admission webhooks in front of it (\<open>internal/webhook\<close>), the extension API that decides who may
  connect to a workspace (\<open>internal/extensionapi\<close>), the middleware that turns an identity or a link into a session
  (\<open>internal/authmiddleware\<close>, \<open>internal/jwt\<close>), and remote access through AWS (\<open>internal/aws\<close>).

  \<^bold>\<open>The program.\<close> A user creates a \<open>Workspace\<close>; the webhooks fill in the defaults of a \<open>WorkspaceTemplate\<close>, record the
  creator and refuse what the template does not allow. The workspace controller brings a deployment, a service, a volume claim and the
  access resources of a \<open>WorkspaceAccessStrategy\<close> in line with the desired status, reports conditions, stops idle
  workspaces, and on deletion removes what it created before it gives up its finalizer. Two small controllers keep templates and access
  strategies alive while workspaces use them. Browsers reach a workspace through the middleware: it verifies the user with the
  identity provider, asks the extension API for an access review, and issues a session token; or it exchanges a bootstrap token
  that the extension API put in a link. Pod events register the pod with Systems Manager, so that the extension API can start a
  remote session on it.

  \<^bold>\<open>How the code is modelled.\<close> Strings are byte lists, Go errors are values of \<open>goerr\<close> (with wrapping, API status reasons and
  panics), pointers that may be nil are options, durations and times are nanoseconds, at 64 bits where they can overflow. Code that calls
  the outside is a computation of \<open>State_Monad\<close>: the API server is the record \<open>client\<close> of arbitrary answers that may depend on
  all earlier calls, and the state is the history of calls (\<open>'a io\<close>); tokens and the middleware have \<open>auth_env\<close> and \<open>'a auth_io\<close>;
  the extension API and remote access join both in \<open>world\<close> and \<open>'a pio\<close>, where a panic ends the computation. So every theorem holds for
  every behaviour of the outside, conflicts and failures at any call included, unless it names a law. Interleaving with other
  writers is covered the same way: an answer need not agree with earlier answers.

  \<^bold>\<open>Theories\<close>, in the order of the code:
  \<^item> \<open>Prelude\<close>: Go errors, maps and text; the lemma collections. \<open>GoText\<close>: UTF-8, Unicode upper case and white space, JSON string escaping
    (\<open>stringutil\<close>), integer parsing and printing, glob patterns. \<open>Encoding\<close>: \<open>workspace/encoding.go\<close>, Base32 included.
  \<^item> \<open>ApiTypes\<close>: \<open>api/v1alpha1\<close> and the Kubernetes objects used. \<open>K8sClient\<close>: the API server as a parameter, call histories
    and the calculus \<open>issues_only\<close> for what a computation may request.
  \<^item> \<open>Conditions\<close>, \<open>StatusManager\<close>: \<open>conditions.go\<close>, \<open>conditions_utils.go\<close>, \<open>status_manager.go\<close>. The locale \<open>phase_conditions\<close> is the
    contract of a phase.
  \<^item> \<open>Builders\<close>: names, labels, images, storage, the deployment, service, claim and access resource builders; the locale \<open>object_updater\<close>
    states that an update brings an object to a state that needs no update.
  \<^item> \<open>ResourceManager\<close>: ensuring, updating and deleting the objects; the locales \<open>ensure_deleted\<close> and
    \<open>ensure_exists\<close> are the contracts of the deleting and of the creating operations.
  \<^item> \<open>Idle\<close>, \<open>StateMachine\<close>: idle detection with its 64-bit arithmetic; the reconciliation of a desired status and of a deletion.
  \<^item> \<open>WorkspaceUtil\<close>, \<open>Controllers\<close>: queries, finalizers, template resolution; the three reconcilers and the preemption events. The
    locales \<open>reference_query\<close> and \<open>lazy_finalizer\<close> are shared by templates and access strategies.
  \<^item> \<open>WebhookDefaults\<close>, \<open>WebhookValidation\<close>, \<open>Webhooks\<close>: the defaulters (locales \<open>default_step\<close>, \<open>default_applicator\<close>), the validators
    and the three webhooks.
  \<^item> \<open>AuthWorld\<close>, \<open>Jwt\<close>, \<open>KmsSigner\<close>, \<open>AuthText\<close>, \<open>AuthConfig\<close>, \<open>AuthMiddleware\<close>: the token package and services as parameters; the two
    signers under the locale \<open>token_signer\<close>; group lists and headers; the configuration; cookies, identity provider and the four routes.
  \<^item> \<open>Ssm\<close>: the Systems Manager client, the remote access strategy, pod start and deletion events. \<open>ExtensionApi\<close>: access reviews and
    connections.
  \<^item> \<open>Requests\<close>: the changes of objects that the state of a workspace permits, for every operation of the workspace controller.
  \<^item> \<open>ControlLoop\<close>, \<open>StartLoop\<close>: the passes of the workspace controller one after the other: a deletion and a stop, and a start. The contracts \<open>ensure_deleted\<close> and \<open>ensure_exists\<close> are extended by what they give on a server that
    serves the request after a while. \<open>Cluster\<close>: a concrete server with a store, on which the hypotheses of these theorems hold.
  \<^item> \<open>RequestBound\<close>: how many requests a pass makes at most, with a calculus that counts them.
  \<^item> \<open>Manager\<close>: the processes (\<open>cmd\<close>): flags, setup with its early exits, what is watched and served, and the runs of the manager
    process as a transition relation over its handlers, with restarts.
  \<^item> This theory: what the components promise together.

  \<^bold>\<open>What is shown.\<close> Controller: in every run of the manager process objects are created and updated only for their own workspace when it is
  to run and carries the finalizer, a claim is deleted only when it is being deleted, a deployment or service only then or for a stop; the finalizer is removed last, after every child object is gone; a
  workspace is reported stopped or running only when its objects are; when the cluster takes at most \<open>n\<close> requests to carry out a deletion or to
  bring up an object, the control loop ends a deletion and a stop within \<open>n + 2\<close> passes and a start (of a workspace without access
  strategy and idle shutdown) within \<open>n + 3\<close>; a pass makes a bounded number of requests; idle shutdown only on evidence; the status lists
  every access resource once; objects sent are the desired ones; on a server that holds the workspaces, templates and access strategies have their finalizer
  exactly while a live workspace names them, and a template in use is not released. Webhooks: defaults never override the user and are a merge; admission of creations and updates is exactly the
  stated condition (which leaves out the idle shutdown override policy of the template: the code does not enforce it); the recorded creator is the only ordinary user who can change an owner-only workspace; the glob matcher, the escaping and the
  host name encoding meet their specifications. Tokens and middleware: which requests pass, which tokens are set and for whom; validity
  of issued tokens; the key cache is bounded. Extension API and remote access: the exact decision of a review; connections only for those
  who may connect; sessions on the newest instance and below the limit; setups once and only when due, with a
  cleanup of what the queries for the pod answered.

  \<^bold>\<open>Hypotheses on the outside\<close> are definitions, each with an instance in a witness: \<open>date_law\<close>, \<open>parse_signed\<close>, \<open>parse_sound\<close> (the token
  package), \<open>kms_law\<close>, \<open>digest_law\<close>, \<open>order_law\<close> (the key service, the hash of an encrypted key and the order of Go maps), \<open>state_file_law\<close> (a file in a pod),
  \<open>answers_keyed\<close>, \<open>status_keeps_key\<close> (objects carry the key they were asked for), \<open>serves_teardown\<close>, \<open>serves_start\<close>, \<open>keeps_workspace\<close>,
  \<open>being_deleted\<close>, \<open>being_stopped\<close> (what the control loop needs of the cluster to make progress), \<open>holds_workspaces\<close> (list queries answer
  from one set of workspaces), \<open>listed_once\<close> (of the status a workspace starts from),
  \<open>lists_at_most\<close> (sizes of what the cluster answers), \<open>reviews_served\<close> (the middleware's reviews are the
  extension API's answers).

  \<^bold>\<open>Loops\<close> of the code are structural recursion over the list visited, or functions with a measure; no fuel is used for them. Retries on conflict are
  bounded as in the source. The queue of controller-runtime, which calls \<open>Reconcile\<close> again after an error or a delay, may go on for ever; \<open>control_loop\<close>
  has the number of passes as fuel, and the theorems about it say how much is enough.

  \<^bold>\<open>Not modelled\<close>: generated deep copies (a value of the model is its own copy) and scheme registration; command line parsing and the
  registration calls of controller-runtime, which only succeed or fail; listening, TLS and shutdown of the HTTP servers; logging; mocks and test
  utilities; retries inside the AWS clients and the random delay before a setup; the content of the session document; Helm charts
  and deployment files. Handlers run one at a time in \<open>process_run\<close>; what other replicas and writers do in between is covered by the
  arbitrary answers of the cluster.
\<close>

section \<open>The creator of a workspace and access to it\<close>

text \<open>
  C39. Webhook and extension API agree on who owns a private workspace. Let a workspace with restricted access be admitted
  for creation by a user. A connection request whose authenticated user has another name is refused, and the creator's is
  not. In an access review, the name that is admitted is the escaped name of the creator: the creator's own name only when
  escaping does not change it. User names are valid UTF-8.
\<close>

theorem creator_may_connect:
  assumes created: "fst (run_state (Default k0 ns0 (Inr creation) (WorkspaceObj w0)) h) = Inr ws"
      "rq_Operation creation = ''CREATE''" "\<not> is_deleting (w_meta w0)"
    and restricted: "ws_AccessType (w_Spec ws) \<notin> {'''', ''Public''}"
    and stored: "k_get_Workspace k (wd_hist st) (nn ns name) = Inr ws"
    and request: "xr_User r = Some v" "v \<noteq> ''''"
    and names: "valid_utf8 (ui_Username (rq_UserInfo creation))" "valid_utf8 v"
  shows "(\<exists>a st'. run_state (checkWorkspaceAuthorization k r name ns) st = (Inr (Inr a), st') \<and>
      (ad_Allowed a \<longleftrightarrow> v = ui_Username (rq_UserInfo creation))) \<and>
    (\<exists>a st'. run_state (CheckWorkspaceAccess k ns name v) st = (Inr (Inr a), st') \<and>
      (ad_Allowed a \<longleftrightarrow> v = SanitizeUsername (ui_Username (rq_UserInfo creation))))"
proof -
  let ?u = "ui_Username (rq_UserInfo creation)"
  have "w_Annotations ws = w_Annotations (stamp_owner (Inr creation) w0)"
    by (rule Default_annotations [OF created(1,3)])
  then have owner: "getWorkspaceOwner ws = SanitizeUsername ?u"
    using created(2) by (simp add: stamp_owner_def getWorkspaceOwner_def Let_def)
  have access: "\<exists>a st'. run_state (CheckWorkspaceAccess k ns name user) st = (Inr (Inr a), st') \<and>
      (ad_Allowed a \<longleftrightarrow> user = SanitizeUsername ?u)" for user
    using run_CheckWorkspaceAccess [of k ns name user st] stored restricted owner by (auto simp: may_connect_def)
  have user: "GetUser r = SanitizeUsername v"
    using request by (auto simp: GetUser_def neq_Nil_conv)
  have nonempty: "SanitizeUsername v \<noteq> ''''"
    using SanitizeUsername_read [OF names(2)] request(2) by fastforce
  have "SanitizeUsername v = SanitizeUsername ?u \<longleftrightarrow> v = ?u"
    using SanitizeUsername_read [OF names(1)] SanitizeUsername_read [OF names(2)] by metis
  then show ?thesis
    using access [of v] access [of "SanitizeUsername v"] user nonempty by (auto simp: checkWorkspaceAuthorization_def Let_def)
qed

section \<open>Signing in and access\<close>

text \<open>The reviews that the authentication middleware is answered are answers of the extension API.\<close>

definition reviews_served :: "ext_env \<Rightarrow> client \<Rightarrow> auth_env \<Rightarrow> bool" where
  "reviews_served y k e \<longleftrightarrow> (\<forall>calls ns spec rv. e_review e calls ns spec = Inr rv \<longrightarrow>
     (\<exists>q w w'. run_state (handleConnectionAccessReview y k q) w = (Inr (ReviewAnswer \<lparr>ar_Namespace = ns, ar_Spec = spec, ar_Status = rv\<rparr>), w')))"

lemma served_review_allowed:
  assumes "reviews_served y k e" "e_review e calls ns spec = Inr rv" "rv_Allowed rv"
  shows "\<exists>w rbac ws. y_sar y w (connection_sar ns spec) = Inr rbac \<and> fst rbac \<and>
    k_get_Workspace k (wd_hist w) (nn ns (rv_WorkspaceName spec)) = Inr ws \<and> may_connect ws (rv_User spec)"
proof -
  obtain q w w' where "run_state (handleConnectionAccessReview y k q) w =
      (Inr (ReviewAnswer \<lparr>ar_Namespace = ns, ar_Spec = spec, ar_Status = rv\<rparr>), w')"
    using assms(1,2) unfolding reviews_served_def by blast
  then have "run_state (CheckWorkspaceConnectionPermission y k ns (rv_WorkspaceName spec) (rv_User spec) (rv_Groups spec) (rv_UID spec)
      (rv_Extra spec)) w = (Inr (Inr rv), w')"
    by (rule review_answer) simp
  from run_CheckWorkspaceConnectionPermission [OF this] obtain rbac where rbac: "y_sar y w (connection_sar ns spec) = Inr rbac"
      "(rv_Allowed rv, rv_NotFound rv) = review_decision rbac (k_get_Workspace k (wd_hist w) (nn ns (rv_WorkspaceName spec))) (rv_User spec)"
    by blast
  then obtain ws where "fst rbac" "k_get_Workspace k (wd_hist w) (nn ns (rv_WorkspaceName spec)) = Inr ws" "may_connect ws (rv_User spec)"
    using assms(3) by (auto simp: review_decision_def split: sum.splits)
  then show ?thesis using rbac(1) by blast
qed

text \<open>
  C40. Who gets a session. The middleware process and the extension API together: let the middleware have started, and let its
  route \<open>/auth\<close> set a session cookie. Then the identity provider accepted the request's token, and for the workspace of the
  request the cluster granted the provider's user the creation of connections in its namespace and the workspace was public or recorded
  as created by this user. The session is issued for this user, with the issuer, audience and lifetime of a valid configuration.
\<close>

theorem session_needs_access:
  assumes started: "fst (run_state (middleware_main restClient e) st0) = Inr s"
    and routed: "route e s ''/auth'' = Some handler" and served: "reviews_served y k e"
    and resp: "fst (run_state (handler r) st) = Inr resp" "ck \<in> set (ho_cookies resp)"
  shows "NewConfig e = Inr (sv_config s) \<and>
    (\<exists>tok oc info w rbac ws. ExtractBearerToken (hr_Header r HeaderAuthorization) = Inr tok \<and>
      e_oidc_verify e (at_calls st) tok = OClaims oc \<and> ExtractWorkspaceInfo e s r = Inr info \<and>
      y_sar y w (connection_sar (wi_Namespace info) \<lparr>rv_WorkspaceName = wi_Name info, rv_User = ta_user (oidc_args e s r oc),
        rv_Groups = ta_groups (oidc_args e s r oc), rv_UID = oc_Subject oc, rv_Extra = Map.empty\<rparr>) = Inr rbac \<and> fst rbac \<and>
      k_get_Workspace k (wd_hist w) (nn (wi_Namespace info) (wi_Name info)) = Inr ws \<and> may_connect ws (ta_user (oidc_args e s r oc)) \<and>
      issued_for e (sv_config s) (oidc_args e s r oc) (ck_Value ck))"
  (is "_ \<and> ?access")
proof (rule conjI [OF middleware_main_Inr(1) [OF started]])
  note handler = middleware_main_Inr(2) [OF started]
  have auth: "fst (run_state (handleAuth e s r) st) = Inr resp"
    using routed resp(1) by (auto simp: route_def split: if_splits)
  show ?access
  proof (rule handleAuth_authorized [OF handler auth resp(2)])
    fix tok oc
    let ?a = "oidc_args e s r oc" and ?st = "st\<lparr>at_calls := at_calls st @ [COIDCVerify tok]\<rparr>"
    assume tok: "ExtractBearerToken (hr_Header r HeaderAuthorization) = Inr tok" "e_oidc_verify e (at_calls st) tok = OClaims oc"
      and "fst (run_state (authorize_user e s r oc) ?st) = Inr resp"
    from authorize_user_cookie [OF handler this(3) resp(2)] obtain rv where
        rv: "review_of e s r (at_calls ?st) (ta_user ?a) (ta_groups ?a) (oc_Subject oc) Map.empty = Inr rv" "rv_Allowed rv"
          "issued_for e (sv_config s) ?a (ck_Value ck)"
      by blast
    then obtain info where info: "ExtractWorkspaceInfo e s r = Inr info" "e_review e (at_calls ?st) (wi_Namespace info)
        \<lparr>rv_WorkspaceName = wi_Name info, rv_User = ta_user ?a, rv_Groups = ta_groups ?a, rv_UID = oc_Subject oc, rv_Extra = Map.empty\<rparr> = Inr rv"
      by (auto simp: review_of_def split: sum.splits if_splits)
    show ?thesis
      using served_review_allowed [OF served info(2) rv(2)] tok info(1) rv(3) by auto
  qed
qed

section \<open>Examples\<close>

definition restricted_workspace :: workspace where
  "restricted_workspace = sample_workspace\<lparr>w_Spec := empty_spec\<lparr>ws_AccessType := ''OwnerOnly''\<rparr>\<rparr>"

theorem creator_may_connect_witness:
  "\<exists>ws a st'. fst (run_state (Default empty_server '''' (Inr alice_request) (WorkspaceObj restricted_workspace)) []) = Inr ws \<and>
     run_state (checkWorkspaceAuthorization (empty_server\<lparr>k_get_Workspace := \<lambda>_ _. Inr ws\<rparr>) (post ''workspaceconnections'' '''') ''ws'' ''team'') demo_world =
       (Inr (Inr a), st') \<and> ad_Allowed a"
proof -
  have d: "\<not> is_deleting (w_meta restricted_workspace)"
    by (simp add: is_deleting_def restricted_workspace_def sample_workspace_def empty_meta_def)
  have e: "w_Spec restricted_workspace = empty_spec\<lparr>ws_AccessType := ''OwnerOnly''\<rparr>"
    "k_list_Templates empty_server = (\<lambda>_ _. Inr [])" "k_list_ServiceAccounts empty_server = (\<lambda>_ _ _. Inr [])"
    "ws_TemplateRef empty_spec = None" "ws_ServiceAccountName empty_spec = []" "ws_AccessStrategy empty_spec = None"
    "ws_OwnershipType empty_spec = []"
    by (simp_all add: restricted_workspace_def empty_server_def empty_spec_def)
  obtain ws where ws: "fst (run_state (Default empty_server '''' (Inr alice_request) (WorkspaceObj restricted_workspace)) []) = Inr ws"
    and access: "ws_AccessType (w_Spec ws) = ''OwnerOnly''"
    by (simp add: Default_def d e ApplyTemplateName_def ApplyTemplateDefaults_def ApplyServiceAccountDefaults_def
        GetDefaultServiceAccount_def ensureAccessStrategyFinalizer_def setWorkspaceSharingDefaults_def Let_def)
  have "valid_utf8 ''alice''"
    by (simp add: valid_utf8_def invalid_rune_def ascii_runes)
  then have "valid_utf8 (ui_Username (rq_UserInfo alice_request))" "ui_Username (rq_UserInfo alice_request) = ''alice''"
      "rq_Operation alice_request = ''CREATE''"
    by (simp_all add: alice_request_def)
  moreover have "ws_AccessType (w_Spec ws) \<notin> {'''', ''Public''}" "(''alice'' :: string) \<noteq> ''''"
    using access by simp_all
  moreover have "k_get_Workspace (empty_server\<lparr>k_get_Workspace := \<lambda>_ _. Inr ws\<rparr>) (wd_hist demo_world) (nn ''team'' ''ws'') = Inr ws"
    by simp
  ultimately show ?thesis
    using creator_may_connect [OF ws _ d _ _ post_fields(2)] ws \<open>valid_utf8 ''alice''\<close> by metis
qed

definition review_env :: ext_env where
  "review_env = demo_ext\<lparr>y_sar := \<lambda>_ _. Inr (True, ''''), y_review := \<lambda>_. Inr demo_review\<rparr>"

definition public_cluster :: client where
  "public_cluster = empty_server\<lparr>k_get_Workspace := \<lambda>_ _. Inr sample_workspace\<rparr>"

text \<open>A middleware that is configured from its environment and started.\<close>

definition front_env :: auth_env where
  "front_env = (demo_env sign_in_table)\<lparr>e_getenv := \<lambda>v. if v = ''JWT_SIGNING_KEY'' then ''k'' else if v = ''JWT_ISSUER'' then ''i''
     else if v = ''JWT_AUDIENCE'' then ''a'' else if v = ''OIDC_ISSUER_URL'' then ''u'' else if v = ''OIDC_CLIENT_ID'' then ''c'' else ''''\<rparr>"

definition front_config :: config where
  "front_config = createDefaultConfig\<lparr>cf_JWTSigningKey := ''k'', cf_JWTIssuer := ''i'', cf_JWTAudience := ''a'',
     cf_OIDCIssuerURL := ''u'', cf_OIDCClientID := ''c''\<rparr>"

definition front_server :: server where
  "front_server = \<lparr>sv_config = front_config,
     sv_jwtManager = NewManager (StandardSigner front_env (NewStandardSigner ''k'' ''i'' ''a'' (3600 * second))) True (900 * second) (43200 * second),
     sv_cookieManager = projr (NewCookieManager front_config), sv_restClient = True,
     sv_oidcVerifier = Some \<lparr>ov_provider = True, ov_clientID = ''c'', ov_issuerURL = ''u'', ov_timeoutSeconds = 30\<rparr>\<rparr>"

lemma front_configured: "NewConfig front_env = Inr front_config"
proof -
  have unset: "env_text v u front_env c = Inr c" "env_parsed v s p u' front_env c = Inr c"
    if "v \<notin> {''JWT_SIGNING_KEY'', ''JWT_ISSUER'', ''JWT_AUDIENCE'', ''OIDC_ISSUER_URL'', ''OIDC_CLIENT_ID''}" for v u s p u' c
    using that by (auto simp: env_text_def env_parsed_def front_env_def Let_def)
  have set: "env_text ''JWT_ISSUER'' u front_env c = Inr (u ''i'' c)" "env_text ''JWT_AUDIENCE'' u front_env c = Inr (u ''a'' c)"
    "env_text ''OIDC_ISSUER_URL'' u front_env c = Inr (u ''u'' c)" "env_text ''OIDC_CLIENT_ID'' u front_env c = Inr (u ''c'' c)"
    "e_getenv front_env ''JWT_SIGNING_KEY'' = ''k''" "e_getenv front_env ''OIDC_INIT_TIMEOUT_SECONDS'' = ''''"
    "e_getenv front_env ''TRUSTED_PROXIES'' = ''''" for u c
    by (simp_all add: env_text_def front_env_def Let_def)
  show ?thesis
    by (simp add: NewConfig_def applyServerConfig_def applyJWTConfig_def jwt_settings_def applyCookieConfig_def applyPathConfig_def
        applyOidcConfig_def env_bool_def env_duration_def unset set signing_key_def oidc_timeout_def check_def Let_def
        createDefaultConfig_def set_if_unset_def front_config_def)
qed

lemma front_cookies: "\<exists>ck. NewCookieManager front_config = Inr ck"
  by (simp add: NewCookieManager_def front_config_def createDefaultConfig_def ToLower_def lower_rune_def lower_char_def ascii_runes Let_def)

lemma front_fields [simp]:
  "cf_JWTSigningType front_config = JWTSigningTypeStandard" "cf_JWTSigningKey front_config = ''k''" "cf_JWTIssuer front_config = ''i''"
  "cf_JWTAudience front_config = ''a''" "cf_JWTExpiration front_config = 3600 * second" "cf_JWTRefreshEnable front_config"
  "cf_JWTRefreshWindow front_config = 900 * second" "cf_JWTRefreshHorizon front_config = 43200 * second" "cf_EnableOAuth front_config"
  "cf_OIDCIssuerURL front_config = ''u''" "cf_OIDCClientID front_config = ''c''" "cf_OIDCInitTimeoutSecs front_config = 30"
  "cf_RoutingMode front_config = RoutingModePath" "cf_OidcUsernamePrefix front_config = ''github:''"
  "cf_OidcGroupsPrefix front_config = ''github:''" "cf_PathRegexPattern front_config = DefaultPathRegexPattern"
  "cf_WorkspaceNamespacePathRegex front_config = DefaultWorkspaceNamespacePathRegex"
  "cf_WorkspaceNamePathRegex front_config = DefaultWorkspaceNamePathRegex"
  by (simp_all add: front_config_def createDefaultConfig_def)

lemma front_parts [simp]:
  "e_jwt front_env = table_jwt sign_in_table" "e_oidc_verify front_env = (\<lambda>_ _. OClaims alice_oidc)"
  "e_review front_env = e_review (demo_env sign_in_table)" "e_regex front_env = e_regex (demo_env sign_in_table)"
  by (simp_all add: front_env_def demo_env_def)

lemma front_started: "fst (run_state (middleware_main True front_env) idle_auth) = Inr front_server"
proof -
  obtain ck where ck: "NewCookieManager front_config = Inr ck" using front_cookies by blast
  have "e_oidc_provider front_env = (\<lambda>_ _. None)" by (simp add: front_env_def demo_env_def quiet_env_def)
  then show ?thesis
    by (simp add: middleware_main_def front_configured ck NewJWTHandler_def front_server_def NewServer_def server_Start_def
        NewOIDCVerifier_def oidc_Start_def)
qed

lemma front_args: "oidc_args front_env front_server demo_request alice_oidc = session_args"
  by (simp add: oidc_args_def session_args_def alice_oidc_def demo_request_def front_server_def
    GetOIDCUsernameFromToken_def GetOIDCGroupsFromToken_def GetOidcUsername_def ExtractAppPath_def demo_env_def)

lemma front_sign_in:
  obtains resp ck where "fst (run_state (handleAuth front_env front_server demo_request) idle_auth) = Inr resp" "ck \<in> set (ho_cookies resp)"
proof -
  have "j_sign (table_jwt sign_in_table) demo_header (make_claims (table_jwt sign_in_table) ''i'' ''a'' (3600 * second) 0 session_args) ''k'' = Inr ''tok''"
    by (simp add: sign_in_table_def) (simp add: table_jwt_def)
  moreover have "e_now front_env = e_now (demo_env sign_in_table)" by (simp add: front_env_def)
  ultimately have gen: "run_state (GenerateToken (sv_jwtManager front_server) session_args) (idle_auth\<lparr>at_calls := cs\<rparr>) =
      (Inr ''tok'', idle_auth\<lparr>at_calls := cs, at_ticks := 1\<rparr>)" for cs
    by (simp add: GenerateToken_def front_server_def NewManager_def StandardSigner_def std_GenerateToken_def NewStandardSigner_def
        idle_auth_def demo_env_def quiet_env_def demo_header_def)
  have "\<exists>resp. fst (run_state (handleAuth front_env front_server demo_request) idle_auth) = Inr resp \<and> ho_cookies resp \<noteq> []"
    using gen [unfolded session_args_def]
    by (simp add: handleAuth_def VerifyToken_def authorize_user_def ExtractBearerToken_def demo_request_def front_server_def
        alice_oidc_def GetOIDCUsernameFromToken_def GetOIDCGroupsFromToken_def GetOidcUsername_def GetOidcGroups_def splitGroups_def
        ExtractAppPath_def VerifyWorkspaceAccess_def ExtractWorkspaceInfo_def extractWorkspaceInfoFromPath_def must_match_def
        GetForwardedURI_def createConnectionAccessReview_def demo_review_def demo_env_def idle_auth_def trim_prefix_def Let_def)
  then show ?thesis using that by (metis list.set_intros(1) neq_Nil_conv)
qed

lemma front_reviews_served: "reviews_served review_env public_cluster front_env"
proof -
  define q where "q = (post '''' '''')\<lparr>xr_Path := ''/namespaces/w/''\<rparr>"
  have path: "GetNamespaceFromPath (xr_Path q) = Inr ''w''" "xr_Method q = ''POST''" "xr_Body q = Inr ''''"
    by (simp_all add: q_def post_def GetNamespaceFromPath_def Let_def)
  have "\<exists>w'. run_state (handleConnectionAccessReview review_env public_cluster q) demo_world =
      (Inr (ReviewAnswer \<lparr>ar_Namespace = ''w'', ar_Spec = demo_review, ar_Status = \<lparr>rv_Allowed = True, rv_NotFound = False,
        rv_Reason = ''Valid RBAC and the subject Workspace is public''\<rparr>\<rparr>), w')"
    by (simp add: handleConnectionAccessReview_def path review_env_def CheckWorkspaceConnectionPermission_def
      CheckRBACPermission_def CheckWorkspaceAccess_def public_cluster_def getWorkspaceAccessType_def sample_workspace_def empty_spec_def
      demo_review_def Let_def)
  then show ?thesis
    unfolding reviews_served_def front_parts demo_env_def by auto
qed

theorem session_needs_access_witness:
  "\<exists>(w :: world) ws. k_get_Workspace public_cluster (wd_hist w) (nn ''w'' ''w'') = Inr ws \<and> may_connect ws ''github:alice''"
proof (rule front_sign_in)
  fix resp ck
  assume resp: "fst (run_state (handleAuth front_env front_server demo_request) idle_auth) = Inr resp" "ck \<in> set (ho_cookies resp)"
  have info: "ExtractWorkspaceInfo front_env front_server demo_request = Inr \<lparr>wi_Namespace = ''w'', wi_Name = ''w''\<rparr>"
    by (simp add: ExtractWorkspaceInfo_def extractWorkspaceInfoFromPath_def must_match_def GetForwardedURI_def demo_request_def
      front_server_def demo_env_def Let_def)
  have args: "ta_user session_args = ''github:alice''" by (simp add: session_args_def)
  have route: "route front_env front_server ''/auth'' = Some (handleAuth front_env front_server)"
    by (simp add: route_def front_server_def)
  show ?thesis
    using session_needs_access [OF front_started route front_reviews_served resp] by (auto simp: info front_args args)
qed
end
